(* ===== verification/Prelude.thy ===== *)
theory Prelude
  imports Main "HOL-Library.Word" "HOL-Library.Monad_Syntax"
begin

text \<open>
  Shared vocabulary of the development: machine integers and byte vectors, the C++ vector and
  string operations the sources use (range construction, \<open>resize\<close>, element access, conversion
  between \<^typ>\<open>string\<close> and bytes), the result type for code that can throw, and the generic lemmas
  the components rewrite with.

  A \<open>std::vector\<close> is a list and a \<open>std::string\<close> is a \<^typ>\<open>string\<close>: HOL characters are the 256 byte
  values, as \<open>char\<close> is.  A \<open>size_t\<close> is a \<^typ>\<open>nat\<close>: every one of them counts the elements of a
  vector that exists in memory, so it cannot reach \<open>2 ^ 64\<close>.  All other integers keep their width.
  Reading outside a vector is undefined behaviour in C++; the models return \<^const>\<open>None\<close> there, so
  that every out-of-range access of the source is visible as a value.
\<close>

unbundle bit_operations_syntax

type_synonym u8 = "8 word"
type_synonym u16 = "16 word"
type_synonym u64 = "64 word"
type_synonym bytes = "8 word list"

named_theorems wire_simps \<open>evaluation of readers on a buffer whose remaining bytes are known\<close>
named_theorems store_simps \<open>lookups after updates of the shared data store\<close>
named_theorems result_iff \<open>inversion of fallible computations that returned a value\<close>

section \<open>Vectors\<close>

definition vec_at :: "'a list \<Rightarrow> nat \<Rightarrow> 'a option" where
  "vec_at xs i = (if i < length xs then Some (xs ! i) else None)"

definition subvec :: "'a list \<Rightarrow> nat \<Rightarrow> nat \<Rightarrow> 'a list option" where
  "subvec xs off n = (if off + n \<le> length xs then Some (take n (drop off xs)) else None)"

definition resize :: "nat \<Rightarrow> 'a \<Rightarrow> 'a list \<Rightarrow> 'a list" where
  "resize n x xs = take n xs @ replicate (n - length xs) x"

lemma length_resize [simp]: "length (resize n x xs) = n"
  by (simp add: resize_def)

lemma resize_id [simp]: "length xs = n \<Longrightarrow> resize n x xs = xs"
  by (simp add: resize_def)

lemma resize_resize [simp]: "resize n x (resize n x xs) = resize n x xs"
  by simp

lemma vec_at_Some [wire_simps]: "drop off xs = y # ys \<Longrightarrow> vec_at xs off = Some y"
  by (auto simp: vec_at_def nth_via_drop) (metis drop_all list.distinct(1) not_le)

lemma drop_Suc_rest [wire_simps]: "drop off xs = y # ys \<Longrightarrow> drop (Suc off) xs = ys"
  by (metis drop_Suc list.sel(3) tl_drop)

lemma drop_append_rest [wire_simps]: "drop off xs = ys @ zs \<Longrightarrow> drop (off + length ys) xs = zs"
  by (metis add.commute append_eq_conv_conj drop_drop)

lemma length_ge_of_drop: "drop off xs = y # ys \<Longrightarrow> off < length xs"
  by (metis drop_all list.distinct(1) not_le)

lemma subvec_append [wire_simps]:
  assumes "drop off xs = ys @ zs" "off \<le> length xs"
  shows "subvec xs off (length ys) = Some ys"
proof -
  have "length xs - off = length ys + length zs"
    using assms(1) by (metis length_append length_drop)
  with assms show ?thesis by (simp add: subvec_def)
qed

lemma subvec_SomeD [result_iff]:
  "subvec xs off n = Some ys \<longleftrightarrow> off + n \<le> length xs \<and> ys = take n (drop off xs)"
  by (auto simp: subvec_def)

lemma subvec_None [result_iff]: "subvec xs off n = None \<longleftrightarrow> length xs < off + n"
  by (auto simp: subvec_def)

lemma vec_at_None [result_iff]: "vec_at xs i = None \<longleftrightarrow> length xs \<le> i"
  by (auto simp: vec_at_def)

lemma vec_at_SomeD [result_iff]: "vec_at xs i = Some x \<longleftrightarrow> i < length xs \<and> x = xs ! i"
  by (auto simp: vec_at_def)

section \<open>Strings and bytes\<close>

definition byte_of_char :: "char \<Rightarrow> u8" where
  "byte_of_char c = word_of_nat (of_char c)"

definition char_of_byte :: "u8 \<Rightarrow> char" where
  "char_of_byte b = char_of (unat b)"

abbreviation str_bytes :: "string \<Rightarrow> bytes" where
  "str_bytes \<equiv> map byte_of_char"

abbreviation bytes_str :: "bytes \<Rightarrow> string" where
  "bytes_str \<equiv> map char_of_byte"

lemma char_of_byte_of_char [simp]: "char_of_byte (byte_of_char c) = c"
  by (simp add: char_of_byte_def byte_of_char_def unat_of_nat)

lemma byte_of_char_of_byte [simp]: "byte_of_char (char_of_byte b) = b"
proof -
  have "unat b < 256" using unsigned_less [of b, where ?'a = nat] by simp
  then show ?thesis by (simp add: char_of_byte_def byte_of_char_def)
qed

lemma char_byte_comp [simp]:
  "char_of_byte \<circ> byte_of_char = id" "byte_of_char \<circ> char_of_byte = id"
  by (simp_all add: fun_eq_iff)

lemma bytes_str_of_str [simp]: "bytes_str (str_bytes s) = s"
  by simp

lemma str_bytes_of_bytes [simp]: "str_bytes (bytes_str bs) = bs"
  by simp

section \<open>Narrowing conversions\<close>

lemma unat_u8_of_nat [simp]: "n < 256 \<Longrightarrow> unat (word_of_nat n :: u8) = n"
  by (simp add: unat_of_nat)

lemma unat_u16_of_nat [simp]: "n < 65536 \<Longrightarrow> unat (word_of_nat n :: u16) = n"
  by (simp add: unat_of_nat)

lemma unat_u8_less [simp]: "unat (b :: u8) < 256"
  using unsigned_less [of b, where ?'a = nat] by simp

lemma unat_u16_less [simp]: "unat (w :: u16) < 65536"
  using unsigned_less [of w, where ?'a = nat] by simp

section \<open>Code that throws\<close>

text \<open>
  The exceptions the sources throw or let escape (\<open>std::invalid_argument\<close> of \<open>std::stoi\<close>,
  \<open>std::runtime_error\<close> with its message), and undefined behaviour, which a model that can also
  throw reports as \<open>OutOfRange\<close>.
\<close>

datatype fault = OutOfRange | InvalidArgument | RuntimeError string

definition rbind :: "'e + 'a \<Rightarrow> ('a \<Rightarrow> 'e + 'b) \<Rightarrow> 'e + 'b" where
  "rbind m f = (case m of Inl e \<Rightarrow> Inl e | Inr x \<Rightarrow> f x)"

definition of_opt :: "'a option \<Rightarrow> fault + 'a" where
  "of_opt m = (case m of None \<Rightarrow> Inl OutOfRange | Some x \<Rightarrow> Inr x)"

lemma rbind_simps [simp]: "rbind (Inl e) f = Inl e" "rbind (Inr x) f = f x"
  by (simp_all add: rbind_def)

lemma of_opt_simps [simp]: "of_opt None = Inl OutOfRange" "of_opt (Some x) = Inr x"
  by (simp_all add: of_opt_def)

lemma rbind_Inr [result_iff]: "rbind m f = Inr y \<longleftrightarrow> (\<exists>x. m = Inr x \<and> f x = Inr y)"
  by (cases m) auto

lemma of_opt_Inr [result_iff]: "of_opt m = Inr x \<longleftrightarrow> m = Some x"
  by (cases m) auto

section \<open>Lists\<close>

lemma drop_eq_append_le: "drop n xs = ys @ zs \<Longrightarrow> ys @ zs \<noteq> [] \<Longrightarrow> n \<le> length xs"
  by (metis drop_all nat_le_linear)

lemma filter_map_fst_distinct: "distinct (map f xs) \<Longrightarrow> distinct (map f (filter P xs))"
  by (simp add: distinct_map_filter)

end
