(* ===== verification/Helpers.thy ===== *)
theory Helpers
  imports Prelude
begin

text \<open>
  The helper classes under \<open>src/bitchat/helpers\<close>: \<open>StringHelper\<close> (hexadecimal conversion, peer
  identifiers), \<open>ProtocolHelper\<close> (validation and version negotiation) and \<open>CompressionHelper\<close>.
  \<open>std::stoi(s, nullptr, 16)\<close> and \<open>std::to_string\<close> are modelled from the C++ standard.  LZ4 and the
  random sources are not part of the repository: they are parameters, the former with the contract
  \<open>lz4_ok\<close>.
\<close>

section \<open>Standard library conversions\<close>

definition hex_digit :: "nat \<Rightarrow> char" where
  "hex_digit n = ''0123456789abcdef'' ! n"

definition hex_value :: "char \<Rightarrow> nat option" where
  "hex_value c = (let n = of_char c :: nat in
     if 48 \<le> n \<and> n \<le> 57 then Some (n - 48)
     else if 97 \<le> n \<and> n \<le> 102 then Some (n - 87)
     else if 65 \<le> n \<and> n \<le> 70 then Some (n - 55)
     else None)"

definition isxdigit :: "char \<Rightarrow> bool" where
  "isxdigit c = (hex_value c \<noteq> None)"

definition isalnum :: "char \<Rightarrow> bool" where
  "isalnum c = (let n = of_char c :: nat in
     48 \<le> n \<and> n \<le> 57 \<or> 65 \<le> n \<and> n \<le> 90 \<or> 97 \<le> n \<and> n \<le> 122)"

definition isspace :: "char \<Rightarrow> bool" where
  "isspace c = (let n = of_char c :: nat in n = 32 \<or> 9 \<le> n \<and> n \<le> 13)"

text \<open>
  \<open>std::stoi\<close> in base 16: white space, an optional sign, an optional \<open>0x\<close> that is followed by a
  digit, then the longest run of digits; no digit throws \<open>std::invalid_argument\<close>.  The sources
  call it on at most two characters, so \<open>std::out_of_range\<close> cannot occur.
\<close>

fun hex_run :: "nat \<Rightarrow> string \<Rightarrow> nat" where
  "hex_run acc [] = acc"
| "hex_run acc (c # s) = (case hex_value c of None \<Rightarrow> acc | Some d \<Rightarrow> hex_run (16 * acc + d) s)"

definition strip_0x :: "string \<Rightarrow> string" where
  "strip_0x s = (if length s \<ge> 3 \<and> s ! 0 = CHR ''0'' \<and> (s ! 1 = CHR ''x'' \<or> s ! 1 = CHR ''X'') \<and> isxdigit (s ! 2)
     then drop 2 s else s)"

definition stoi16 :: "string \<Rightarrow> fault + int" where
  "stoi16 s = (let t = dropWhile isspace s;
       neg = (t \<noteq> [] \<and> hd t = CHR ''-'');
       signed = (t \<noteq> [] \<and> (hd t = CHR ''-'' \<or> hd t = CHR ''+''));
       u = strip_0x (if signed then tl t else t)
     in if u = [] \<or> \<not> isxdigit (hd u) then Inl InvalidArgument
        else Inr ((if neg then - 1 else 1) * int (hex_run 0 u)))"

fun to_string :: "nat \<Rightarrow> string" where
  "to_string n = (if n < 10 then [hex_digit n] else to_string (n div 10) @ [hex_digit (n mod 10)])"

declare to_string.simps [simp del]

section \<open>StringHelper\<close>

definition toHex :: "bytes \<Rightarrow> string" where
  "toHex data = concat (map (\<lambda>b. [hex_digit (unat b div 16), hex_digit (unat b mod 16)]) data)"

fun hex_bytes :: "string \<Rightarrow> fault + bytes" where
  "hex_bytes [] = Inr []"
| "hex_bytes [a] = rbind (stoi16 [a]) (\<lambda>v. Inr [word_of_int v])"
| "hex_bytes (a # b # s) =
     rbind (stoi16 [a, b]) (\<lambda>v. rbind (hex_bytes s) (\<lambda>bs. Inr (word_of_int v # bs)))"

definition stringToVector :: "string \<Rightarrow> fault + bytes" where
  "stringToVector str = (if length str mod 2 \<noteq> 0 then Inr [] else hex_bytes str)"

definition vectorToString :: "bytes \<Rightarrow> string" where
  "vectorToString vec = bytes_str vec"

definition normalizePeerID :: "string \<Rightarrow> string" where
  "normalizePeerID peerID = filter (\<lambda>c. c \<noteq> CHR 0x00) peerID"

definition randomPeerID :: "(nat \<Rightarrow> u8) \<Rightarrow> string" where
  "randomPeerID rng = toHex (map rng [0..<8])"

definition randomNickname :: "nat \<Rightarrow> string" where
  "randomNickname n = ''anon'' @ to_string n"

section \<open>ProtocolHelper\<close>

definition isValidPeerID :: "string \<Rightarrow> bool" where
  "isValidPeerID peerID =
     (if peerID = [] then False else if length peerID \<noteq> 16 then False else list_all isxdigit peerID)"

definition isValidChannelName :: "string \<Rightarrow> bool" where
  "isValidChannelName channel =
     (if channel = [] then False
      else if channel ! 0 \<noteq> CHR ''#'' then False
      else if length channel > 50 then False
      else list_all (\<lambda>c. isalnum c \<or> c = CHR ''_'' \<or> c = CHR ''-'') (drop 1 channel))"

definition isValidNickname :: "string \<Rightarrow> bool" where
  "isValidNickname nickname =
     (if nickname = [] \<or> length nickname > 32 then False
      else list_all (\<lambda>c. isalnum c \<or> c = CHR ''_'' \<or> c = CHR ''-'') nickname)"

definition negotiateVersion :: "bytes \<Rightarrow> bytes \<Rightarrow> u8" where
  "negotiateVersion clientVersions serverVersions =
     (case find (\<lambda>v. v \<in> set serverVersions) (rev clientVersions) of None \<Rightarrow> 0 | Some v \<Rightarrow> v)"

definition getSupportedVersions :: bytes where
  "getSupportedVersions = [1]"

section \<open>CompressionHelper\<close>

text \<open>
  The two LZ4 entry points: \<open>lz4_compress\<close> is \<open>LZ4_compress_default\<close> into a buffer of
  \<open>LZ4_compressBound\<close> bytes, \<^const>\<open>None\<close> for a result that is not positive; \<open>lz4_decompress\<close> is
  \<open>LZ4_decompress_safe\<close> with the capacity of the output buffer, \<^const>\<open>None\<close> for a negative result.
\<close>

record lz4_api =
  lz4_compress :: "bytes \<Rightarrow> bytes option"
  lz4_decompress :: "bytes \<Rightarrow> nat \<Rightarrow> bytes option"

text \<open>
  What the sources rely on: a compressed block decompresses to the original when the capacity is
  the original's size.
\<close>

definition lz4_ok :: "lz4_api \<Rightarrow> bool" where
  "lz4_ok lz \<longleftrightarrow> (\<forall>d c. lz4_compress lz d = Some c \<longrightarrow> lz4_decompress lz c (length d) = Some d)"

definition COMPRESSION_THRESHOLD :: nat where
  "COMPRESSION_THRESHOLD = 100"

definition shouldCompress :: "bytes \<Rightarrow> bool" where
  "shouldCompress data \<longleftrightarrow> length data > COMPRESSION_THRESHOLD"

definition compressData :: "lz4_api \<Rightarrow> bytes \<Rightarrow> bytes" where
  "compressData lz data =
     (if \<not> shouldCompress data then data
      else case lz4_compress lz data of
             None \<Rightarrow> data
           | Some compressed \<Rightarrow> if length compressed \<le> 0 then data else compressed)"

definition decompressData :: "lz4_api \<Rightarrow> bytes \<Rightarrow> nat \<Rightarrow> bytes" where
  "decompressData lz compressedData originalSize =
     (case lz4_decompress lz compressedData originalSize of None \<Rightarrow> [] | Some d \<Rightarrow> d)"

text \<open>
  A codec that compresses vectors of one repeated byte, to instantiate the contract.
\<close>

definition single_run_codec :: lz4_api where
  "single_run_codec = \<lparr>
     lz4_compress = (\<lambda>d. if d \<noteq> [] \<and> d = replicate (length d) (hd d) then Some [hd d] else None),
     lz4_decompress = (\<lambda>c n. case c of [b] \<Rightarrow> Some (replicate n b) | _ \<Rightarrow> None)\<rparr>"

section \<open>Lemmas\<close>

lemma hex_value_hex_digit [simp]:
  assumes "n < 16"
  shows "hex_value (hex_digit n) = Some n"
proof -
  have "\<forall>k \<in> set [0..<16]. hex_value (hex_digit k) = Some k"
    by (simp add: upt_rec hex_digit_def hex_value_def Let_def)
  with assms show ?thesis by simp
qed

lemma isxdigit_hex_digit [simp]: "n < 16 \<Longrightarrow> isxdigit (hex_digit n)"
  by (simp add: isxdigit_def)

lemma hex_digit_inj: "m < 16 \<Longrightarrow> n < 16 \<Longrightarrow> hex_digit m = hex_digit n \<longleftrightarrow> m = n"
  by (metis hex_value_hex_digit option.inject)

lemma isxdigit_not_space: "isxdigit c \<Longrightarrow> \<not> isspace c"
  by (auto simp: isxdigit_def hex_value_def isspace_def Let_def split: if_splits)

lemma isxdigit_not_sign: "isxdigit c \<Longrightarrow> c \<noteq> CHR ''-'' \<and> c \<noteq> CHR ''+''"
  by (auto simp: isxdigit_def hex_value_def Let_def split: if_splits)

lemma stoi16_digits [simp]:
  assumes "hex_value a = Some m" "hex_value b = Some n"
  shows "stoi16 [a, b] = Inr (int (16 * m + n))"
proof -
  have "isxdigit a" "isxdigit b" using assms by (auto simp: isxdigit_def)
  then show ?thesis
    using assms isxdigit_not_space [of a] isxdigit_not_sign [of a]
    by (simp add: stoi16_def strip_0x_def Let_def)
qed

lemma toHex_simps [simp]:
  "toHex [] = []"
  "toHex (b # bs) = hex_digit (unat b div 16) # hex_digit (unat b mod 16) # toHex bs"
  by (simp_all add: toHex_def)

lemma nibbles_less [simp]: "unat (b :: u8) div 16 < 16"
  using unat_u8_less [of b] by linarith

lemma length_toHex [simp]: "length (toHex bs) = 2 * length bs"
  by (induction bs) simp_all

lemma hex_bytes_toHex [simp]: "hex_bytes (toHex bs) = Inr bs"
proof (induction bs)
  case (Cons b bs)
  have "16 * (unat b div 16) + unat b mod 16 = unat b" by simp
  then show ?case using Cons by (simp del: of_nat_add of_nat_mult)
qed simp

lemma isxdigit_toHex: "c \<in> set (toHex bs) \<Longrightarrow> isxdigit c"
  by (induction bs) auto

lemma toHex_inj [simp]: "toHex bs = toHex cs \<longleftrightarrow> bs = cs"
  by (metis hex_bytes_toHex sum.inject(2))

lemma to_string_nonempty [simp]: "to_string n \<noteq> []" "[] \<noteq> to_string n"
  by (subst to_string.simps, simp)+

lemma isxdigit_to_string: "c \<in> set (to_string n) \<Longrightarrow> isxdigit c"
proof (induction n rule: to_string.induct)
  case (1 n)
  then show ?case by (subst (asm) to_string.simps) (auto split: if_splits)
qed

lemma to_string_inj [simp]: "to_string m = to_string n \<longleftrightarrow> m = n"
proof (induction m arbitrary: n rule: to_string.induct)
  case (1 m)
  show ?case
  proof (cases "m < 10")
    case True
    then show ?thesis
      by (subst to_string.simps, subst (2) to_string.simps) (auto simp: hex_digit_inj)
  next
    case False
    have "hex_digit (m mod 10) = hex_digit (n mod 10) \<longleftrightarrow> m mod 10 = n mod 10"
      by (rule hex_digit_inj) (simp_all add: order.strict_trans [of _ 10])
    moreover have "to_string (m div 10) = to_string (n div 10) \<longleftrightarrow> m div 10 = n div 10"
      using False 1 by simp
    ultimately have "to_string m = to_string n \<longleftrightarrow>
        \<not> n < 10 \<and> m div 10 = n div 10 \<and> m mod 10 = n mod 10"
      using False by (simp add: to_string.simps [of m] to_string.simps [of n])
    also have "\<dots> \<longleftrightarrow> m = n"
      using False by (metis div_mult_mod_eq)
    finally show ?thesis .
  qed
qed

lemma underscore_not_xdigit [simp]: "\<not> isxdigit CHR ''_''"
  by (simp add: isxdigit_def hex_value_def Let_def)

text \<open>A separator that no digit string contains splits a compound key uniquely.\<close>

lemma key_split:
  assumes "\<And>c. c \<in> set s \<Longrightarrow> isxdigit c" "\<And>c. c \<in> set s' \<Longrightarrow> isxdigit c"
  shows "s @ CHR ''_'' # t = s' @ CHR ''_'' # t' \<longleftrightarrow> s = s' \<and> t = t'"
proof
  assume eq: "s @ CHR ''_'' # t = s' @ CHR ''_'' # t'"
  have u: "takeWhile isxdigit (u @ CHR ''_'' # v) = u" if "\<And>c. c \<in> set u \<Longrightarrow> isxdigit c" for u v
    using that by (simp add: takeWhile_append)
  from u [of s t] u [of s' t'] assms eq have "s = s'" by metis
  with eq show "s = s' \<and> t = t'" by simp
qed simp

lemma negotiate_Some:
  "find P (rev xs) = Some x \<Longrightarrow> P x \<and> x \<in> set xs"
  by (metis find_Some_iff nth_mem set_rev)

lemma find_rev_sorted:
  assumes "sorted xs" "find P (rev xs) = Some x" "y \<in> set xs" "P y"
  shows "y \<le> (x :: 'a :: linorder)"
  using assms
proof (induction xs rule: rev_induct)
  case (snoc z zs)
  show ?case
  proof (cases "P z")
    case True
    with snoc.prems show ?thesis by (auto simp: sorted_append)
  next
    case False
    with snoc show ?thesis by (auto simp: sorted_append)
  qed
qed simp

lemma single_run_codec_ok: "lz4_ok single_run_codec"
  by (auto simp: lz4_ok_def single_run_codec_def split: if_splits)

lemma lz4_okD: "lz4_ok lz \<Longrightarrow> lz4_compress lz d = Some c \<Longrightarrow> lz4_decompress lz c (length d) = Some d"
  by (simp add: lz4_ok_def)

text \<open>A vector that \<open>compressData\<close> changed is recovered from its size.\<close>

lemma decompress_compress:
  assumes "lz4_ok lz" "compressData lz d \<noteq> d"
  shows "decompressData lz (compressData lz d) (length d) = d"
  using assms lz4_okD
  by (auto simp: compressData_def decompressData_def split: if_splits option.splits)

end
