(* ===== verification/Packet.thy ===== *)
theory Packet
  imports Helpers
begin

text \<open>
  The three data classes of \<open>include/bitchat/protocol/packet.h\<close> and \<open>src/bitchat/protocol/packet.cpp\<close>:
  \<open>BitchatPacket\<close>, \<open>BitchatMessage\<close> and \<open>BitchatPeer\<close>.  A class is a record whose fields carry the
  prefix \<open>p\<close>, \<open>m\<close> or \<open>peer\<close> of their class (record selectors share one name space); the plain getters
  and setters are the record's selectors and updates, and every method that computes something is a
  definition.  The clock is an argument where a method reads it.
\<close>

section \<open>Packet types and flags\<close>

abbreviation PKT_VERSION :: u8 where "PKT_VERSION \<equiv> 1"
abbreviation PKT_TYPE_ANNOUNCE :: u8 where "PKT_TYPE_ANNOUNCE \<equiv> 0x01"
abbreviation PKT_TYPE_KEY_EXCHANGE :: u8 where "PKT_TYPE_KEY_EXCHANGE \<equiv> 0x02"
abbreviation PKT_TYPE_LEAVE :: u8 where "PKT_TYPE_LEAVE \<equiv> 0x03"
abbreviation PKT_TYPE_MESSAGE :: u8 where "PKT_TYPE_MESSAGE \<equiv> 0x04"
abbreviation PKT_TYPE_FRAGMENT_START :: u8 where "PKT_TYPE_FRAGMENT_START \<equiv> 0x05"
abbreviation PKT_TYPE_FRAGMENT_CONTINUE :: u8 where "PKT_TYPE_FRAGMENT_CONTINUE \<equiv> 0x06"
abbreviation PKT_TYPE_FRAGMENT_END :: u8 where "PKT_TYPE_FRAGMENT_END \<equiv> 0x07"
abbreviation PKT_TYPE_CHANNEL_ANNOUNCE :: u8 where "PKT_TYPE_CHANNEL_ANNOUNCE \<equiv> 0x08"
abbreviation PKT_TYPE_DELIVERY_ACK :: u8 where "PKT_TYPE_DELIVERY_ACK \<equiv> 0x0A"
abbreviation PKT_TYPE_DELIVERY_STATUS_REQUEST :: u8 where "PKT_TYPE_DELIVERY_STATUS_REQUEST \<equiv> 0x0B"
abbreviation PKT_TYPE_READ_RECEIPT :: u8 where "PKT_TYPE_READ_RECEIPT \<equiv> 0x0C"
abbreviation PKT_TYPE_NOISE_HANDSHAKE_INIT :: u8 where "PKT_TYPE_NOISE_HANDSHAKE_INIT \<equiv> 0x10"
abbreviation PKT_TYPE_NOISE_HANDSHAKE_RESP :: u8 where "PKT_TYPE_NOISE_HANDSHAKE_RESP \<equiv> 0x11"
abbreviation PKT_TYPE_NOISE_ENCRYPTED :: u8 where "PKT_TYPE_NOISE_ENCRYPTED \<equiv> 0x12"
abbreviation PKT_TYPE_NOISE_IDENTITY_ANNOUNCE :: u8 where "PKT_TYPE_NOISE_IDENTITY_ANNOUNCE \<equiv> 0x13"
abbreviation PKT_TYPE_CHANNEL_KEY_VERIFY_REQUEST :: u8 where "PKT_TYPE_CHANNEL_KEY_VERIFY_REQUEST \<equiv> 0x14"
abbreviation PKT_TYPE_CHANNEL_KEY_VERIFY_RESPONSE :: u8 where "PKT_TYPE_CHANNEL_KEY_VERIFY_RESPONSE \<equiv> 0x15"
abbreviation PKT_TYPE_CHANNEL_PASSWORD_UPDATE :: u8 where "PKT_TYPE_CHANNEL_PASSWORD_UPDATE \<equiv> 0x16"
abbreviation PKT_TYPE_CHANNEL_METADATA :: u8 where "PKT_TYPE_CHANNEL_METADATA \<equiv> 0x17"
abbreviation PKT_TYPE_VERSION_HELLO :: u8 where "PKT_TYPE_VERSION_HELLO \<equiv> 0x20"
abbreviation PKT_TYPE_VERSION_ACK :: u8 where "PKT_TYPE_VERSION_ACK \<equiv> 0x21"

abbreviation FLAG_HAS_RECIPIENT :: u8 where "FLAG_HAS_RECIPIENT \<equiv> 0x01"
abbreviation FLAG_HAS_SIGNATURE :: u8 where "FLAG_HAS_SIGNATURE \<equiv> 0x02"
abbreviation FLAG_IS_COMPRESSED :: u8 where "FLAG_IS_COMPRESSED \<equiv> 0x04"

abbreviation PKT_TTL :: u8 where "PKT_TTL \<equiv> 7"

section \<open>BitchatPacket\<close>

record BitchatPacket =
  pVersion :: u8
  pType :: u8
  pTTL :: u8
  pTimestamp :: u64
  pFlags :: u8
  pPayloadLength :: u16
  pSenderID :: bytes
  pRecipientID :: bytes
  pPayload :: bytes
  pSignature :: bytes

definition defaultPacket :: BitchatPacket where
  "defaultPacket = \<lparr>pVersion = PKT_VERSION, pType = 0, pTTL = PKT_TTL, pTimestamp = 0, pFlags = 0,
     pPayloadLength = 0, pSenderID = [], pRecipientID = [], pPayload = [], pSignature = []\<rparr>"

definition newPacket :: "u64 \<Rightarrow> u8 \<Rightarrow> bytes \<Rightarrow> BitchatPacket" where
  "newPacket now type payload = defaultPacket\<lparr>pType := type,
     pPayloadLength := word_of_nat (length payload), pPayload := payload, pTimestamp := now\<rparr>"

definition setPayload :: "bytes \<Rightarrow> BitchatPacket \<Rightarrow> BitchatPacket" where
  "setPayload p pkt = pkt\<lparr>pPayload := p, pPayloadLength := word_of_nat (length p)\<rparr>"

definition hasRecipient :: "BitchatPacket \<Rightarrow> bool" where
  "hasRecipient pkt \<longleftrightarrow> pFlags pkt AND FLAG_HAS_RECIPIENT \<noteq> 0"

definition hasSignature :: "BitchatPacket \<Rightarrow> bool" where
  "hasSignature pkt \<longleftrightarrow> pFlags pkt AND FLAG_HAS_SIGNATURE \<noteq> 0"

definition isCompressed :: "BitchatPacket \<Rightarrow> bool" where
  "isCompressed pkt \<longleftrightarrow> pFlags pkt AND FLAG_IS_COMPRESSED \<noteq> 0"

definition setFlag :: "u8 \<Rightarrow> bool \<Rightarrow> BitchatPacket \<Rightarrow> BitchatPacket" where
  "setFlag m b pkt = (if b then pkt\<lparr>pFlags := pFlags pkt OR m\<rparr> else pkt\<lparr>pFlags := pFlags pkt AND NOT m\<rparr>)"

definition setHasRecipient :: "bool \<Rightarrow> BitchatPacket \<Rightarrow> BitchatPacket" where
  "setHasRecipient = setFlag FLAG_HAS_RECIPIENT"

definition setHasSignature :: "bool \<Rightarrow> BitchatPacket \<Rightarrow> BitchatPacket" where
  "setHasSignature = setFlag FLAG_HAS_SIGNATURE"

definition setCompressed :: "bool \<Rightarrow> BitchatPacket \<Rightarrow> BitchatPacket" where
  "setCompressed = setFlag FLAG_IS_COMPRESSED"

definition getTypeString :: "BitchatPacket \<Rightarrow> string" where
  "getTypeString pkt = (let t = pType pkt in
     if t = PKT_TYPE_ANNOUNCE then ''ANNOUNCE''
     else if t = PKT_TYPE_LEAVE then ''LEAVE''
     else if t = PKT_TYPE_MESSAGE then ''MESSAGE''
     else if t = PKT_TYPE_FRAGMENT_START then ''FRAGMENT_START''
     else if t = PKT_TYPE_FRAGMENT_CONTINUE then ''FRAGMENT_CONTINUE''
     else if t = PKT_TYPE_FRAGMENT_END then ''FRAGMENT_END''
     else if t = PKT_TYPE_CHANNEL_ANNOUNCE then ''CHANNEL_ANNOUNCE''
     else if t = PKT_TYPE_DELIVERY_ACK then ''DELIVERY_ACK''
     else if t = PKT_TYPE_DELIVERY_STATUS_REQUEST then ''DELIVERY_STATUS_REQUEST''
     else if t = PKT_TYPE_READ_RECEIPT then ''READ_RECEIPT''
     else if t = PKT_TYPE_NOISE_HANDSHAKE_INIT then ''NOISE_HANDSHAKE_INIT''
     else if t = PKT_TYPE_NOISE_HANDSHAKE_RESP then ''NOISE_HANDSHAKE_RESP''
     else if t = PKT_TYPE_NOISE_ENCRYPTED then ''NOISE_ENCRYPTED''
     else if t = PKT_TYPE_NOISE_IDENTITY_ANNOUNCE then ''NOISE_IDENTITY_ANNOUNCE''
     else if t = PKT_TYPE_CHANNEL_KEY_VERIFY_REQUEST then ''CHANNEL_KEY_VERIFY_REQUEST''
     else if t = PKT_TYPE_CHANNEL_KEY_VERIFY_RESPONSE then ''CHANNEL_KEY_VERIFY_RESPONSE''
     else if t = PKT_TYPE_CHANNEL_PASSWORD_UPDATE then ''CHANNEL_PASSWORD_UPDATE''
     else if t = PKT_TYPE_CHANNEL_METADATA then ''CHANNEL_METADATA''
     else if t = PKT_TYPE_VERSION_HELLO then ''VERSION_HELLO''
     else if t = PKT_TYPE_VERSION_ACK then ''VERSION_ACK''
     else ''UNKNOWN'')"

definition isValid :: "BitchatPacket \<Rightarrow> bool" where
  "isValid pkt =
     (if pVersion pkt \<noteq> PKT_VERSION then False
      else if unat (pPayloadLength pkt) \<noteq> length (pPayload pkt) then False
      else if pTimestamp pkt = 0 then False
      else True)"

definition getTotalSize :: "BitchatPacket \<Rightarrow> nat" where
  "getTotalSize pkt = 13 + 8 + (if hasRecipient pkt then 8 else 0) + unat (pPayloadLength pkt)
     + (if hasSignature pkt then 64 else 0)"

section \<open>BitchatMessage\<close>

record BitchatMessage =
  mId :: string
  mSender :: string
  mContent :: string
  mTimestamp :: u64
  mIsRelay :: bool
  mOriginalSender :: string
  mIsPrivate :: bool
  mRecipientNickname :: string
  mSenderPeerID :: bytes
  mMentions :: "string list"
  mChannel :: string
  mEncryptedContent :: bytes
  mIsEncrypted :: bool

definition defaultMessage :: BitchatMessage where
  "defaultMessage = \<lparr>mId = [], mSender = [], mContent = [], mTimestamp = 0, mIsRelay = False,
     mOriginalSender = [], mIsPrivate = False, mRecipientNickname = [], mSenderPeerID = [],
     mMentions = [], mChannel = [], mEncryptedContent = [], mIsEncrypted = False\<rparr>"

definition newMessage :: "u64 \<Rightarrow> string \<Rightarrow> string \<Rightarrow> string \<Rightarrow> string \<Rightarrow> BitchatMessage" where
  "newMessage now uuid sender content channel = defaultMessage\<lparr>mSender := sender,
     mContent := content, mChannel := channel, mTimestamp := now, mId := uuid\<rparr>"

definition hasMention :: "string \<Rightarrow> BitchatMessage \<Rightarrow> bool" where
  "hasMention mention msg \<longleftrightarrow> mention \<in> set (mMentions msg)"

definition addMention :: "string \<Rightarrow> BitchatMessage \<Rightarrow> BitchatMessage" where
  "addMention mention msg =
     (if \<not> hasMention mention msg then msg\<lparr>mMentions := mMentions msg @ [mention]\<rparr> else msg)"

definition getDisplayContent :: "BitchatMessage \<Rightarrow> string" where
  "getDisplayContent msg = (if mIsEncrypted msg then ''[ENCRYPTED]'' else mContent msg)"

section \<open>BitchatPeer\<close>

record BitchatPeer =
  peerID :: string
  peripheralID :: string
  peerNickname :: string
  peerChannel :: string
  peerLastSeen :: int
  peerRSSI :: int
  peerHasAnnounced :: bool

definition updateLastSeen :: "int \<Rightarrow> BitchatPeer \<Rightarrow> BitchatPeer" where
  "updateLastSeen now peer = peer\<lparr>peerLastSeen := now\<rparr>"

definition newPeer :: "int \<Rightarrow> string \<Rightarrow> string \<Rightarrow> BitchatPeer" where
  "newPeer now pid nickname = updateLastSeen now \<lparr>peerID = pid, peripheralID = [],
     peerNickname = nickname, peerChannel = [], peerLastSeen = 0, peerRSSI = - 100,
     peerHasAnnounced = False\<rparr>"

definition isStale :: "int \<Rightarrow> int \<Rightarrow> BitchatPeer \<Rightarrow> bool" where
  "isStale now timeout peer \<longleftrightarrow> now - peerLastSeen peer > timeout"

definition getDisplayName :: "BitchatPeer \<Rightarrow> string" where
  "getDisplayName peer = (if peerNickname peer = [] then peerID peer else peerNickname peer)"

definition isPeerID :: "string \<Rightarrow> BitchatPeer \<Rightarrow> bool" where
  "isPeerID pid peer \<longleftrightarrow> peerID peer = pid"

section \<open>Lemmas\<close>

text \<open>The three flags are independent bits of the flag byte.\<close>

lemma flag_bits [simp]:
  "((f :: u8) AND 1 = 0) = (\<not> bit f 0)"
  "((f :: u8) AND 2 = 0) = (\<not> bit f 1)"
  "((f :: u8) AND 4 = 0) = (\<not> bit f 2)"
  "((f :: u8) AND 8 = 0) = (\<not> bit f 3)"
  "((f :: u8) AND 16 = 0) = (\<not> bit f 4)"
  "((f :: u8) AND 32 = 0) = (\<not> bit f 5)"
  "((f :: u8) AND 64 = 0) = (\<not> bit f 6)"
  "((f :: u8) AND 128 = 0) = (\<not> bit f 7)"
proof -
  have "(f AND 2 ^ n = 0) = (\<not> bit f n)" for n
    by (metis and_exp_eq_0_iff_not_bit)
  from this [of 0] this [of 1] this [of 2] this [of 3] this [of 4] this [of 5] this [of 6] this [of 7]
  show "((f :: u8) AND 1 = 0) = (\<not> bit f 0)" "((f :: u8) AND 2 = 0) = (\<not> bit f 1)" "((f :: u8) AND 4 = 0) = (\<not> bit f 2)"
    "((f :: u8) AND 8 = 0) = (\<not> bit f 3)" "((f :: u8) AND 16 = 0) = (\<not> bit f 4)" "((f :: u8) AND 32 = 0) = (\<not> bit f 5)"
    "((f :: u8) AND 64 = 0) = (\<not> bit f 6)" "((f :: u8) AND 128 = 0) = (\<not> bit f 7)"
    by simp_all
qed

lemma bit_flag_masks [simp]:
  "bit (1 :: u8) n = (n = 0)"
  "bit (2 :: u8) n = (n = 1)"
  "bit (4 :: u8) n = (n = 2)"
  "bit (8 :: u8) n = (n = 3)"
  "bit (16 :: u8) n = (n = 4)"
  "bit (32 :: u8) n = (n = 5)"
  "bit (64 :: u8) n = (n = 6)"
  "bit (128 :: u8) n = (n = 7)"
proof -
  have "bit (2 ^ k :: u8) n = (n = k)" if "k < 8" for k
    using that by (auto simp: bit_exp_iff possible_bit_word)
  from this [of 0] this [of 1] this [of 2] this [of 3] this [of 4] this [of 5] this [of 6] this [of 7]
  show "bit (1 :: u8) n = (n = 0)" "bit (2 :: u8) n = (n = 1)" "bit (4 :: u8) n = (n = 2)"
    "bit (8 :: u8) n = (n = 3)" "bit (16 :: u8) n = (n = 4)" "bit (32 :: u8) n = (n = 5)"
    "bit (64 :: u8) n = (n = 6)" "bit (128 :: u8) n = (n = 7)"
    by simp_all
qed

lemmas packet_flag_defs = hasRecipient_def hasSignature_def isCompressed_def
  setHasRecipient_def setHasSignature_def setCompressed_def setFlag_def

end
