(* ===== verification/Padding.thy ===== *)
theory Padding
  imports Prelude
begin

text \<open>
  \<open>MessagePadding\<close> of \<open>src/bitchat/protocol/message_padding.cpp\<close>: random padding whose last byte
  holds its length, and the choice of a block size.  The random bytes are an argument, one value
  per draw.  The lemmas say exactly when the receiver gets the data back: the sender pads, or the
  last byte cannot be read as a padding length.
\<close>

definition blockSizes :: "nat list" where
  "blockSizes = [256, 512, 1024, 2048]"

definition pad :: "(nat \<Rightarrow> u8) \<Rightarrow> bytes \<Rightarrow> nat \<Rightarrow> bytes" where
  "pad rng data targetSize =
     (if length data \<ge> targetSize then data
      else let paddingNeeded = targetSize - length data in
        if paddingNeeded > 255 then data
        else data @ map rng [0..<paddingNeeded - 1] @ [word_of_nat paddingNeeded])"

definition unpad :: "bytes \<Rightarrow> bytes" where
  "unpad data =
     (if data = [] then data
      else let paddingLength = last data in
        if paddingLength = 0 \<or> unat paddingLength > length data then data
        else take (length data - unat paddingLength) data)"

definition optimalBlockSize :: "nat \<Rightarrow> nat" where
  "optimalBlockSize dataSize =
     (case find (\<lambda>blockSize. dataSize + 16 \<le> blockSize) blockSizes of
        Some blockSize \<Rightarrow> blockSize
      | None \<Rightarrow> dataSize)"

section \<open>When the padding is recoverable\<close>

definition pads_to :: "nat \<Rightarrow> nat \<Rightarrow> bool" where
  "pads_to n target \<longleftrightarrow> n < target \<and> target - n \<le> 255"

text \<open>The sizes the block size choice leads to padding for.\<close>

definition padded_size :: "nat \<Rightarrow> bool" where
  "padded_size n \<longleftrightarrow> pads_to n (optimalBlockSize n)"

definition last_not_padding :: "bytes \<Rightarrow> bool" where
  "last_not_padding data \<longleftrightarrow> data = [] \<or> last data = 0 \<or> length data < unat (last data)"

lemma pad_applied: "pads_to (length data) n \<Longrightarrow>
    pad rng data n = data @ map rng [0..<n - length data - 1] @ [word_of_nat (n - length data)]"
  by (simp add: pad_def pads_to_def)

lemma pad_not_applied: "\<not> pads_to (length data) n \<Longrightarrow> pad rng data n = data"
  by (auto simp: pad_def pads_to_def Let_def)

lemma length_pad: "length (pad rng data n) = (if pads_to (length data) n then n else length data)"
  by (auto simp: pad_applied pad_not_applied pads_to_def)

lemma unpad_append:
  assumes "0 < n" "n \<le> 255" "length xs = n - 1"
  shows "unpad (data @ xs @ [word_of_nat n]) = data"
proof -
  have u: "unat (word_of_nat n :: u8) = n" using assms by simp
  moreover have "(word_of_nat n :: u8) \<noteq> 0" using u assms by (metis unat_0 less_irrefl)
  ultimately show ?thesis using assms by (simp add: unpad_def Let_def)
qed

lemma unpad_pad: "pads_to (length data) n \<Longrightarrow> unpad (pad rng data n) = data"
  by (simp add: pad_applied) (rule unpad_append, auto simp: pads_to_def)

lemma unpad_id_iff: "unpad data = data \<longleftrightarrow> last_not_padding data"
proof -
  have "take (length data - unat (last data)) data \<noteq> data"
    if "data \<noteq> []" "last data \<noteq> 0" "unat (last data) \<le> length data"
  proof -
    have "0 < unat (last data)" using that by (simp add: unat_gt_0)
    with that have "length (take (length data - unat (last data)) data) \<noteq> length data" by simp
    then show ?thesis by metis
  qed
  then show ?thesis by (auto simp: unpad_def last_not_padding_def Let_def not_less)
qed

lemma length_unpad_le: "length (unpad data) \<le> length data"
  by (simp add: unpad_def Let_def)

lemma optimalBlockSize_eq: "optimalBlockSize n =
    (if n \<le> 240 then 256 else if n \<le> 496 then 512 else if n \<le> 1008 then 1024
     else if n \<le> 2032 then 2048 else n)"
  by (simp add: optimalBlockSize_def blockSizes_def)

lemma padded_size_iff: "padded_size n \<longleftrightarrow>
    1 \<le> n \<and> n \<le> 240 \<or> 257 \<le> n \<and> n \<le> 496 \<or> 769 \<le> n \<and> n \<le> 1008 \<or> 1793 \<le> n \<and> n \<le> 2032"
  by (auto simp: padded_size_def pads_to_def optimalBlockSize_eq)

lemma unpad_recovers:
  assumes "padded_size (length data) \<or> last_not_padding data"
  shows "unpad (pad rng data (optimalBlockSize (length data))) = data"
proof (cases "padded_size (length data)")
  case True
  then show ?thesis by (simp add: padded_size_def unpad_pad)
next
  case False
  with assms show ?thesis by (simp add: padded_size_def pad_not_applied unpad_id_iff)
qed

section \<open>Properties\<close>

text \<open>
  C6: padding to the chosen block size and unpadding returns the data exactly when either the size
  is one for which the sender really pads, or the last data byte cannot be mistaken for a padding
  length.  The data is whatever the packet holds, so outside the padded sizes the round trip
  depends on its last byte.
\<close>

theorem unpad_pad_iff:
  "unpad (pad rng data (optimalBlockSize (length data))) = data
     \<longleftrightarrow> padded_size (length data) \<or> last_not_padding data"
proof
  assume "unpad (pad rng data (optimalBlockSize (length data))) = data"
  then show "padded_size (length data) \<or> last_not_padding data"
    by (cases "padded_size (length data)")
      (simp_all add: padded_size_def pad_not_applied unpad_id_iff)
qed (rule unpad_recovers)

text \<open>
  The sizes that are padded, and the block each one is padded to.  A size in one of the gaps
  (241 to 256, 497 to 768, 1009 to 1792 and above 2032) is sent with its own length, because its
  block is more than 255 bytes away or there is none.
\<close>

theorem padded_length:
  "length (pad rng data (optimalBlockSize (length data))) =
     (let n = length data in
      if 1 \<le> n \<and> n \<le> 240 then 256
      else if 257 \<le> n \<and> n \<le> 496 then 512
      else if 769 \<le> n \<and> n \<le> 1008 then 1024
      else if 1793 \<le> n \<and> n \<le> 2032 then 2048
      else n)"
  unfolding length_pad pads_to_def optimalBlockSize_eq Let_def by (simp, arith)

text \<open>
  In a gap the receiver loses data: a packet of 241 to 256 bytes that ends in a byte from 1 to
  241 comes back shorter by that many bytes.
\<close>

theorem gap_truncates:
  assumes "241 \<le> length data" "length data \<le> 256" "1 \<le> unat (last data)" "unat (last data) \<le> 241"
  shows "unpad (pad rng data (optimalBlockSize (length data)))
       = take (length data - unat (last data)) data"
proof -
  have "\<not> pads_to (length data) (optimalBlockSize (length data))"
    using assms by (auto simp: pads_to_def optimalBlockSize_eq)
  moreover have "last data \<noteq> 0" using assms(3) by auto
  ultimately show ?thesis using assms by (auto simp: pad_not_applied unpad_def Let_def)
qed

end
