(* ===== verification/Wire.thy ===== *)
theory Wire
  imports Packet
begin

text \<open>
  The byte-level primitives of \<open>PacketSerializer\<close>: \<open>writeUint8/16/64\<close> append the bytes of an integer
  in network order, \<open>readUint8/16/64\<close> read one at an offset and advance the offset.  A read past the
  end of the vector is undefined behaviour in C++ and \<^const>\<open>None\<close> here.

  The locale \<open>codec\<close> is the interface between writers and readers: a reader placed where a writer's
  output starts returns the value and the offset behind it.  Its lemmas (a value is read back from
  the front of a buffer, encodings are prefix-free, values can be read in sequence) are proved once;
  the primitives and the length-prefixed strings of the payload formats are interpretations.
\<close>

section \<open>Writers and readers\<close>

definition writeUint64 :: "bytes \<Rightarrow> u64 \<Rightarrow> bytes" where
  "writeUint64 data v = data @ map (\<lambda>i. ucast (drop_bit (i * 8) v AND 0xFF)) [7, 6, 5, 4, 3, 2, 1, 0]"

definition writeUint16 :: "bytes \<Rightarrow> u16 \<Rightarrow> bytes" where
  "writeUint16 data v = data @ [ucast (drop_bit 8 v AND 0xFF)] @ [ucast (v AND 0xFF)]"

definition writeUint8 :: "bytes \<Rightarrow> u8 \<Rightarrow> bytes" where
  "writeUint8 data v = data @ [v]"

fun readUint64_loop :: "nat \<Rightarrow> bytes \<Rightarrow> nat \<Rightarrow> u64 \<Rightarrow> (u64 \<times> nat) option" where
  "readUint64_loop 0 data offset acc = Some (acc, offset)"
| "readUint64_loop (Suc i) data offset acc = do {
     b \<leftarrow> vec_at data offset;
     readUint64_loop i data (offset + 1) (push_bit 8 acc OR ucast b) }"

definition readUint64 :: "bytes \<Rightarrow> nat \<Rightarrow> (u64 \<times> nat) option" where
  "readUint64 data offset = readUint64_loop 8 data offset 0"

definition readUint16 :: "bytes \<Rightarrow> nat \<Rightarrow> (u16 \<times> nat) option" where
  "readUint16 data offset = do {
     hi \<leftarrow> vec_at data offset;
     lo \<leftarrow> vec_at data (offset + 1);
     Some (push_bit 8 (ucast hi) OR ucast lo, offset + 2) }"

definition readUint8 :: "bytes \<Rightarrow> nat \<Rightarrow> (u8 \<times> nat) option" where
  "readUint8 data offset = do { b \<leftarrow> vec_at data offset; Some (b, offset + 1) }"

definition validatePacketSize :: "bytes \<Rightarrow> nat \<Rightarrow> bool" where
  "validatePacketSize data expectedSize \<longleftrightarrow> length data \<ge> expectedSize"

section \<open>The codec interface\<close>

locale codec =
  fixes enc :: "'a \<Rightarrow> bytes"
    and dec :: "bytes \<Rightarrow> nat \<Rightarrow> ('a \<times> nat) option"
    and valid :: "'a \<Rightarrow> bool"
  assumes enc_nonempty: "enc x \<noteq> []"
    and dec_enc: "valid x \<Longrightarrow> drop off data = enc x @ rest \<Longrightarrow> dec data off = Some (x, off + length (enc x))"
begin

lemma dec_front: "valid x \<Longrightarrow> dec (enc x @ rest) 0 = Some (x, length (enc x))"
  using dec_enc [of x 0 "enc x @ rest" rest] by simp

lemma dec_at: "valid x \<Longrightarrow> dec (pre @ enc x @ rest) (length pre) = Some (x, length pre + length (enc x))"
  by (rule dec_enc) simp_all

lemma prefix_free:
  assumes "valid x" "valid y" "enc x @ r = enc y @ s"
  shows "x = y \<and> r = s"
proof -
  have "Some (x, length (enc x)) = Some (y, length (enc y))"
    using dec_front [OF assms(1), of r] dec_front [OF assms(2), of s] assms(3) by simp
  then show ?thesis using assms(3) by simp
qed

lemma enc_inj: "valid x \<Longrightarrow> valid y \<Longrightarrow> enc x = enc y \<Longrightarrow> x = y"
  using prefix_free [of x y "[]" "[]"] by simp

lemma in_range: "drop off data = enc x @ rest \<Longrightarrow> off < length data"
  using enc_nonempty [of x] by (metis Nil_is_append_conv drop_all not_le)

lemma encoded_length: "drop off data = enc x @ rest \<Longrightarrow> off + length (enc x) \<le> length data"
proof -
  assume d: "drop off data = enc x @ rest"
  then have "length data - off = length (enc x) + length rest" by (metis length_append length_drop)
  moreover have "off < length data" using d by (rule in_range)
  ultimately show ?thesis by simp
qed

end

section \<open>The primitives are codecs\<close>

lemma bit_low_byte [simp]:
  "bit (0xFF :: u64) n = (n < 8)" "bit (0xFF :: u16) n = (n < 8)" "bit (0xFF :: u8) n = (n < 8)"
  "bit (0xFF :: int) n = (n < 8)"
proof -
  have "(0xFF :: u64) = mask 8" "(0xFF :: u16) = mask 8" "(0xFF :: u8) = mask 8" "(0xFF :: int) = mask 8"
    by (simp_all add: mask_eq_exp_minus_1)
  then show "bit (0xFF :: u64) n = (n < 8)" "bit (0xFF :: u16) n = (n < 8)"
    "bit (0xFF :: u8) n = (n < 8)" "bit (0xFF :: int) n = (n < 8)"
    by (simp_all only: bit_mask_iff possible_bit_word possible_bit_int) auto
qed

lemma join_bytes:
  "push_bit 8 (drop_bit (8 + k) v) OR ucast (ucast (drop_bit k v AND 0xFF) :: u8) = drop_bit k (v :: u64)"
  (is "?l = _") if "k + 8 \<le> 64"
proof (rule bit_word_eqI)
  fix n :: nat
  assume "n < LENGTH(64)"
  then show "bit ?l n = bit (drop_bit k v) n"
    by (cases "n < 8") (auto simp: bit_simps not_less dest: bit_imp_le_length)
qed

lemma join_bytes16:
  "push_bit 8 (ucast (ucast (drop_bit 8 v AND 0xFF) :: u8)) OR ucast (ucast (v AND 0xFF) :: u8) = (v :: u16)"
  (is "?l = _")
proof (rule bit_word_eqI)
  fix n :: nat
  assume "n < LENGTH(16)"
  then show "bit ?l n = bit v n"
    by (cases "n < 8") (auto simp: bit_simps not_less dest: bit_imp_le_length)
qed

lemma readUint8_rest [wire_simps]: "drop off data = b # rest \<Longrightarrow> readUint8 data off = Some (b, off + 1)"
  by (simp add: readUint8_def vec_at_Some)

interpretation u8c: codec "writeUint8 []" readUint8 "\<lambda>_. True"
  by unfold_locales (auto simp: writeUint8_def wire_simps)

lemma readUint16_rest [wire_simps]:
  "drop off data = writeUint16 [] v @ rest \<Longrightarrow> readUint16 data off = Some (v, off + 2)"
  by (simp add: writeUint16_def readUint16_def vec_at_Some drop_Suc_rest join_bytes16)

interpretation u16c: codec "writeUint16 []" readUint16 "\<lambda>_. True"
  by unfold_locales (auto simp: wire_simps, simp_all add: writeUint16_def)

lemma drop_bit_64 [simp]: "drop_bit 64 (v :: u64) = 0"
  by (rule bit_word_eqI) (auto simp: bit_simps dest: bit_imp_le_length)

lemma readUint64_loop_rest:
  "i \<le> 8 \<Longrightarrow> drop off data = map (\<lambda>k. ucast (drop_bit (k * 8) v AND 0xFF)) (rev [0..<i]) @ rest \<Longrightarrow>
     readUint64_loop i data off (drop_bit (i * 8) v) = Some (v, off + i)"
proof (induction i arbitrary: off)
  case (Suc i)
  then have rest: "drop (Suc off) data = map (\<lambda>k. ucast (drop_bit (k * 8) v AND 0xFF)) (rev [0..<i]) @ rest"
    and b: "vec_at data off = Some (ucast (drop_bit (i * 8) v AND 0xFF))"
    by (simp_all add: drop_Suc_rest vec_at_Some)
  have "push_bit 8 (drop_bit (Suc i * 8) v) OR ucast (ucast (drop_bit (i * 8) v AND 0xFF) :: u8)
      = drop_bit (i * 8) v"
    using join_bytes [of "i * 8" v] Suc.prems(1) by simp
  with b Suc.IH [OF _ rest] Suc.prems(1) show ?case by simp
qed simp

lemma readUint64_rest [wire_simps]:
  assumes "drop off data = writeUint64 [] v @ rest"
  shows "readUint64 data off = Some (v, off + 8)"
proof -
  have "rev [0..<8] = [7, 6, 5, 4, 3, 2, 1, 0 :: nat]" by (simp add: upt_rec)
  with assms readUint64_loop_rest [of 8 off data v rest] show ?thesis
    by (simp add: writeUint64_def readUint64_def)
qed

lemma length_writes [simp]:
  "length (writeUint8 data b) = length data + 1"
  "length (writeUint16 data w) = length data + 2"
  "length (writeUint64 data v) = length data + 8"
  by (simp_all add: writeUint8_def writeUint16_def writeUint64_def)

interpretation u64c: codec "writeUint64 []" readUint64 "\<lambda>_. True"
  by unfold_locales (auto simp: wire_simps, simp_all add: writeUint64_def)

section \<open>Reads inside and outside a buffer\<close>

lemma readUint8_in_range: "off < length u \<Longrightarrow> readUint8 u off = Some (u ! off, off + 1)"
  by (simp add: readUint8_def vec_at_def)

lemma readUint64_loop_in_range:
  "off + i \<le> length u \<Longrightarrow> \<exists>v. readUint64_loop i u off acc = Some (v, off + i)"
proof (induction i arbitrary: off acc)
  case (Suc i)
  then show ?case using Suc.IH [of "off + 1"] by (simp add: vec_at_def)
qed simp

lemma readUint64_in_range: "off + 8 \<le> length u \<Longrightarrow> \<exists>v. readUint64 u off = Some (v, off + 8)"
  using readUint64_loop_in_range [of off 8] by (simp add: readUint64_def)

lemma readUint16_in_range: "off + 2 \<le> length u \<Longrightarrow>
   readUint16 u off = Some (push_bit 8 (ucast (u ! off)) OR ucast (u ! (off + 1)), off + 2)"
  by (simp add: readUint16_def vec_at_def)

lemma readUint16_None: "readUint16 u off = None \<longleftrightarrow> length u < off + 2"
  by (auto simp: readUint16_def vec_at_def)

lemma readUint8_None: "readUint8 u off = None \<longleftrightarrow> length u \<le> off"
  by (auto simp: readUint8_def vec_at_def)

text \<open>Writers only append.\<close>

lemma write_append:
  "data \<noteq> [] \<Longrightarrow> writeUint8 data b = data @ writeUint8 [] b"
  "data \<noteq> [] \<Longrightarrow> writeUint16 data w = data @ writeUint16 [] w"
  "data \<noteq> [] \<Longrightarrow> writeUint64 data v = data @ writeUint64 [] v"
  by (simp_all add: writeUint8_def writeUint16_def writeUint64_def)

end
