(* ===== verification/Packet_Codec.thy ===== *)
theory Packet_Codec
  imports Wire Padding
begin

text \<open>
  \<open>PacketSerializer::serializePacket\<close> and \<open>deserializePacket\<close>.  The sender's vector before padding
  is \<open>packetBytes\<close>; \<open>wire_view\<close> says which packet the receiver should see.  The properties are the
  round trip, the exact set of inputs on which the receiver reads outside its buffer, and the size
  the classes compute against the size that is sent.
\<close>

section \<open>Sending\<close>

text \<open>Compression of the payload: the bytes to send, the original size and whether it was compressed.\<close>

definition compressPayload :: "lz4_api \<Rightarrow> bytes \<Rightarrow> bytes \<times> u16 \<times> bool" where
  "compressPayload lz payload =
     (if shouldCompress payload
      then let compressedPayload = compressData lz payload in
        if length compressedPayload < length payload
        then (compressedPayload, word_of_nat (length payload), True)
        else (payload, 0, False)
      else (payload, 0, False))"

definition packetBytes :: "lz4_api \<Rightarrow> BitchatPacket \<Rightarrow> bytes" where
  "packetBytes lz packet =
     (let (payload, originalPayloadSize, compressed) = compressPayload lz (pPayload packet);
          data = writeUint8 [] (pVersion packet);
          data = writeUint8 data (pType packet);
          data = writeUint8 data (pTTL packet);
          data = writeUint64 data (pTimestamp packet);
          flags = (if compressed then pFlags packet OR FLAG_IS_COMPRESSED else pFlags packet);
          data = writeUint8 data flags;
          payloadDataSize = word_of_nat (length payload + (if compressed then 2 else 0));
          data = writeUint16 data payloadDataSize;
          data = data @ resize 8 0 (pSenderID packet);
          data = (if pFlags packet AND FLAG_HAS_RECIPIENT \<noteq> 0
                  then data @ resize 8 0 (pRecipientID packet) else data);
          data = (if compressed then writeUint16 data originalPayloadSize else data);
          data = data @ payload;
          data = (if pFlags packet AND FLAG_HAS_SIGNATURE \<noteq> 0
                  then data @ resize 64 0 (pSignature packet) else data)
      in data)"

definition serializePacket :: "lz4_api \<Rightarrow> (nat \<Rightarrow> u8) \<Rightarrow> BitchatPacket \<Rightarrow> bytes" where
  "serializePacket lz rng packet =
     (let data = packetBytes lz packet; optimalSize = optimalBlockSize (length data)
      in pad rng data optimalSize)"

section \<open>Receiving\<close>

definition readSignature :: "bytes \<Rightarrow> nat \<Rightarrow> BitchatPacket \<Rightarrow> BitchatPacket option" where
  "readSignature data offset packet =
     (if pFlags packet AND FLAG_HAS_SIGNATURE \<noteq> 0 \<and> offset + 64 \<le> length data
      then do { signature \<leftarrow> subvec data offset 64; Some (packet\<lparr>pSignature := signature\<rparr>) }
      else Some packet)"

definition readPayload :: "lz4_api \<Rightarrow> bytes \<Rightarrow> nat \<Rightarrow> BitchatPacket \<Rightarrow> BitchatPacket option" where
  "readPayload lz data offset packet =
     (let len = unat (pPayloadLength packet) in
      if pFlags packet AND FLAG_IS_COMPRESSED \<noteq> 0
      then if len < 2 then Some packet
        else do {
          (originalSize, offset) \<leftarrow> readUint16 data offset;
          compressedPayload \<leftarrow> subvec data offset (len - 2);
          readSignature data (offset + (len - 2))
            (setPayload (decompressData lz compressedPayload (unat originalSize)) packet) }
      else if offset + len \<le> length data
        then do {
          payload \<leftarrow> subvec data offset len;
          readSignature data (offset + len) (setPayload payload packet) }
        else readSignature data offset packet)"

definition readIDs :: "lz4_api \<Rightarrow> bytes \<Rightarrow> nat \<Rightarrow> BitchatPacket \<Rightarrow> BitchatPacket option" where
  "readIDs lz data offset packet = do {
     senderID \<leftarrow> subvec data offset 8;
     let packet = packet\<lparr>pSenderID := senderID\<rparr>;
     let offset = offset + 8;
     if pFlags packet AND FLAG_HAS_RECIPIENT \<noteq> 0
     then do {
       recipientID \<leftarrow> subvec data offset 8;
       readPayload lz data (offset + 8) (packet\<lparr>pRecipientID := recipientID\<rparr>) }
     else readPayload lz data offset packet }"

definition deserializePacket :: "lz4_api \<Rightarrow> bytes \<Rightarrow> BitchatPacket option" where
  "deserializePacket lz data =
     (let unpaddedData = unpad data in
      if length unpaddedData < 21 then Some defaultPacket
      else do {
        (version, offset) \<leftarrow> readUint8 unpaddedData 0;
        (type, offset) \<leftarrow> readUint8 unpaddedData offset;
        (ttl, offset) \<leftarrow> readUint8 unpaddedData offset;
        (timestamp, offset) \<leftarrow> readUint64 unpaddedData offset;
        (flags, offset) \<leftarrow> readUint8 unpaddedData offset;
        (len, offset) \<leftarrow> readUint16 unpaddedData offset;
        let packet = defaultPacket\<lparr>pVersion := version, pType := type, pTTL := ttl,
              pTimestamp := timestamp, pFlags := flags, pPayloadLength := len\<rparr>;
        let expectedSize = 21 + (if flags AND FLAG_HAS_RECIPIENT \<noteq> 0 then 8 else 0)
              + (if flags AND FLAG_HAS_SIGNATURE \<noteq> 0 then 64 else 0) + unat len;
        if \<not> validatePacketSize unpaddedData expectedSize then Some packet
        else readIDs lz unpaddedData offset packet })"

section \<open>What the receiver should see\<close>

definition sent_compressed :: "lz4_api \<Rightarrow> BitchatPacket \<Rightarrow> bool" where
  "sent_compressed lz packet = snd (snd (compressPayload lz (pPayload packet)))"

definition wire_view :: "lz4_api \<Rightarrow> BitchatPacket \<Rightarrow> BitchatPacket" where
  "wire_view lz p = p\<lparr>
     pFlags := (if sent_compressed lz p then pFlags p OR FLAG_IS_COMPRESSED else pFlags p),
     pPayloadLength := word_of_nat (length (pPayload p)),
     pSenderID := resize 8 0 (pSenderID p),
     pRecipientID := (if hasRecipient p then resize 8 0 (pRecipientID p) else []),
     pSignature := (if hasSignature p then resize 64 0 (pSignature p) else [])\<rparr>"

text \<open>
  The header fields a receiver looks at before it parses, at their offsets in the buffer, and the
  packet size it computes from them.
\<close>

definition headerPayloadLength :: "bytes \<Rightarrow> u16" where
  "headerPayloadLength u = push_bit 8 (ucast (u ! 12)) OR ucast (u ! 13)"

definition headerExpectedSize :: "bytes \<Rightarrow> nat" where
  "headerExpectedSize u = 21 + (if u ! 11 AND FLAG_HAS_RECIPIENT \<noteq> 0 then 8 else 0)
     + (if u ! 11 AND FLAG_HAS_SIGNATURE \<noteq> 0 then 64 else 0) + unat (headerPayloadLength u)"

text \<open>A packet with a compressible payload.\<close>

definition run_packet :: BitchatPacket where
  "run_packet = (newPacket 1700000000000 PKT_TYPE_MESSAGE (replicate 200 7))
     \<lparr>pSenderID := [1, 2, 3, 4, 5, 6, 7, 8]\<rparr>"

section \<open>Layout of a sent packet\<close>

definition packet_header :: "lz4_api \<Rightarrow> BitchatPacket \<Rightarrow> bytes" where
  "packet_header lz p = (case compressPayload lz (pPayload p) of (payload, orig, c) \<Rightarrow>
     [pVersion p, pType p, pTTL p] @ writeUint64 [] (pTimestamp p)
     @ [if c then pFlags p OR FLAG_IS_COMPRESSED else pFlags p]
     @ writeUint16 [] (word_of_nat (length payload + (if c then 2 else 0))))"

definition packet_tail :: "lz4_api \<Rightarrow> BitchatPacket \<Rightarrow> bytes" where
  "packet_tail lz p = (case compressPayload lz (pPayload p) of (payload, orig, c) \<Rightarrow>
     (if c then writeUint16 [] orig else []) @ payload
     @ (if hasSignature p then resize 64 0 (pSignature p) else []))"

lemma packetBytes_layout:
  "packetBytes lz p = packet_header lz p @ resize 8 0 (pSenderID p)
     @ (if hasRecipient p then resize 8 0 (pRecipientID p) else []) @ packet_tail lz p"
  by (simp add: packetBytes_def packet_header_def packet_tail_def hasRecipient_def hasSignature_def
      writeUint8_def writeUint16_def writeUint64_def Let_def split: prod.split)

lemma length_packet_header [simp]: "length (packet_header lz p) = 14"
  by (simp add: packet_header_def split: prod.split)

lemma compressPayload_cases:
  assumes "compressPayload lz payload = (pl, orig, c)"
  shows "c \<and> pl = compressData lz payload \<and> length pl < length payload \<and> orig = word_of_nat (length payload)
     \<or> \<not> c \<and> pl = payload \<and> orig = 0"
  using assms by (auto simp: compressPayload_def Let_def split: if_splits)

section \<open>Reading a sent packet\<close>

lemma readSignature_sent:
  assumes "drop off u = (if bit (pFlags p) 1 then s else [])" "length s = 64" "off \<le> length u"
  shows "readSignature u off p = Some (if bit (pFlags p) 1 then p\<lparr>pSignature := s\<rparr> else p)"
proof (cases "bit (pFlags p) 1")
  case True
  with assms have d: "drop off u = s @ []" by simp
  then have "subvec u off 64 = Some s" using subvec_append [of off u s "[]"] assms by simp
  then show ?thesis using True by (auto simp: readSignature_def subvec_def split: if_splits)
qed (simp add: readSignature_def)

text \<open>The header is read back field by field.\<close>

lemma deserialize_header:
  assumes u: "unpad data = packet_header lz p @ rest" and "8 \<le> length rest"
    and c: "compressPayload lz (pPayload p) = (pl, orig, c)"
  shows "deserializePacket lz data =
    (let flags = (if c then pFlags p OR FLAG_IS_COMPRESSED else pFlags p);
         len = word_of_nat (length pl + (if c then 2 else 0)) :: u16;
         packet = defaultPacket\<lparr>pVersion := pVersion p, pType := pType p, pTTL := pTTL p,
              pTimestamp := pTimestamp p, pFlags := flags, pPayloadLength := len\<rparr>
     in if length (unpad data) < 21 + (if bit flags 0 then 8 else 0) + (if bit flags 1 then 64 else 0) + unat len
        then Some packet else readIDs lz (unpad data) 14 packet)"
proof -
  let ?f = "if c then pFlags p OR FLAG_IS_COMPRESSED else pFlags p"
  let ?w = "writeUint16 [] (word_of_nat (length pl + (if c then 2 else 0)))"
  let ?u = "pVersion p # pType p # pTTL p # writeUint64 [] (pTimestamp p) @ ?f # ?w @ rest"
  have eq: "unpad data = ?u" using u c by (simp add: packet_header_def)
  have r1: "readUint8 ?u 0 = Some (pVersion p, 1)" "readUint8 ?u 1 = Some (pType p, 2)"
    "readUint8 ?u 2 = Some (pTTL p, 3)"
    by (simp_all add: readUint8_def vec_at_def)
  have r2: "readUint64 ?u 3 = Some (pTimestamp p, 11)"
    using readUint64_rest [of 3 ?u "pTimestamp p"] by simp
  have r3: "readUint8 ?u 11 = Some (?f, 12)"
    using readUint8_rest [of 11 ?u ?f "?w @ rest"] by simp
  have r4: "readUint16 ?u 12 = Some (word_of_nat (length pl + (if c then 2 else 0)), 14)"
    using readUint16_rest [of 12 ?u _ rest] by simp
  have "\<not> length ?u < 21" using assms(2) by simp
  with r1 r2 r3 r4 show ?thesis
    unfolding deserializePacket_def eq by (simp add: Let_def validatePacketSize_def not_le)
qed
lemma sent_length:
  assumes "compressPayload lz payload = (pl, orig, c)" "length payload \<le> 65533"
  shows "unat (word_of_nat (length pl + (if c then 2 else 0)) :: u16) = length pl + (if c then 2 else 0)"
  using compressPayload_cases [OF assms(1)] assms(2) by (intro unat_u16_of_nat) auto

lemma readPayload_sent:
  assumes lz: "lz4_ok lz" and small: "length (pPayload p) \<le> 65533"
    and c: "compressPayload lz (pPayload p) = (pl, orig, c)"
    and d: "drop off u = packet_tail lz p" "off \<le> length u"
    and q: "pPayloadLength q = word_of_nat (length pl + (if c then 2 else 0))"
      "bit (pFlags q) 2 = c" "bit (pFlags q) 1 = hasSignature p"
  shows "readPayload lz u off q = Some (let q' = setPayload (pPayload p) q in
     if hasSignature p then q'\<lparr>pSignature := resize 64 0 (pSignature p)\<rparr> else q')"
proof (cases c)
  case True
  let ?sig = "if hasSignature p then resize 64 0 (pSignature p) else []"
  from compressPayload_cases [OF c] True
  have pl: "pl = compressData lz (pPayload p)" "length pl < length (pPayload p)"
    and orig: "unat orig = length (pPayload p)"
    using small by auto
  have tail: "drop off u = writeUint16 [] orig @ pl @ ?sig"
    using d c True by (simp add: packet_tail_def)
  have len: "unat (pPayloadLength q) = length pl + 2"
    using sent_length [OF c small] q(1) True by (simp del: of_nat_add)
  have rest: "drop (off + 2) u = pl @ ?sig" "off + 2 \<le> length u"
    using drop_append_rest [OF tail] u16c.encoded_length [OF tail] by simp_all
  then have sl: "subvec u (off + 2) (length pl) = Some pl" by (rule subvec_append)
  have "drop (off + 2 + length pl) u = ?sig" "off + 2 + length pl \<le> length u"
    using drop_append_rest [OF rest(1)] sl by (auto simp: result_iff)
  then have "readSignature u (off + 2 + length pl) (setPayload (pPayload p) q)
      = Some (let q' = setPayload (pPayload p) q in
          if hasSignature p then q'\<lparr>pSignature := resize 64 0 (pSignature p)\<rparr> else q')"
    using readSignature_sent [of "off + 2 + length pl" u "setPayload (pPayload p) q" "resize 64 0 (pSignature p)"] q(3)
    by (simp add: setPayload_def Let_def)
  moreover have "decompressData lz pl (unat orig) = pPayload p"
    using decompress_compress [OF lz, of "pPayload p"] pl orig by fastforce
  ultimately show ?thesis
    using True q(2) len sl readUint16_rest [OF tail]
    by (simp add: readPayload_def Let_def)
next
  case False
  let ?sig = "if hasSignature p then resize 64 0 (pSignature p) else []"
  from compressPayload_cases [OF c] False have pl: "pl = pPayload p" by simp
  have tail: "drop off u = pPayload p @ ?sig"
    using d c False pl by (simp add: packet_tail_def)
  have len: "unat (pPayloadLength q) = length (pPayload p)" using q(1) False pl small by simp
  have sl: "subvec u off (length (pPayload p)) = Some (pPayload p)"
    using tail d(2) by (rule subvec_append)
  have "drop (off + length (pPayload p)) u = ?sig" and le: "off + length (pPayload p) \<le> length u"
    using drop_append_rest [OF tail] sl by (auto simp: result_iff)
  then have "readSignature u (off + length (pPayload p)) (setPayload (pPayload p) q)
      = Some (let q' = setPayload (pPayload p) q in
          if hasSignature p then q'\<lparr>pSignature := resize 64 0 (pSignature p)\<rparr> else q')"
    using readSignature_sent [of "off + length (pPayload p)" u "setPayload (pPayload p) q" "resize 64 0 (pSignature p)"] q(3)
    by (simp add: setPayload_def Let_def)
  then show ?thesis using False q(2) len sl le by (simp add: readPayload_def Let_def)
qed

lemma deserialize_sent:
  assumes lz: "lz4_ok lz" and small: "length (pPayload p) \<le> 65533" and nc: "\<not> isCompressed p"
    and u: "unpad data = packetBytes lz p"
  shows "deserializePacket lz data = Some (wire_view lz p)"
proof -
  obtain pl orig c where c: "compressPayload lz (pPayload p) = (pl, orig, c)" by (metis prod_cases3)
  let ?flags = "if c then pFlags p OR FLAG_IS_COMPRESSED else pFlags p"
  let ?len = "word_of_nat (length pl + (if c then 2 else 0)) :: u16"
  let ?q = "defaultPacket\<lparr>pVersion := pVersion p, pType := pType p, pTTL := pTTL p,
              pTimestamp := pTimestamp p, pFlags := ?flags, pPayloadLength := ?len\<rparr>"
  let ?u = "packetBytes lz p"
  have fl: "bit ?flags 2 = c" "bit ?flags 1 = hasSignature p" "bit ?flags 0 = hasRecipient p"
    using nc by (auto simp: packet_flag_defs bit_or_iff)
  note len = sent_length [OF c small]
  have size: "length ?u = 22 + (if hasRecipient p then 8 else 0) + (if hasSignature p then 64 else 0) + unat ?len"
    using c len by (simp add: packetBytes_layout packet_tail_def)
  have d14: "drop 14 ?u = resize 8 0 (pSenderID p)
      @ (if hasRecipient p then resize 8 0 (pRecipientID p) else []) @ packet_tail lz p"
    by (simp add: packetBytes_layout)
  have "subvec ?u 14 (length (resize 8 0 (pSenderID p))) = Some (resize 8 0 (pSenderID p))"
    using d14 size by (intro subvec_append) auto
  then have s1: "subvec ?u 14 8 = Some (resize 8 0 (pSenderID p))" by simp
  have d22: "drop 22 ?u = (if hasRecipient p then resize 8 0 (pRecipientID p) else []) @ packet_tail lz p"
    using drop_append_rest [OF d14] by simp
  have "deserializePacket lz data = readIDs lz ?u 14 ?q"
    using deserialize_header [OF _ _ c, of data, unfolded u] size fl
    by (simp add: packetBytes_layout Let_def)
  also have "\<dots> = Some (wire_view lz p)"
  proof (cases "hasRecipient p")
    case True
    then have "subvec ?u 22 (length (resize 8 0 (pRecipientID p))) = Some (resize 8 0 (pRecipientID p))"
      using d22 size by (intro subvec_append) auto
    moreover have "drop 30 ?u = packet_tail lz p"
      using True drop_append_rest [of 22 ?u "resize 8 0 (pRecipientID p)"] d22 by simp
    ultimately show ?thesis
      using True s1 fl size c readPayload_sent [OF lz small c, of 30 ?u]
      by (simp add: readIDs_def Let_def setPayload_def wire_view_def sent_compressed_def defaultPacket_def)
  next
    case False
    then show ?thesis
      using s1 fl d22 size c readPayload_sent [OF lz small c, of 22 ?u]
      by (simp add: readIDs_def Let_def setPayload_def wire_view_def sent_compressed_def defaultPacket_def)
  qed
  finally show ?thesis .
qed

section \<open>Reads of an arbitrary buffer\<close>

lemma deserialize_header_in_range:
  assumes "21 \<le> length (unpad data)"
  shows "\<exists>p. pFlags p = unpad data ! 11 \<and> pPayloadLength p = headerPayloadLength (unpad data) \<and>
    deserializePacket lz data =
     (if length (unpad data) < headerExpectedSize (unpad data) then Some p else readIDs lz (unpad data) 14 p)"
proof -
  let ?u = "unpad data"
  obtain ts where ts: "readUint64 ?u 3 = Some (ts, 11)"
    using readUint64_in_range [of 3 ?u] assms by auto
  have r: "readUint8 ?u 0 = Some (?u ! 0, 1)" "readUint8 ?u 1 = Some (?u ! 1, 2)"
    "readUint8 ?u 2 = Some (?u ! 2, 3)" "readUint8 ?u 11 = Some (?u ! 11, 12)"
    using assms by (subst readUint8_in_range; force)+
  have l: "readUint16 ?u 12 = Some (headerPayloadLength ?u, 14)"
    using assms by (simp add: readUint16_in_range headerPayloadLength_def)
  have n: "\<not> length ?u < 21" using assms by simp
  let ?p = "defaultPacket\<lparr>pVersion := ?u ! 0, pType := ?u ! 1, pTTL := ?u ! 2,
              pTimestamp := ts, pFlags := ?u ! 11, pPayloadLength := headerPayloadLength ?u\<rparr>"
  have "deserializePacket lz data =
     (if length ?u < headerExpectedSize ?u then Some ?p else readIDs lz ?u 14 ?p)"
    unfolding deserializePacket_def Let_def headerExpectedSize_def validatePacketSize_def
    using r l ts n by simp
  then show ?thesis by (intro exI [of _ ?p]) simp
qed

lemma readSignature_total [simp]:
  "readSignature u off p \<noteq> None" "\<exists>q. readSignature u off p = Some q"
  by (auto simp: readSignature_def subvec_def)

lemma readPayload_None: "readPayload lz u off p = None \<longleftrightarrow>
    bit (pFlags p) 2 \<and> 2 \<le> unat (pPayloadLength p) \<and> length u < off + unat (pPayloadLength p)"
  by (auto simp: readPayload_def Let_def subvec_def readUint16_def vec_at_def)

lemma readIDs_None: "readIDs lz u off p = None \<longleftrightarrow>
    length u < off + 8 \<or> bit (pFlags p) 0 \<and> length u < off + 16 \<or>
    bit (pFlags p) 2 \<and> 2 \<le> unat (pPayloadLength p) \<and>
      length u < off + (if bit (pFlags p) 0 then 16 else 8) + unat (pPayloadLength p)"
  by (auto simp: readIDs_def Let_def result_iff readPayload_None subvec_def)

section \<open>What is sent\<close>

lemma serialized_header:
  obtains r where "serializePacket lz rng p = pVersion p # pType p # pTTL p # writeUint64 [] (pTimestamp p) @ r"
    "11 \<le> length r"
proof -
  obtain s where s: "serializePacket lz rng p = packetBytes lz p @ s"
    by (cases "pads_to (length (packetBytes lz p)) (optimalBlockSize (length (packetBytes lz p)))")
      (auto simp: serializePacket_def pad_applied pad_not_applied Let_def)
  obtain pl orig c where "compressPayload lz (pPayload p) = (pl, orig, c)" by (metis prod_cases3)
  then have "serializePacket lz rng p = pVersion p # pType p # pTTL p # writeUint64 [] (pTimestamp p) @
      (if c then pFlags p OR FLAG_IS_COMPRESSED else pFlags p) #
      writeUint16 [] (word_of_nat (length pl + (if c then 2 else 0))) @ resize 8 0 (pSenderID p)
      @ (if hasRecipient p then resize 8 0 (pRecipientID p) else []) @ packet_tail lz p @ s"
    using s by (simp add: packetBytes_layout packet_header_def)
  then show thesis by (rule that) (simp add: writeUint16_def)
qed

lemma serialized_type:
  "22 \<le> length (serializePacket lz rng p)" "serializePacket lz rng p ! 1 = pType p"
  by (rule serialized_header [of lz rng p], simp add: writeUint64_def)+

lemma serialized_timestamp: "map (\<lambda>i. serializePacket lz rng p ! (3 + i)) [0..<8] = writeUint64 [] (pTimestamp p)"
  by (rule serialized_header [of lz rng p]) (simp add: writeUint64_def upt_rec)

text \<open>A payload that is too short for compression always survives.\<close>

lemma short_roundtrip:
  assumes "lz4_ok lz" "length (pPayload p) \<le> 100" "\<not> isCompressed p"
  shows "deserializePacket lz (serializePacket lz rng p) = Some (wire_view lz p)"
proof (rule deserialize_sent [OF assms(1) _ assms(3)])
  have "compressPayload lz (pPayload p) = (pPayload p, 0, False)"
    using assms(2) by (simp add: compressPayload_def shouldCompress_def COMPRESSION_THRESHOLD_def)
  then have "length (packetBytes lz p) \<le> 240" "1 \<le> length (packetBytes lz p)"
    using assms(2) by (simp_all add: packetBytes_layout packet_tail_def)
  then have "padded_size (length (packetBytes lz p))" by (simp add: padded_size_iff)
  then show "unpad (serializePacket lz rng p) = packetBytes lz p"
    using unpad_recovers by (simp add: serializePacket_def Let_def)
qed (use assms(2) in simp)

section \<open>Properties\<close>

text \<open>
  C1: round trip of a packet.  If LZ4 keeps its contract, the payload has at most 65533 bytes, so that it
  fits the 16-bit length field together with the two bytes of its original size,
  the packet does not already claim to be compressed, and the sent vector is one the padding can
  recover, then deserializing what was serialized returns the packet: identifiers and signature
  brought to their wire width, optional fields dropped when their flag is off, the compression flag
  set when the payload went out compressed, and the payload itself unchanged.
\<close>

theorem packet_roundtrip:
  assumes "lz4_ok lz" "length (pPayload p) \<le> 65533" "\<not> isCompressed p"
    "padded_size (length (packetBytes lz p)) \<or> last_not_padding (packetBytes lz p)"
  shows "deserializePacket lz (serializePacket lz rng p) = Some (wire_view lz p)"
proof (rule deserialize_sent [OF assms(1,2,3)])
  show "unpad (serializePacket lz rng p) = packetBytes lz p"
    using unpad_recovers [OF assms(4)] by (simp add: serializePacket_def Let_def)
qed

theorem packet_roundtrip_witness:
  "deserializePacket single_run_codec (serializePacket single_run_codec (\<lambda>_. 0) run_packet)
     = Some (wire_view single_run_codec run_packet)"
proof (rule packet_roundtrip)
  show "lz4_ok single_run_codec" by (rule single_run_codec_ok)
  show "length (pPayload run_packet) \<le> 65533" "\<not> isCompressed run_packet"
    by (simp_all add: run_packet_def newPacket_def defaultPacket_def isCompressed_def)
  have "length (packetBytes single_run_codec run_packet) = 25"
    by (simp add: packetBytes_layout packet_tail_def compressPayload_def compressData_def shouldCompress_def
        COMPRESSION_THRESHOLD_def single_run_codec_def run_packet_def newPacket_def defaultPacket_def
        hasRecipient_def hasSignature_def)
  then show "padded_size (length (packetBytes single_run_codec run_packet)) \<or>
      last_not_padding (packetBytes single_run_codec run_packet)"
    by (simp add: padded_size_iff)
qed

text \<open>
  C4: memory safety of the receiver, exactly.  Deserializing a buffer reads outside it if and only if
  the unpadded buffer is as long as the size computed from its header, carries no signature, and
  either announces an empty payload or a compressed one of at least two bytes.  The cause is that
  the header is 14 bytes long and the checks count 13.
\<close>

theorem deserialize_out_of_range_iff:
  "deserializePacket lz data = None \<longleftrightarrow>
     (let u = unpad data in
        21 \<le> length u \<and> length u = headerExpectedSize u \<and> u ! 11 AND FLAG_HAS_SIGNATURE = 0
        \<and> (headerPayloadLength u = 0 \<or>
           u ! 11 AND FLAG_IS_COMPRESSED \<noteq> 0 \<and> 2 \<le> unat (headerPayloadLength u)))"
proof (cases "21 \<le> length (unpad data)")
  case True
  let ?u = "unpad data"
  obtain p where p: "pFlags p = ?u ! 11" "pPayloadLength p = headerPayloadLength ?u"
    and eq: "deserializePacket lz data =
     (if length ?u < headerExpectedSize ?u then Some p else readIDs lz ?u 14 p)"
    using deserialize_header_in_range [OF True] by metis
  have z: "headerPayloadLength ?u = 0 \<longleftrightarrow> unat (headerPayloadLength ?u) = 0"
    by (simp add: unat_eq_zero)
  show ?thesis
    unfolding eq Let_def z using True
    by (auto simp: readIDs_None p headerExpectedSize_def)
next
  case False
  then show ?thesis by (simp add: deserializePacket_def Let_def)
qed

text \<open>
  \<open>BitchatPacket::getTotalSize\<close> is one less than the number of bytes the serializer produces for
  a packet that is sent uncompressed, before padding.
\<close>

theorem sent_size_exceeds_total_size:
  assumes "unat (pPayloadLength p) = length (pPayload p)" "\<not> sent_compressed lz p"
  shows "length (packetBytes lz p) = getTotalSize p + 1"
proof -
  obtain pl orig c where c: "compressPayload lz (pPayload p) = (pl, orig, c)" by (metis prod_cases3)
  with compressPayload_cases [OF c] assms show ?thesis
    by (simp add: packetBytes_layout packet_tail_def getTotalSize_def sent_compressed_def)
qed

end
