(* ===== verification/Message_Codec.thy ===== *)
theory Message_Codec
  imports Wire
begin

text \<open>
  The chat message payload of \<open>PacketSerializer\<close>: \<open>makeMessagePayload\<close> and \<open>parseMessagePayload\<close>.
  The parser returns \<^const>\<open>None\<close> where the C++ reads outside the payload; its early returns give the
  message as far as it was filled.  \<open>message_view\<close> is the message a receiver should get: every
  field cut to what its length prefix can express, the content of an encrypted message as bytes.
\<close>

section \<open>Writing\<close>

definition writeShortString :: "bytes \<Rightarrow> string \<Rightarrow> bytes" where
  "writeShortString data s =
     writeUint8 data (word_of_nat (min 255 (length s))) @ str_bytes (take (min 255 (length s)) s)"

definition messageFlags :: "BitchatMessage \<Rightarrow> u8" where
  "messageFlags m =
     (let flags = 0;
          flags = (if mIsRelay m then flags OR 0x01 else flags);
          flags = (if mIsPrivate m then flags OR 0x02 else flags);
          flags = (if mOriginalSender m \<noteq> [] then flags OR 0x04 else flags);
          flags = (if mRecipientNickname m \<noteq> [] then flags OR 0x08 else flags);
          flags = (if mSenderPeerID m \<noteq> [] then flags OR 0x10 else flags);
          flags = (if mMentions m \<noteq> [] then flags OR 0x20 else flags);
          flags = (if mChannel m \<noteq> [] then flags OR 0x40 else flags);
          flags = (if mIsEncrypted m then flags OR 0x80 else flags)
      in flags)"

definition makeMessagePayload :: "string \<Rightarrow> BitchatMessage \<Rightarrow> bytes" where
  "makeMessagePayload uuid m =
     (let data = writeUint8 [] (messageFlags m);
          data = writeUint64 data (mTimestamp m);
          id = (if mId m = [] then uuid else mId m);
          data = writeShortString data id;
          data = writeShortString data (mSender m);
          contentLength = word_of_nat (min 65535 (length (mContent m))) :: u16;
          data = writeUint16 data contentLength;
          data = data @ str_bytes (take (unat contentLength) (mContent m));
          data = (if mOriginalSender m \<noteq> [] then writeShortString data (mOriginalSender m) else data);
          data = (if mRecipientNickname m \<noteq> [] then writeShortString data (mRecipientNickname m) else data);
          data = (if mSenderPeerID m \<noteq> [] then writeShortString data (toHex (mSenderPeerID m)) else data);
          data = (if mMentions m \<noteq> []
                  then foldl writeShortString
                         (writeUint8 data (word_of_nat (min 255 (length (mMentions m))))) (mMentions m)
                  else data);
          data = (if mChannel m \<noteq> [] then writeShortString data (mChannel m) else data)
      in data)"

section \<open>Reading\<close>

text \<open>An optional field: its bytes when the flag is set and the length prefix stays inside the payload.\<close>

definition readOptional :: "bool \<Rightarrow> bytes \<Rightarrow> nat \<Rightarrow> (bytes option \<times> nat) option" where
  "readOptional present payload offset =
     (if present \<and> offset < length payload
      then do {
        (len, offset) \<leftarrow> readUint8 payload offset;
        if offset + unat len \<le> length payload
        then do { s \<leftarrow> subvec payload offset (unat len); Some (Some s, offset + unat len) }
        else Some (None, offset) }
      else Some (None, offset))"

text \<open>The hexadecimal peer identifier: pairs that \<open>std::stoi\<close> rejects are skipped.\<close>

fun decodePeerIDHex :: "string \<Rightarrow> bytes" where
  "decodePeerIDHex (a # b # s) =
     (case stoi16 [a, b] of Inl e \<Rightarrow> decodePeerIDHex s | Inr v \<Rightarrow> word_of_int v # decodePeerIDHex s)"
| "decodePeerIDHex s = []"

fun readMentions :: "nat \<Rightarrow> bytes \<Rightarrow> nat \<Rightarrow> string list \<Rightarrow> (string list \<times> nat) option" where
  "readMentions 0 payload offset mentions = Some (mentions, offset)"
| "readMentions (Suc n) payload offset mentions =
     (if offset < length payload
      then do {
        (len, offset) \<leftarrow> readUint8 payload offset;
        if offset + unat len \<le> length payload
        then do {
          s \<leftarrow> subvec payload offset (unat len);
          readMentions n payload (offset + unat len) (mentions @ [bytes_str s]) }
        else readMentions n payload offset mentions }
      else Some (mentions, offset))"

definition parseMentions :: "bool \<Rightarrow> bytes \<Rightarrow> nat \<Rightarrow> (string list option \<times> nat) option" where
  "parseMentions present payload offset =
     (if present \<and> offset < length payload
      then do {
        (mentionCount, offset) \<leftarrow> readUint8 payload offset;
        (mentions, offset) \<leftarrow> readMentions (unat mentionCount) payload offset [];
        Some (Some mentions, offset) }
      else Some (None, offset))"

definition parseOptionalFields :: "u8 \<Rightarrow> bytes \<Rightarrow> nat \<Rightarrow> BitchatMessage \<Rightarrow> BitchatMessage option" where
  "parseOptionalFields flags payload offset m = do {
     (s, offset) \<leftarrow> readOptional (flags AND 0x04 \<noteq> 0) payload offset;
     let m = (case s of None \<Rightarrow> m | Some s \<Rightarrow> m\<lparr>mOriginalSender := bytes_str s\<rparr>);
     (s, offset) \<leftarrow> readOptional (flags AND 0x08 \<noteq> 0) payload offset;
     let m = (case s of None \<Rightarrow> m | Some s \<Rightarrow> m\<lparr>mRecipientNickname := bytes_str s\<rparr>);
     (s, offset) \<leftarrow> readOptional (flags AND 0x10 \<noteq> 0) payload offset;
     let m = (case s of None \<Rightarrow> m | Some s \<Rightarrow> m\<lparr>mSenderPeerID := decodePeerIDHex (bytes_str s)\<rparr>);
     (ms, offset) \<leftarrow> parseMentions (flags AND 0x20 \<noteq> 0) payload offset;
     let m = (case ms of None \<Rightarrow> m | Some ms \<Rightarrow> m\<lparr>mMentions := ms\<rparr>);
     (s, offset) \<leftarrow> readOptional (flags AND 0x40 \<noteq> 0) payload offset;
     Some (case s of None \<Rightarrow> m | Some s \<Rightarrow> m\<lparr>mChannel := bytes_str s\<rparr>) }"

definition parseContent :: "u8 \<Rightarrow> bytes \<Rightarrow> nat \<Rightarrow> BitchatMessage \<Rightarrow> BitchatMessage option" where
  "parseContent flags payload offset m = do {
     (contentLen, offset) \<leftarrow> readUint16 payload offset;
     if offset + unat contentLen > length payload then Some m
     else do {
       content \<leftarrow> subvec payload offset (unat contentLen);
       parseOptionalFields flags payload (offset + unat contentLen)
         (if mIsEncrypted m then m\<lparr>mEncryptedContent := content, mContent := []\<rparr>
          else m\<lparr>mContent := bytes_str content\<rparr>) } }"

definition parseSender :: "u8 \<Rightarrow> bytes \<Rightarrow> nat \<Rightarrow> BitchatMessage \<Rightarrow> BitchatMessage option" where
  "parseSender flags payload offset m = do {
     (senderLen, offset) \<leftarrow> readUint8 payload offset;
     if offset + unat senderLen > length payload then Some m
     else do {
       sender \<leftarrow> subvec payload offset (unat senderLen);
       parseContent flags payload (offset + unat senderLen) (m\<lparr>mSender := bytes_str sender\<rparr>) } }"

definition parseMessageID :: "u8 \<Rightarrow> bytes \<Rightarrow> nat \<Rightarrow> BitchatMessage \<Rightarrow> BitchatMessage option" where
  "parseMessageID flags payload offset m = do {
     (idLen, offset) \<leftarrow> readUint8 payload offset;
     if offset + unat idLen > length payload then Some m
     else do {
       id \<leftarrow> subvec payload offset (unat idLen);
       parseSender flags payload (offset + unat idLen) (m\<lparr>mId := bytes_str id\<rparr>) } }"

definition parseMessagePayload :: "bytes \<Rightarrow> BitchatMessage option" where
  "parseMessagePayload payload =
     (if length payload < 13 then Some defaultMessage
      else do {
        (flags, offset) \<leftarrow> readUint8 payload 0;
        (timestamp, offset) \<leftarrow> readUint64 payload offset;
        parseMessageID flags payload offset
          (defaultMessage\<lparr>mIsRelay := flags AND 0x01 \<noteq> 0, mIsPrivate := flags AND 0x02 \<noteq> 0,
             mIsEncrypted := flags AND 0x80 \<noteq> 0, mTimestamp := timestamp\<rparr>) })"

section \<open>What the receiver should see\<close>

definition message_view :: "string \<Rightarrow> BitchatMessage \<Rightarrow> BitchatMessage" where
  "message_view uuid m = m\<lparr>
     mId := take 255 (if mId m = [] then uuid else mId m),
     mSender := take 255 (mSender m),
     mContent := (if mIsEncrypted m then [] else take 65535 (mContent m)),
     mOriginalSender := take 255 (mOriginalSender m),
     mRecipientNickname := take 255 (mRecipientNickname m),
     mSenderPeerID := take 127 (mSenderPeerID m),
     mMentions := map (take 255) (mMentions m),
     mChannel := take 255 (mChannel m),
     mEncryptedContent := (if mIsEncrypted m then str_bytes (take 65535 (mContent m)) else [])\<rparr>"

text \<open>The optional part of a payload, in the order it is written.\<close>

definition optional_fields :: "BitchatMessage \<Rightarrow> bytes" where
  "optional_fields m =
     (if mOriginalSender m \<noteq> [] then writeShortString [] (mOriginalSender m) else [])
     @ (if mRecipientNickname m \<noteq> [] then writeShortString [] (mRecipientNickname m) else [])
     @ (if mSenderPeerID m \<noteq> [] then writeShortString [] (toHex (mSenderPeerID m)) else [])
     @ (if mMentions m \<noteq> []
        then word_of_nat (min 255 (length (mMentions m))) # concat (map (writeShortString []) (mMentions m)) else [])
     @ (if mChannel m \<noteq> [] then writeShortString [] (mChannel m) else [])"

text \<open>
  What a receiver reads as the channel: the count of mentions is one byte but all of them are
  written, so from the 256th mention on the bytes are taken for the channel.
\<close>

definition received_channel :: "BitchatMessage \<Rightarrow> string" where
  "received_channel m =
     (if mChannel m \<noteq> [] \<and> length (mMentions m) > 255 then mMentions m ! 255 else mChannel m)"

definition sample_message :: BitchatMessage where
  "sample_message = (newMessage 1700000000000 ''id-1'' ''alice'' ''hello bob'' ''#general'')
     \<lparr>mMentions := [''bob'', ''carol''], mSenderPeerID := [0xAB, 0x01]\<rparr>"

section \<open>Lemmas\<close>

lemma messageFlags_bits [simp]:
  "bit (messageFlags m) 0 = mIsRelay m" "bit (messageFlags m) (Suc 0) = mIsPrivate m"
  "bit (messageFlags m) 2 = (mOriginalSender m \<noteq> [])" "bit (messageFlags m) 3 = (mRecipientNickname m \<noteq> [])"
  "bit (messageFlags m) 4 = (mSenderPeerID m \<noteq> [])" "bit (messageFlags m) 5 = (mMentions m \<noteq> [])"
  "bit (messageFlags m) 6 = (mChannel m \<noteq> [])" "bit (messageFlags m) 7 = mIsEncrypted m"
  by (simp_all add: messageFlags_def Let_def bit_or_iff)

lemma short_len [simp]: "unat (word_of_nat (min 255 n) :: u8) = min 255 n"
  by simp

lemma content_len [simp]: "unat (word_of_nat (min 65535 n) :: u16) = min 65535 n"
  by simp

lemma writeShortString_append: "writeShortString data s = data @ writeShortString [] s"
  by (simp add: writeShortString_def writeUint8_def)

lemma writeShortString_Nil:
  "writeShortString [] s = word_of_nat (min 255 (length s)) # str_bytes (take 255 s)"
  by (simp add: writeShortString_def writeUint8_def min_def)

lemma foldl_writeShortString:
  "foldl writeShortString data ss = data @ concat (map (writeShortString []) ss)"
proof (induction ss arbitrary: data)
  case (Cons s ss)
  then show ?case using writeShortString_append [of data s] by simp
qed simp

text \<open>A length-prefixed string at the current offset: its prefix, its bytes and what follows.\<close>

lemma short_string_at:
  assumes d: "drop off payload = writeShortString [] s @ rest"
  shows "off < length payload"
    "readUint8 payload off = Some (word_of_nat (min 255 (length s)), off + 1)"
    "subvec payload (off + 1) (min 255 (length s)) = Some (str_bytes (take 255 s))"
    "off + 1 + min 255 (length s) \<le> length payload"
    "drop (off + 1 + min 255 (length s)) payload = rest"
proof -
  have d1: "drop off payload = word_of_nat (min 255 (length s)) # str_bytes (take 255 s) @ rest"
    using d by (simp add: writeShortString_Nil)
  show lt: "off < length payload" by (rule length_ge_of_drop [OF d1])
  show "readUint8 payload off = Some (word_of_nat (min 255 (length s)), off + 1)"
    by (rule readUint8_rest [OF d1])
  have d2: "drop (off + 1) payload = str_bytes (take 255 s) @ rest"
    using drop_Suc_rest [OF d1] by simp
  have len: "length (str_bytes (take 255 s)) = min 255 (length s)" by simp
  show sub: "subvec payload (off + 1) (min 255 (length s)) = Some (str_bytes (take 255 s))"
    using subvec_append [OF d2] lt len by simp
  show "off + 1 + min 255 (length s) \<le> length payload"
    using sub by (simp only: result_iff)
  show "drop (off + 1 + min 255 (length s)) payload = rest"
    using drop_append_rest [OF d2] len by simp
qed

lemma readOptional_sent:
  assumes "drop off payload = (if present then writeShortString [] s else []) @ rest"
  shows "readOptional present payload off =
    Some (if present then (Some (str_bytes (take 255 s)), off + 1 + min 255 (length s)) else (None, off))"
proof (cases present)
  case True
  with assms have d: "drop off payload = writeShortString [] s @ rest" by simp
  from short_string_at [OF d] True show ?thesis by (simp add: readOptional_def)
qed (simp add: readOptional_def)

lemma drop_optional:
  assumes "drop off payload = (if present then writeShortString [] s else []) @ rest"
  shows "drop (if present then off + 1 + min 255 (length s) else off) payload = rest"
  using assms short_string_at(5) [of off payload s rest] by (cases present) simp_all

lemma readMentions_sent:
  "drop off payload = concat (map (writeShortString []) ss) @ rest \<Longrightarrow>
     \<exists>off'. readMentions (length ss) payload off acc = Some (acc @ map (take 255) ss, off')
       \<and> drop off' payload = rest"
proof (induction ss arbitrary: off acc)
  case (Cons s ss)
  then have d: "drop off payload = writeShortString [] s @ concat (map (writeShortString []) ss) @ rest"
    by simp
  note at = short_string_at [OF d]
  from Cons.IH [OF at(5), of "acc @ [take 255 s]"] at(1-4)
  show ?case by simp
qed simp

lemma decodePeerIDHex_toHex: "decodePeerIDHex (take n (toHex bs)) = take (n div 2) bs"
proof (induction bs arbitrary: n)
  case (Cons b bs)
  have *: "16 * (unat b div 16) + unat b mod 16 = unat b" by simp
  show ?case
  proof (cases "n < 2")
    case True
    then have "n = 0 \<or> n = 1" by auto
    then show ?thesis by auto
  next
    case False
    then obtain k where "n = Suc (Suc k)" by (metis add_2_eq_Suc le_Suc_ex not_less)
    then show ?thesis using Cons [of k] * by (simp del: of_nat_add of_nat_mult)
  qed
qed simp

section \<open>Reading a sent message\<close>

lemma makeMessagePayload_layout:
  "makeMessagePayload uuid m = messageFlags m # writeUint64 [] (mTimestamp m)
     @ writeShortString [] (if mId m = [] then uuid else mId m) @ writeShortString [] (mSender m)
     @ writeUint16 [] (word_of_nat (min 65535 (length (mContent m)))) @ str_bytes (take 65535 (mContent m))
     @ optional_fields m"
proof -
  have t: "take (min 65535 (length (mContent m))) (mContent m) = take 65535 (mContent m)"
    by (simp add: min_def)
  show ?thesis
    unfolding makeMessagePayload_def optional_fields_def Let_def foldl_writeShortString content_len t
    by (simp add: writeShortString_append [of "_ @ _"] writeShortString_append [of "_ # _"]
        writeUint8_def writeUint16_def writeUint64_def)
qed

lemma parseMentions_sent:
  assumes d: "drop off payload = (if ss \<noteq> [] then word_of_nat (min 255 (length ss)) # concat (map (writeShortString []) ss) else []) @ rest"
  shows "\<exists>off'. parseMentions (ss \<noteq> []) payload off
       = Some (if ss \<noteq> [] then Some (map (take 255) (take 255 ss)) else None, off')
     \<and> drop off' payload = concat (map (writeShortString []) (drop 255 ss)) @ rest"
proof (cases "ss = []")
  case False
  let ?W = "\<lambda>ss. concat (map (writeShortString []) ss)"
  have "?W ss = ?W (take 255 ss) @ ?W (drop 255 ss)"
    by (metis append_take_drop_id concat_append map_append)
  with d False have d1: "drop off payload = word_of_nat (min 255 (length ss)) # ?W (take 255 ss) @ ?W (drop 255 ss) @ rest"
    by simp
  have n: "length (take 255 ss) = min 255 (length ss)" by simp
  from False readMentions_sent [OF drop_Suc_rest [OF d1], of "[]", unfolded n] readUint8_rest [OF d1] length_ge_of_drop [OF d1]
  show ?thesis by (auto simp: parseMentions_def)
qed (use d in \<open>auto simp: parseMentions_def\<close>)

lemma parseOptionalFields_sent:
  assumes d: "drop off payload = optional_fields m"
    and m0: "mOriginalSender m0 = []" "mRecipientNickname m0 = []" "mSenderPeerID m0 = []"
      "mMentions m0 = []" "mChannel m0 = []"
  shows "parseOptionalFields (messageFlags m) payload off m0 = Some (m0\<lparr>
     mOriginalSender := take 255 (mOriginalSender m), mRecipientNickname := take 255 (mRecipientNickname m),
     mSenderPeerID := take 127 (mSenderPeerID m), mMentions := map (take 255) (take 255 (mMentions m)),
     mChannel := take 255 (received_channel m)\<rparr>)"
proof -
  let ?o = "\<lambda>s off. if s \<noteq> [] then off + 1 + min 255 (length s) else off"
  let ?hex = "toHex (mSenderPeerID m)"
  have h: "(mSenderPeerID m \<noteq> []) = (?hex \<noteq> [])" by (cases "mSenderPeerID m") simp_all
  define o1 where "o1 = ?o (mOriginalSender m) off"
  define o2 where "o2 = ?o (mRecipientNickname m) o1"
  define o3 where "o3 = ?o ?hex o2"
  note d1 = d [unfolded optional_fields_def h]
  note d2 = drop_optional [OF d1, folded o1_def]
  note d3 = drop_optional [OF d2, folded o2_def]
  note d4 = drop_optional [OF d3, folded o3_def]
  obtain o4 where mentions: "parseMentions (mMentions m \<noteq> []) payload o3
       = Some (if mMentions m \<noteq> [] then Some (map (take 255) (take 255 (mMentions m))) else None, o4)"
    and rest: "drop o4 payload = concat (map (writeShortString []) (drop 255 (mMentions m)))
       @ (if mChannel m \<noteq> [] then writeShortString [] (mChannel m) else [])"
    using parseMentions_sent [OF d4] by blast
  have "\<exists>r. drop o4 payload = (if mChannel m \<noteq> [] then writeShortString [] (received_channel m) else []) @ r"
  proof (cases "length (mMentions m) > 255")
    case True
    then have "drop 255 (mMentions m) = mMentions m ! 255 # drop 256 (mMentions m)"
      by (simp add: Cons_nth_drop_Suc [symmetric])
    with True rest show ?thesis by (auto simp: received_channel_def)
  next
    case False
    with rest show ?thesis by (auto simp: received_channel_def)
  qed
  then obtain r where d5: "drop o4 payload
      = (if mChannel m \<noteq> [] then writeShortString [] (received_channel m) else []) @ r" ..
  have ch: "mChannel m = [] \<Longrightarrow> received_channel m = []" by (simp add: received_channel_def)
  have r1: "readOptional (mOriginalSender m \<noteq> []) payload off
      = Some (if mOriginalSender m \<noteq> [] then Some (str_bytes (take 255 (mOriginalSender m))) else None, o1)"
    using readOptional_sent [OF d1] by (simp add: o1_def)
  have r2: "readOptional (mRecipientNickname m \<noteq> []) payload o1
      = Some (if mRecipientNickname m \<noteq> [] then Some (str_bytes (take 255 (mRecipientNickname m))) else None, o2)"
    using readOptional_sent [OF d2] by (simp add: o2_def)
  have r3: "readOptional (?hex \<noteq> []) payload o2
      = Some (if ?hex \<noteq> [] then Some (str_bytes (take 255 ?hex)) else None, o3)"
    using readOptional_sent [OF d3] by (simp add: o3_def)
  from h have nil: "\<not> ?hex \<noteq> [] \<Longrightarrow> mSenderPeerID m = []" by simp
  show ?thesis
    unfolding parseOptionalFields_def flag_bits messageFlags_bits not_not h
    using r1 r2 r3 mentions readOptional_sent [OF d5] m0 nil ch
    by (simp add: decodePeerIDHex_toHex Let_def split: if_splits)
qed

lemma parseContent_sent:
  assumes d: "drop off p = writeUint16 [] (word_of_nat (min 65535 (length c))) @ str_bytes (take 65535 c) @ rest"
  shows "parseContent flags p off m = parseOptionalFields flags p (off + 2 + min 65535 (length c))
      (if mIsEncrypted m then m\<lparr>mEncryptedContent := str_bytes (take 65535 c), mContent := []\<rparr>
       else m\<lparr>mContent := take 65535 c\<rparr>)"
    "drop (off + 2 + min 65535 (length c)) p = rest"
proof -
  let ?c = "str_bytes (take 65535 c)" and ?n = "min 65535 (length c)"
  have dd: "drop (off + 2) p = ?c @ rest" using drop_append_rest [OF d] by simp
  have le: "off + 2 \<le> length p" using u16c.encoded_length [OF d] by simp
  have lc: "length ?c = ?n" by (simp add: min.commute)
  have sc: "subvec p (off + 2) ?n = Some ?c" using subvec_append [OF dd le] lc by simp
  then have "\<not> length p < off + 2 + ?n" by (simp only: result_iff not_less)
  with sc readUint16_rest [OF d]
  show "parseContent flags p off m = parseOptionalFields flags p (off + 2 + ?n)
      (if mIsEncrypted m then m\<lparr>mEncryptedContent := ?c, mContent := []\<rparr>
       else m\<lparr>mContent := take 65535 c\<rparr>)"
    by (simp add: parseContent_def)
  show "drop (off + 2 + ?n) p = rest" using drop_append_rest [OF dd] lc by simp
qed

lemma parseSender_sent:
  assumes d: "drop off p = writeShortString [] s @ rest"
  shows "parseSender flags p off m
     = parseContent flags p (off + 1 + min 255 (length s)) (m\<lparr>mSender := take 255 s\<rparr>)"
  using short_string_at [OF d] by (simp add: parseSender_def)

lemma parseMessageID_sent:
  assumes d: "drop off p = writeShortString [] s @ rest"
  shows "parseMessageID flags p off m
     = parseSender flags p (off + 1 + min 255 (length s)) (m\<lparr>mId := take 255 s\<rparr>)"
  using short_string_at [OF d] by (simp add: parseMessageID_def)

lemma parse_sent_message:
  "parseMessagePayload (makeMessagePayload uuid m) = Some ((message_view uuid m)
     \<lparr>mMentions := map (take 255) (take 255 (mMentions m)), mChannel := take 255 (received_channel m)\<rparr>)"
proof -
  let ?p = "makeMessagePayload uuid m"
  have d0: "drop 0 ?p = messageFlags m # writeUint64 [] (mTimestamp m)
     @ writeShortString [] (if mId m = [] then uuid else mId m) @ writeShortString [] (mSender m)
     @ writeUint16 [] (word_of_nat (min 65535 (length (mContent m)))) @ str_bytes (take 65535 (mContent m))
     @ optional_fields m"
    by (simp add: makeMessagePayload_layout)
  note d1 = drop_Suc_rest [OF d0]
  have r: "readUint8 ?p 0 = Some (messageFlags m, 1)" "readUint64 ?p 1 = Some (mTimestamp m, 9)"
    using readUint8_rest [OF d0] readUint64_rest [OF d1] by simp_all
  note d9 = drop_append_rest [OF d1]
  note id = parseMessageID_sent [OF d9] and ds = short_string_at(5) [OF d9]
  note sender = parseSender_sent [OF ds] and dc = short_string_at(5) [OF ds]
  note le = u16c.encoded_length [OF dc]
  note content = parseContent_sent(1) [OF dc] and dopt = parseContent_sent(2) [OF dc]
  have big: "\<not> length ?p < 13" using le by simp
  show ?thesis
    unfolding parseMessagePayload_def
    using big r id sender content parseOptionalFields_sent [OF dopt]
    by (simp add: message_view_def defaultMessage_def)
qed

lemma parse_sent_view:
  "length (mMentions m) \<le> 255 \<Longrightarrow> parseMessagePayload (makeMessagePayload uuid m) = Some (message_view uuid m)"
  by (simp add: parse_sent_message received_channel_def message_view_def)

section \<open>Reads of an arbitrary payload\<close>

lemma readOptional_total: "\<exists>s off'. readOptional present payload off = Some (s, off')"
  by (auto simp: readOptional_def readUint8_in_range subvec_def)

lemma readMentions_total: "\<exists>ms off'. readMentions n payload off acc = Some (ms, off')"
  by (induction n arbitrary: off acc) (auto simp: readUint8_in_range subvec_def)

lemma parseMentions_total: "\<exists>ms off'. parseMentions present payload off = Some (ms, off')"
proof (cases "present \<and> off < length payload")
  case True
  then show ?thesis
    using readMentions_total [of "unat (payload ! off)" payload "off + 1" "[]"]
    by (auto simp: parseMentions_def readUint8_in_range)
qed (auto simp: parseMentions_def)

lemma parseOptionalFields_total: "\<exists>m'. parseOptionalFields flags payload off m = Some m'"
proof -
  note o = readOptional_total and p = parseMentions_total
  obtain s1 o1 where 1: "readOptional (flags AND 0x04 \<noteq> 0) payload off = Some (s1, o1)" using o by blast
  obtain s2 o2 where 2: "readOptional (flags AND 0x08 \<noteq> 0) payload o1 = Some (s2, o2)" using o by blast
  obtain s3 o3 where 3: "readOptional (flags AND 0x10 \<noteq> 0) payload o2 = Some (s3, o3)" using o by blast
  obtain ms o4 where 4: "parseMentions (flags AND 0x20 \<noteq> 0) payload o3 = Some (ms, o4)" using p by blast
  obtain s5 o5 where 5: "readOptional (flags AND 0x40 \<noteq> 0) payload o4 = Some (s5, o5)" using o by blast
  from 1 2 3 4 5 show ?thesis by (simp add: parseOptionalFields_def Let_def)
qed

lemma parseContent_None: "parseContent flags u off m = None \<longleftrightarrow> length u < off + 2"
proof (cases "length u < off + 2")
  case True
  then show ?thesis by (auto simp: parseContent_def readUint16_def vec_at_def)
next
  case False
  then obtain w where w: "readUint16 u off = Some (w, off + 2)"
    by (auto simp: readUint16_def vec_at_def)
  have "parseOptionalFields flags u o' m' \<noteq> None" for o' m'
    using parseOptionalFields_total [of flags u o' m'] by auto
  then show ?thesis using False w by (auto simp: parseContent_def subvec_def)
qed

lemma parseSender_None: "parseSender flags u off m = None \<longleftrightarrow>
    length u \<le> off \<or> off + 1 + unat (u ! off) \<le> length u \<and> length u < off + 1 + unat (u ! off) + 2"
proof (cases "off < length u")
  case True
  then show ?thesis by (auto simp: parseSender_def readUint8_in_range parseContent_None subvec_def)
next
  case False
  then show ?thesis by (simp add: parseSender_def readUint8_def vec_at_def)
qed

lemma parseMessageID_None: "off < length u \<Longrightarrow> parseMessageID flags u off m = None \<longleftrightarrow>
    off + 1 + unat (u ! off) \<le> length u \<and>
    (let a = off + 1 + unat (u ! off) in
      length u = a \<or> a + 1 + unat (u ! a) \<le> length u \<and> length u < a + 1 + unat (u ! a) + 2)"
  by (auto simp: parseMessageID_def readUint8_in_range parseSender_None subvec_def Let_def)

section \<open>Properties\<close>

text \<open>
  C3: round trip of a chat message.  A message with at most 255 mentions is parsed back field by
  field: every string cut to the 255 (content: 65535) bytes its length prefix can express, the peer
  identifier to 127 bytes of hexadecimal, a missing identifier replaced by the fresh one, and the
  content of an encrypted message delivered as bytes.
\<close>

theorem message_roundtrip:
  assumes "length (mMentions m) \<le> 255"
  shows "parseMessagePayload (makeMessagePayload uuid m) = Some (message_view uuid m)"
  using assms by (rule parse_sent_view)

theorem message_roundtrip_witness:
  "parseMessagePayload (makeMessagePayload ''u'' sample_message) = Some (message_view ''u'' sample_message)
     \<and> message_view ''u'' sample_message = sample_message"
  using message_roundtrip [of sample_message "''u''"]
  by (simp add: sample_message_def newMessage_def defaultMessage_def message_view_def)

text \<open>
  C5: memory safety of the message parser, exactly.  Parsing reads outside the payload if and only
  if the payload has at least 13 bytes and ends right behind the message identifier, where the
  length of the sender is read, or behind the sender with fewer than the two bytes of the content
  length left.  All other fields are checked before they are read.
\<close>

theorem parse_message_out_of_range_iff:
  "parseMessagePayload u = None \<longleftrightarrow>
     13 \<le> length u \<and> (let a = 10 + unat (u ! 9) in
       length u = a \<or> a < length u \<and> (let b = a + 1 + unat (u ! a) in b \<le> length u \<and> length u < b + 2))"
proof (cases "13 \<le> length u")
  case True
  then have "u \<noteq> []" by auto
  moreover obtain ts where "readUint64 u 1 = Some (ts, 9)"
    using readUint64_in_range [of 1 u] True by auto
  ultimately have "parseMessagePayload u = parseMessageID (u ! 0) u 9
      (defaultMessage\<lparr>mIsRelay := u ! 0 AND 0x01 \<noteq> 0, mIsPrivate := u ! 0 AND 0x02 \<noteq> 0,
             mIsEncrypted := u ! 0 AND 0x80 \<noteq> 0, mTimestamp := ts\<rparr>)"
    using True by (simp add: parseMessagePayload_def readUint8_in_range)
  then show ?thesis using True by (auto simp: parseMessageID_None Let_def)
next
  case False
  then show ?thesis by (simp add: parseMessagePayload_def)
qed

text \<open>
  With more than 255 mentions the receiver takes the 256th mention for the channel, because the
  count is cut to one byte while every mention is written.
\<close>

theorem mention_overflow_changes_channel:
  assumes "length (mMentions m) > 255" "mChannel m \<noteq> []"
  shows "\<exists>r. parseMessagePayload (makeMessagePayload uuid m) = Some r
     \<and> mChannel r = take 255 (mMentions m ! 255) \<and> length (mMentions r) = 255"
  using assms by (simp add: parse_sent_message received_channel_def)

end
