(* ===== verification/Control_Codec.thy ===== *)
theory Control_Codec
  imports Message_Codec
begin

text \<open>
  The remaining payload formats of \<open>PacketSerializer\<close>: announce, channel announce, version hello and
  version acknowledgement, and \<open>makePacket\<close>.  The C++ parsers fill reference parameters and return
  early on a malformed payload, so the model takes the values the caller's variables hold before the
  call and returns what they hold after it; \<^const>\<open>None\<close> would be a read outside the payload.
\<close>

section \<open>Announce and channel announce\<close>

definition makeAnnouncePayload :: "string \<Rightarrow> bytes" where
  "makeAnnouncePayload nickname = str_bytes nickname"

definition parseAnnouncePayload :: "bytes \<Rightarrow> string" where
  "parseAnnouncePayload payload = bytes_str payload"

definition makeChannelAnnouncePayload :: "string \<Rightarrow> bool \<Rightarrow> bytes" where
  "makeChannelAnnouncePayload channel joining =
     (let data = writeUint8 [] (if joining then 1 else 0);
          data = writeUint8 data (word_of_nat (length channel))
      in data @ str_bytes channel)"

definition parseChannelAnnouncePayload :: "bytes \<Rightarrow> string \<times> bool \<Rightarrow> (string \<times> bool) option" where
  "parseChannelAnnouncePayload payload out =
     (if length payload < 2 then Some out
      else do {
        (j, offset) \<leftarrow> readUint8 payload 0;
        (channelLen, offset) \<leftarrow> readUint8 payload offset;
        if offset + unat channelLen \<le> length payload
        then do { s \<leftarrow> subvec payload offset (unat channelLen); Some (bytes_str s, j \<noteq> 0) }
        else Some (fst out, j \<noteq> 0) })"

definition makePacket :: "u64 \<Rightarrow> u8 \<Rightarrow> bytes \<Rightarrow> bool \<Rightarrow> bool \<Rightarrow> string \<Rightarrow> BitchatPacket" where
  "makePacket now type payload withRecipient withSignature senderID =
     (let packet = defaultPacket\<lparr>pType := type, pTimestamp := now,
            pSenderID := resize 8 0 (str_bytes senderID)\<rparr>;
          packet = setPayload payload packet;
          packet = packet\<lparr>pTTL := 6\<rparr>;
          flags = 0;
          flags = (if withRecipient then flags OR FLAG_HAS_RECIPIENT else flags);
          flags = (if withSignature then flags OR FLAG_HAS_SIGNATURE else flags);
          packet = packet\<lparr>pFlags := flags\<rparr>
      in if withRecipient then packet\<lparr>pRecipientID := replicate 8 0xFF\<rparr> else packet)"

section \<open>Version negotiation\<close>

record VersionHello =
  vhSupportedVersions :: bytes
  vhPreferredVersion :: u8
  vhClientVersion :: string
  vhPlatform :: string
  vhCapabilities :: "string list"

record VersionAck =
  vaAgreedVersion :: u8
  vaServerVersion :: string
  vaPlatform :: string
  vaRejected :: bool
  vaReason :: string

definition makeVersionHelloPayload :: "bytes \<Rightarrow> u8 \<Rightarrow> string \<Rightarrow> string \<Rightarrow> string list \<Rightarrow> bytes" where
  "makeVersionHelloPayload supportedVersions preferredVersion clientVersion platform capabilities =
     (let flags = (if capabilities \<noteq> [] then 0 OR 0x01 else 0);
          data = writeUint8 [] flags;
          data = writeUint8 data (word_of_nat (length supportedVersions));
          data = foldl writeUint8 data supportedVersions;
          data = writeUint8 data preferredVersion;
          data = writeShortString data clientVersion;
          data = writeShortString data platform
      in if capabilities \<noteq> []
         then foldl writeShortString (writeUint8 data (word_of_nat (length capabilities))) capabilities
         else data)"

text \<open>
  A checked length-prefixed string: the inner \<^const>\<open>None\<close> is the parser's early return on a payload
  that is too short.
\<close>

definition readCheckedString :: "bytes \<Rightarrow> nat \<Rightarrow> (string \<times> nat) option option" where
  "readCheckedString payload offset =
     (if offset \<ge> length payload then Some None
      else do {
        (len, offset) \<leftarrow> readUint8 payload offset;
        if offset + unat len > length payload then Some None
        else do { s \<leftarrow> subvec payload offset (unat len); Some (Some (bytes_str s, offset + unat len)) } })"

fun readVersions :: "nat \<Rightarrow> bytes \<Rightarrow> nat \<Rightarrow> bytes \<Rightarrow> (bytes \<times> nat option) option" where
  "readVersions 0 payload offset versions = Some (versions, Some offset)"
| "readVersions (Suc n) payload offset versions =
     (if offset \<ge> length payload then Some (versions, None)
      else do {
        (v, offset) \<leftarrow> readUint8 payload offset;
        readVersions n payload offset (versions @ [v]) })"

fun readCapabilities :: "nat \<Rightarrow> bytes \<Rightarrow> nat \<Rightarrow> string list \<Rightarrow> string list option" where
  "readCapabilities 0 payload offset caps = Some caps"
| "readCapabilities (Suc n) payload offset caps = do {
     r \<leftarrow> readCheckedString payload offset;
     case r of None \<Rightarrow> Some caps
     | Some (s, offset) \<Rightarrow> readCapabilities n payload offset (caps @ [s]) }"

definition parseHelloCapabilities :: "u8 \<Rightarrow> bytes \<Rightarrow> nat \<Rightarrow> VersionHello \<Rightarrow> VersionHello option" where
  "parseHelloCapabilities flags payload offset hello =
     (let hello = hello\<lparr>vhCapabilities := []\<rparr> in
      if flags AND 0x01 = 0 then Some hello
      else if offset \<ge> length payload then Some hello
      else do {
        (capCount, offset) \<leftarrow> readUint8 payload offset;
        caps \<leftarrow> readCapabilities (unat capCount) payload offset [];
        Some (hello\<lparr>vhCapabilities := caps\<rparr>) })"

definition parseHelloStrings :: "u8 \<Rightarrow> bytes \<Rightarrow> nat \<Rightarrow> VersionHello \<Rightarrow> VersionHello option" where
  "parseHelloStrings flags payload offset hello = do {
     r \<leftarrow> readCheckedString payload offset;
     case r of None \<Rightarrow> Some hello
     | Some (s, offset) \<Rightarrow> do {
         let hello = hello\<lparr>vhClientVersion := s\<rparr>;
         r \<leftarrow> readCheckedString payload offset;
         case r of None \<Rightarrow> Some hello
         | Some (s, offset) \<Rightarrow> parseHelloCapabilities flags payload offset (hello\<lparr>vhPlatform := s\<rparr>) } }"

definition parseVersionHelloPayload :: "bytes \<Rightarrow> VersionHello \<Rightarrow> VersionHello option" where
  "parseVersionHelloPayload payload hello =
     (if length payload < 4 then Some hello
      else do {
        (flags, offset) \<leftarrow> readUint8 payload 0;
        (versionCount, offset) \<leftarrow> readUint8 payload offset;
        (versions, next) \<leftarrow> readVersions (unat versionCount) payload offset [];
        let hello = hello\<lparr>vhSupportedVersions := versions\<rparr>;
        case next of None \<Rightarrow> Some hello
        | Some offset \<Rightarrow>
            if offset \<ge> length payload then Some hello
            else do {
              (preferred, offset) \<leftarrow> readUint8 payload offset;
              parseHelloStrings flags payload offset (hello\<lparr>vhPreferredVersion := preferred\<rparr>) } })"

definition makeVersionAckPayload :: "u8 \<Rightarrow> string \<Rightarrow> string \<Rightarrow> bool \<Rightarrow> string \<Rightarrow> bytes" where
  "makeVersionAckPayload agreedVersion serverVersion platform rejected reason =
     (let flags = 0;
          flags = (if rejected then flags OR 0x01 else flags);
          flags = (if reason \<noteq> [] then flags OR 0x02 else flags);
          data = writeUint8 [] flags;
          data = writeUint8 data agreedVersion;
          data = writeShortString data serverVersion;
          data = writeShortString data platform
      in if reason \<noteq> [] then writeShortString data reason else data)"

definition parseAckReason :: "u8 \<Rightarrow> bytes \<Rightarrow> nat \<Rightarrow> VersionAck \<Rightarrow> VersionAck option" where
  "parseAckReason flags payload offset ack =
     (let ack = ack\<lparr>vaReason := []\<rparr> in
      if flags AND 0x02 = 0 then Some ack
      else do {
        r \<leftarrow> readCheckedString payload offset;
        case r of None \<Rightarrow> Some ack | Some (s, offset) \<Rightarrow> Some (ack\<lparr>vaReason := s\<rparr>) })"

definition parseVersionAckPayload :: "bytes \<Rightarrow> VersionAck \<Rightarrow> VersionAck option" where
  "parseVersionAckPayload payload ack =
     (if length payload < 3 then Some ack
      else do {
        (flags, offset) \<leftarrow> readUint8 payload 0;
        let ack = ack\<lparr>vaRejected := flags AND 0x01 \<noteq> 0\<rparr>;
        if offset \<ge> length payload then Some ack
        else do {
          (agreed, offset) \<leftarrow> readUint8 payload offset;
          let ack = ack\<lparr>vaAgreedVersion := agreed\<rparr>;
          r \<leftarrow> readCheckedString payload offset;
          case r of None \<Rightarrow> Some ack
          | Some (s, offset) \<Rightarrow> do {
              let ack = ack\<lparr>vaServerVersion := s\<rparr>;
              r \<leftarrow> readCheckedString payload offset;
              case r of None \<Rightarrow> Some ack
              | Some (s, offset) \<Rightarrow> parseAckReason flags payload offset (ack\<lparr>vaPlatform := s\<rparr>) } } })"

text \<open>A length-prefixed string as a codec, and a hello for the caller to start from.\<close>

definition decShortString :: "bytes \<Rightarrow> nat \<Rightarrow> (string \<times> nat) option" where
  "decShortString payload offset =
     (case readCheckedString payload offset of Some (Some r) \<Rightarrow> Some r | _ \<Rightarrow> None)"

definition emptyHello :: VersionHello where
  "emptyHello = \<lparr>vhSupportedVersions = [], vhPreferredVersion = 1, vhClientVersion = [], vhPlatform = [], vhCapabilities = []\<rparr>"

section \<open>Lemmas\<close>

lemma readCheckedString_sent [wire_simps]:
  assumes "drop off payload = writeShortString [] s @ rest"
  shows "readCheckedString payload off = Some (Some (take 255 s, off + length (writeShortString [] s)))"
  using short_string_at [OF assms] by (simp add: readCheckedString_def writeShortString_Nil min.commute)

interpretation strc: codec "writeShortString []" decShortString "\<lambda>s. length s \<le> 255"
  by unfold_locales (auto simp: decShortString_def wire_simps, simp add: writeShortString_Nil)

lemma readCheckedString_total: "\<exists>r. readCheckedString payload off = Some r"
  by (auto simp: readCheckedString_def readUint8_in_range subvec_def)

lemma readVersions_sent:
  "drop off payload = vs @ rest \<Longrightarrow> off + length vs \<le> length payload \<Longrightarrow>
     readVersions (length vs) payload off acc = Some (acc @ vs, Some (off + length vs))"
proof (induction vs arbitrary: off acc)
  case (Cons v vs)
  then have d: "drop off payload = v # vs @ rest" by simp
  from Cons.IH [OF drop_Suc_rest [OF d], of "acc @ [v]"] Cons.prems(2) readUint8_rest [OF d]
  show ?case by simp
qed simp

lemma readVersions_total: "\<exists>vs o'. readVersions n payload off acc = Some (vs, o')"
  by (induction n arbitrary: off acc) (auto simp: readUint8_in_range)

lemma readCapabilities_sent:
  "drop off payload = concat (map (writeShortString []) ss) \<Longrightarrow>
     readCapabilities (length ss) payload off acc = Some (acc @ map (take 255) ss)"
proof (induction ss arbitrary: off acc)
  case (Cons s ss)
  then have d: "drop off payload = writeShortString [] s @ concat (map (writeShortString []) ss)" by simp
  from Cons.IH [OF drop_append_rest [OF d]] readCheckedString_sent [OF d] show ?case by simp
qed simp

lemma readCapabilities_total: "\<exists>caps. readCapabilities n payload off acc = Some caps"
proof (induction n arbitrary: off acc)
  case (Suc n)
  obtain r where "readCheckedString payload off = Some r" using readCheckedString_total by blast
  with Suc show ?case by (auto split: option.splits)
qed simp

lemma foldl_writeUint8: "foldl writeUint8 data vs = data @ vs"
  by (induction vs arbitrary: data) (simp_all add: writeUint8_def)

lemma parseHelloStrings_sent:
  assumes d: "drop off p = writeShortString [] cv @ writeShortString [] pl
      @ (if caps \<noteq> [] then word_of_nat (length caps) # concat (map (writeShortString []) caps) else [])"
    and n: "length caps \<le> 255" and f: "bit flags 0 = (caps \<noteq> [])"
  shows "parseHelloStrings flags p off h = Some (h\<lparr>vhClientVersion := take 255 cv,
     vhPlatform := take 255 pl, vhCapabilities := map (take 255) caps\<rparr>)"
proof -
  note r1 = readCheckedString_sent [OF d] and d1 = drop_append_rest [OF d]
  note r2 = readCheckedString_sent [OF d1] and d2 = drop_append_rest [OF d1]
  show ?thesis
  proof (cases "caps = []")
    case True
    then show ?thesis using r1 r2 f by (simp add: parseHelloStrings_def parseHelloCapabilities_def)
  next
    case False
    with d2 have d3: "drop (off + length (writeShortString [] cv) + length (writeShortString [] pl)) p
        = word_of_nat (length caps) # concat (map (writeShortString []) caps)" by simp
    have "unat (word_of_nat (length caps) :: u8) = length caps" using n by simp
    with False f r1 r2 readUint8_rest [OF d3] length_ge_of_drop [OF d3]
      readCapabilities_sent [OF drop_Suc_rest [OF d3], of "[]"]
    show ?thesis by (simp add: parseHelloStrings_def parseHelloCapabilities_def)
  qed
qed

lemma first_two_bytes:
  assumes "2 \<le> length payload"
  obtains a b where "readUint8 payload 0 = Some (a, 1)" "readUint8 payload 1 = Some (b, 2)"
proof -
  have "0 < length payload" "1 < length payload" using assms by linarith+
  from this [THEN readUint8_in_range] that show thesis by (simp add: numeral_2_eq_2)
qed

lemma parseChannelAnnounce_total: "parseChannelAnnouncePayload payload out \<noteq> None"
proof (cases "length payload < 2")
  case False
  then obtain j n where "readUint8 payload 0 = Some (j, 1)" "readUint8 payload 1 = Some (n, 2)"
    by (metis first_two_bytes not_le)
  with False show ?thesis by (auto simp: parseChannelAnnouncePayload_def subvec_def)
qed (simp add: parseChannelAnnouncePayload_def)

lemma parseHelloCapabilities_total: "parseHelloCapabilities flags payload off h \<noteq> None"
proof (cases "flags AND 0x01 = 0 \<or> off \<ge> length payload")
  case False
  then obtain n where n: "readUint8 payload off = Some (n, Suc off)" by (auto simp: readUint8_in_range)
  obtain caps where "readCapabilities (unat n) payload (Suc off) [] = Some caps"
    using readCapabilities_total by blast
  with False n show ?thesis by (simp add: parseHelloCapabilities_def)
qed (auto simp: parseHelloCapabilities_def Let_def)

lemma parseHelloStrings_total: "parseHelloStrings flags payload off h \<noteq> None"
proof -
  obtain r where r: "readCheckedString payload off = Some r" using readCheckedString_total by blast
  show ?thesis
  proof (cases r)
    case (Some x)
    obtain r' where "readCheckedString payload (snd x) = Some r'" using readCheckedString_total by blast
    with r Some show ?thesis
      by (auto simp: parseHelloStrings_def Let_def parseHelloCapabilities_total [unfolded not_None_eq] split: option.splits prod.splits)
  qed (simp add: r parseHelloStrings_def)
qed

lemma parseVersionHello_total: "parseVersionHelloPayload payload h \<noteq> None"
proof (cases "length payload < 4")
  case False
  then obtain f n where r: "readUint8 payload 0 = Some (f, 1)" "readUint8 payload 1 = Some (n, 2)"
    using first_two_bytes [of payload] by fastforce
  obtain vs o' where "readVersions (unat n) payload 2 [] = Some (vs, o')"
    using readVersions_total by blast
  with False r show ?thesis
    by (cases o') (auto simp: numeral_2_eq_2 parseVersionHelloPayload_def Let_def parseHelloStrings_total [unfolded not_None_eq] readUint8_in_range split: option.splits)
qed (simp add: parseVersionHelloPayload_def)

lemma parseAckReason_total: "parseAckReason flags payload off a \<noteq> None"
proof -
  obtain r where "readCheckedString payload off = Some r" using readCheckedString_total by blast
  then show ?thesis by (auto simp: parseAckReason_def Let_def split: option.splits)
qed

lemma parseVersionAck_total: "parseVersionAckPayload payload a \<noteq> None"
proof (cases "length payload < 3")
  case False
  then obtain f n where r: "readUint8 payload 0 = Some (f, 1)" "readUint8 payload 1 = Some (n, 2)"
    using first_two_bytes [of payload] by fastforce
  obtain x where x: "readCheckedString payload 2 = Some x" using readCheckedString_total by blast
  show ?thesis
  proof (cases x)
    case (Some y)
    obtain z where "readCheckedString payload (snd y) = Some z" using readCheckedString_total by blast
    with False r x Some show ?thesis
      by (auto simp: parseVersionAckPayload_def Let_def parseAckReason_total [unfolded not_None_eq] split: option.splits prod.splits)
  qed (use False r x in \<open>auto simp: parseVersionAckPayload_def\<close>)
qed (simp add: parseVersionAckPayload_def)

lemma version_hello_parsed:
  assumes "length versions \<le> 255" "length caps \<le> 255"
  shows "parseVersionHelloPayload (makeVersionHelloPayload versions preferred client platform caps) hello
     = Some (hello\<lparr>vhSupportedVersions := versions, vhPreferredVersion := preferred,
         vhClientVersion := take 255 client, vhPlatform := take 255 platform,
         vhCapabilities := map (take 255) caps\<rparr>)"
proof -
  let ?p = "makeVersionHelloPayload versions preferred client platform caps"
  let ?f = "if caps \<noteq> [] then 0 OR 0x01 else 0 :: u8"
  let ?s = "writeShortString [] client @ writeShortString [] platform
      @ (if caps \<noteq> [] then word_of_nat (length caps) # concat (map (writeShortString []) caps) else [])"
  have d0: "drop 0 ?p = ?f # word_of_nat (length versions) # versions @ preferred # ?s"
    by (simp add: makeVersionHelloPayload_def Let_def foldl_writeUint8 foldl_writeShortString
        writeShortString_append [of "_ @ _"] writeShortString_append [of "_ # _"] writeUint8_def)
  note d1 = drop_Suc_rest [OF d0] note d2 = drop_Suc_rest [OF d1]
  have len: "2 + length versions < length ?p" "4 \<le> length ?p"
    using arg_cong [OF d0, of length] by (simp_all add: writeShortString_Nil)
  have u: "unat (word_of_nat (length versions) :: u8) = length versions" using assms(1) by simp
  have v: "readVersions (length versions) ?p 2 [] = Some (versions, Some (2 + length versions))"
    using readVersions_sent [of 2 ?p versions "preferred # ?s" "[]"] d2 len by (simp add: numeral_2_eq_2)
  have d3: "drop (2 + length versions) ?p = preferred # ?s"
    using drop_append_rest [OF d2] by (simp add: numeral_2_eq_2)
  have s: "parseHelloStrings ?f ?p (Suc (2 + length versions)) h = Some (h\<lparr>vhClientVersion := take 255 client,
     vhPlatform := take 255 platform, vhCapabilities := map (take 255) caps\<rparr>)" for h
    by (rule parseHelloStrings_sent [OF drop_Suc_rest [OF d3] assms(2)]) simp
  have r: "readUint8 ?p 0 = Some (?f, 1)" "readUint8 ?p 1 = Some (word_of_nat (length versions), 2)"
    "readUint8 ?p (2 + length versions) = Some (preferred, Suc (2 + length versions))"
    using readUint8_rest [OF d0] readUint8_rest [OF d1] readUint8_rest [OF d3] by (simp_all add: numeral_2_eq_2)
  show ?thesis
    unfolding parseVersionHelloPayload_def
    using len r u v s by simp
qed

lemma channel_announce_parsed:
  "parseChannelAnnouncePayload (makeChannelAnnouncePayload channel joining) out
     = Some (take (length channel mod 256) channel, joining)"
  by (simp add: parseChannelAnnouncePayload_def makeChannelAnnouncePayload_def writeUint8_def
      readUint8_def vec_at_def subvec_def unat_of_nat take_map)

section \<open>Properties\<close>

text \<open>
  C27: parsing the payload made for a version hello gives back the supported versions, the preferred
  version, the client version, the platform and the capabilities, each string cut to its first 255
  bytes, provided the version and capability counts fit in their one-byte fields; the fields of the
  caller's variable are all overwritten.
\<close>

theorem version_hello_roundtrip:
  assumes "length versions \<le> 255" "length caps \<le> 255"
  shows "parseVersionHelloPayload (makeVersionHelloPayload versions preferred client platform caps) hello
     = Some (hello\<lparr>vhSupportedVersions := versions, vhPreferredVersion := preferred,
         vhClientVersion := take 255 client, vhPlatform := take 255 platform,
         vhCapabilities := map (take 255) caps\<rparr>)"
  using assms by (rule version_hello_parsed)

theorem version_hello_roundtrip_witness:
  "parseVersionHelloPayload (makeVersionHelloPayload [1, 3] 3 ''1.0'' ''linux'' [''lz4'']) emptyHello
     = Some (emptyHello\<lparr>vhSupportedVersions := [1, 3], vhPreferredVersion := 3, vhClientVersion := ''1.0'',
         vhPlatform := ''linux'', vhCapabilities := [''lz4'']\<rparr>)"
  using version_hello_roundtrip [of "[1, 3]" "[''lz4'']" 3 "''1.0''" "''linux''" emptyHello] by simp

text \<open>
  Parsing the payload made for a version acknowledgement gives back the agreed version, the
  rejection flag and the three strings cut to 255 bytes, for every input.
\<close>

theorem version_ack_roundtrip:
  "parseVersionAckPayload (makeVersionAckPayload agreed server platform rejected reason) ack
     = Some (ack\<lparr>vaAgreedVersion := agreed, vaServerVersion := take 255 server,
         vaPlatform := take 255 platform, vaRejected := rejected, vaReason := take 255 reason\<rparr>)"
proof -
  let ?p = "makeVersionAckPayload agreed server platform rejected reason"
  let ?f = "(if reason \<noteq> [] then (if rejected then 0 OR 0x01 else 0) OR 0x02 else if rejected then 0 OR 0x01 else 0) :: u8"
  have d0: "drop 0 ?p = ?f # agreed # writeShortString [] server @ writeShortString [] platform
      @ (if reason \<noteq> [] then writeShortString [] reason else [])"
    by (simp add: makeVersionAckPayload_def Let_def writeShortString_append [of "_ @ _"]
        writeShortString_append [of "_ # _"] writeUint8_def)
  note d1 = drop_Suc_rest [OF d0] note d2 = drop_Suc_rest [OF d1]
  note r1 = readCheckedString_sent [OF d2] and d3 = drop_append_rest [OF d2]
  note r2 = readCheckedString_sent [OF d3] and d4 = drop_append_rest [OF d3]
  have len: "4 \<le> length ?p" using arg_cong [OF d0, of length] by (simp add: writeShortString_Nil)
  have r: "readUint8 ?p 0 = Some (?f, 1)" "readUint8 ?p 1 = Some (agreed, 2)"
    using readUint8_rest [OF d0] readUint8_rest [OF d1] by (simp_all add: numeral_2_eq_2)
  have f: "bit ?f 0 = rejected" "bit ?f 1 = (reason \<noteq> [])" by (simp_all add: bit_or_iff)
  let ?o = "Suc (Suc 0) + length (writeShortString [] server) + length (writeShortString [] platform)"
  have "parseAckReason ?f ?p ?o a = Some (a\<lparr>vaReason := take 255 reason\<rparr>)" for a
  proof (cases "reason = []")
    case False
    with d4 have "drop ?o ?p = writeShortString [] reason @ []" by simp
    from readCheckedString_sent [OF this] False f(2) show ?thesis
      unfolding parseAckReason_def Let_def flag_bits by simp
  qed (use f in \<open>simp add: parseAckReason_def\<close>)
  then show ?thesis
    unfolding parseVersionAckPayload_def flag_bits
    using len r r1 r2 f by (simp add: numeral_2_eq_2 del: if_split)
qed

text \<open>
  A channel announce always parses, gives back the join flag, and gives back the channel name cut
  to its length modulo 256: the length byte is not clamped, unlike every other string of the protocol,
  so a name of 256 bytes arrives empty.
\<close>

theorem channel_announce_exact:
  "parseChannelAnnouncePayload (makeChannelAnnouncePayload channel joining) out
     = Some (take (length channel mod 256) channel, joining)"
  by (rule channel_announce_parsed)

text \<open>
  C28: the parsers of channel announce, version hello and version acknowledgement never read outside
  the payload, whatever bytes they receive.
\<close>

theorem control_parsers_in_range:
  "parseChannelAnnouncePayload payload out \<noteq> None \<and>
   parseVersionHelloPayload payload hello \<noteq> None \<and> parseVersionAckPayload payload ack \<noteq> None"
  by (simp only: parseChannelAnnounce_total parseVersionHello_total parseVersionAck_total simp_thms)

end
