(* ===== verification/Bitchat_Data.thy ===== *)
theory Bitchat_Data
  imports Packet
begin

text \<open>
  \<open>BitchatData\<close> (\<open>src/bitchat/core/bitchat_data.cpp\<close>), the store all services share: identity, current
  channel, peer list, message history per channel and the set of packets already processed.  The
  class guards each group of fields with one mutex and every method locks it for its whole body, so
  a method is one atomic step: an execution of several threads is a sequence of method calls, and
  \<open>data_step\<close> is the relation of one call.  The two interfaces the services rely on, a directory of
  keyed entries and a bounded log, are locales interpreted here on the store's own operations.
\<close>

section \<open>Interfaces\<close>

text \<open>A directory: at most one entry per key, the last one put.\<close>

locale directory =
  fixes lookup :: "'d \<Rightarrow> 'k \<Rightarrow> 'e option"
    and put :: "'e \<Rightarrow> 'd \<Rightarrow> 'd"
    and del :: "'k \<Rightarrow> 'd \<Rightarrow> 'd"
    and key :: "'e \<Rightarrow> 'k"
  assumes lookup_put: "lookup (put e d) k = (if k = key e then Some e else lookup d k)"
    and lookup_del: "lookup (del k' d) k = (if k = k' then None else lookup d k)"
begin

lemma lookup_put_put: "key e = key e' \<Longrightarrow> lookup (put e (put e' d)) = lookup (put e d)"
  by (simp add: fun_eq_iff lookup_put)

lemma lookup_del_put: "lookup (del (key e) (put e d)) = lookup (del (key e) d)"
  by (simp add: fun_eq_iff lookup_put lookup_del)

lemma lookup_put_commute: "key e \<noteq> key e' \<Longrightarrow> lookup (put e (put e' d)) = lookup (put e' (put e d))"
  by (auto simp: fun_eq_iff lookup_put)

lemma lookup_fold_put:
  "lookup (fold put es d) k = (case find (\<lambda>e. key e = k) (rev es) of Some e \<Rightarrow> Some e | None \<Rightarrow> lookup d k)"
proof (induction es rule: rev_induct)
  case (snoc e es)
  then show ?case by (auto simp: lookup_put)
qed simp

lemma lookup_fold_del: "lookup (fold del ks d) k = (if k \<in> set ks then None else lookup d k)"
  by (induction ks arbitrary: d) (auto simp: lookup_del)

end

text \<open>A log that drops its oldest entry when it would exceed its capacity.\<close>

locale bounded_log =
  fixes contents :: "'s \<Rightarrow> 'x list"
    and push :: "'x \<Rightarrow> 's \<Rightarrow> 's"
    and cap :: nat
  assumes contents_push: "contents (push x s) =
    (if length (contents s @ [x]) > cap then tl (contents s @ [x]) else contents s @ [x])"
    and cap_positive: "0 < cap"
begin

lemma push_bounded: "length (contents s) \<le> cap \<Longrightarrow> length (contents (push x s)) \<le> cap"
  by (simp add: contents_push)

lemma contents_push_drop:
  assumes "length (contents s) \<le> cap"
  shows "contents (push x s) = drop (length (contents s @ [x]) - cap) (contents s @ [x])"
proof (cases "length (contents s @ [x]) > cap")
  case True
  with assms have "length (contents s) = cap" by simp
  then show ?thesis using cap_positive by (cases "contents s") (auto simp: contents_push drop_Suc)
next
  case False
  then show ?thesis by (simp add: contents_push)
qed

lemma contents_fold_push:
  "length (contents s) \<le> cap \<Longrightarrow>
     contents (fold push xs s) = drop (length (contents s @ xs) - cap) (contents s @ xs)"
proof (induction xs arbitrary: s)
  case (Cons x xs)
  have c: "contents (push x s) @ xs = drop (length (contents s) + 1 - cap) (contents s @ x # xs)"
    using contents_push_drop [OF Cons.prems, of x] cap_positive by simp
  have "length (contents (push x s) @ xs) - cap + (length (contents s) + 1 - cap)
      = length (contents s @ x # xs) - cap"
    using Cons.prems contents_push_drop [OF Cons.prems, of x] by auto
  then show ?case using Cons.IH [OF push_bounded [OF Cons.prems], of x] c cap_positive
    by (simp add: drop_drop)
qed simp

lemma contents_fold_push_bounded:
  "length (contents s) \<le> cap \<Longrightarrow> length (contents (fold push xs s)) \<le> cap"
  by (simp add: contents_fold_push)

end

section \<open>State and operations\<close>

abbreviation MAX_HISTORY_SIZE :: nat where "MAX_HISTORY_SIZE \<equiv> 1000"
abbreviation MAX_PROCESSED_MESSAGES :: nat where "MAX_PROCESSED_MESSAGES \<equiv> 1000"
abbreviation PEER_TIMEOUT_SECONDS :: int where "PEER_TIMEOUT_SECONDS \<equiv> 180"

record BitchatData =
  dPeerID :: string
  dNickname :: string
  dCurrentChannel :: string
  dPeers :: "BitchatPeer list"
  dMessageHistory :: "string \<rightharpoonup> BitchatMessage list"
  dProcessedMessages :: "string set"

definition initialData :: "nat \<Rightarrow> BitchatData" where
  "initialData n = \<lparr>dPeerID = [], dNickname = randomNickname n, dCurrentChannel = [], dPeers = [],
     dMessageHistory = Map.empty, dProcessedMessages = {}\<rparr>"

definition setPeerID :: "string \<Rightarrow> BitchatData \<Rightarrow> BitchatData" where
  "setPeerID pid d = d\<lparr>dPeerID := pid\<rparr>"

definition setNickname :: "string \<Rightarrow> BitchatData \<Rightarrow> BitchatData" where
  "setNickname nick d = d\<lparr>dNickname := nick\<rparr>"

definition setCurrentChannel :: "string \<Rightarrow> BitchatData \<Rightarrow> BitchatData" where
  "setCurrentChannel channel d = d\<lparr>dCurrentChannel := channel\<rparr>"

definition setPeers :: "BitchatPeer list \<Rightarrow> BitchatData \<Rightarrow> BitchatData" where
  "setPeers ps d = d\<lparr>dPeers := ps\<rparr>"

text \<open>\<open>find_if\<close> followed by an assignment through the iterator, or \<open>push_back\<close> at the end.\<close>

fun update_first :: "BitchatPeer \<Rightarrow> BitchatPeer list \<Rightarrow> BitchatPeer list" where
  "update_first peer [] = [peer]"
| "update_first peer (p # ps) = (if peerID p = peerID peer then peer # ps else p # update_first peer ps)"

definition addPeer :: "BitchatPeer \<Rightarrow> BitchatData \<Rightarrow> BitchatData" where
  "addPeer peer d = d\<lparr>dPeers := update_first peer (dPeers d)\<rparr>"

definition removePeer :: "string \<Rightarrow> BitchatData \<Rightarrow> BitchatData" where
  "removePeer pid d = d\<lparr>dPeers := filter (\<lambda>p. peerID p \<noteq> pid) (dPeers d)\<rparr>"

definition updatePeer :: "BitchatPeer \<Rightarrow> BitchatData \<Rightarrow> BitchatData" where
  "updatePeer peer d = d\<lparr>dPeers := update_first peer (dPeers d)\<rparr>"

definition getPeersCount :: "BitchatData \<Rightarrow> nat" where
  "getPeersCount d = length (dPeers d)"

definition getPeerInfo :: "BitchatData \<Rightarrow> string \<Rightarrow> BitchatPeer option" where
  "getPeerInfo d pid = find (\<lambda>p. peerID p = pid) (dPeers d)"

definition isPeerOnline :: "int \<Rightarrow> BitchatData \<Rightarrow> string \<Rightarrow> bool" where
  "isPeerOnline now d pid = (case find (\<lambda>p. peerID p = pid) (dPeers d) of
     Some p \<Rightarrow> \<not> isStale now PEER_TIMEOUT_SECONDS p | None \<Rightarrow> False)"

definition target_channel :: "BitchatData \<Rightarrow> string \<Rightarrow> string" where
  "target_channel d channel = (if channel = [] then dCurrentChannel d else channel)"

definition addMessageToHistory :: "BitchatMessage \<Rightarrow> string \<Rightarrow> BitchatData \<Rightarrow> BitchatData" where
  "addMessageToHistory message channel d =
     (let targetChannel = target_channel d channel;
          history = (case dMessageHistory d targetChannel of None \<Rightarrow> [] | Some h \<Rightarrow> h) @ [message];
          history = (if length history > MAX_HISTORY_SIZE then tl history else history)
      in d\<lparr>dMessageHistory := (dMessageHistory d)(targetChannel \<mapsto> history)\<rparr>)"

definition getMessageHistory :: "BitchatData \<Rightarrow> string \<Rightarrow> BitchatMessage list" where
  "getMessageHistory d channel =
     (case dMessageHistory d (target_channel d channel) of Some h \<Rightarrow> h | None \<Rightarrow> [])"

definition clearMessageHistory :: "string \<Rightarrow> BitchatData \<Rightarrow> BitchatData" where
  "clearMessageHistory channel d =
     d\<lparr>dMessageHistory := (dMessageHistory d)(target_channel d channel := None)\<rparr>"

definition clearAllMessageHistory :: "BitchatData \<Rightarrow> BitchatData" where
  "clearAllMessageHistory d = d\<lparr>dMessageHistory := Map.empty\<rparr>"

definition wasMessageProcessed :: "BitchatData \<Rightarrow> string \<Rightarrow> bool" where
  "wasMessageProcessed d messageID \<longleftrightarrow> messageID \<in> dProcessedMessages d"

definition markMessageProcessed :: "string \<Rightarrow> BitchatData \<Rightarrow> BitchatData" where
  "markMessageProcessed messageID d =
     (let processed = insert messageID (dProcessedMessages d)
      in d\<lparr>dProcessedMessages := (if card processed > MAX_PROCESSED_MESSAGES then {} else processed)\<rparr>)"

definition clearProcessedMessages :: "BitchatData \<Rightarrow> BitchatData" where
  "clearProcessedMessages d = d\<lparr>dProcessedMessages := {}\<rparr>"

definition dataMessageID :: "u64 \<Rightarrow> string \<Rightarrow> string" where
  "dataMessageID timestamp uuid = to_string (unat timestamp) @ ''_'' @ uuid"

definition cleanupStalePeers :: "int \<Rightarrow> BitchatData \<Rightarrow> BitchatData" where
  "cleanupStalePeers now d = d\<lparr>dPeers := filter (\<lambda>p. \<not> isStale now PEER_TIMEOUT_SECONDS p) (dPeers d)\<rparr>"

definition cleanupOldMessages :: "nat \<Rightarrow> BitchatData \<Rightarrow> BitchatData" where
  "cleanupOldMessages maxHistorySize d = d\<lparr>dMessageHistory := (\<lambda>channel.
     map_option (\<lambda>messages. if length messages > maxHistorySize
        then drop (length messages - maxHistorySize) messages else messages) (dMessageHistory d channel))\<rparr>"

definition cleanupOldProcessedMessages :: "nat \<Rightarrow> BitchatData \<Rightarrow> BitchatData" where
  "cleanupOldProcessedMessages maxProcessedSize d =
     (if card (dProcessedMessages d) > maxProcessedSize then d\<lparr>dProcessedMessages := {}\<rparr> else d)"

text \<open>
  One call of a mutating method, with its arguments chosen by the caller.  \<open>setPeers\<close> replaces the
  list wholesale and has no caller in the repository; \<open>given\<close> are the vectors it may be called with, of
  any content.
\<close>

inductive data_step :: "BitchatPeer list set \<Rightarrow> BitchatData \<Rightarrow> BitchatData \<Rightarrow> bool" for given where
  step_setPeerID: "data_step given d (setPeerID s d)"
| step_setNickname: "data_step given d (setNickname s d)"
| step_setCurrentChannel: "data_step given d (setCurrentChannel s d)"
| step_setPeers: "ps \<in> given \<Longrightarrow> data_step given d (setPeers ps d)"
| step_addPeer: "data_step given d (addPeer p d)"
| step_removePeer: "data_step given d (removePeer s d)"
| step_updatePeer: "data_step given d (updatePeer p d)"
| step_addMessageToHistory: "data_step given d (addMessageToHistory m s d)"
| step_clearMessageHistory: "data_step given d (clearMessageHistory s d)"
| step_clearAllMessageHistory: "data_step given d (clearAllMessageHistory d)"
| step_markMessageProcessed: "data_step given d (markMessageProcessed s d)"
| step_clearProcessedMessages: "data_step given d (clearProcessedMessages d)"
| step_cleanupStalePeers: "data_step given d (cleanupStalePeers now d)"
| step_cleanupOldMessages: "data_step given d (cleanupOldMessages n d)"
| step_cleanupOldProcessedMessages: "data_step given d (cleanupOldProcessedMessages n d)"

inductive data_reachable :: "BitchatPeer list set \<Rightarrow> BitchatData \<Rightarrow> bool" for given where
  reach_init: "data_reachable given (initialData n)"
| reach_step: "data_reachable given d \<Longrightarrow> data_step given d d' \<Longrightarrow> data_reachable given d'"

definition data_inv :: "BitchatData \<Rightarrow> bool" where
  "data_inv d \<longleftrightarrow> distinct (map peerID (dPeers d))
     \<and> (\<forall>c h. dMessageHistory d c = Some h \<longrightarrow> length h \<le> MAX_HISTORY_SIZE)
     \<and> finite (dProcessedMessages d) \<and> card (dProcessedMessages d) \<le> MAX_PROCESSED_MESSAGES"

text \<open>The bounds alone, which hold whatever \<open>setPeers\<close> is given.\<close>

definition data_bounded :: "BitchatData \<Rightarrow> bool" where
  "data_bounded d \<longleftrightarrow> (\<forall>c h. dMessageHistory d c = Some h \<longrightarrow> length h \<le> MAX_HISTORY_SIZE)
     \<and> finite (dProcessedMessages d) \<and> card (dProcessedMessages d) \<le> MAX_PROCESSED_MESSAGES"

text \<open>The abstract view of the peer list.\<close>

definition peer_map :: "BitchatData \<Rightarrow> string \<rightharpoonup> BitchatPeer" where
  "peer_map d = map_of (map (\<lambda>p. (peerID p, p)) (dPeers d))"

lemmas data_defs = setPeerID_def setNickname_def setCurrentChannel_def setPeers_def addPeer_def
  removePeer_def updatePeer_def addMessageToHistory_def clearMessageHistory_def
  clearAllMessageHistory_def markMessageProcessed_def clearProcessedMessages_def
  cleanupStalePeers_def cleanupOldMessages_def cleanupOldProcessedMessages_def

section \<open>Lemmas\<close>

lemma set_update_first_ids: "set (map peerID (update_first p ps)) = insert (peerID p) (set (map peerID ps))"
  by (induction ps) auto

lemma distinct_update_first: "distinct (map peerID ps) \<Longrightarrow> distinct (map peerID (update_first p ps))"
proof (induction ps)
  case (Cons q ps)
  then show ?case using set_update_first_ids [of p ps] by auto
qed simp

lemma find_update_first:
  "find (\<lambda>q. peerID q = k) (update_first p ps) = (if k = peerID p then Some p else find (\<lambda>q. peerID q = k) ps)"
  by (induction ps) auto

lemma find_filter_ne:
  "find (\<lambda>q. peerID q = k) (filter (\<lambda>q. peerID q \<noteq> k') ps)
     = (if k = k' then None else find (\<lambda>q. peerID q = k) ps)"
  by (induction ps) auto

lemma find_map_of: "find (\<lambda>q. peerID q = k) ps = map_of (map (\<lambda>p. (peerID p, p)) ps) k"
  by (induction ps) auto

lemma getPeerInfo_peer_map: "getPeerInfo d = peer_map d"
  by (simp add: fun_eq_iff getPeerInfo_def peer_map_def find_map_of)

lemma getPeerInfo_key [dest]: "getPeerInfo d k = Some p \<Longrightarrow> peerID p = k"
  by (auto simp: getPeerInfo_def find_Some_iff)

interpretation peers: directory getPeerInfo addPeer removePeer peerID
  by unfold_locales (simp_all add: getPeerInfo_def addPeer_def removePeer_def find_update_first find_filter_ne)

lemma updatePeer_addPeer: "updatePeer = addPeer"
  by (simp add: fun_eq_iff updatePeer_def addPeer_def)

interpretation peer_updates: directory getPeerInfo updatePeer removePeer peerID
  unfolding updatePeer_addPeer ..

lemma peer_map_ops:
  "peer_map (addPeer p d) = (peer_map d)(peerID p \<mapsto> p)"
  "peer_map (updatePeer p d) = (peer_map d)(peerID p \<mapsto> p)"
  "peer_map (removePeer k d) = (peer_map d)(k := None)"
  using peers.lookup_put [of p d] peer_updates.lookup_put [of p d] peers.lookup_del [of k d]
  by (auto simp: fun_eq_iff getPeerInfo_peer_map)

lemma find_filter_distinct:
  "distinct (map peerID ps) \<Longrightarrow> find (\<lambda>q. peerID q = k) (filter P ps)
     = (case find (\<lambda>q. peerID q = k) ps of Some p \<Rightarrow> if P p then Some p else None | None \<Rightarrow> None)"
proof (induction ps)
  case (Cons q ps)
  have "find (\<lambda>q. peerID q = k) ps = None" if "peerID q = k"
    using Cons.prems that by (auto simp: find_None_iff image_iff)
  with Cons show ?case by auto
qed simp

lemma getPeerInfo_cleanup [store_simps]:
  assumes "data_inv d"
  shows "getPeerInfo (cleanupStalePeers now d) k = (case getPeerInfo d k of
     Some p \<Rightarrow> if isStale now PEER_TIMEOUT_SECONDS p then None else Some p | None \<Rightarrow> None)"
  using assms
  by (auto simp: data_inv_def getPeerInfo_def cleanupStalePeers_def find_filter_distinct split: option.splits)

text \<open>The history of one channel, as the log the services append to.\<close>

interpretation hist: bounded_log "\<lambda>d. getMessageHistory d c" "\<lambda>m. addMessageToHistory m c" MAX_HISTORY_SIZE
  by unfold_locales (auto simp: getMessageHistory_def addMessageToHistory_def target_channel_def Let_def
      split: option.splits)

lemma history_other_channel [store_simps]:
  "target_channel d c \<noteq> target_channel d c' \<Longrightarrow>
     getMessageHistory (addMessageToHistory m c d) c' = getMessageHistory d c'"
  by (auto simp: getMessageHistory_def addMessageToHistory_def target_channel_def Let_def split: if_splits)

lemma target_channel_add [simp]: "target_channel (addMessageToHistory m c d) = target_channel d"
  by (simp add: fun_eq_iff target_channel_def addMessageToHistory_def Let_def)

lemma history_fold_other_channel:
  "target_channel d c \<noteq> target_channel d c' \<Longrightarrow>
     getMessageHistory (fold (\<lambda>m. addMessageToHistory m c) ms d) c' = getMessageHistory d c'"
  by (induction ms arbitrary: d) (simp_all add: history_other_channel)

lemma data_inv_iff: "data_inv d \<longleftrightarrow> distinct (map peerID (dPeers d)) \<and> data_bounded d"
  by (simp add: data_inv_def data_bounded_def)

lemma history_bounded: "data_bounded d \<Longrightarrow> length (getMessageHistory d c) \<le> MAX_HISTORY_SIZE"
  by (auto simp: data_bounded_def getMessageHistory_def split: option.splits)

lemma getMessageHistory_bounded: "data_inv d \<Longrightarrow> length (getMessageHistory d c) \<le> MAX_HISTORY_SIZE"
  by (simp add: data_inv_iff history_bounded)

lemma data_inv_initial: "data_inv (initialData n)"
  by (simp add: data_inv_def initialData_def)

lemma data_inv_mark: "data_inv d \<Longrightarrow> data_inv (markMessageProcessed s d)"
  by (auto simp: data_inv_def markMessageProcessed_def Let_def)

lemma data_inv_addMessage: "data_inv d \<Longrightarrow> data_inv (addMessageToHistory m s d)"
  by (auto simp: data_inv_def addMessageToHistory_def Let_def split: option.splits)

lemma data_inv_peers:
  "data_inv d \<Longrightarrow> distinct (map peerID ps) \<Longrightarrow> data_inv (d\<lparr>dPeers := ps\<rparr>)"
  by (simp add: data_inv_def)

lemma data_inv_distinct: "data_inv d \<Longrightarrow> distinct (map peerID (dPeers d))"
  by (simp add: data_inv_def)

lemma data_inv_peer_ops:
  assumes "data_inv d"
  shows "data_inv (addPeer p d)" "data_inv (updatePeer p d)" "data_inv (removePeer s d)"
    "data_inv (cleanupStalePeers now d)"
  unfolding addPeer_def updatePeer_def removePeer_def cleanupStalePeers_def
  by (intro data_inv_peers assms distinct_update_first filter_map_fst_distinct data_inv_distinct)+

lemma data_bounded_cleanupOldMessages: "data_bounded d \<Longrightarrow> data_bounded (cleanupOldMessages n d)"
  by (fastforce simp: data_bounded_def cleanupOldMessages_def)

lemma data_bounded_step: "data_step given d d' \<Longrightarrow> data_bounded d \<Longrightarrow> data_bounded d'"
  by (induction rule: data_step.induct) (simp_all add: data_bounded_cleanupOldMessages,
    auto simp: data_bounded_def data_defs Let_def split: option.splits)

lemma data_reachable_bounded: "data_reachable given d \<Longrightarrow> data_bounded d"
  by (induction rule: data_reachable.induct) (use data_inv_initial in \<open>auto simp: data_inv_iff intro: data_bounded_step\<close>)

text \<open>The peers stay distinct in a step, unless \<open>setPeers\<close> is given a list that is not.\<close>

lemma distinct_step:
  "data_step given d d' \<Longrightarrow> \<forall>ps \<in> given. distinct (map peerID ps) \<Longrightarrow> distinct (map peerID (dPeers d))
     \<Longrightarrow> distinct (map peerID (dPeers d'))"
  by (induction rule: data_step.induct)
    (simp_all add: data_defs Let_def distinct_update_first filter_map_fst_distinct)

lemma data_reachable_distinct:
  "data_reachable given d \<Longrightarrow> \<forall>ps \<in> given. distinct (map peerID ps) \<Longrightarrow> distinct (map peerID (dPeers d))"
  by (induction rule: data_reachable.induct) (auto simp: initialData_def dest: distinct_step)

lemma seen_after_mark [store_simps]:
  assumes "data_inv d"
  shows "wasMessageProcessed (markMessageProcessed m d) k \<longleftrightarrow>
    (wasMessageProcessed d m \<or> card (dProcessedMessages d) < MAX_PROCESSED_MESSAGES) \<and>
    (k = m \<or> wasMessageProcessed d k)"
proof (cases "m \<in> dProcessedMessages d")
  case True
  with assms show ?thesis
    by (auto simp: wasMessageProcessed_def markMessageProcessed_def data_inv_def insert_absorb Let_def)
next
  case False
  with assms show ?thesis
    by (auto simp: wasMessageProcessed_def markMessageProcessed_def data_inv_def Let_def)
qed

section \<open>Properties\<close>

text \<open>
  C10: the peer list of a store that keeps its invariant implements a finite map.  Adding or updating a peer is a map update at its
  identifier, removing one is a map deletion, and removing the stale ones keeps exactly the entries
  last seen at most 180 seconds ago; a peer is online exactly when the map has such an entry for it, and
  the number of peers is the number of identifiers in the map.
\<close>

theorem peers_refine_map:
  assumes "data_inv d"
  shows "peer_map (addPeer p d) = (peer_map d)(peerID p \<mapsto> p)
    \<and> peer_map (updatePeer p d) = (peer_map d)(peerID p \<mapsto> p)
    \<and> peer_map (removePeer k d) = (peer_map d)(k := None)
    \<and> peer_map (cleanupStalePeers now d) =
        (\<lambda>i. case peer_map d i of None \<Rightarrow> None | Some q \<Rightarrow> if now - peerLastSeen q \<le> 180 then Some q else None)
    \<and> (isPeerOnline now d i \<longleftrightarrow> (\<exists>q. peer_map d i = Some q \<and> now - peerLastSeen q \<le> 180))
    \<and> getPeersCount d = card (dom (peer_map d))"
proof (intro conjI)
  show "getPeersCount d = card (dom (peer_map d))"
    using distinct_card [OF data_inv_distinct [OF assms]]
    by (simp add: getPeersCount_def peer_map_def dom_map_of_conv_image_fst image_image comp_def)
  show "peer_map (cleanupStalePeers now d) =
        (\<lambda>i. case peer_map d i of None \<Rightarrow> None | Some q \<Rightarrow> if now - peerLastSeen q \<le> 180 then Some q else None)"
    unfolding getPeerInfo_peer_map [symmetric]
    by (auto simp: fun_eq_iff getPeerInfo_cleanup [OF assms] isStale_def split: option.splits)
  show "isPeerOnline now d i \<longleftrightarrow> (\<exists>q. peer_map d i = Some q \<and> now - peerLastSeen q \<le> 180)"
    unfolding getPeerInfo_peer_map [symmetric]
    by (auto simp: isPeerOnline_def getPeerInfo_def [symmetric] isStale_def split: option.splits)
qed (rule peer_map_ops)+

theorem peers_refine_map_witness:
  "data_inv (initialData 7) \<and>
   peer_map (addPeer (newPeer 5 ''ab'' ''bob'') (initialData 7)) ''ab'' = Some (newPeer 5 ''ab'' ''bob'')"
  using data_inv_initial [of 7] peers_refine_map [OF data_inv_initial [of 7], of "newPeer 5 ''ab'' ''bob''"]
  by (simp add: newPeer_def updateLastSeen_def)

text \<open>
  C25: the store stays bounded.  In every state reachable by calls of its methods from the state the constructor
  makes, in any order and with any arguments, a channel has at most 1000 messages and at most 1000
  processed identifiers are stored; and there is one entry per peer identifier, provided that every vector given to
  \<open>setPeers\<close>, which nothing in the repository calls and which stores what it is given, has one entry per identifier.
\<close>

theorem reachable_data_bounded:
  assumes "data_reachable given d"
  shows "length (getMessageHistory d c) \<le> 1000 \<and> finite (dProcessedMessages d) \<and> card (dProcessedMessages d) \<le> 1000
    \<and> ((\<forall>ps \<in> given. distinct (map peerID ps)) \<longrightarrow> distinct (map peerID (dPeers d)))"
  using data_reachable_bounded [OF assms] data_reachable_distinct [OF assms] history_bounded [of d c]
  by (simp add: data_bounded_def)

theorem reachable_data_bounded_witness:
  "let p = newPeer 5 ''ab'' ''bob''; d = setPeers [p, p] (initialData 7); d' = addPeer p (initialData 7)
   in data_reachable UNIV d \<and> card (dProcessedMessages d) \<le> 1000 \<and> data_reachable {} d' \<and> distinct (map peerID (dPeers d'))"
proof -
  let ?p = "newPeer 5 ''ab'' ''bob''"
  have d: "data_reachable UNIV (setPeers [?p, ?p] (initialData 7))" by (rule reach_step [OF reach_init step_setPeers]) simp
  have d': "data_reachable {} (addPeer ?p (initialData 7))" by (rule reach_step [OF reach_init step_addPeer])
  show ?thesis unfolding Let_def using d d' reachable_data_bounded [OF d] reachable_data_bounded [OF d'] by blast
qed

text \<open>
  The history of a channel is the last 1000 messages added to it, in order, and other channels
  are not affected.
\<close>

theorem history_is_recent:
  assumes "data_inv d"
  shows "getMessageHistory (fold (\<lambda>m. addMessageToHistory m c) ms d) c
      = drop (length (getMessageHistory d c) + length ms - 1000) (getMessageHistory d c @ ms)
    \<and> (target_channel d c' \<noteq> target_channel d c \<longrightarrow>
        getMessageHistory (fold (\<lambda>m. addMessageToHistory m c) ms d) c' = getMessageHistory d c')"
  using hist.contents_fold_push [OF getMessageHistory_bounded [OF assms], of c ms]
    history_fold_other_channel [of d c c' ms] by simp

text \<open>
  Duplicate suppression forgets.  After a message identifier is marked it is known exactly when
  it was known before or fewer than 1000 identifiers were stored: marking a new identifier when the
  set is full clears the set, the identifier just marked included.
\<close>

theorem mark_processed_iff:
  assumes "data_inv d"
  shows "wasMessageProcessed (markMessageProcessed m d) m \<longleftrightarrow>
      wasMessageProcessed d m \<or> card (dProcessedMessages d) < 1000"
  using seen_after_mark [OF assms, of m m] by simp

end
