(* ===== verification/Noise.thy ===== *)
theory Noise
  imports Bitchat_Data "HOL-Library.List_Lexorder" "HOL-Library.Char_ord"
begin

text \<open>
  The Noise session layer: \<open>NoiseSessionDefault\<close>, \<open>NoiseService\<close>, \<open>NoiseHelper\<close> and the error messages
  of \<open>NoiseSecurityError\<close>.  A method that throws returns \<^const>\<open>Inl\<close>; the state is then what it was,
  because every method of these classes checks before it writes.  A session object is shared by
  pointer between the map and the method that uses it, so writing to it is an update of the map at the
  peer's key.  \<open>std::unordered_map\<close> promises no iteration order, so a method that iterates takes
  the order as an argument, any enumeration of the keys.  The clock is an argument, in nanoseconds.

  \<open>std::string\<close> compares bytes as unsigned values, which is the lexicographic order of
  \<open>List_Lexorder\<close> over the order of \<open>Char_ord\<close>.
\<close>

section \<open>Roles and error messages\<close>

datatype NoiseRole = Initiator | Responder

definition noiseRoleToString :: "NoiseRole \<Rightarrow> string" where
  "noiseRoleToString role = (case role of Initiator \<Rightarrow> ''Initiator'' | Responder \<Rightarrow> ''Responder'')"

definition noiseRoleFromString :: "string \<Rightarrow> fault + NoiseRole" where
  "noiseRoleFromString roleStr =
     (if roleStr = ''Initiator'' then Inr Initiator
      else if roleStr = ''Responder'' then Inr Responder
      else Inl InvalidArgument)"

datatype NoiseSecurityErrorType = NoError | InvalidHandshakeMessage | InvalidPeerID | KeyGenerationFailed
  | SessionExpired | MessageLimitExceeded | InvalidCiphertext | HandshakeTimeout | InvalidState
  | UnsupportedAlgorithm

fun securityErrorMessage :: "NoiseSecurityErrorType \<Rightarrow> string" where
  "securityErrorMessage NoError = ''No error''"
| "securityErrorMessage InvalidHandshakeMessage = ''Invalid handshake message''"
| "securityErrorMessage InvalidPeerID = ''Invalid peer ID''"
| "securityErrorMessage KeyGenerationFailed = ''Key generation failed''"
| "securityErrorMessage SessionExpired = ''Session expired''"
| "securityErrorMessage MessageLimitExceeded = ''Message limit exceeded''"
| "securityErrorMessage InvalidCiphertext = ''Invalid ciphertext''"
| "securityErrorMessage HandshakeTimeout = ''Handshake timeout''"
| "securityErrorMessage InvalidState = ''Invalid state''"
| "securityErrorMessage UnsupportedAlgorithm = ''Unsupported algorithm''"

definition securityErrorWhat :: "NoiseSecurityErrorType \<Rightarrow> string \<Rightarrow> string" where
  "securityErrorWhat type message = (if message = [] then securityErrorMessage type else message)"

section \<open>NoiseSessionDefault\<close>

record NoiseSession =
  nsPeerID :: string
  nsRole :: NoiseRole
  nsLocalStaticKey :: bytes
  nsRemoteStaticKey :: "bytes option"
  nsHandshakeHash :: "bytes option"
  nsEstablished :: bool
  nsMessageCount :: u64
  nsLastActivityTime :: int
  nsCreationTime :: int

definition newSession :: "int \<Rightarrow> string \<Rightarrow> NoiseRole \<Rightarrow> bytes \<Rightarrow> NoiseSession" where
  "newSession now pid role key = \<lparr>nsPeerID = pid, nsRole = role, nsLocalStaticKey = key,
     nsRemoteStaticKey = None, nsHandshakeHash = None, nsEstablished = False, nsMessageCount = 0,
     nsLastActivityTime = now, nsCreationTime = now\<rparr>"

definition sessionEncrypt :: "int \<Rightarrow> bytes \<Rightarrow> NoiseSession \<Rightarrow> fault + (bytes \<times> NoiseSession)" where
  "sessionEncrypt now plaintext s =
     (if \<not> nsEstablished s then Inl (RuntimeError ''Session not established'')
      else Inr (plaintext, s\<lparr>nsMessageCount := nsMessageCount s + 1, nsLastActivityTime := now\<rparr>))"

definition sessionDecrypt :: "int \<Rightarrow> bytes \<Rightarrow> NoiseSession \<Rightarrow> fault + (bytes \<times> NoiseSession)" where
  "sessionDecrypt now ciphertext s =
     (if \<not> nsEstablished s then Inl (RuntimeError ''Session not established'')
      else Inr (ciphertext, s\<lparr>nsMessageCount := nsMessageCount s + 1, nsLastActivityTime := now\<rparr>))"

definition startHandshake :: "NoiseSession \<Rightarrow> fault + (bytes option \<times> NoiseSession)" where
  "startHandshake s =
     (if nsEstablished s then Inl (RuntimeError ''Session already established'')
      else Inr (Some ([0x01, 0x02, 0x03] @ take 3 (nsLocalStaticKey s)),
             s\<lparr>nsEstablished := True, nsHandshakeHash := Some (replicate 32 0)\<rparr>))"

definition processHandshakeMessage :: "bytes \<Rightarrow> NoiseSession \<Rightarrow> fault + (bytes option \<times> NoiseSession)" where
  "processHandshakeMessage message s =
     (if nsEstablished s then Inl (RuntimeError ''Session already established'')
      else Inr (Some ([0x04, 0x05, 0x06] @ take 3 (drop 3 (nsLocalStaticKey s))),
             s\<lparr>nsEstablished := True, nsHandshakeHash := Some (replicate 32 0)\<rparr>))"

definition handshakeInProgress :: "NoiseSession \<Rightarrow> bool" where
  "handshakeInProgress s = (\<not> nsEstablished s)"

abbreviation NOISE_SESSION_TIMEOUT :: int where
  "NOISE_SESSION_TIMEOUT \<equiv> 24 * 3600 * 1000000000"

definition needsRenegotiation :: "int \<Rightarrow> NoiseSession \<Rightarrow> bool" where
  "needsRenegotiation now s =
     (if now - nsCreationTime s > NOISE_SESSION_TIMEOUT then True
      else if nsMessageCount s \<ge> 900000000 then True
      else False)"

section \<open>NoiseService\<close>

record NoiseService =
  svLocalStaticKey :: bytes
  svSessions :: "string \<rightharpoonup> NoiseSession"

definition newNoiseService :: "bytes \<Rightarrow> NoiseService" where
  "newNoiseService key = \<lparr>svLocalStaticKey = key, svSessions = Map.empty\<rparr>"

definition storeSession :: "string \<Rightarrow> NoiseSession \<Rightarrow> NoiseService \<Rightarrow> NoiseService" where
  "storeSession pid s sv = sv\<lparr>svSessions := (svSessions sv)(pid \<mapsto> s)\<rparr>"

definition createSession :: "int \<Rightarrow> string \<Rightarrow> NoiseRole \<Rightarrow> NoiseService \<Rightarrow> NoiseSession \<times> NoiseService" where
  "createSession now pid role sv =
     (let session = newSession now pid role (svLocalStaticKey sv) in (session, storeSession pid session sv))"

definition getSession :: "NoiseService \<Rightarrow> string \<Rightarrow> NoiseSession option" where
  "getSession sv pid = svSessions sv pid"

definition removeSession :: "string \<Rightarrow> NoiseService \<Rightarrow> NoiseService" where
  "removeSession pid sv = sv\<lparr>svSessions := (svSessions sv)(pid := None)\<rparr>"

definition getEstablishedSessions :: "NoiseService \<Rightarrow> string \<rightharpoonup> NoiseSession" where
  "getEstablishedSessions sv = (\<lambda>pid. case svSessions sv pid of
     Some s \<Rightarrow> if nsEstablished s then Some s else None | None \<Rightarrow> None)"

definition resolveRole :: "string \<Rightarrow> string \<Rightarrow> NoiseRole" where
  "resolveRole localPeerID remotePeerID = (if localPeerID < remotePeerID then Initiator else Responder)"

abbreviation noSession :: "string \<Rightarrow> fault" where
  "noSession pid \<equiv> RuntimeError (''No session found for peer: '' @ pid)"

definition initiateHandshake :: "string \<Rightarrow> NoiseService \<Rightarrow> fault + (bytes \<times> NoiseService)" where
  "initiateHandshake pid sv =
     (case getSession sv pid of
        None \<Rightarrow> Inl (noSession pid)
      | Some session \<Rightarrow> rbind (startHandshake session) (\<lambda>(handshakeMessage, session).
          case handshakeMessage of
            None \<Rightarrow> Inl (RuntimeError (''Failed to start handshake for peer: '' @ pid))
          | Some msg \<Rightarrow> Inr (msg, storeSession pid session sv)))"

definition handleIncomingHandshake ::
    "int \<Rightarrow> string \<Rightarrow> bytes \<Rightarrow> string \<Rightarrow> NoiseService \<Rightarrow> fault + (bytes option \<times> NoiseService)" where
  "handleIncomingHandshake now pid message localPeerID sv =
     (let (session, sv) = (case getSession sv pid of
            None \<Rightarrow> createSession now pid (resolveRole localPeerID pid) sv
          | Some session \<Rightarrow> (session, sv))
      in rbind (processHandshakeMessage message session)
           (\<lambda>(response, session). Inr (response, storeSession pid session sv)))"

definition noiseEncrypt :: "int \<Rightarrow> bytes \<Rightarrow> string \<Rightarrow> NoiseService \<Rightarrow> fault + (bytes \<times> NoiseService)" where
  "noiseEncrypt now plaintext pid sv =
     (case getSession sv pid of
        None \<Rightarrow> Inl (noSession pid)
      | Some session \<Rightarrow> rbind (sessionEncrypt now plaintext session)
          (\<lambda>(c, session). Inr (c, storeSession pid session sv)))"

definition noiseDecrypt :: "int \<Rightarrow> bytes \<Rightarrow> string \<Rightarrow> NoiseService \<Rightarrow> fault + (bytes \<times> NoiseService)" where
  "noiseDecrypt now ciphertext pid sv =
     (case getSession sv pid of
        None \<Rightarrow> Inl (noSession pid)
      | Some session \<Rightarrow> rbind (sessionDecrypt now ciphertext session)
          (\<lambda>(p, session). Inr (p, storeSession pid session sv)))"

definition isSessionEstablished :: "NoiseService \<Rightarrow> string \<Rightarrow> bool" where
  "isSessionEstablished sv pid = (case getSession sv pid of None \<Rightarrow> False | Some s \<Rightarrow> nsEstablished s)"

definition hasEstablishedSession :: "NoiseService \<Rightarrow> string \<Rightarrow> bool" where
  "hasEstablishedSession sv pid = isSessionEstablished sv pid"

definition iteration_order :: "string list \<Rightarrow> NoiseService \<Rightarrow> bool" where
  "iteration_order order sv \<longleftrightarrow> distinct order \<and> set order = dom (svSessions sv)"

definition getEstablishedSessionIDs :: "string list \<Rightarrow> NoiseService \<Rightarrow> string list" where
  "getEstablishedSessionIDs order sv = filter (\<lambda>pid. case svSessions sv pid of
     Some s \<Rightarrow> nsEstablished s | None \<Rightarrow> False) order"

definition getRemoteStaticKey :: "NoiseService \<Rightarrow> string \<Rightarrow> bytes option" where
  "getRemoteStaticKey sv pid = (case getSession sv pid of None \<Rightarrow> None | Some s \<Rightarrow> nsRemoteStaticKey s)"

definition getHandshakeHash :: "NoiseService \<Rightarrow> string \<Rightarrow> bytes option" where
  "getHandshakeHash sv pid = (case getSession sv pid of None \<Rightarrow> None | Some s \<Rightarrow> nsHandshakeHash s)"

definition getSessionsNeedingRekey :: "int \<Rightarrow> string list \<Rightarrow> NoiseService \<Rightarrow> (string \<times> bool) list" where
  "getSessionsNeedingRekey now order sv = map (\<lambda>pid. (pid, True)) (filter (\<lambda>pid. case svSessions sv pid of
     Some s \<Rightarrow> nsEstablished s \<and> needsRenegotiation now s | None \<Rightarrow> False) order)"

definition initiateRekey :: "string \<Rightarrow> NoiseService \<Rightarrow> fault + NoiseService" where
  "initiateRekey pid sv =
     (case getSession sv pid of
        None \<Rightarrow> Inl (noSession pid)
      | Some session \<Rightarrow>
          if \<not> nsEstablished session then Inl (RuntimeError (''Session not established for peer: '' @ pid))
          else rbind (startHandshake session) (\<lambda>(handshakeMessage, session).
            case handshakeMessage of
              None \<Rightarrow> Inl (RuntimeError (''Failed to start rekey handshake for peer: '' @ pid))
            | Some msg \<Rightarrow> Inr (storeSession pid session sv)))"

text \<open>
  The calls the program makes that return: \<open>MessageService\<close> calls the handshake, encryption and
  decryption methods, and \<open>createSession\<close> is called only inside \<open>handleIncomingHandshake\<close>.
\<close>

inductive noise_step :: "NoiseService \<Rightarrow> NoiseService \<Rightarrow> bool" where
  step_initiate: "initiateHandshake pid sv = Inr (msg, sv') \<Longrightarrow> noise_step sv sv'"
| step_incoming: "handleIncomingHandshake now pid msg local sv = Inr (resp, sv') \<Longrightarrow> noise_step sv sv'"
| step_encrypt: "noiseEncrypt now bs pid sv = Inr (out, sv') \<Longrightarrow> noise_step sv sv'"
| step_decrypt: "noiseDecrypt now bs pid sv = Inr (out, sv') \<Longrightarrow> noise_step sv sv'"
| step_rekey: "initiateRekey pid sv = Inr sv' \<Longrightarrow> noise_step sv sv'"
| step_remove: "noise_step sv (removeSession pid sv)"

inductive noise_reachable :: "bytes \<Rightarrow> NoiseService \<Rightarrow> bool" for key where
  noise_init: "noise_reachable key (newNoiseService key)"
| noise_next: "noise_reachable key sv \<Longrightarrow> noise_step sv sv' \<Longrightarrow> noise_reachable key sv'"

definition noise_inv :: "bytes \<Rightarrow> NoiseService \<Rightarrow> bool" where
  "noise_inv key sv \<longleftrightarrow> svLocalStaticKey sv = key \<and> (\<forall>pid s. getSession sv pid = Some s \<longrightarrow>
     nsEstablished s \<and> nsPeerID s = pid \<and> nsHandshakeHash s = Some (replicate 32 0) \<and> nsRemoteStaticKey s = None)"

lemmas session_defs = sessionEncrypt_def sessionDecrypt_def startHandshake_def processHandshakeMessage_def
lemmas noise_call_defs = initiateHandshake_def handleIncomingHandshake_def noiseEncrypt_def noiseDecrypt_def
  initiateRekey_def createSession_def

section \<open>Lemmas\<close>

interpretation sess: directory "\<lambda>sv k. map_option (Pair k) (getSession sv k)"
  "\<lambda>(k, s). storeSession k s" removeSession fst
  by unfold_locales (auto simp: getSession_def storeSession_def removeSession_def)

lemma getSession_store [store_simps]:
  "getSession (storeSession k s sv) k' = (if k' = k then Some s else getSession sv k')"
  by (simp add: getSession_def storeSession_def)

lemma getSession_remove [store_simps]:
  "getSession (removeSession k sv) k' = (if k' = k then None else getSession sv k')"
  by (simp add: getSession_def removeSession_def)

lemma local_key_store [simp]:
  "svLocalStaticKey (storeSession k s sv) = svLocalStaticKey sv"
  "svLocalStaticKey (removeSession k sv) = svLocalStaticKey sv"
  by (simp_all add: storeSession_def removeSession_def)

lemma storeSession_twice [simp]: "storeSession k s (storeSession k s' sv) = storeSession k s sv"
  by (simp add: storeSession_def)

lemma initiateRekey_throws: "\<exists>e. initiateRekey pid sv = Inl (RuntimeError e)"
  by (auto simp: initiateRekey_def startHandshake_def split: option.splits)

lemma noise_inv_init: "noise_inv key (newNoiseService key)"
  by (simp add: noise_inv_def newNoiseService_def getSession_def)

lemma noise_inv_store:
  assumes "noise_inv key sv" "nsEstablished s" "nsPeerID s = pid"
    "nsHandshakeHash s = Some (replicate 32 0)" "nsRemoteStaticKey s = None"
  shows "noise_inv key (storeSession pid s sv)"
  using assms by (simp add: noise_inv_def store_simps)

lemma noise_invD:
  "noise_inv key sv \<Longrightarrow> getSession sv pid = Some s \<Longrightarrow>
     nsEstablished s \<and> nsPeerID s = pid \<and> nsHandshakeHash s = Some (replicate 32 0) \<and> nsRemoteStaticKey s = None"
  by (auto simp: noise_inv_def)

lemma initiate_throws_inv: "noise_inv key sv \<Longrightarrow> initiateHandshake pid sv =
    Inl (if getSession sv pid = None then noSession pid else RuntimeError ''Session already established'')"
  using noise_invD [of key sv pid] by (auto simp: initiateHandshake_def startHandshake_def split: option.splits)

lemma incoming_Inr:
  assumes "noise_inv key sv" "handleIncomingHandshake now pid msg local sv = Inr (resp, sv')"
  shows "getSession sv pid = None \<and> resp = Some ([0x04, 0x05, 0x06] @ take 3 (drop 3 key))
    \<and> noise_inv key sv' \<and> getSession sv' pid = Some ((newSession now pid (resolveRole local pid) key)
        \<lparr>nsEstablished := True, nsHandshakeHash := Some (replicate 32 0)\<rparr>)"
proof (cases "getSession sv pid")
  case None
  with assms show ?thesis
    by (auto simp: handleIncomingHandshake_def createSession_def processHandshakeMessage_def Let_def
        newSession_def store_simps noise_inv_def split: if_splits)
next
  case (Some s)
  with assms noise_invD [OF assms(1) Some] show ?thesis
    by (simp add: handleIncomingHandshake_def processHandshakeMessage_def)
qed

lemma noise_inv_step:
  assumes "noise_step sv sv'" "noise_inv key sv"
  shows "noise_inv key sv'"
  using assms
proof (induction rule: noise_step.induct)
  case (step_initiate pid sv msg sv')
  then show ?case using initiate_throws_inv [of key sv pid] by simp
next
  case (step_incoming now pid msg local sv resp sv')
  then show ?case using incoming_Inr by blast
next
  case (step_encrypt now bs pid sv out sv')
  then show ?case
    by (auto simp: noiseEncrypt_def sessionEncrypt_def noise_invD split: option.splits if_splits
        intro!: noise_inv_store dest: noise_invD)
next
  case (step_decrypt now bs pid sv out sv')
  then show ?case
    by (auto simp: noiseDecrypt_def sessionDecrypt_def noise_invD split: option.splits if_splits
        intro!: noise_inv_store dest: noise_invD)
next
  case (step_rekey pid sv sv')
  then show ?case using initiateRekey_throws [of pid sv] by simp
next
  case (step_remove sv pid)
  then show ?case by (auto simp: noise_inv_def store_simps)
qed

lemma noise_reachable_inv: "noise_reachable key sv \<Longrightarrow> noise_inv key sv"
  by (induction rule: noise_reachable.induct) (auto intro: noise_inv_init noise_inv_step)

lemma iteration_order_ids:
  "iteration_order order sv \<Longrightarrow> pid \<in> set (getEstablishedSessionIDs order sv) \<longleftrightarrow> isSessionEstablished sv pid"
  by (auto simp: iteration_order_def getEstablishedSessionIDs_def isSessionEstablished_def getSession_def
      split: option.splits)

lemma length_incoming_response:
  "length key = 32 \<Longrightarrow> length ([0x04, 0x05, 0x06] @ take 3 (drop 3 key) :: bytes) = 6"
  by simp

section \<open>Properties\<close>

text \<open>
  C34: the session service, in every state the program can reach, holds established sessions only, and
  neither end ever starts a handshake: \<open>initiateHandshake\<close> and \<open>initiateRekey\<close> always throw, because
  sessions are created only while an incoming handshake is processed, which establishes them, and
  starting one is refused once it is established.
\<close>

theorem handshake_never_initiated:
  assumes "noise_reachable key sv"
  shows "initiateHandshake pid sv = Inl (if getSession sv pid = None then noSession pid
           else RuntimeError ''Session already established'')
    \<and> (\<exists>e. initiateRekey pid sv = Inl (RuntimeError e))
    \<and> isSessionEstablished sv pid = (getSession sv pid \<noteq> None)"
  using initiate_throws_inv [OF noise_reachable_inv [OF assms], of pid] initiateRekey_throws [of pid sv]
    noise_invD [OF noise_reachable_inv [OF assms], of pid]
  by (auto simp: isSessionEstablished_def split: option.splits)

theorem handshake_never_initiated_witness:
  "noise_reachable [1] (newNoiseService [1]) \<and> initiateHandshake ''ab'' (newNoiseService [1]) = Inl (noSession ''ab'')"
  using noise_init [of "[1]"] handshake_never_initiated [OF noise_init, of "''ab''" "[1]"]
  by (simp add: newNoiseService_def getSession_def)

text \<open>
  An incoming handshake message.  In a reachable state it is accepted exactly when there is no
  session with the peer; then the session is created with the role the two identifiers determine and
  is established at once, whatever the message holds, and the reply is six bytes, three of them of the
  local static key.  Otherwise it throws.
\<close>

theorem incoming_handshake:
  assumes "noise_reachable key sv" "length key = 32"
  shows "handleIncomingHandshake now pid msg local sv =
    (if getSession sv pid \<noteq> None then Inl (RuntimeError ''Session already established'')
     else Inr (Some ([0x04, 0x05, 0x06] @ [key ! 3, key ! 4, key ! 5]),
       storeSession pid ((newSession now pid (resolveRole local pid) key)
          \<lparr>nsEstablished := True, nsHandshakeHash := Some (replicate 32 0)\<rparr>) sv))"
proof (cases "getSession sv pid")
  case None
  have "take 3 (drop 3 key) = [key ! 3, key ! 4, key ! 5]"
    using assms(2) by (simp add: take_Suc_conv_app_nth numeral_3_eq_3 numeral_nat)
  moreover have "svLocalStaticKey sv = key" using noise_reachable_inv [OF assms(1)] by (simp add: noise_inv_def)
  ultimately show ?thesis using None
    by (simp add: handleIncomingHandshake_def createSession_def processHandshakeMessage_def newSession_def Let_def)
next
  case (Some s)
  with noise_invD [OF noise_reachable_inv [OF assms(1)] Some] show ?thesis
    by (simp add: handleIncomingHandshake_def processHandshakeMessage_def)
qed

text \<open>
  C35: what a session transports.  Between two peers that hold sessions for each other, encryption
  succeeds and hands out the plaintext itself, decryption returns it, and each end changes nothing
  but the message counter (modulo 2 to the 64) and the time of last activity of its own session.
\<close>

theorem transport_is_plaintext:
  assumes "noise_reachable k1 sv1" "getSession sv1 b = Some s1"
    and "noise_reachable k2 sv2" "getSession sv2 a = Some s2"
  shows "noiseEncrypt t1 p b sv1 = Inr (p, storeSession b
           (s1\<lparr>nsMessageCount := nsMessageCount s1 + 1, nsLastActivityTime := t1\<rparr>) sv1)
    \<and> noiseDecrypt t2 p a sv2 = Inr (p, storeSession a
           (s2\<lparr>nsMessageCount := nsMessageCount s2 + 1, nsLastActivityTime := t2\<rparr>) sv2)"
  using assms noise_invD [OF noise_reachable_inv [OF assms(1)] assms(2)]
    noise_invD [OF noise_reachable_inv [OF assms(3)] assms(4)]
  by (simp add: noiseEncrypt_def noiseDecrypt_def session_defs)

theorem transport_is_plaintext_witness:
  "\<exists>sv sv'. noise_reachable (replicate 32 9) sv \<and> noiseEncrypt 1 [7] ''cd'' sv = Inr ([7], sv')"
proof -
  let ?sv = "newNoiseService (replicate 32 9)"
  obtain r sv1 where 1: "handleIncomingHandshake 0 ''cd'' [] ''ab'' ?sv = Inr (r, sv1)"
    by (simp add: handleIncomingHandshake_def createSession_def processHandshakeMessage_def newSession_def
        getSession_def newNoiseService_def Let_def)
  have reach: "noise_reachable (replicate 32 9) sv1" by (rule noise_next [OF noise_init step_incoming [OF 1]])
  from incoming_Inr [OF noise_inv_init 1] obtain s where "getSession sv1 ''cd'' = Some s" by blast
  from transport_is_plaintext [OF reach this reach this] reach show ?thesis by blast
qed

text \<open>Two different peers resolve to opposite roles, and the one with the smaller identifier initiates.\<close>

theorem roles_complementary:
  assumes "a \<noteq> b"
  shows "resolveRole a b \<noteq> resolveRole b a \<and> (resolveRole a b = Initiator \<longleftrightarrow> a < b)
    \<and> noiseRoleFromString (noiseRoleToString (resolveRole a b)) = Inr (resolveRole a b)"
  using assms by (auto simp: resolveRole_def noiseRoleFromString_def noiseRoleToString_def)

end
