(* ===== verification/Noise_Migration.thy ===== *)
theory Noise_Migration
  imports Prelude "HOL-Library.Sublist"
begin

text \<open>
  Handshake patterns and migration between them: \<open>NoisePQHandshakePattern\<close> and
  \<open>NoiseProtocolMigration\<close> of \<open>src/bitchat/noise\<close>.  Patterns are strings and the code searches them with
  \<open>std::string::find\<close>; \<open>str_contains\<close> is that search.  The methods of the class that the source leaves
  as placeholders return constants and are modelled as such.
\<close>

section \<open>Patterns\<close>

datatype PatternType = XX | XX_PQ | IK | IK_PQ | XXfallback | XXfallback_PQ

fun patternTypeString :: "PatternType \<Rightarrow> string" where
  "patternTypeString XX = ''XX''"
| "patternTypeString XX_PQ = ''XX_PQ''"
| "patternTypeString IK = ''IK''"
| "patternTypeString IK_PQ = ''IK_PQ''"
| "patternTypeString XXfallback = ''XXfallback''"
| "patternTypeString XXfallback_PQ = ''XXfallback_PQ''"

fun isPostQuantum :: "PatternType \<Rightarrow> bool" where
  "isPostQuantum XX_PQ = True"
| "isPostQuantum IK_PQ = True"
| "isPostQuantum XXfallback_PQ = True"
| "isPostQuantum _ = False"

fun patternMessageCount :: "PatternType \<Rightarrow> nat" where
  "patternMessageCount XX = 3"
| "patternMessageCount XX_PQ = 3"
| "patternMessageCount IK = 2"
| "patternMessageCount IK_PQ = 2"
| "patternMessageCount XXfallback = 1"
| "patternMessageCount XXfallback_PQ = 1"

fun getPatternString :: "PatternType \<Rightarrow> string" where
  "getPatternString XX = ''Noise_XX_25519_ChaChaPoly_SHA256''"
| "getPatternString XX_PQ = ''Noise_XX_PQ_25519_ChaChaPoly_SHA256''"
| "getPatternString IK = ''Noise_IK_25519_ChaChaPoly_SHA256''"
| "getPatternString IK_PQ = ''Noise_IK_PQ_25519_ChaChaPoly_SHA256''"
| "getPatternString XXfallback = ''Noise_XXfallback_25519_ChaChaPoly_SHA256''"
| "getPatternString XXfallback_PQ = ''Noise_XXfallback_PQ_25519_ChaChaPoly_SHA256''"

fun getPostQuantumPatternString :: "PatternType \<Rightarrow> string" where
  "getPostQuantumPatternString XX_PQ = ''Noise_XX_PQ_25519_ChaChaPoly_SHA256''"
| "getPostQuantumPatternString IK_PQ = ''Noise_IK_PQ_25519_ChaChaPoly_SHA256''"
| "getPostQuantumPatternString XXfallback_PQ = ''Noise_XXfallback_PQ_25519_ChaChaPoly_SHA256''"
| "getPostQuantumPatternString _ = ''Noise_XX_25519_ChaChaPoly_SHA256''"

section \<open>Migration\<close>

fun str_contains :: "string \<Rightarrow> string \<Rightarrow> bool" where
  "str_contains pat [] = (pat = [])"
| "str_contains pat (c # s) = (take (length pat) (c # s) = pat \<or> str_contains pat s)"

datatype MigrationStrategy = NoMigration | Gradual | Immediate | Fallback

record ProtocolMigration =
  migStrategy :: MigrationStrategy
  migPQSupported :: bool

definition newMigration :: "MigrationStrategy \<Rightarrow> ProtocolMigration" where
  "newMigration strategy = \<lparr>migStrategy = strategy, migPQSupported = False\<rparr>"

definition setStrategy :: "MigrationStrategy \<Rightarrow> ProtocolMigration \<Rightarrow> ProtocolMigration" where
  "setStrategy strategy m = m\<lparr>migStrategy := strategy\<rparr>"

definition setPostQuantumSupported :: "bool \<Rightarrow> ProtocolMigration \<Rightarrow> ProtocolMigration" where
  "setPostQuantumSupported supported m = m\<lparr>migPQSupported := supported\<rparr>"

definition validMigrationPaths :: "(string \<times> string) list" where
  "validMigrationPaths =
    [(''Noise_XX_25519_ChaChaPoly_SHA256'', ''Noise_XX_PQ_25519_ChaChaPoly_SHA256''),
     (''Noise_IK_25519_ChaChaPoly_SHA256'', ''Noise_IK_PQ_25519_ChaChaPoly_SHA256''),
     (''Noise_XX_25519_ChaChaPoly_SHA256'', ''Noise_XXfallback_25519_ChaChaPoly_SHA256''),
     (''Noise_XX_PQ_25519_ChaChaPoly_SHA256'', ''Noise_XXfallback_PQ_25519_ChaChaPoly_SHA256''),
     (''Noise_XXfallback_25519_ChaChaPoly_SHA256'', ''Noise_XXfallback_PQ_25519_ChaChaPoly_SHA256'')]"

definition isValidMigrationPath :: "string \<Rightarrow> string \<Rightarrow> bool" where
  "isValidMigrationPath fromPattern toPattern \<longleftrightarrow>
     find (\<lambda>path. fst path = fromPattern \<and> snd path = toPattern) validMigrationPaths \<noteq> None"

definition isMigrationNeeded :: "string \<Rightarrow> string \<Rightarrow> bool" where
  "isMigrationNeeded currentPattern targetPattern =
     (if currentPattern = targetPattern then False else isValidMigrationPath currentPattern targetPattern)"

definition isFallbackNeeded :: "string \<Rightarrow> bool" where
  "isFallbackNeeded pattern = str_contains ''fallback'' pattern"

definition getFallbackPattern :: "string \<Rightarrow> string" where
  "getFallbackPattern pattern =
     (if str_contains ''Noise_XX_'' pattern then
        (if str_contains ''_PQ_'' pattern then ''Noise_XXfallback_PQ_25519_ChaChaPoly_SHA256''
         else ''Noise_XXfallback_25519_ChaChaPoly_SHA256'')
      else if str_contains ''Noise_IK_'' pattern then
        (if str_contains ''_PQ_'' pattern then ''Noise_XXfallback_PQ_25519_ChaChaPoly_SHA256''
         else ''Noise_XXfallback_25519_ChaChaPoly_SHA256'')
      else pattern)"

text \<open>The body shared by the cases \<open>Immediate\<close> and \<open>Gradual\<close> of the switch.\<close>

definition toPostQuantum :: "string \<Rightarrow> string" where
  "toPostQuantum currentPattern =
     (if \<not> str_contains ''_PQ_'' currentPattern then
        (if str_contains ''Noise_XX_'' currentPattern then ''Noise_XX_PQ_25519_ChaChaPoly_SHA256''
         else if str_contains ''Noise_IK_'' currentPattern then ''Noise_IK_PQ_25519_ChaChaPoly_SHA256''
         else currentPattern)
      else currentPattern)"

definition getRecommendedPattern :: "ProtocolMigration \<Rightarrow> string \<Rightarrow> bool \<Rightarrow> string" where
  "getRecommendedPattern m currentPattern pqSupported =
     (if \<not> pqSupported then
        (if str_contains ''_PQ_'' currentPattern then getFallbackPattern currentPattern else currentPattern)
      else case migStrategy m of
        Immediate \<Rightarrow> toPostQuantum currentPattern
      | Gradual \<Rightarrow> toPostQuantum currentPattern
      | Fallback \<Rightarrow> getFallbackPattern currentPattern
      | NoMigration \<Rightarrow> currentPattern)"

definition shouldMigrate :: "string \<Rightarrow> bool" where "shouldMigrate pid = False"
definition canMigrate :: "string \<Rightarrow> bool" where "canMigrate pid = False"
definition isMigrationInProgress :: "string \<Rightarrow> bool" where "isMigrationInProgress pid = False"
definition getMigrationPattern :: "string \<Rightarrow> string" where
  "getMigrationPattern pid = ''Noise_XX_25519_ChaChaPoly_SHA256''"
definition startMigration :: "string \<Rightarrow> ProtocolMigration \<Rightarrow> ProtocolMigration" where "startMigration pid m = m"
definition completeMigration :: "string \<Rightarrow> ProtocolMigration \<Rightarrow> ProtocolMigration" where "completeMigration pid m = m"
definition abortMigration :: "string \<Rightarrow> ProtocolMigration \<Rightarrow> ProtocolMigration" where "abortMigration pid m = m"
definition getMigrationCount :: nat where "getMigrationCount = 0"
definition getSuccessfulMigrations :: nat where "getSuccessfulMigrations = 0"
definition getFailedMigrations :: nat where "getFailedMigrations = 0"

section \<open>Lemmas\<close>

lemma str_contains_sublist: "str_contains pat s \<longleftrightarrow> sublist pat s"
proof (induction s)
  case (Cons c s)
  then show ?case by (simp add: sublist_Cons_right prefix_def) (metis append_eq_conv_conj append_take_drop_id)
qed simp

lemma pattern_markers [simp]:
  "str_contains ''_PQ_'' (getPatternString t) = isPostQuantum t"
  "str_contains ''Noise_XX_'' (getPatternString t) = (t = XX \<or> t = XX_PQ)"
  "str_contains ''Noise_IK_'' (getPatternString t) = (t = IK \<or> t = IK_PQ)"
  by (cases t; simp)+

lemma fallback_keeps_pq [simp]: "str_contains ''_PQ_'' (getFallbackPattern p) = str_contains ''_PQ_'' p"
  by (simp add: getFallbackPattern_def)

lemma fallback_idem [simp]: "getFallbackPattern (getFallbackPattern p) = getFallbackPattern p"
  by (auto simp: getFallbackPattern_def)

lemma toPostQuantum_idem [simp]: "toPostQuantum (toPostQuantum p) = toPostQuantum p"
  by (auto simp: toPostQuantum_def)

section \<open>Properties\<close>

text \<open>
  Recommending a pattern is idempotent for every strategy and every string, and when post-quantum
  handshakes are not supported the recommendation is a post-quantum pattern exactly if the current
  pattern is one: the fallback keeps the post-quantum marker it was meant to remove.
\<close>

theorem recommended_pattern_stable:
  "getRecommendedPattern m (getRecommendedPattern m p b) b = getRecommendedPattern m p b
   \<and> str_contains ''_PQ_'' (getRecommendedPattern m p False) = str_contains ''_PQ_'' p"
  by (cases "migStrategy m") (auto simp: getRecommendedPattern_def)

text \<open>
  The table of valid paths and the recommendations agree except for the IK patterns: a
  recommendation that changes one of the six patterns is a valid migration unless it is the fallback
  of an IK pattern, for which the table has no entry.
\<close>

theorem recommended_paths:
  "isMigrationNeeded (getPatternString t) (getRecommendedPattern m (getPatternString t) b) \<longleftrightarrow>
     getRecommendedPattern m (getPatternString t) b \<noteq> getPatternString t
     \<and> \<not> ((t = IK \<or> t = IK_PQ) \<and> isFallbackNeeded (getRecommendedPattern m (getPatternString t) b))"
  by (cases t; cases "migStrategy m"; cases b)
    (simp_all add: getRecommendedPattern_def toPostQuantum_def getFallbackPattern_def isMigrationNeeded_def
      isValidMigrationPath_def validMigrationPaths_def isFallbackNeeded_def)

end
