(* ===== verification/Key_Exchange.thy ===== *)
theory Key_Exchange
  imports Noise
begin

text \<open>
  The post-quantum key exchange (\<open>noise_post_quantum_key_exchange.cpp\<close>) and the hybrid one that combines it with
  X25519 (\<open>noise_hybrid_key_exchange.cpp\<close>).  OpenSSL is a parameter: its random source, the address at which it puts a
  new key, which raw keys it accepts, and the outcome of each step of a key derivation.  The state is the
  number of calls of the random source and the keys that are allocated, by address.  A step that throws
  returns \<^const>\<open>Inl\<close> with the type and the text of the \<open>NoiseSecurityError\<close>, and the state at the throw, so that a
  key that is not freed is visible.

  \<open>NoisePublicKey\<close>, \<open>NoisePrivateKey\<close> and \<open>NoiseSharedSecret\<close> are \<open>std::array\<close>s of 32 bytes, whose \<open>size()\<close> is the
  constant 32.
\<close>

section \<open>OpenSSL\<close>

datatype pkey = RawPrivate bytes | RawPublic bytes

record kex_state =
  ksCalls :: nat
  ksKeys :: "(nat \<times> pkey) list"

type_synonym 'a kex = "kex_state \<Rightarrow> ((NoiseSecurityErrorType \<times> string) + 'a) \<times> kex_state"

record ossl =
  osRand :: "nat \<Rightarrow> (nat \<Rightarrow> u8) option"
  osAddress :: "(nat \<times> pkey) list \<Rightarrow> nat"
  osAccepts :: "pkey \<Rightarrow> bool"
  osRawPublic :: "pkey \<Rightarrow> bytes option"
  osCtxNew :: "pkey \<Rightarrow> bool"
  osDeriveInit :: "pkey \<Rightarrow> bool"
  osSetPeer :: "pkey \<Rightarrow> pkey \<Rightarrow> bool"
  osDerive :: "pkey \<Rightarrow> pkey \<Rightarrow> bytes option"

text \<open>What an allocator promises: a new object does not lie at the address of a live one.\<close>

definition ossl_ok :: "ossl \<Rightarrow> bool" where
  "ossl_ok os \<longleftrightarrow> (\<forall>keys. osAddress os keys \<notin> fst ` set keys)"

definition kret :: "'a \<Rightarrow> 'a kex" where
  "kret x s = (Inr x, s)"

definition kthrow :: "NoiseSecurityErrorType \<Rightarrow> string \<Rightarrow> 'a kex" where
  "kthrow t message s = (Inl (t, securityErrorWhat t message), s)"

definition kbind :: "'a kex \<Rightarrow> ('a \<Rightarrow> 'b kex) \<Rightarrow> 'b kex" where
  "kbind m f s = (case m s of (Inl e, s') \<Rightarrow> (Inl e, s') | (Inr x, s') \<Rightarrow> f x s')"

definition RAND_bytes :: "ossl \<Rightarrow> nat \<Rightarrow> bytes option kex" where
  "RAND_bytes os n s =
     (Inr (map_option (\<lambda>f. map f [0..<n]) (osRand os (ksCalls s))), s\<lparr>ksCalls := ksCalls s + 1\<rparr>)"

definition newKey :: "ossl \<Rightarrow> pkey \<Rightarrow> nat option kex" where
  "newKey os k s =
     (if osAccepts os k
      then let a = osAddress os (ksKeys s) in (Inr (Some a), s\<lparr>ksKeys := (a, k) # ksKeys s\<rparr>)
      else (Inr None, s))"

definition freeKeys :: "nat list \<Rightarrow> unit kex" where
  "freeKeys as s = (Inr (), s\<lparr>ksKeys := filter (\<lambda>(a, _). a \<notin> set as) (ksKeys s)\<rparr>)"

definition readKey :: "nat \<Rightarrow> pkey kex" where
  "readKey a s = (Inr (the (map_of (ksKeys s) a)), s)"

definition freeAndThrow :: "nat list \<Rightarrow> NoiseSecurityErrorType \<Rightarrow> string \<Rightarrow> 'a kex" where
  "freeAndThrow as t message = kbind (freeKeys as) (\<lambda>_. kthrow t message)"

section \<open>NoisePostQuantumKeyExchange\<close>

record pq_kex =
  pqGenerateKeyPair :: "(bytes \<times> bytes) kex"
  pqEncapsulate :: "bytes \<Rightarrow> (bytes \<times> bytes) kex"
  pqDecapsulate :: "bytes \<Rightarrow> bytes \<Rightarrow> bytes kex"
  pqPublicKeySize :: nat
  pqPrivateKeySize :: nat
  pqCiphertextSize :: nat
  pqSharedSecretSize :: nat
  pqAlgorithmName :: string

definition randomOrThrow :: "ossl \<Rightarrow> nat \<Rightarrow> string \<Rightarrow> bytes kex" where
  "randomOrThrow os n message =
     kbind (RAND_bytes os n) (\<lambda>r. case r of Some b \<Rightarrow> kret b | None \<Rightarrow> kthrow KeyGenerationFailed message)"

definition defaultGenerateKeyPair :: "ossl \<Rightarrow> (bytes \<times> bytes) kex" where
  "defaultGenerateKeyPair os =
     kbind (randomOrThrow os 32 ''Failed to generate public key'') (\<lambda>publicKey.
     kbind (randomOrThrow os 32 ''Failed to generate private key'') (\<lambda>privateKey.
       kret (publicKey, privateKey)))"

definition defaultEncapsulate :: "ossl \<Rightarrow> bytes \<Rightarrow> (bytes \<times> bytes) kex" where
  "defaultEncapsulate os remotePublicKey =
     (if length remotePublicKey \<noteq> 32 then kthrow InvalidPeerID ''Invalid public key size''
      else kbind (randomOrThrow os 32 ''Failed to generate shared secret'') (\<lambda>sharedSecret.
           kbind (randomOrThrow os 1088 ''Failed to generate ciphertext'') (\<lambda>ciphertext.
             kret (sharedSecret, ciphertext))))"

definition defaultDecapsulate :: "ossl \<Rightarrow> bytes \<Rightarrow> bytes \<Rightarrow> bytes kex" where
  "defaultDecapsulate os ciphertext privateKey =
     (if length ciphertext \<noteq> 1088 then kthrow InvalidHandshakeMessage ''Invalid ciphertext size''
      else if length privateKey \<noteq> 32 then kthrow InvalidPeerID ''Invalid private key size''
      else randomOrThrow os 32 ''Failed to generate shared secret'')"

definition NoisePostQuantumKeyExchangeDefault :: "ossl \<Rightarrow> pq_kex" where
  "NoisePostQuantumKeyExchangeDefault os =
     \<lparr>pqGenerateKeyPair = defaultGenerateKeyPair os, pqEncapsulate = defaultEncapsulate os,
      pqDecapsulate = defaultDecapsulate os, pqPublicKeySize = 32, pqPrivateKeySize = 32,
      pqCiphertextSize = 1088, pqSharedSecretSize = 32, pqAlgorithmName = ''DefaultPQ''\<rparr>"

section \<open>NoiseHybridKeyExchange\<close>

definition newHybrid :: "pq_kex option \<Rightarrow> (NoiseSecurityErrorType \<times> string) + pq_kex" where
  "newHybrid pq = (case pq of
       None \<Rightarrow> Inl (KeyGenerationFailed, securityErrorWhat KeyGenerationFailed ''Post-quantum key exchange is required'')
     | Some k \<Rightarrow> Inr k)"

definition hybridPublicKeySize :: "pq_kex \<Rightarrow> nat" where
  "hybridPublicKeySize pq = 32 + pqPublicKeySize pq"

definition hybridPrivateKeySize :: "pq_kex \<Rightarrow> nat" where
  "hybridPrivateKeySize pq = 32 + pqPrivateKeySize pq"

definition hybridCiphertextSize :: "pq_kex \<Rightarrow> nat" where
  "hybridCiphertextSize pq = 32 + pqCiphertextSize pq"

definition hybridSharedSecretSize :: "pq_kex \<Rightarrow> nat" where
  "hybridSharedSecretSize pq = 32 + pqSharedSecretSize pq"

definition hybridAlgorithmName :: "pq_kex \<Rightarrow> string" where
  "hybridAlgorithmName pq = ''Hybrid-'' @ pqAlgorithmName pq"

text \<open>
  \<open>generateKeyPair\<close> and \<open>encapsulate\<close> begin alike: a key object is made from no data, then a second one from the
  random private key, whose address is compared with that of the first.
\<close>

definition ephemeralKey :: "ossl \<Rightarrow> string \<Rightarrow> string \<Rightarrow> string \<Rightarrow> (nat \<times> bytes \<times> bytes) kex" where
  "ephemeralKey os randomFailed setFailed publicFailed =
     kbind (newKey os (RawPrivate [])) (\<lambda>created. case created of
       None \<Rightarrow> kthrow KeyGenerationFailed ''Failed to create classical key''
     | Some classicalKey \<Rightarrow>
         kbind (RAND_bytes os 32) (\<lambda>random. case random of
           None \<Rightarrow> freeAndThrow [classicalKey] KeyGenerationFailed randomFailed
         | Some privateKey \<Rightarrow>
             kbind (newKey os (RawPrivate privateKey)) (\<lambda>second.
               if second \<noteq> Some classicalKey then freeAndThrow [classicalKey] KeyGenerationFailed setFailed
               else kbind (readKey classicalKey) (\<lambda>k. case osRawPublic os k of
                   None \<Rightarrow> freeAndThrow [classicalKey] KeyGenerationFailed publicFailed
                 | Some publicKey \<Rightarrow> kret (classicalKey, privateKey, resize 32 0 publicKey)))))"

definition hybridGenerateKeyPair :: "ossl \<Rightarrow> (bytes \<times> bytes) kex" where
  "hybridGenerateKeyPair os =
     kbind (ephemeralKey os ''Failed to generate classical private key'' ''Failed to set classical private key''
         ''Failed to get classical public key'')
       (\<lambda>(classicalKey, privateKey, publicKey).
         kbind (freeKeys [classicalKey]) (\<lambda>_. kret (publicKey, privateKey)))"

definition deriveSecret :: "ossl \<Rightarrow> nat \<Rightarrow> bytes \<Rightarrow> bytes kex" where
  "deriveSecret os classicalKey remotePublic =
     kbind (newKey os (RawPublic remotePublic)) (\<lambda>created. case created of
       None \<Rightarrow> freeAndThrow [classicalKey] InvalidPeerID ''Failed to create remote classical key''
     | Some remoteKey \<Rightarrow>
         kbind (readKey classicalKey) (\<lambda>k. kbind (readKey remoteKey) (\<lambda>r.
           if \<not> osCtxNew os k then
             freeAndThrow [classicalKey, remoteKey] KeyGenerationFailed ''Failed to create key exchange context''
           else if \<not> osDeriveInit os k then
             freeAndThrow [classicalKey, remoteKey] KeyGenerationFailed ''Failed to initialize key derivation''
           else if \<not> osSetPeer os k r then
             freeAndThrow [classicalKey, remoteKey] KeyGenerationFailed ''Failed to set peer key''
           else case osDerive os k r of
               None \<Rightarrow> freeAndThrow [classicalKey, remoteKey] KeyGenerationFailed
                         ''Failed to derive classical shared secret''
             | Some secret \<Rightarrow>
                 kbind (freeKeys [classicalKey, remoteKey]) (\<lambda>_. kret (resize 32 0 secret)))))"

definition hybridEncapsulate :: "ossl \<Rightarrow> pq_kex \<Rightarrow> bytes \<Rightarrow> (bytes \<times> bytes) kex" where
  "hybridEncapsulate os pq remotePublicKey =
     (if length remotePublicKey \<noteq> hybridPublicKeySize pq
      then kthrow InvalidPeerID ''Invalid remote public key size''
      else kbind (ephemeralKey os ''Failed to generate ephemeral private key'' ''Failed to set ephemeral private key''
               ''Failed to get ephemeral public key'')
             (\<lambda>(classicalKey, _, ephemeralPublicKey).
           kbind (deriveSecret os classicalKey remotePublicKey) (\<lambda>secret.
           kbind (pqEncapsulate pq remotePublicKey) (\<lambda>(_, pqCiphertext).
             kret (secret, ephemeralPublicKey @ pqCiphertext)))))"

definition hybridDecapsulate :: "ossl \<Rightarrow> pq_kex \<Rightarrow> bytes \<Rightarrow> bytes \<Rightarrow> bytes kex" where
  "hybridDecapsulate os pq ciphertext privateKey =
     (if length ciphertext \<noteq> hybridCiphertextSize pq
      then kthrow InvalidHandshakeMessage ''Invalid ciphertext size''
      else if length privateKey \<noteq> hybridPrivateKeySize pq
      then kthrow InvalidPeerID ''Invalid private key size''
      else kbind (newKey os (RawPrivate privateKey)) (\<lambda>created. case created of
          None \<Rightarrow> kthrow KeyGenerationFailed ''Failed to create classical key''
        | Some classicalKey \<Rightarrow> deriveSecret os classicalKey (take 32 ciphertext)))"

section \<open>An OpenSSL for the witness\<close>

text \<open>
  Addresses are numbered upwards, every key is accepted, the public key is the raw key itself and the
  secret is the peer's key.
\<close>

definition plainOssl :: ossl where
  "plainOssl = \<lparr>osRand = \<lambda>i. Some (\<lambda>j. word_of_nat (i + j)), osAddress = \<lambda>keys. Suc (foldr (max \<circ> fst) keys 0),
     osAccepts = \<lambda>_. True, osRawPublic = \<lambda>k. (case k of RawPrivate b \<Rightarrow> Some b | RawPublic b \<Rightarrow> Some b),
     osCtxNew = \<lambda>_. True, osDeriveInit = \<lambda>_. True, osSetPeer = \<lambda>_ _. True,
     osDerive = \<lambda>_ r. (case r of RawPublic b \<Rightarrow> Some b | RawPrivate _ \<Rightarrow> None)\<rparr>"


section \<open>Lemmas\<close>

lemmas kex_defs = kbind_def kret_def kthrow_def RAND_bytes_def newKey_def freeKeys_def freeAndThrow_def readKey_def
  securityErrorWhat_def

lemma plainOssl_ok: "ossl_ok plainOssl"
proof -
  have "a < Suc (foldr (max \<circ> fst) keys 0)" if "a \<in> fst ` set keys" for a and keys :: "(nat \<times> pkey) list"
    using that by (induction keys) (auto simp: less_Suc_eq_le le_max_iff_disj)
  then show ?thesis unfolding ossl_ok_def plainOssl_def by fastforce
qed

lemma free_fresh:
  assumes "ossl_ok os"
  shows "filter (\<lambda>(a, _). a \<noteq> osAddress os keys) keys = keys"
proof -
  have "osAddress os keys \<notin> fst ` set keys" using assms by (simp add: ossl_ok_def)
  then show ?thesis by (intro filter_True) force
qed

lemma address_of_second:
  assumes "ossl_ok os"
  shows "osAddress os ((osAddress os keys, k) # keys) \<noteq> osAddress os keys"
proof -
  have "osAddress os ((osAddress os keys, k) # keys) \<notin> fst ` set ((osAddress os keys, k) # keys)"
    using assms unfolding ossl_ok_def by blast
  then show ?thesis by simp
qed

text \<open>The first part of \<open>generateKeyPair\<close> and \<open>encapsulate\<close> always throws: two live keys never share an address.\<close>

lemma ephemeralKey_throws:
  assumes "ossl_ok os" "r \<noteq> []" "w \<noteq> []"
  shows "ephemeralKey os r w p s =
    (if \<not> osAccepts os (RawPrivate []) then (Inl (KeyGenerationFailed, ''Failed to create classical key''), s)
     else case osRand os (ksCalls s) of
         None \<Rightarrow> (Inl (KeyGenerationFailed, r), s\<lparr>ksCalls := ksCalls s + 1\<rparr>)
       | Some f \<Rightarrow> (Inl (KeyGenerationFailed, w), s\<lparr>ksCalls := ksCalls s + 1, ksKeys :=
           (let k = RawPrivate (map f [0..<32]); first = (osAddress os (ksKeys s), RawPrivate []) in
            if osAccepts os k then (osAddress os (first # ksKeys s), k) # ksKeys s else ksKeys s)\<rparr>))"
  using assms(2,3) free_fresh [OF assms(1)] address_of_second [OF assms(1)]
  by (auto simp: ephemeralKey_def kex_defs Let_def split: option.split)

section \<open>The interface of a post-quantum key exchange\<close>

text \<open>
  What \<open>NoiseHybridKeyExchange\<close> needs to know of the exchange it is given: its keys are not empty.  That is
  enough for its own checks, which add the sizes of both keys, to refuse every array of 32 bytes.
\<close>

locale post_quantum =
  fixes pq :: pq_kex
  assumes public_key_size: "pqPublicKeySize pq > 0"
    and private_key_size: "pqPrivateKeySize pq > 0"
begin

lemma encapsulate_rejects:
  "length key = 32 \<Longrightarrow> hybridEncapsulate os pq key s = (Inl (InvalidPeerID, ''Invalid remote public key size''), s)"
  using public_key_size by (simp add: hybridEncapsulate_def hybridPublicKeySize_def kthrow_def securityErrorWhat_def)

lemma decapsulate_rejects:
  "length key = 32 \<Longrightarrow> hybridDecapsulate os pq c key s =
     (Inl (if length c \<noteq> hybridCiphertextSize pq then (InvalidHandshakeMessage, ''Invalid ciphertext size'')
           else (InvalidPeerID, ''Invalid private key size'')), s)"
  using private_key_size by (simp add: hybridDecapsulate_def hybridPrivateKeySize_def kthrow_def securityErrorWhat_def)

end

interpretation default_pq: post_quantum "NoisePostQuantumKeyExchangeDefault os" for os
  by unfold_locales (simp_all add: NoisePostQuantumKeyExchangeDefault_def)

section \<open>Properties\<close>

text \<open>
  The default exchange agrees on nothing: what \<open>decapsulate\<close> returns is the next 32 bytes of the local random
  source, whatever ciphertext and key of the right sizes it is given.
\<close>

theorem decapsulate_ignores_input:
  assumes "length c = 1088" "length key = 32"
  shows "defaultDecapsulate os c key s = (case osRand os (ksCalls s) of
      Some f \<Rightarrow> (Inr (map f [0..<32]), s\<lparr>ksCalls := ksCalls s + 1\<rparr>)
    | None \<Rightarrow> (Inl (KeyGenerationFailed, ''Failed to generate shared secret''), s\<lparr>ksCalls := ksCalls s + 1\<rparr>))"
  using assms by (simp add: defaultDecapsulate_def randomOrThrow_def kex_defs split: option.split)

text \<open>
  C39: the hybrid key exchange never succeeds.  As long as OpenSSL does not give two live keys the same address,
  generating a key pair throws, and where OpenSSL accepted both key objects the second one is never freed;
  with the default post-quantum part, encapsulation refuses every public key and decapsulation every private key,
  because an array of 32 bytes is compared with the sum of both key sizes.
\<close>

theorem hybrid_never_succeeds:
  assumes "ossl_ok os" "length key = 32"
  shows "hybridGenerateKeyPair os s =
      (if \<not> osAccepts os (RawPrivate []) then (Inl (KeyGenerationFailed, ''Failed to create classical key''), s)
       else case osRand os (ksCalls s) of
           None \<Rightarrow> (Inl (KeyGenerationFailed, ''Failed to generate classical private key''), s\<lparr>ksCalls := ksCalls s + 1\<rparr>)
         | Some f \<Rightarrow> (Inl (KeyGenerationFailed, ''Failed to set classical private key''),
             s\<lparr>ksCalls := ksCalls s + 1, ksKeys :=
               (let k = RawPrivate (map f [0..<32]); first = (osAddress os (ksKeys s), RawPrivate []) in
                if osAccepts os k then (osAddress os (first # ksKeys s), k) # ksKeys s else ksKeys s)\<rparr>))
    \<and> hybridEncapsulate os (NoisePostQuantumKeyExchangeDefault os) key s =
        (Inl (InvalidPeerID, ''Invalid remote public key size''), s)
    \<and> hybridDecapsulate os (NoisePostQuantumKeyExchangeDefault os) c key s =
        (Inl (if length c \<noteq> 1120 then (InvalidHandshakeMessage, ''Invalid ciphertext size'')
              else (InvalidPeerID, ''Invalid private key size'')), s)"
  using default_pq.encapsulate_rejects [OF assms(2)] default_pq.decapsulate_rejects [OF assms(2)]
  by (simp add: hybridGenerateKeyPair_def kbind_def ephemeralKey_throws [OF assms(1)] hybridCiphertextSize_def
      NoisePostQuantumKeyExchangeDefault_def split: option.split)

theorem hybrid_never_succeeds_witness:
  "\<exists>k. hybridGenerateKeyPair plainOssl \<lparr>ksCalls = 0, ksKeys = []\<rparr> =
      (Inl (KeyGenerationFailed, ''Failed to set classical private key''), \<lparr>ksCalls = 1, ksKeys = [(2, k)]\<rparr>)"
  using hybrid_never_succeeds [OF plainOssl_ok, of "replicate 32 0" "\<lparr>ksCalls = 0, ksKeys = []\<rparr>" "[]"]
  by (simp add: plainOssl_def)

end
