(* ===== verification/Identity.thy ===== *)
theory Identity
  imports Bitchat_Data
begin

text \<open>
  \<open>IdentityService\<close> (\<open>src/bitchat/services/identity_service.cpp\<close>) and the data types of its header:
  social identities by fingerprint with an index from nicknames, verified fingerprints, handshake
  states of ephemeral sessions and pending actions.  One mutex guards the whole object, so each method
  is atomic.  Persistence is a placeholder in the source (\<open>saveIdentityCache\<close> returns true and writes
  nothing), as is the encryption of the cache.  The methods of \<open>IdentityData\<close> (\<open>src/bitchat/identity/identity_models.cpp\<close>)
  are stubs that return empty values.  SHA-256 is a parameter, \<^const>\<open>None\<close>
  where an OpenSSL call fails.  The clock is an argument.
\<close>

section \<open>Data\<close>

datatype TrustLevel = TRUST_UNKNOWN | CASUAL | TRUSTED | TRUST_VERIFIED

datatype HandshakeState = HS_NONE | INITIATED | IN_PROGRESS | COMPLETED | FAILED

datatype IdentityHint = HINT_UNKNOWN | LIKELY_KNOWN | AMBIGUOUS | HINT_VERIFIED

record EphemeralIdentity =
  ePeerID :: string
  eSessionStart :: int
  eHandshakeState :: HandshakeState
  eFingerprint :: string
  eFailureReason :: string

record CryptographicIdentity =
  cFingerprint :: string
  cPublicKey :: bytes
  cFirstSeen :: int
  cLastHandshake :: int

record SocialIdentity =
  siFingerprint :: string
  siLocalPetname :: string
  siClaimedNickname :: string
  siTrustLevel :: TrustLevel
  siIsFavorite :: bool
  siIsBlocked :: bool
  siNotes :: string

record IdentityCache =
  icSocial :: "string \<rightharpoonup> SocialIdentity"
  icNicknameIndex :: "string \<rightharpoonup> string list"
  icVerified :: "string list"
  icLastInteractions :: "string \<rightharpoonup> int"
  icVersion :: int

record PendingActions =
  paToggleFavorite :: "bool option"
  paSetTrustLevel :: TrustLevel
  paSetPetname :: string

record IdentityService =
  isCache :: IdentityCache
  isEphemeral :: "string \<rightharpoonup> EphemeralIdentity"
  isCryptographic :: "string \<rightharpoonup> CryptographicIdentity"
  isPending :: "string \<rightharpoonup> PendingActions"

definition emptyCache :: IdentityCache where
  "emptyCache = \<lparr>icSocial = Map.empty, icNicknameIndex = Map.empty, icVerified = [],
     icLastInteractions = Map.empty, icVersion = 1\<rparr>"

definition newIdentityService :: IdentityService where
  "newIdentityService = \<lparr>isCache = emptyCache, isEphemeral = Map.empty, isCryptographic = Map.empty,
     isPending = Map.empty\<rparr>"

section \<open>Operations\<close>

definition resolveIdentity :: "IdentityService \<Rightarrow> string \<Rightarrow> string \<Rightarrow> IdentityHint" where
  "resolveIdentity sv pid claimedNickname =
     (case icNicknameIndex (isCache sv) claimedNickname of
        Some fingerprints \<Rightarrow> if length fingerprints = 1 then LIKELY_KNOWN else AMBIGUOUS
      | None \<Rightarrow> HINT_UNKNOWN)"

definition getSocialIdentity :: "IdentityService \<Rightarrow> string \<Rightarrow> SocialIdentity option" where
  "getSocialIdentity sv fingerprint = icSocial (isCache sv) fingerprint"

definition getAllSocialIdentities :: "string list \<Rightarrow> IdentityService \<Rightarrow> SocialIdentity list" where
  "getAllSocialIdentities order sv = List.map_filter (icSocial (isCache sv)) order"

definition putSocial :: "string \<Rightarrow> SocialIdentity \<Rightarrow> IdentityService \<Rightarrow> IdentityService" where
  "putSocial fingerprint identity sv =
     sv\<lparr>isCache := (isCache sv)\<lparr>icSocial := (icSocial (isCache sv))(fingerprint \<mapsto> identity)\<rparr>\<rparr>"

definition putNickname :: "string \<Rightarrow> string list option \<Rightarrow> IdentityService \<Rightarrow> IdentityService" where
  "putNickname nickname fingerprints sv =
     sv\<lparr>isCache := (isCache sv)\<lparr>icNicknameIndex := (icNicknameIndex (isCache sv))(nickname := fingerprints)\<rparr>\<rparr>"

text \<open>The removal of the old nickname, with the identity found in the cache after it was overwritten.\<close>

definition dropOldNickname :: "SocialIdentity \<Rightarrow> IdentityService \<Rightarrow> IdentityService" where
  "dropOldNickname identity sv =
     (case icSocial (isCache sv) (siFingerprint identity) of
        None \<Rightarrow> sv
      | Some existing \<Rightarrow>
          (let oldNickname = siClaimedNickname existing in
           if oldNickname \<noteq> siClaimedNickname identity then
             (case icNicknameIndex (isCache sv) oldNickname of
                None \<Rightarrow> sv
              | Some fingerprints \<Rightarrow>
                  (let fingerprints = filter (\<lambda>f. f \<noteq> siFingerprint identity) fingerprints
                   in putNickname oldNickname (if fingerprints = [] then None else Some fingerprints) sv))
           else sv))"

definition updateSocialIdentity :: "SocialIdentity \<Rightarrow> IdentityService \<Rightarrow> IdentityService" where
  "updateSocialIdentity identity sv =
     (let sv = putSocial (siFingerprint identity) identity sv;
          sv = dropOldNickname identity sv;
          fingerprints = (case icNicknameIndex (isCache sv) (siClaimedNickname identity) of
             None \<Rightarrow> [] | Some fs \<Rightarrow> fs)
      in putNickname (siClaimedNickname identity) (Some (fingerprints @ [siFingerprint identity])) sv)"

definition getFavorites :: "string list \<Rightarrow> IdentityService \<Rightarrow> string list" where
  "getFavorites order sv = filter (\<lambda>f. case icSocial (isCache sv) f of
     Some i \<Rightarrow> siIsFavorite i | None \<Rightarrow> False) order"

definition unknownIdentity :: "string \<Rightarrow> SocialIdentity" where
  "unknownIdentity fingerprint = \<lparr>siFingerprint = fingerprint, siLocalPetname = [],
     siClaimedNickname = ''Unknown'', siTrustLevel = TRUST_UNKNOWN, siIsFavorite = False,
     siIsBlocked = False, siNotes = []\<rparr>"

definition setFavorite :: "string \<Rightarrow> bool \<Rightarrow> IdentityService \<Rightarrow> IdentityService" where
  "setFavorite fingerprint b sv =
     (case icSocial (isCache sv) fingerprint of
        Some i \<Rightarrow> putSocial fingerprint (i\<lparr>siIsFavorite := b\<rparr>) sv
      | None \<Rightarrow> putSocial fingerprint ((unknownIdentity fingerprint)\<lparr>siIsFavorite := b\<rparr>) sv)"

definition isFavorite :: "IdentityService \<Rightarrow> string \<Rightarrow> bool" where
  "isFavorite sv fingerprint = (case icSocial (isCache sv) fingerprint of Some i \<Rightarrow> siIsFavorite i | None \<Rightarrow> False)"

definition isBlocked :: "IdentityService \<Rightarrow> string \<Rightarrow> bool" where
  "isBlocked sv fingerprint = (case icSocial (isCache sv) fingerprint of Some i \<Rightarrow> siIsBlocked i | None \<Rightarrow> False)"

definition setBlocked :: "string \<Rightarrow> bool \<Rightarrow> IdentityService \<Rightarrow> IdentityService" where
  "setBlocked fingerprint b sv =
     (case icSocial (isCache sv) fingerprint of
        Some i \<Rightarrow> putSocial fingerprint
          (let i = i\<lparr>siIsBlocked := b\<rparr> in if b then i\<lparr>siIsFavorite := False\<rparr> else i) sv
      | None \<Rightarrow> putSocial fingerprint ((unknownIdentity fingerprint)\<lparr>siIsBlocked := b\<rparr>) sv)"

definition registerEphemeralSession :: "int \<Rightarrow> string \<Rightarrow> HandshakeState \<Rightarrow> IdentityService \<Rightarrow> IdentityService" where
  "registerEphemeralSession now pid state sv = sv\<lparr>isEphemeral := (isEphemeral sv)(pid \<mapsto>
     \<lparr>ePeerID = pid, eSessionStart = now, eHandshakeState = state, eFingerprint = [], eFailureReason = []\<rparr>)\<rparr>"

definition updateHandshakeState ::
    "int \<Rightarrow> string \<Rightarrow> HandshakeState \<Rightarrow> string \<Rightarrow> string \<Rightarrow> IdentityService \<Rightarrow> IdentityService" where
  "updateHandshakeState now pid state fingerprint failureReason sv =
     (case isEphemeral sv pid of
        None \<Rightarrow> sv
      | Some e \<Rightarrow>
          (let e = e\<lparr>eHandshakeState := state\<rparr> in
           if state = COMPLETED then
             sv\<lparr>isEphemeral := (isEphemeral sv)(pid \<mapsto> e\<lparr>eFingerprint := fingerprint\<rparr>),
                isCache := (isCache sv)\<lparr>icLastInteractions :=
                  (icLastInteractions (isCache sv))(fingerprint \<mapsto> now)\<rparr>\<rparr>
           else if state = FAILED then
             sv\<lparr>isEphemeral := (isEphemeral sv)(pid \<mapsto> e\<lparr>eFailureReason := failureReason\<rparr>)\<rparr>
           else sv\<lparr>isEphemeral := (isEphemeral sv)(pid \<mapsto> e)\<rparr>))"

definition getHandshakeState :: "IdentityService \<Rightarrow> string \<Rightarrow> HandshakeState" where
  "getHandshakeState sv pid = (case isEphemeral sv pid of Some e \<Rightarrow> eHandshakeState e | None \<Rightarrow> HS_NONE)"

definition setPendingAction :: "string \<Rightarrow> PendingActions \<Rightarrow> IdentityService \<Rightarrow> IdentityService" where
  "setPendingAction pid action sv = sv\<lparr>isPending := (isPending sv)(pid \<mapsto> action)\<rparr>"

definition applyActions :: "PendingActions \<Rightarrow> SocialIdentity \<Rightarrow> SocialIdentity" where
  "applyActions actions identity =
     (let identity = (case paToggleFavorite actions of
            Some b \<Rightarrow> identity\<lparr>siIsFavorite := b\<rparr> | None \<Rightarrow> identity);
          identity = (if paSetTrustLevel actions \<noteq> TRUST_UNKNOWN
            then identity\<lparr>siTrustLevel := paSetTrustLevel actions\<rparr> else identity)
      in if paSetPetname actions \<noteq> [] then identity\<lparr>siLocalPetname := paSetPetname actions\<rparr> else identity)"

definition applyPendingActions :: "string \<Rightarrow> string \<Rightarrow> IdentityService \<Rightarrow> IdentityService" where
  "applyPendingActions pid fingerprint sv =
     (case isPending sv pid of
        None \<Rightarrow> sv
      | Some actions \<Rightarrow>
          (let identity = (case icSocial (isCache sv) fingerprint of
                 Some i \<Rightarrow> i | None \<Rightarrow> unknownIdentity fingerprint);
               sv = putSocial fingerprint (applyActions actions identity) sv
           in sv\<lparr>isPending := (isPending sv)(pid := None)\<rparr>))"

definition updateVerified :: "string \<Rightarrow> bool \<Rightarrow> string list \<Rightarrow> string list" where
  "updateVerified fingerprint verified vs =
     (if verified then (if fingerprint \<notin> set vs then vs @ [fingerprint] else vs)
      else filter (\<lambda>f. f \<noteq> fingerprint) vs)"

definition setVerified :: "string \<Rightarrow> bool \<Rightarrow> IdentityService \<Rightarrow> IdentityService" where
  "setVerified fingerprint verified sv =
     (let sv = sv\<lparr>isCache := (isCache sv)\<lparr>icVerified :=
            updateVerified fingerprint verified (icVerified (isCache sv))\<rparr>\<rparr>
      in case icSocial (isCache sv) fingerprint of
           Some i \<Rightarrow> putSocial fingerprint (i\<lparr>siTrustLevel := (if verified then TRUST_VERIFIED else CASUAL)\<rparr>) sv
         | None \<Rightarrow> sv)"

definition isVerified :: "IdentityService \<Rightarrow> string \<Rightarrow> bool" where
  "isVerified sv fingerprint \<longleftrightarrow> fingerprint \<in> set (icVerified (isCache sv))"

definition clearAllIdentityData :: "IdentityService \<Rightarrow> IdentityService" where
  "clearAllIdentityData sv = sv\<lparr>isCache := emptyCache, isEphemeral := Map.empty,
     isCryptographic := Map.empty, isPending := Map.empty\<rparr>"

definition removeEphemeralSession :: "string \<Rightarrow> IdentityService \<Rightarrow> IdentityService" where
  "removeEphemeralSession pid sv =
     sv\<lparr>isEphemeral := (isEphemeral sv)(pid := None), isPending := (isPending sv)(pid := None)\<rparr>"

definition loadIdentityCache :: "IdentityService \<Rightarrow> bool \<times> IdentityService" where
  "loadIdentityCache sv = (True, sv)"

definition saveIdentityCache :: "IdentityService \<Rightarrow> bool \<times> IdentityService" where
  "saveIdentityCache sv = (True, sv)"

definition encryptCache :: "IdentityCache \<Rightarrow> bytes" where
  "encryptCache c = []"

definition decryptCache :: "bytes \<Rightarrow> IdentityCache" where
  "decryptCache d = emptyCache"

definition generateFingerprint :: "(bytes \<Rightarrow> bytes option) \<Rightarrow> bytes \<Rightarrow> string" where
  "generateFingerprint sha256 publicKey = (case sha256 publicKey of None \<Rightarrow> [] | Some hash \<Rightarrow> toHex hash)"

inductive identity_step :: "IdentityService \<Rightarrow> IdentityService \<Rightarrow> bool" where
  "identity_step sv (updateSocialIdentity i sv)"
| "identity_step sv (setFavorite f b sv)"
| "identity_step sv (setBlocked f b sv)"
| "identity_step sv (registerEphemeralSession now p st sv)"
| "identity_step sv (updateHandshakeState now p st f r sv)"
| "identity_step sv (setPendingAction p a sv)"
| "identity_step sv (applyPendingActions p f sv)"
| "identity_step sv (setVerified f b sv)"
| "identity_step sv (clearAllIdentityData sv)"
| "identity_step sv (removeEphemeralSession p sv)"

inductive identity_reachable :: "IdentityService \<Rightarrow> bool" where
  identity_new: "identity_reachable newIdentityService"
| identity_next: "identity_reachable sv \<Longrightarrow> identity_step sv sv' \<Longrightarrow> identity_reachable sv'"

definition identity_inv :: "IdentityService \<Rightarrow> bool" where
  "identity_inv sv \<longleftrightarrow> distinct (icVerified (isCache sv))
     \<and> (\<forall>f i. icSocial (isCache sv) f = Some i \<longrightarrow> siFingerprint i = f)
     \<and> (\<forall>n fs. icNicknameIndex (isCache sv) n = Some fs \<longrightarrow> fs \<noteq> [] \<and> set fs \<subseteq> dom (icSocial (isCache sv)))
     \<and> (\<forall>p e. isEphemeral sv p = Some e \<longrightarrow> ePeerID e = p)"

section \<open>\<open>IdentityData\<close>\<close>

definition generatePeerID :: string where
  "generatePeerID = []"

definition generateIdentityHash :: "string \<Rightarrow> string \<Rightarrow> bytes" where
  "generateIdentityHash pid channelName = []"

section \<open>Lemmas\<close>

lemma putSocial_sel [simp]:
  "icSocial (isCache (putSocial f i sv)) = (icSocial (isCache sv))(f \<mapsto> i)"
  "icNicknameIndex (isCache (putSocial f i sv)) = icNicknameIndex (isCache sv)"
  "icVerified (isCache (putSocial f i sv)) = icVerified (isCache sv)"
  "isEphemeral (putSocial f i sv) = isEphemeral sv"
  "isPending (putSocial f i sv) = isPending sv"
  by (simp_all add: putSocial_def)

lemma putNickname_sel [simp]:
  "icSocial (isCache (putNickname n fs sv)) = icSocial (isCache sv)"
  "icNicknameIndex (isCache (putNickname n fs sv)) = (icNicknameIndex (isCache sv))(n := fs)"
  "icVerified (isCache (putNickname n fs sv)) = icVerified (isCache sv)"
  "isEphemeral (putNickname n fs sv) = isEphemeral sv"
  by (simp_all add: putNickname_def)

text \<open>The identity is overwritten before its old nickname is looked up, so nothing is removed.\<close>

lemma dropOldNickname_dead: "dropOldNickname i (putSocial (siFingerprint i) i sv) = putSocial (siFingerprint i) i sv"
  by (simp add: dropOldNickname_def)

lemma update_index [simp]:
  "icNicknameIndex (isCache (updateSocialIdentity i sv)) = (icNicknameIndex (isCache sv))(siClaimedNickname i \<mapsto>
     (case icNicknameIndex (isCache sv) (siClaimedNickname i) of None \<Rightarrow> [] | Some fs \<Rightarrow> fs) @ [siFingerprint i])"
  "icSocial (isCache (updateSocialIdentity i sv)) = (icSocial (isCache sv))(siFingerprint i \<mapsto> i)"
  "icVerified (isCache (updateSocialIdentity i sv)) = icVerified (isCache sv)"
  "isEphemeral (updateSocialIdentity i sv) = isEphemeral sv"
  by (simp_all add: updateSocialIdentity_def dropOldNickname_dead)

interpretation social: directory getSocialIdentity updateSocialIdentity
  "\<lambda>f sv. sv\<lparr>isCache := (isCache sv)\<lparr>icSocial := (icSocial (isCache sv))(f := None)\<rparr>\<rparr>" siFingerprint
  by unfold_locales (simp_all add: getSocialIdentity_def)

lemma applyActions_fingerprint [simp]: "siFingerprint (applyActions a i) = siFingerprint i"
  by (simp add: applyActions_def Let_def split: option.splits)

lemma unknownIdentity_sel [simp]: "siFingerprint (unknownIdentity f) = f" "siIsFavorite (unknownIdentity f) = False"
  by (simp_all add: unknownIdentity_def)

lemma identity_inv_putSocial:
  "identity_inv sv \<Longrightarrow> siFingerprint i = f \<Longrightarrow> identity_inv (putSocial f i sv)"
  by (fastforce simp: identity_inv_def)

lemma index_known:
  "identity_inv sv \<Longrightarrow> icNicknameIndex (isCache sv) n = Some fs \<Longrightarrow> set fs \<subseteq> dom (icSocial (isCache sv))"
  by (simp add: identity_inv_def)

lemma identity_inv_update:
  assumes "identity_inv sv" shows "identity_inv (updateSocialIdentity i sv)"
proof -
  have "set fs \<subseteq> insert (siFingerprint i) (dom (icSocial (isCache sv)))"
    if "icNicknameIndex (isCache (updateSocialIdentity i sv)) n = Some fs" for n fs
    using that index_known [OF assms] by (fastforce split: if_splits option.splits)
  moreover have "fs \<noteq> []" if "icNicknameIndex (isCache (updateSocialIdentity i sv)) n = Some fs" for n fs
    using assms that by (auto simp: identity_inv_def split: if_splits)
  ultimately show ?thesis
    using assms unfolding identity_inv_def by (simp del: update_index(1))
qed

lemma identity_inv_verify:
  assumes "identity_inv sv" shows "identity_inv (setVerified f b sv)"
proof -
  let ?vs = "updateVerified f b (icVerified (isCache sv))"
  have 1: "identity_inv (sv\<lparr>isCache := (isCache sv)\<lparr>icVerified := ?vs\<rparr>\<rparr>)"
    using assms by (auto simp: identity_inv_def updateVerified_def)
  have "siFingerprint i = f" if "icSocial (isCache sv) f = Some i" for i
    using that assms by (auto simp: identity_inv_def)
  with identity_inv_putSocial [OF 1, of _ f] 1 show ?thesis
    by (cases b) (simp_all add: setVerified_def Let_def split: option.splits)
qed

lemma identity_inv_social_ops:
  assumes "identity_inv sv"
  shows "identity_inv (setFavorite f b sv)" "identity_inv (setBlocked f b sv)"
    "identity_inv (applyPendingActions p f sv)"
proof -
  have k: "siFingerprint i = f" if "icSocial (isCache sv) f = Some i" for i
    using that assms by (auto simp: identity_inv_def)
  note put = identity_inv_putSocial [OF assms, of _ f]
  show "identity_inv (setFavorite f b sv)" "identity_inv (setBlocked f b sv)"
    using k by (auto simp: setFavorite_def setBlocked_def Let_def split: option.splits intro!: put)
  have p: "identity_inv (sv\<lparr>isPending := m\<rparr>) = identity_inv sv" for sv m by (simp add: identity_inv_def)
  show "identity_inv (applyPendingActions p f sv)"
    using k assms by (auto simp: applyPendingActions_def Let_def p split: option.splits intro!: put)
qed

lemma identity_inv_step: "identity_step sv sv' \<Longrightarrow> identity_inv sv \<Longrightarrow> identity_inv sv'"
  by (induction rule: identity_step.induct)
    (simp_all add: identity_inv_update identity_inv_verify identity_inv_social_ops,
     auto simp: identity_inv_def registerEphemeralSession_def updateHandshakeState_def setPendingAction_def
       clearAllIdentityData_def removeEphemeralSession_def emptyCache_def Let_def split: option.splits if_splits)

lemma identity_inv_new: "identity_inv newIdentityService"
  by (simp add: identity_inv_def newIdentityService_def emptyCache_def)

lemma index_fold_update:
  "icNicknameIndex (isCache (fold updateSocialIdentity is sv)) n =
     (let fs = map siFingerprint (filter (\<lambda>i. siClaimedNickname i = n) is) in
      if fs = [] then icNicknameIndex (isCache sv) n
      else Some ((case icNicknameIndex (isCache sv) n of None \<Rightarrow> [] | Some gs \<Rightarrow> gs) @ fs))"
proof (induction "is" arbitrary: sv)
  case (Cons i "is")
  then show ?case by (simp add: Let_def split: option.splits)
qed simp

lemma identity_reachable_inv: "identity_reachable sv \<Longrightarrow> identity_inv sv"
  by (induction rule: identity_reachable.induct) (auto intro: identity_inv_new identity_inv_step)

section \<open>Properties\<close>

text \<open>
  C40: what the nickname index holds.  After any sequence of updates of social identities, the entry of a
  nickname is the list of fingerprints of all updates made under it, with repetitions, so a nickname
  that was used once is likely known, one that was used twice is ambiguous even when both updates were
  of one identity, and a nickname that its only owner has given up is still likely known.
\<close>

theorem nickname_index_is_history:
  "(let uses = filter (\<lambda>i. siClaimedNickname i = n) is in
    icNicknameIndex (isCache (fold updateSocialIdentity is newIdentityService)) n =
      (if uses = [] then None else Some (map siFingerprint uses))
    \<and> resolveIdentity (fold updateSocialIdentity is newIdentityService) pid n =
      (if length uses = 0 then HINT_UNKNOWN else if length uses = 1 then LIKELY_KNOWN else AMBIGUOUS))"
  by (auto simp: index_fold_update resolveIdentity_def newIdentityService_def emptyCache_def Let_def)

text \<open>
  The service's invariant.  In every reachable state each social identity is stored under its own
  fingerprint, no fingerprint is verified twice, the nickname index names known identities only and
  has no empty entry, and each ephemeral session is stored under its own peer.
\<close>

theorem identity_invariant:
  assumes "identity_reachable sv"
  shows "distinct (icVerified (isCache sv))
    \<and> (getSocialIdentity sv f = Some i \<longrightarrow> siFingerprint i = f)
    \<and> (icNicknameIndex (isCache sv) n = Some fs \<longrightarrow> fs \<noteq> [] \<and> (\<forall>g \<in> set fs. getSocialIdentity sv g \<noteq> None))
    \<and> (isEphemeral sv p = Some e \<longrightarrow> ePeerID e = p)"
  using identity_reachable_inv [OF assms] by (fastforce simp: identity_inv_def getSocialIdentity_def)

text \<open>
  Blocking clears the favourite mark, as its comment says the two exclude each other, but marking
  a blocked fingerprint as favourite does not check: afterwards it is both.
\<close>

theorem blocked_favorite:
  "isBlocked (setBlocked f True sv) f \<and> \<not> isFavorite (setBlocked f True sv) f
   \<and> isBlocked (setFavorite f True (setBlocked f True sv)) f
   \<and> isFavorite (setFavorite f True (setBlocked f True sv)) f"
  by (auto simp: isBlocked_def isFavorite_def setBlocked_def setFavorite_def unknownIdentity_def Let_def
      split: option.splits)

text \<open>
  Pending actions take effect once.  Applying them changes only the identity with the fingerprint and
  consumes them, so applying them again, for any fingerprint, changes nothing; without pending
  actions nothing changes at all.
\<close>

theorem pending_actions_once:
  "applyPendingActions p g (applyPendingActions p f sv) = applyPendingActions p f sv
   \<and> getSocialIdentity (applyPendingActions p f sv) h =
      (case isPending sv p of
         Some a \<Rightarrow> if h = f then Some (applyActions a (case getSocialIdentity sv f of
                      Some i \<Rightarrow> i | None \<Rightarrow> unknownIdentity f)) else getSocialIdentity sv h
       | None \<Rightarrow> getSocialIdentity sv h)"
  by (auto simp: applyPendingActions_def getSocialIdentity_def Let_def split: option.splits)

text \<open>
  Verification.  Setting or clearing the verified mark of one fingerprint changes the mark of that
  one only, and moves the trust level of a known identity to verified or casual.
\<close>

theorem verified_mark:
  "isVerified (setVerified f b sv) g = (if g = f then b else isVerified sv g)
   \<and> getSocialIdentity (setVerified f b sv) g = (if g = f then map_option
        (\<lambda>i. i\<lparr>siTrustLevel := (if b then TRUST_VERIFIED else CASUAL)\<rparr>) (getSocialIdentity sv f)
      else getSocialIdentity sv g)"
  by (auto simp: isVerified_def setVerified_def updateVerified_def getSocialIdentity_def Let_def split: option.splits)

end
