(* ===== verification/Crypto.thy ===== *)
theory Crypto
  imports Prelude
begin

text \<open>
  \<open>CryptoService\<close> (\<open>src/bitchat/services/crypto_service.cpp\<close>): the Ed25519 signing key, its file, and the
  operations that use it.  OpenSSL and the file system are not part of the repository; \<open>crypto_api\<close>
  collects the calls the class makes, each \<^const>\<open>None\<close> or false where the call fails, over an abstract
  type of keys.  The key file is part of the state: \<^const>\<open>None\<close> when it cannot be opened for reading.
\<close>

record 'k crypto_api =
  ca_keygen :: "'k option"
  ca_sign :: "'k \<Rightarrow> bytes \<Rightarrow> bytes option"
  ca_digest :: "bytes \<Rightarrow> bytes option"
  ca_random :: "nat \<Rightarrow> bytes option"
  ca_raw_public :: "'k \<Rightarrow> bytes option"
  ca_pem_read :: "bytes \<Rightarrow> 'k option"
  ca_pem_write :: "'k \<Rightarrow> bytes option"
  ca_writable :: bool

text \<open>Documented behaviour of the PEM routines: what was written is read back.\<close>

definition pem_ok :: "'k crypto_api \<Rightarrow> bool" where
  "pem_ok api \<longleftrightarrow> (\<forall>k t. ca_pem_write api k = Some t \<longrightarrow> ca_pem_read api t = Some k)"

record 'k CryptoService =
  csSigningKey :: "'k option"
  csKeyFile :: "bytes option"

definition loadPrivateKey :: "'k crypto_api \<Rightarrow> bytes option \<Rightarrow> 'k option" where
  "loadPrivateKey api file =
     (case file of None \<Rightarrow> None | Some text \<Rightarrow> ca_pem_read api text)"

text \<open>Opening the file for writing truncates it; a failing \<open>PEM_write_PrivateKey\<close> leaves it empty.\<close>

definition savePrivateKey :: "'k crypto_api \<Rightarrow> 'k option \<Rightarrow> bytes option \<Rightarrow> bytes option" where
  "savePrivateKey api pkey file =
     (case pkey of None \<Rightarrow> file
      | Some k \<Rightarrow> if \<not> ca_writable api then file
          else (case ca_pem_write api k of None \<Rightarrow> Some [] | Some text \<Rightarrow> Some text))"

definition generateOrLoadKeyPair :: "'k crypto_api \<Rightarrow> 'k CryptoService \<Rightarrow> bool \<times> 'k CryptoService" where
  "generateOrLoadKeyPair api cs =
     (let cs = cs\<lparr>csSigningKey := loadPrivateKey api (csKeyFile cs)\<rparr> in
      if csSigningKey cs \<noteq> None then (True, cs)
      else case ca_keygen api of
             None \<Rightarrow> (False, cs)
           | Some pkey \<Rightarrow>
               (let cs = cs\<lparr>csSigningKey := Some pkey\<rparr>
                in (True, cs\<lparr>csKeyFile := savePrivateKey api (csSigningKey cs) (csKeyFile cs)\<rparr>)))"

definition cryptoInitialize :: "'k crypto_api \<Rightarrow> 'k CryptoService \<Rightarrow> bool \<times> 'k CryptoService" where
  "cryptoInitialize api cs = (case generateOrLoadKeyPair api cs of
     (ok, cs) \<Rightarrow> if \<not> ok then (False, cs) else (True, cs))"

definition cryptoCleanup :: "'k CryptoService \<Rightarrow> 'k CryptoService" where
  "cryptoCleanup cs = (if csSigningKey cs \<noteq> None then cs\<lparr>csSigningKey := None\<rparr> else cs)"

definition generateRandomBytes :: "'k crypto_api \<Rightarrow> nat \<Rightarrow> bytes" where
  "generateRandomBytes api n = (case ca_random api n of None \<Rightarrow> [] | Some bs \<Rightarrow> bs)"

definition sha256 :: "'k crypto_api \<Rightarrow> bytes \<Rightarrow> bytes" where
  "sha256 api data = (case ca_digest api data of None \<Rightarrow> [] | Some h \<Rightarrow> h)"

definition sha256_string :: "'k crypto_api \<Rightarrow> string \<Rightarrow> bytes" where
  "sha256_string api s = sha256 api (str_bytes s)"

definition signData :: "'k crypto_api \<Rightarrow> 'k CryptoService \<Rightarrow> bytes \<Rightarrow> bytes" where
  "signData api cs data =
     (case csSigningKey cs of
        None \<Rightarrow> []
      | Some k \<Rightarrow> (case ca_sign api k data of None \<Rightarrow> [] | Some s \<Rightarrow> s))"

definition getCurve25519PrivateKey :: "'k crypto_api \<Rightarrow> 'k CryptoService \<Rightarrow> bytes" where
  "getCurve25519PrivateKey api cs =
     (case csSigningKey cs of None \<Rightarrow> []
      | Some k \<Rightarrow> (case ca_random api 32 of None \<Rightarrow> [] | Some bs \<Rightarrow> bs))"

definition getPublicKeyBytes :: "'k crypto_api \<Rightarrow> 'k option \<Rightarrow> bytes" where
  "getPublicKeyBytes api pkey =
     (case pkey of None \<Rightarrow> [] | Some k \<Rightarrow> (case ca_raw_public api k of None \<Rightarrow> [] | Some bs \<Rightarrow> bs))"

text \<open>An API whose keys are bytes and whose files hold the key, to instantiate the contract.\<close>

definition byte_keys :: "bytes crypto_api" where
  "byte_keys = \<lparr>ca_keygen = Some [7], ca_sign = (\<lambda>k d. Some (k @ d)), ca_digest = Some, ca_random = (\<lambda>n. Some (replicate n 0)),
     ca_raw_public = Some, ca_pem_read = (\<lambda>t. if t = [] then None else Some (tl t)), ca_pem_write = (\<lambda>k. Some (0 # k)),
     ca_writable = True\<rparr>"

text \<open>
  The signing key survives a restart.  If the service initialized, the key file could be written
  and PEM keeps its contract, then a service that starts afresh on the same file initializes too and signs
  every payload exactly as the first one did.
\<close>

theorem signing_key_persists:
  assumes "pem_ok api" "cryptoInitialize api cs = (True, cs1)"
    and "ca_writable api" "\<And>k. ca_pem_write api k \<noteq> None"
    and "cryptoInitialize api \<lparr>csSigningKey = None, csKeyFile = csKeyFile cs1\<rparr> = (ok, cs2)"
  shows "ok \<and> signData api cs2 data = signData api cs1 data \<and> csSigningKey cs1 \<noteq> None"
proof -
  have g: "generateOrLoadKeyPair api cs = (True, cs1)"
    using assms(2) by (auto simp: cryptoInitialize_def split: prod.splits if_splits)
  have "csSigningKey cs1 \<noteq> None \<and> loadPrivateKey api (csKeyFile cs1) = csSigningKey cs1"
  proof (cases "loadPrivateKey api (csKeyFile cs)")
    case None
    with g assms(1,3) assms(4) [of "the (ca_keygen api)"] show ?thesis
      by (auto simp: generateOrLoadKeyPair_def Let_def loadPrivateKey_def savePrivateKey_def pem_ok_def
          split: option.splits)
  next
    case (Some k)
    with g show ?thesis by (auto simp: generateOrLoadKeyPair_def Let_def)
  qed
  then show ?thesis using assms(5)
    by (auto simp: cryptoInitialize_def generateOrLoadKeyPair_def Let_def signData_def split: if_splits)
qed

end
