(* ===== verification/Node.thy ===== *)
theory Node
  imports Noise Control_Codec
begin

text \<open>
  The state of a running node and the actions its services are written in.  A node is the shared data
  store, the Noise service (absent when the pointer is null), and two logs: the packets handed to the
  Bluetooth interface, in order, and the calls of the callbacks the user interface registers.  An
  action may throw; what it changed before stays changed, as in C++.  Everything a call reads from
  outside is in \<open>env\<close>: clocks, fresh identifiers, LZ4, the signing function, the result of the Bluetooth
  interface for each packet, the iteration order of the session map and the values of variables the
  source leaves uninitialized.
\<close>

datatype dest = Broadcast | ToPeer string | ToPeripheral string

datatype ui_event = MessageReceived BitchatMessage | ChannelJoined string | ChannelLeft string
  | PeerJoined string string | PeerLeft string string | PeerConnected string | PeerDisconnected string

record node =
  nData :: BitchatData
  nNoise :: "NoiseService option"
  nSent :: "(dest \<times> BitchatPacket) list"
  nEvents :: "ui_event list"

record env =
  envTime :: "nat \<Rightarrow> u64"
  envSeconds :: int
  envNanos :: int
  envUuid :: "nat \<Rightarrow> string"
  envLz4 :: lz4_api
  envSign :: "(bytes \<Rightarrow> bytes) option"
  envBluetooth :: bool
  envSend :: "dest \<Rightarrow> BitchatPacket \<Rightarrow> bool"
  envOrder :: "string list"
  envUninitBool :: bool
  envUninitByte :: u8

section \<open>Actions\<close>

type_synonym 'a action = "node \<Rightarrow> (fault + 'a) \<times> node"

definition ret :: "'a \<Rightarrow> 'a action" where
  "ret x n = (Inr x, n)"

definition mbind :: "'a action \<Rightarrow> ('a \<Rightarrow> 'b action) \<Rightarrow> 'b action" where
  "mbind m f n = (case m n of (Inl e, n') \<Rightarrow> (Inl e, n') | (Inr x, n') \<Rightarrow> f x n')"

definition mseq :: "'a action \<Rightarrow> 'b action \<Rightarrow> 'b action" where
  "mseq m m' = mbind m (\<lambda>_. m')"

definition lift :: "fault + 'a \<Rightarrow> 'a action" where
  "lift r n = (r, n)"

definition asks :: "(BitchatData \<Rightarrow> 'a) \<Rightarrow> 'a action" where
  "asks f n = (Inr (f (nData n)), n)"

definition modify :: "(BitchatData \<Rightarrow> BitchatData) \<Rightarrow> unit action" where
  "modify f n = (Inr (), n\<lparr>nData := f (nData n)\<rparr>)"

definition emit :: "ui_event \<Rightarrow> unit action" where
  "emit ev n = (Inr (), n\<lparr>nEvents := nEvents n @ [ev]\<rparr>)"

definition noiseService :: "NoiseService option action" where
  "noiseService n = (Inr (nNoise n), n)"

text \<open>A method call through the pointer to the Noise service; the callers check it for null first.\<close>

definition withNoise :: "(NoiseService \<Rightarrow> fault + ('a \<times> NoiseService)) \<Rightarrow> 'a action" where
  "withNoise f n = (case nNoise n of
     None \<Rightarrow> (Inl OutOfRange, n)
   | Some sv \<Rightarrow> (case f sv of Inl e \<Rightarrow> (Inl e, n) | Inr (x, sv') \<Rightarrow> (Inr x, n\<lparr>nNoise := Some sv'\<rparr>)))"

text \<open>\<open>NetworkService::sendPacket\<close>, \<open>sendPacketToPeer\<close> and \<open>sendPacketToPeripheral\<close>.\<close>

definition transmit :: "env \<Rightarrow> dest \<Rightarrow> BitchatPacket \<Rightarrow> bool action" where
  "transmit env d pkt n =
     (if \<not> envBluetooth env then (Inr False, n)
      else (Inr (envSend env d pkt), n\<lparr>nSent := nSent n @ [(d, pkt)]\<rparr>))"

lemmas action_defs = ret_def mbind_def mseq_def lift_def asks_def modify_def emit_def
  noiseService_def withNoise_def transmit_def

section \<open>Invariants of actions\<close>

definition keeps :: "(node \<Rightarrow> bool) \<Rightarrow> 'a action \<Rightarrow> bool" where
  "keeps P m \<longleftrightarrow> (\<forall>n. P n \<longrightarrow> P (snd (m n)))"

named_theorems keeps_intro \<open>actions that keep a predicate on the node\<close>

lemma keepsD: "keeps P m \<Longrightarrow> P n \<Longrightarrow> P (snd (m n))"
  by (simp add: keeps_def)

lemma keeps_ret [keeps_intro]: "keeps P (ret x)"
  by (simp add: keeps_def ret_def)

lemma keeps_lift [keeps_intro]: "keeps P (lift r)"
  by (simp add: keeps_def lift_def)

lemma keeps_asks [keeps_intro]: "keeps P (asks f)"
  by (simp add: keeps_def asks_def)

lemma keeps_noiseService [keeps_intro]: "keeps P noiseService"
  by (simp add: keeps_def noiseService_def)

lemma keeps_mbind [keeps_intro]: "keeps P m \<Longrightarrow> (\<And>x. keeps P (f x)) \<Longrightarrow> keeps P (mbind m f)"
  by (fastforce simp: keeps_def mbind_def split: prod.splits sum.splits)

lemma keeps_mseq [keeps_intro]: "keeps P m \<Longrightarrow> keeps P m' \<Longrightarrow> keeps P (mseq m m')"
  by (simp add: mseq_def keeps_mbind)

lemma keeps_if [keeps_intro]: "(b \<Longrightarrow> keeps P m) \<Longrightarrow> (\<not> b \<Longrightarrow> keeps P m') \<Longrightarrow> keeps P (if b then m else m')"
  by simp

lemma keeps_option [keeps_intro]:
  "(z = None \<Longrightarrow> keeps P m) \<Longrightarrow> (\<And>x. z = Some x \<Longrightarrow> keeps P (f x)) \<Longrightarrow> keeps P (case z of None \<Rightarrow> m | Some x \<Rightarrow> f x)"
  by (cases z) simp_all

lemma keeps_let [keeps_intro]: "keeps P (f x) \<Longrightarrow> keeps P (Let x f)"
  by (simp add: Let_def)

lemma keeps_prod [keeps_intro]: "(\<And>x y. z = (x, y) \<Longrightarrow> keeps P (f x y)) \<Longrightarrow> keeps P (case z of (x, y) \<Rightarrow> f x y)"
  by (cases z) simp

text \<open>
  What the services may do to a node: a predicate that the store's methods, the logs and the session
  service keep is kept by every handler.  Marking a packet as processed is done in one place only, so
  it is a law of its own.
\<close>

locale node_frame =
  fixes P :: "node \<Rightarrow> bool"
  assumes P_peer: "P n \<Longrightarrow> P (n\<lparr>nData := addPeer p (nData n)\<rparr>)" "P n \<Longrightarrow> P (n\<lparr>nData := updatePeer p (nData n)\<rparr>)"
      "P n \<Longrightarrow> P (n\<lparr>nData := removePeer k (nData n)\<rparr>)"
    and P_history: "P n \<Longrightarrow> P (n\<lparr>nData := addMessageToHistory m c (nData n)\<rparr>)"
    and P_channel: "P n \<Longrightarrow> P (n\<lparr>nData := setCurrentChannel c (nData n)\<rparr>)"
    and P_sent: "P n \<Longrightarrow> P (n\<lparr>nSent := nSent n @ [dp]\<rparr>)"
    and P_events: "P n \<Longrightarrow> P (n\<lparr>nEvents := nEvents n @ [ev]\<rparr>)"
    and P_noise: "P n \<Longrightarrow> nNoise n = Some sv \<Longrightarrow> noise_step sv sv' \<Longrightarrow> P (n\<lparr>nNoise := Some sv'\<rparr>)"
begin

lemma keeps_store [keeps_intro]:
  "keeps P (modify (addPeer p))" "keeps P (modify (updatePeer p))" "keeps P (modify (removePeer k))"
  "keeps P (modify (addMessageToHistory m c))" "keeps P (modify (setCurrentChannel c))"
  by (simp_all add: keeps_def modify_def P_peer P_history P_channel)

lemma keeps_emit [keeps_intro]: "keeps P (emit ev)"
  by (simp add: keeps_def emit_def P_events)

lemma keeps_transmit [keeps_intro]: "keeps P (transmit env d pkt)"
  by (simp add: keeps_def transmit_def P_sent)

lemma keeps_withNoise:
  "(\<And>sv x sv'. f sv = Inr (x, sv') \<Longrightarrow> noise_step sv sv') \<Longrightarrow> keeps P (withNoise f)"
  by (auto simp: keeps_def withNoise_def split: option.splits sum.splits intro: P_noise)

lemma keeps_noise_calls [keeps_intro]:
  "keeps P (withNoise (initiateHandshake pid))"
  "keeps P (withNoise (handleIncomingHandshake now pid msg local))"
  "keeps P (withNoise (noiseEncrypt now bs pid))"
  "keeps P (withNoise (noiseDecrypt now bs pid))"
  by (rule keeps_withNoise, erule noise_step.intros)+

end

locale node_predicate = node_frame +
  assumes P_mark: "P n \<Longrightarrow> P (n\<lparr>nData := markMessageProcessed s (nData n)\<rparr>)"
begin

lemma keeps_mark [keeps_intro]: "keeps P (modify (markMessageProcessed s))"
  by (simp add: keeps_def modify_def P_mark)

end

section \<open>Predicates every handler keeps\<close>

definition node_inv :: "bytes \<Rightarrow> node \<Rightarrow> bool" where
  "node_inv key n \<longleftrightarrow> data_inv (nData n) \<and> (\<forall>sv. nNoise n = Some sv \<longrightarrow> noise_inv key sv)"

definition same_identity :: "node \<Rightarrow> node \<Rightarrow> bool" where
  "same_identity n0 n \<longleftrightarrow> dPeerID (nData n) = dPeerID (nData n0) \<and> dNickname (nData n) = dNickname (nData n0)"

definition logs_extend :: "node \<Rightarrow> node \<Rightarrow> bool" where
  "logs_extend n0 n \<longleftrightarrow> (\<exists>s e. nSent n = nSent n0 @ s \<and> nEvents n = nEvents n0 @ e)"

lemma logs_extend_app:
  "logs_extend n0 n \<Longrightarrow> logs_extend n0 (n\<lparr>nSent := nSent n @ ys\<rparr>)"
  "logs_extend n0 n \<Longrightarrow> logs_extend n0 (n\<lparr>nEvents := nEvents n @ zs\<rparr>)"
  by (auto simp: logs_extend_def)

interpretation inv: node_predicate "node_inv key"
  by unfold_locales (auto simp: node_inv_def data_inv_peer_ops data_inv_addMessage data_inv_mark
      setCurrentChannel_def intro: noise_inv_step, auto simp: data_inv_def)

interpretation ident: node_predicate "same_identity n0"
  by unfold_locales (auto simp: same_identity_def data_defs Let_def)

interpretation logs: node_predicate "logs_extend n0"
  by unfold_locales (auto intro: logs_extend_app, auto simp: logs_extend_def)

interpretation proc: node_frame "\<lambda>n. dProcessedMessages (nData n) = S"
  by unfold_locales (simp_all add: data_defs Let_def)

end
