(* ===== verification/Message_Service.thy ===== *)
theory Message_Service
  imports Node Packet_Codec
begin

text \<open>
  \<open>MessageService\<close> (\<open>src/bitchat/services/message_service.cpp\<close>): sending messages, joining and leaving
  channels, the handlers of received packets and the version negotiation.  Each method is an action
  on the node, with its guards, early returns and calls in the order of the source; logging is left
  out.  The callbacks are the ones \<open>ConsoleUserInterface::initialize\<close> registers, all of them set.
\<close>

abbreviation CLIENT_VERSION :: string where "CLIENT_VERSION \<equiv> ''1.0''"
abbreviation PLATFORM :: string where "PLATFORM \<equiv> ''cpp''"

section \<open>Packets\<close>

definition localSenderID :: "bytes action" where
  "localSenderID = mbind (asks dPeerID) (\<lambda>pid. lift (stringToVector pid))"

text \<open>A packet of the given type whose sender is the local peer and whose time is \<open>now\<close>.\<close>

definition ownPacket :: "u64 \<Rightarrow> u8 \<Rightarrow> bytes \<Rightarrow> BitchatPacket action" where
  "ownPacket now type payload =
     mbind localSenderID (\<lambda>sid. ret ((newPacket now type payload)\<lparr>pSenderID := sid\<rparr>))"

definition encryptForFirst :: "env \<Rightarrow> bool \<Rightarrow> bytes \<Rightarrow> (u8 \<times> bytes) action" where
  "encryptForFirst env priv payload =
     mbind noiseService (\<lambda>noise.
       if noise \<noteq> None \<and> \<not> priv then
         (let ids = getEstablishedSessionIDs (envOrder env) (the noise) in
          if ids \<noteq> [] then
            mbind (withNoise (noiseEncrypt (envNanos env) payload (ids ! 0)))
              (\<lambda>encrypted. ret (PKT_TYPE_NOISE_ENCRYPTED, encrypted))
          else ret (PKT_TYPE_MESSAGE, payload))
       else ret (PKT_TYPE_MESSAGE, payload))"

definition createMessagePacket :: "env \<Rightarrow> BitchatMessage \<Rightarrow> BitchatPacket action" where
  "createMessagePacket env message =
     (let payload = makeMessagePayload (envUuid env 2) message;
          payload = (if shouldCompress payload then compressData (envLz4 env) payload else payload)
      in mbind (encryptForFirst env (mIsPrivate message) payload) (\<lambda>(packetType, payload).
         mbind (ownPacket (envTime env 1) packetType payload) (\<lambda>packet.
           let packet = setCompressed (shouldCompress payload) packet;
               packet = (if \<not> mIsPrivate message
                 then setHasRecipient True (packet\<lparr>pRecipientID := replicate 8 0xFF\<rparr>) else packet);
               packet = (case envSign env of None \<Rightarrow> packet
                 | Some sign \<Rightarrow> setHasSignature True (packet\<lparr>pSignature := sign payload\<rparr>))
           in ret packet)))"

definition createAnnouncePacket :: "u64 \<Rightarrow> BitchatPacket action" where
  "createAnnouncePacket now =
     mbind (asks dNickname) (\<lambda>nick. ownPacket now PKT_TYPE_ANNOUNCE (makeAnnouncePayload nick))"

definition createChannelAnnouncePacket :: "u64 \<Rightarrow> string \<Rightarrow> bool \<Rightarrow> BitchatPacket" where
  "createChannelAnnouncePacket now channel joining =
     newPacket now PKT_TYPE_CHANNEL_ANNOUNCE (makeChannelAnnouncePayload channel joining)"

definition createVersionHelloPacket :: "u64 \<Rightarrow> BitchatPacket action" where
  "createVersionHelloPacket now =
     mbind (ownPacket now PKT_TYPE_VERSION_HELLO (makeVersionHelloPayload [1] 1 CLIENT_VERSION PLATFORM []))
       (\<lambda>packet. ret (packet\<lparr>pTTL := 1\<rparr>))"

section \<open>Sending\<close>

definition historyChannel :: "BitchatMessage \<Rightarrow> string" where
  "historyChannel message =
     (if mChannel message = [] \<and> mIsPrivate message then ''private'' else mChannel message)"

definition sendMessage :: "env \<Rightarrow> string \<Rightarrow> string \<Rightarrow> bool action" where
  "sendMessage env content channel =
     mbind (asks (\<lambda>d. if channel = [] then dCurrentChannel d else channel)) (\<lambda>targetChannel.
     mbind (asks dNickname) (\<lambda>senderNickname.
       let message = (newMessage (envTime env 0) (envUuid env 0) senderNickname content targetChannel)
             \<lparr>mId := envUuid env 1\<rparr>
       in mbind (createMessagePacket env message) (\<lambda>packet.
          mbind (transmit env Broadcast packet) (\<lambda>success.
            if success then mseq (modify (addMessageToHistory message (historyChannel message))) (ret success)
            else ret success))))"

definition sendPrivateMessage :: "env \<Rightarrow> string \<Rightarrow> string \<Rightarrow> bool action" where
  "sendPrivateMessage env content recipientNickname =
     mbind (asks dNickname) (\<lambda>senderNickname.
       let message = (newMessage (envTime env 0) (envUuid env 0) senderNickname content [])
             \<lparr>mId := envUuid env 1, mIsPrivate := True, mRecipientNickname := recipientNickname\<rparr>
       in mbind (createMessagePacket env message) (\<lambda>packet. transmit env Broadcast packet))"

definition leaveChannel :: "env \<Rightarrow> unit action" where
  "leaveChannel env =
     mbind (asks dCurrentChannel) (\<lambda>currentChannel.
       if currentChannel = [] then ret ()
       else mseq (modify (setCurrentChannel []))
           (mseq (transmit env Broadcast (createChannelAnnouncePacket (envTime env 0) [] False))
             (emit (ChannelLeft currentChannel))))"

definition joinChannel :: "env \<Rightarrow> string \<Rightarrow> unit action" where
  "joinChannel env channel =
     mseq (modify (setCurrentChannel channel))
       (if channel = [] then ret ()
        else mbind (asks dCurrentChannel) (\<lambda>currentChannel.
          mseq (if currentChannel \<noteq> [] then leaveChannel env else ret ())
            (let newChannel = (if channel ! 0 \<noteq> CHR ''#'' then CHR ''#'' # channel else channel)
             in mseq (modify (setCurrentChannel newChannel))
                 (mseq (transmit env Broadcast (createChannelAnnouncePacket (envTime env 1) newChannel True))
                    (emit (ChannelJoined newChannel))))))"

definition startIdentityAnnounce :: "env \<Rightarrow> unit action" where
  "startIdentityAnnounce env =
     mbind noiseService (\<lambda>noise.
       if noise = None \<or> envSign env = None then ret ()
       else mbind (asks dPeerID) (\<lambda>pid.
         mbind (ownPacket (envTime env 0) PKT_TYPE_NOISE_IDENTITY_ANNOUNCE (str_bytes pid)) (\<lambda>packet.
           mseq (transmit env Broadcast packet) (ret ()))))"

definition sendVersionHello :: "env \<Rightarrow> string \<Rightarrow> unit action" where
  "sendVersionHello env periph =
     mbind (createVersionHelloPacket (envTime env 0)) (\<lambda>packet.
       mseq (transmit env (if periph = [] then Broadcast else ToPeripheral periph) packet) (ret ()))"

definition sendVersionAck :: "env \<Rightarrow> VersionAck \<Rightarrow> string \<Rightarrow> unit action" where
  "sendVersionAck env ack pid =
     (let ackData = makeVersionAckPayload (vaAgreedVersion ack) (vaServerVersion ack) (vaPlatform ack)
            (vaRejected ack) (vaReason ack)
      in mbind (ownPacket (envTime env 0) PKT_TYPE_VERSION_ACK ackData) (\<lambda>packet.
         mbind (lift (stringToVector pid)) (\<lambda>rid.
           mseq (transmit env Broadcast (packet\<lparr>pRecipientID := rid, pTTL := 1\<rparr>)) (ret ()))))"

section \<open>Peers\<close>

definition peerJoined :: "string \<Rightarrow> string \<Rightarrow> unit action" where
  "peerJoined pid nickname = emit (PeerJoined pid nickname)"

definition peerLeft :: "string \<Rightarrow> string \<Rightarrow> unit action" where
  "peerLeft pid nickname = emit (PeerLeft pid nickname)"

definition peerConnected :: "string \<Rightarrow> unit action" where
  "peerConnected periph = emit (PeerConnected periph)"

definition peerDisconnected :: "string \<Rightarrow> unit action" where
  "peerDisconnected periph =
     mbind (asks dPeers) (\<lambda>ps.
       mseq (case find (\<lambda>p. peripheralID p = periph) ps of
           Some p \<Rightarrow> mseq (modify (removePeer (peerID p))) (peerLeft (peerID p) (peerNickname p))
         | None \<Rightarrow> ret ())
         (emit (PeerDisconnected periph)))"

section \<open>Version negotiation\<close>

definition versionList :: "bytes \<Rightarrow> string" where
  "versionList vs = concat (map (\<lambda>i. (if i > 0 then '', '' else []) @ to_string (unat (vs ! i))) [0..<length vs])"

definition handleVersionHello :: "env \<Rightarrow> string \<Rightarrow> bytes \<Rightarrow> unit action" where
  "handleVersionHello env pid data =
     (if data = [] then ret ()
      else mbind (lift (of_opt (parseVersionHelloPayload data \<lparr>vhSupportedVersions = [],
             vhPreferredVersion = envUninitByte env, vhClientVersion = [], vhPlatform = [], vhCapabilities = []\<rparr>)))
        (\<lambda>hello.
          let ourVersions = getSupportedVersions;
              agreedVersion = negotiateVersion (vhSupportedVersions hello) ourVersions
          in if agreedVersion > 0 then
               mseq (sendVersionAck env \<lparr>vaAgreedVersion = agreedVersion, vaServerVersion = CLIENT_VERSION,
                   vaPlatform = PLATFORM, vaRejected = False, vaReason = []\<rparr> pid)
                 (mbind (asks (\<lambda>d. getPeerInfo d pid)) (\<lambda>peerInfo.
                   if peerInfo = None then modify (addPeer (newPeer (envSeconds env) pid (vhClientVersion hello)))
                   else ret ()))
             else
               (let reason = ''No compatible protocol version. Client supports: '' @
                      versionList (vhSupportedVersions hello) @ '', server supports: '' @ versionList ourVersions
                in sendVersionAck env \<lparr>vaAgreedVersion = 0, vaServerVersion = CLIENT_VERSION,
                   vaPlatform = PLATFORM, vaRejected = True, vaReason = reason\<rparr> pid)))"

definition handleVersionAck :: "env \<Rightarrow> string \<Rightarrow> bytes \<Rightarrow> unit action" where
  "handleVersionAck env pid data =
     (if data = [] then ret ()
      else mbind (lift (of_opt (parseVersionAckPayload data \<lparr>vaAgreedVersion = envUninitByte env,
             vaServerVersion = [], vaPlatform = [], vaRejected = envUninitBool env, vaReason = []\<rparr>)))
        (\<lambda>ack. if vaRejected ack
           then mseq (modify (removePeer pid)) (emit (PeerDisconnected pid))
           else ret ()))"

section \<open>Handlers of received packets\<close>

abbreviation sender :: "BitchatPacket \<Rightarrow> string" where
  "sender packet \<equiv> toHex (pSenderID packet)"

definition packetKey :: "BitchatPacket \<Rightarrow> string" where
  "packetKey packet = sender packet @ ''_'' @ to_string (unat (pTimestamp packet))"

definition shouldProcessPacket :: "BitchatPacket \<Rightarrow> bool action" where
  "shouldProcessPacket packet = asks (\<lambda>d. \<not> wasMessageProcessed d (packetKey packet))"

definition markPacketProcessed :: "BitchatPacket \<Rightarrow> unit action" where
  "markPacketProcessed packet = modify (markMessageProcessed (packetKey packet))"

definition processVersionHelloPacket :: "env \<Rightarrow> BitchatPacket \<Rightarrow> unit action" where
  "processVersionHelloPacket env packet =
     (let data = pPayload packet in if data = [] then ret () else handleVersionHello env (sender packet) data)"

definition processVersionAckPacket :: "env \<Rightarrow> BitchatPacket \<Rightarrow> unit action" where
  "processVersionAckPacket env packet =
     (let data = pPayload packet in if data = [] then ret () else handleVersionAck env (sender packet) data)"

definition messageIsForUs :: "BitchatMessage \<Rightarrow> BitchatData \<Rightarrow> bool" where
  "messageIsForUs message d =
     (if mChannel message = dCurrentChannel d then True
      else if mChannel message = [] \<and> dCurrentChannel d = [] then True
      else if mIsPrivate message \<and> mRecipientNickname message = dNickname d then True
      else False)"

definition processMessagePacket :: "BitchatPacket \<Rightarrow> unit action" where
  "processMessagePacket packet =
     mbind (lift (of_opt (parseMessagePayload (pPayload packet)))) (\<lambda>message.
     mbind (asks dPeerID) (\<lambda>localPeerID.
       if sender packet = localPeerID then ret ()
       else mbind (asks (messageIsForUs message)) (\<lambda>shouldAddToHistory.
         if shouldAddToHistory
         then mseq (modify (addMessageToHistory message (historyChannel message))) (emit (MessageReceived message))
         else ret ())))"

definition processChannelAnnouncePacket :: "env \<Rightarrow> BitchatPacket \<Rightarrow> unit action" where
  "processChannelAnnouncePacket env packet =
     mbind (lift (of_opt (parseChannelAnnouncePayload (pPayload packet) ([], envUninitBool env)))) (\<lambda>(channel, joining).
     mbind (asks (\<lambda>d. getPeerInfo d (sender packet))) (\<lambda>peerInfo.
       case peerInfo of
         Some peer \<Rightarrow> modify (updatePeer (peer\<lparr>peerChannel := (if joining then channel else [])\<rparr>))
       | None \<Rightarrow> ret ()))"

definition processAnnouncePacket :: "env \<Rightarrow> BitchatPacket \<Rightarrow> string \<Rightarrow> unit action" where
  "processAnnouncePacket env packet periph =
     (let nick = parseAnnouncePayload (pPayload packet) in
      mbind (asks (\<lambda>d. getPeerInfo d (sender packet))) (\<lambda>existingPeer.
        case existingPeer of
          Some peer \<Rightarrow>
            (let peer = updateLastSeen (envSeconds env) peer;
                 peer = (if periph \<noteq> [] then peer\<lparr>peripheralID := periph\<rparr> else peer)
             in modify (updatePeer peer))
        | None \<Rightarrow>
            (let peer = updateLastSeen (envSeconds env) (newPeer (envSeconds env) (sender packet) nick);
                 peer = peer\<lparr>peripheralID := periph, peerHasAnnounced := True\<rparr>
             in mseq (modify (addPeer peer)) (emit (PeerJoined (sender packet) nick)))))"

definition processLeavePacket :: "BitchatPacket \<Rightarrow> unit action" where
  "processLeavePacket packet =
     mbind (asks (\<lambda>d. getPeerInfo d (sender packet))) (\<lambda>peerInfo.
       case peerInfo of
         Some peer \<Rightarrow> mseq (modify (removePeer (sender packet))) (emit (PeerLeft (sender packet) (peerNickname peer)))
       | None \<Rightarrow> ret ())"

text \<open>
  The prologue the four Noise handlers share: nothing happens without a Noise service or for a
  packet of our own.
\<close>

definition noiseGuard :: "BitchatPacket \<Rightarrow> (NoiseService \<Rightarrow> string \<Rightarrow> unit action) \<Rightarrow> unit action" where
  "noiseGuard packet body =
     mbind noiseService (\<lambda>noise. case noise of
       None \<Rightarrow> ret ()
     | Some sv \<Rightarrow> mbind (asks dPeerID) (\<lambda>localPeerID.
         if sender packet = localPeerID then ret () else body sv localPeerID))"

definition sendNoise :: "env \<Rightarrow> u8 \<Rightarrow> bytes \<Rightarrow> unit action" where
  "sendNoise env type payload =
     mbind (ownPacket (envTime env 0) type payload) (\<lambda>packet. mseq (transmit env Broadcast packet) (ret ()))"

definition processNoiseHandshakeInitPacket :: "env \<Rightarrow> BitchatPacket \<Rightarrow> unit action" where
  "processNoiseHandshakeInitPacket env packet =
     noiseGuard packet (\<lambda>sv localPeerID.
       if hasEstablishedSession sv (sender packet) then ret ()
       else mbind (withNoise (handleIncomingHandshake (envNanos env) (sender packet) (pPayload packet) localPeerID))
         (\<lambda>response. case response of
            Some r \<Rightarrow> if r \<noteq> [] then sendNoise env PKT_TYPE_NOISE_HANDSHAKE_RESP r else ret ()
          | None \<Rightarrow> ret ()))"

definition processNoiseHandshakeRespPacket :: "env \<Rightarrow> BitchatPacket \<Rightarrow> unit action" where
  "processNoiseHandshakeRespPacket env packet =
     noiseGuard packet (\<lambda>sv localPeerID.
       if hasEstablishedSession sv (sender packet) then ret ()
       else mbind (withNoise (handleIncomingHandshake (envNanos env) (sender packet) (pPayload packet) localPeerID))
         (\<lambda>response. case response of
            Some r \<Rightarrow> if r \<noteq> [] then
                (if length r = 96 then sendNoise env PKT_TYPE_NOISE_HANDSHAKE_RESP r
                 else if length r = 48 then sendNoise env PKT_TYPE_NOISE_HANDSHAKE_RESP r
                 else ret ())
              else ret ()
          | None \<Rightarrow> ret ()))"

definition processNoiseEncryptedPacket :: "env \<Rightarrow> BitchatPacket \<Rightarrow> unit action" where
  "processNoiseEncryptedPacket env packet =
     noiseGuard packet (\<lambda>sv localPeerID.
       mbind (withNoise (noiseDecrypt (envNanos env) (pPayload packet) (sender packet))) (\<lambda>decryptedPayload.
         if decryptedPayload \<noteq> [] then
           processMessagePacket ((newPacket (pTimestamp packet) PKT_TYPE_MESSAGE decryptedPayload)
             \<lparr>pSenderID := pSenderID packet, pFlags := pFlags packet\<rparr>)
         else ret ()))"

definition processNoiseIdentityAnnouncePacket :: "env \<Rightarrow> BitchatPacket \<Rightarrow> unit action" where
  "processNoiseIdentityAnnouncePacket env packet =
     noiseGuard packet (\<lambda>sv localPeerID.
       if localPeerID < sender packet then
         mbind (withNoise (initiateHandshake (sender packet))) (\<lambda>handshakeData.
           if handshakeData \<noteq> [] then sendNoise env PKT_TYPE_NOISE_HANDSHAKE_INIT handshakeData else ret ())
       else ret ())"

definition routePacket :: "env \<Rightarrow> BitchatPacket \<Rightarrow> string \<Rightarrow> unit action" where
  "routePacket env packet periph =
     (let t = pType packet in
      if t = PKT_TYPE_VERSION_HELLO then processVersionHelloPacket env packet
      else if t = PKT_TYPE_VERSION_ACK then processVersionAckPacket env packet
      else if t = PKT_TYPE_MESSAGE then processMessagePacket packet
      else if t = PKT_TYPE_CHANNEL_ANNOUNCE then processChannelAnnouncePacket env packet
      else if t = PKT_TYPE_ANNOUNCE then processAnnouncePacket env packet periph
      else if t = PKT_TYPE_LEAVE then processLeavePacket packet
      else if t = PKT_TYPE_NOISE_HANDSHAKE_INIT then processNoiseHandshakeInitPacket env packet
      else if t = PKT_TYPE_NOISE_HANDSHAKE_RESP then processNoiseHandshakeRespPacket env packet
      else if t = PKT_TYPE_NOISE_ENCRYPTED then processNoiseEncryptedPacket env packet
      else if t = PKT_TYPE_NOISE_IDENTITY_ANNOUNCE then processNoiseIdentityAnnouncePacket env packet
      else ret ())"

definition processPacket :: "env \<Rightarrow> BitchatPacket \<Rightarrow> string \<Rightarrow> unit action" where
  "processPacket env packet periph =
     (if \<not> isValid packet then ret ()
      else mbind (shouldProcessPacket packet) (\<lambda>ok.
        if \<not> ok then ret ()
        else mseq (markPacketProcessed packet) (routePacket env packet periph)))"

text \<open>The two packets a node sends to a peripheral it discovers, as \<open>onPeripheralDiscovered\<close> creates them.\<close>

definition helloFrom :: "bytes \<Rightarrow> u64 \<Rightarrow> BitchatPacket" where
  "helloFrom sid t = (newPacket t PKT_TYPE_VERSION_HELLO (makeVersionHelloPayload [1] 1 CLIENT_VERSION PLATFORM []))
     \<lparr>pSenderID := sid, pTTL := 1\<rparr>"

text \<open>
  What a node without usable session sends for a message, to compare \<open>createMessagePacket\<close> with.
\<close>

definition plainPayload :: "env \<Rightarrow> BitchatMessage \<Rightarrow> bytes" where
  "plainPayload env m = (let payload = makeMessagePayload (envUuid env 2) m
     in if shouldCompress payload then compressData (envLz4 env) payload else payload)"

definition plainPacket :: "env \<Rightarrow> bytes \<Rightarrow> BitchatMessage \<Rightarrow> BitchatPacket" where
  "plainPacket env sid m = (newPacket (envTime env 1) PKT_TYPE_MESSAGE (plainPayload env m))
     \<lparr>pSenderID := sid,
      pFlags := ((if shouldCompress (plainPayload env m) then FLAG_IS_COMPRESSED else 0)
        OR (if mIsPrivate m then 0 else FLAG_HAS_RECIPIENT) OR (if envSign env = None then 0 else FLAG_HAS_SIGNATURE)),
      pRecipientID := (if mIsPrivate m then [] else replicate 8 0xFF),
      pSignature := (case envSign env of None \<Rightarrow> [] | Some sign \<Rightarrow> sign (plainPayload env m))\<rparr>"

definition no_session :: "env \<Rightarrow> node \<Rightarrow> bool" where
  "no_session env n \<longleftrightarrow> (case nNoise n of None \<Rightarrow> True | Some sv \<Rightarrow> getEstablishedSessionIDs (envOrder env) sv = [])"

text \<open>A node with a Noise service and no peers, to apply the properties to.\<close>

definition sampleNode :: node where
  "sampleNode = \<lparr>nData = setPeerID (toHex [1, 2, 3, 4, 5, 6, 7, 8]) (initialData 1234),
     nNoise = Some (newNoiseService (replicate 32 9)), nSent = [], nEvents = []\<rparr>"

definition sampleEnv :: env where
  "sampleEnv = \<lparr>envTime = (\<lambda>i. 1000 + word_of_nat i), envSeconds = 1, envNanos = 1, envUuid = (\<lambda>i. ''uuid''),
     envLz4 = single_run_codec, envSign = None, envBluetooth = True, envSend = (\<lambda>_ _. True), envOrder = [],
     envUninitBool = False, envUninitByte = 0\<rparr>"

definition longMessage :: BitchatMessage where
  "longMessage = newMessage 1 ''id'' ''alice'' (replicate 200 CHR ''x'') ''#c''"

text \<open>A codec that compresses one vector, to one byte.\<close>

definition one_block_codec :: "bytes \<Rightarrow> lz4_api" where
  "one_block_codec block = \<lparr>lz4_compress = (\<lambda>d. if d = block then Some [1] else None),
     lz4_decompress = (\<lambda>c n. if c = [1] \<and> n = length block then Some block else None)\<rparr>"

definition sampleSender :: bytes where
  "sampleSender = [0x99, 0x99, 0x99, 0x99, 0x99, 0x99, 0x99, 0x99]"

definition samplePacket :: "u8 \<Rightarrow> BitchatPacket" where
  "samplePacket type = (newPacket 5 type [104, 105])\<lparr>pSenderID := sampleSender\<rparr>"

section \<open>Every handler keeps a node predicate\<close>

lemmas sending_defs = localSenderID_def ownPacket_def encryptForFirst_def createMessagePacket_def
  createAnnouncePacket_def createVersionHelloPacket_def sendMessage_def sendPrivateMessage_def leaveChannel_def
  joinChannel_def startIdentityAnnounce_def sendVersionHello_def sendVersionAck_def sendNoise_def

lemmas handler_defs = peerConnected_def peerDisconnected_def peerLeft_def handleVersionHello_def handleVersionAck_def
  processVersionHelloPacket_def processVersionAckPacket_def processMessagePacket_def
  processChannelAnnouncePacket_def processAnnouncePacket_def processLeavePacket_def noiseGuard_def
  processNoiseHandshakeInitPacket_def processNoiseHandshakeRespPacket_def processNoiseEncryptedPacket_def
  processNoiseIdentityAnnouncePacket_def shouldProcessPacket_def markPacketProcessed_def

context node_frame
begin

lemma keeps_ownPacket [keeps_intro]: "keeps P (ownPacket now type payload)"
  unfolding ownPacket_def localSenderID_def by (intro keeps_intro)

lemma keeps_sendNoise [keeps_intro]: "keeps P (sendNoise env type payload)"
  unfolding sendNoise_def by (intro keeps_intro)

lemma keeps_createMessagePacket [keeps_intro]: "keeps P (createMessagePacket env m)"
  unfolding createMessagePacket_def encryptForFirst_def by (intro keeps_intro)

lemma keeps_createVersionHello [keeps_intro]: "keeps P (createVersionHelloPacket now)"
  unfolding createVersionHelloPacket_def by (intro keeps_intro)

lemma keeps_createAnnounce [keeps_intro]: "keeps P (createAnnouncePacket now)"
  unfolding createAnnouncePacket_def by (intro keeps_intro)

lemma keeps_leaveChannel [keeps_intro]: "keeps P (leaveChannel env)"
  unfolding leaveChannel_def by (intro keeps_intro)

lemma keeps_sends [keeps_intro]:
  "keeps P (sendMessage env content channel)" "keeps P (sendPrivateMessage env content nick)"
  "keeps P (joinChannel env channel)" "keeps P (startIdentityAnnounce env)"
  "keeps P (sendVersionHello env periph)" "keeps P (sendVersionAck env ack pid)"
  unfolding sendMessage_def sendPrivateMessage_def joinChannel_def startIdentityAnnounce_def
    sendVersionHello_def sendVersionAck_def
  by (intro keeps_intro)+

lemma keeps_noiseGuard [keeps_intro]:
  "(\<And>sv l. keeps P (body sv l)) \<Longrightarrow> keeps P (noiseGuard packet body)"
  unfolding noiseGuard_def by (intro keeps_intro)

lemma keeps_peer_events [keeps_intro]: "keeps P (peerConnected periph)" "keeps P (peerDisconnected periph)"
  unfolding peerConnected_def peerDisconnected_def peerLeft_def by (intro keeps_intro)+

lemma keeps_version [keeps_intro]: "keeps P (handleVersionHello env pid data)" "keeps P (handleVersionAck env pid data)"
  unfolding handleVersionHello_def handleVersionAck_def by (intro keeps_intro)+

lemma keeps_message [keeps_intro]: "keeps P (processMessagePacket packet)"
  unfolding processMessagePacket_def by (intro keeps_intro)

lemma keeps_handlers [keeps_intro]:
  "keeps P (processVersionHelloPacket env packet)" "keeps P (processVersionAckPacket env packet)"
  "keeps P (processChannelAnnouncePacket env packet)" "keeps P (processAnnouncePacket env packet periph)"
  "keeps P (processLeavePacket packet)" "keeps P (processNoiseHandshakeInitPacket env packet)"
  "keeps P (processNoiseHandshakeRespPacket env packet)" "keeps P (processNoiseEncryptedPacket env packet)"
  "keeps P (processNoiseIdentityAnnouncePacket env packet)"
  unfolding processVersionHelloPacket_def processVersionAckPacket_def processChannelAnnouncePacket_def
    processAnnouncePacket_def processLeavePacket_def processNoiseHandshakeInitPacket_def
    processNoiseHandshakeRespPacket_def processNoiseEncryptedPacket_def processNoiseIdentityAnnouncePacket_def
  by (intro keeps_intro)+

lemma keeps_routePacket [keeps_intro]: "keeps P (routePacket env packet periph)"
  unfolding routePacket_def by (intro keeps_intro)

end

context node_predicate
begin

lemma keeps_processPacket [keeps_intro]: "keeps P (processPacket env packet periph)"
  unfolding processPacket_def shouldProcessPacket_def markPacketProcessed_def
  by (intro keeps_intro)

end

section \<open>Lemmas\<close>

lemma packetKey_eq_iff:
  "packetKey p = packetKey q \<longleftrightarrow> pSenderID p = pSenderID q \<and> pTimestamp p = pTimestamp q"
  using key_split [of "sender p" "sender q" "to_string (unat (pTimestamp p))" "to_string (unat (pTimestamp q))"]
  by (auto simp: packetKey_def isxdigit_toHex word_unat_eq_iff)

lemma processPacket_seen:
  "wasMessageProcessed (nData n) (packetKey p) \<Longrightarrow> processPacket env p periph n = (Inr (), n)"
  by (simp add: processPacket_def shouldProcessPacket_def asks_def mbind_def ret_def)

lemma processPacket_fresh:
  assumes "isValid p" "\<not> wasMessageProcessed (nData n) (packetKey p)"
  shows "processPacket env p periph n =
    routePacket env p periph (n\<lparr>nData := markMessageProcessed (packetKey p) (nData n)\<rparr>)"
  using assms by (simp add: processPacket_def shouldProcessPacket_def markPacketProcessed_def action_defs)

lemma seen_after_processing:
  assumes "data_inv (nData n)" "card (dProcessedMessages (nData n)) < 1000" "isValid p"
  shows "wasMessageProcessed (nData (snd (processPacket env p periph n))) k \<longleftrightarrow> k = packetKey p \<or> wasMessageProcessed (nData n) k"
proof (cases "wasMessageProcessed (nData n) (packetKey p)")
  case True
  then show ?thesis by (auto simp: processPacket_seen)
next
  case False
  let ?n = "n\<lparr>nData := markMessageProcessed (packetKey p) (nData n)\<rparr>"
  have "dProcessedMessages (nData (snd (routePacket env p periph ?n))) = dProcessedMessages (nData ?n)"
    using keepsD [OF proc.keeps_routePacket refl] .
  moreover have "wasMessageProcessed (nData ?n) k \<longleftrightarrow> k = packetKey p \<or> wasMessageProcessed (nData n) k"
    using seen_after_mark [OF assms(1), of "packetKey p" k] assms(2) by simp
  ultimately show ?thesis
    by (simp add: processPacket_fresh [OF assms(3) False] wasMessageProcessed_def)
qed

text \<open>A packet leaves no trace exactly when it is invalid or was seen: otherwise at least its identifier is marked, or the set cleared.\<close>

lemma ignored_iff:
  "processPacket env p periph n = (Inr (), n) \<longleftrightarrow> \<not> isValid p \<or> wasMessageProcessed (nData n) (packetKey p)"
proof (cases "isValid p \<and> \<not> wasMessageProcessed (nData n) (packetKey p)")
  case True
  let ?n = "n\<lparr>nData := markMessageProcessed (packetKey p) (nData n)\<rparr>"
  have "dProcessedMessages (nData (snd (routePacket env p periph ?n))) = dProcessedMessages (nData ?n)"
    using keepsD [OF proc.keeps_routePacket refl] .
  moreover have "dProcessedMessages (nData ?n) \<noteq> dProcessedMessages (nData n)"
    using True by (auto simp: markMessageProcessed_def wasMessageProcessed_def Let_def)
  ultimately have "dProcessedMessages (nData (snd (processPacket env p periph n))) \<noteq> dProcessedMessages (nData n)"
    using True by (simp add: processPacket_fresh)
  then have "processPacket env p periph n \<noteq> (Inr (), n)" by (rule contrapos_nn) simp
  with True show ?thesis by simp
next
  case False
  then show ?thesis by (cases "isValid p") (simp_all add: processPacket_seen, simp add: processPacket_def ret_def)
qed

lemma toHex_no_sender: "toHex (resize 8 0 []) = ''0000000000000000''"
proof -
  have "resize 8 0 [] = [0, 0, 0, 0, 0, 0, 0, 0 :: u8]" by (simp add: resize_def eval_nat_numeral)
  then show ?thesis by (simp add: hex_digit_def)
qed

lemma hello_parsed: "parseVersionHelloPayload (makeVersionHelloPayload [1] 1 CLIENT_VERSION PLATFORM []) h =
   Some (h\<lparr>vhSupportedVersions := [1], vhPreferredVersion := 1, vhClientVersion := CLIENT_VERSION,
      vhPlatform := PLATFORM, vhCapabilities := []\<rparr>)"
  by (simp add: parseVersionHelloPayload_def makeVersionHelloPayload_def writeUint8_def writeShortString_def
      readUint8_def vec_at_def readCheckedString_def subvec_def parseHelloStrings_def parseHelloCapabilities_def Let_def)

lemma stringToVector_toHex [simp]: "stringToVector (toHex bs) = Inr bs"
  by (simp add: stringToVector_def)

lemma getPeerInfo_frame [simp]:
  "getPeerInfo (markMessageProcessed s d) = getPeerInfo d"
  by (simp add: fun_eq_iff getPeerInfo_def markMessageProcessed_def Let_def)

lemma peer_mark [simp]:
  "dPeerID (markMessageProcessed s d) = dPeerID d" "dNickname (markMessageProcessed s d) = dNickname d"
  "dCurrentChannel (markMessageProcessed s d) = dCurrentChannel d"
  by (simp_all add: markMessageProcessed_def Let_def)

lemma process_announce:
  assumes "isValid p" "pType p = PKT_TYPE_ANNOUNCE" "\<not> wasMessageProcessed (nData n) (packetKey p)"
  shows "getPeerInfo (nData (snd (processPacket env p periph n))) k =
    (if k \<noteq> sender p then getPeerInfo (nData n) k
     else Some (case getPeerInfo (nData n) (sender p) of
         Some q \<Rightarrow> q\<lparr>peerLastSeen := envSeconds env, peripheralID := (if periph \<noteq> [] then periph else peripheralID q)\<rparr>
       | None \<Rightarrow> (newPeer (envSeconds env) (sender p) (parseAnnouncePayload (pPayload p)))
           \<lparr>peripheralID := periph, peerHasAnnounced := True\<rparr>))"
proof (cases "getPeerInfo (nData n) (sender p)")
  case None
  with assms show ?thesis
    by (simp add: processPacket_fresh routePacket_def processAnnouncePacket_def action_defs Let_def
        peers.lookup_put newPeer_def updateLastSeen_def)
next
  case (Some q)
  with assms getPeerInfo_key [OF Some] show ?thesis
    by (auto simp: processPacket_fresh routePacket_def processAnnouncePacket_def action_defs Let_def
        peer_updates.lookup_put updateLastSeen_def)
qed

lemma process_hello:
  assumes "dPeerID (nData n) = toHex me" "getPeerInfo (nData n) (toHex sid) = None" "t \<noteq> 0"
    and "\<not> wasMessageProcessed (nData n) (packetKey (helloFrom sid t))"
  shows "nData (snd (processPacket env (helloFrom sid t) periph n)) =
    addPeer (newPeer (envSeconds env) (toHex sid) CLIENT_VERSION) (markMessageProcessed (packetKey (helloFrom sid t)) (nData n))"
proof -
  have v: "isValid (helloFrom sid t)"
    using assms(3) by (simp add: isValid_def helloFrom_def newPacket_def defaultPacket_def
        makeVersionHelloPayload_def writeUint8_def writeShortString_def Let_def)
  have t: "pType (helloFrom sid t) = PKT_TYPE_VERSION_HELLO" "pSenderID (helloFrom sid t) = sid"
    "pPayload (helloFrom sid t) = makeVersionHelloPayload [1] 1 CLIENT_VERSION PLATFORM []"
    by (simp_all add: helloFrom_def newPacket_def defaultPacket_def)
  have ne: "makeVersionHelloPayload [1] 1 CLIENT_VERSION PLATFORM [] \<noteq> []"
    by (simp add: makeVersionHelloPayload_def writeUint8_def writeShortString_def Let_def)
  have a: "negotiateVersion [1] getSupportedVersions = 1" by (simp add: negotiateVersion_def getSupportedVersions_def)
  show ?thesis
    using assms v t ne a
    by (simp add: processPacket_fresh routePacket_def processVersionHelloPacket_def handleVersionHello_def
        hello_parsed sendVersionAck_def ownPacket_def localSenderID_def action_defs Let_def)
qed

lemma createMessagePacket_plain:
  assumes "dPeerID (nData n) = toHex sid" "mIsPrivate m \<or> no_session env n"
  shows "createMessagePacket env m n = (Inr (plainPacket env sid m), n)"
proof -
  have "encryptForFirst env (mIsPrivate m) pl n = (Inr (PKT_TYPE_MESSAGE, pl), n)" for pl
    using assms(2) by (auto simp: encryptForFirst_def action_defs no_session_def split: option.splits)
  moreover have "ownPacket t ty pl n = (Inr ((newPacket t ty pl)\<lparr>pSenderID := sid\<rparr>), n)" for t ty pl
    using assms(1) by (simp add: ownPacket_def localSenderID_def action_defs)
  ultimately show ?thesis
    unfolding createMessagePacket_def Let_def plainPayload_def [unfolded Let_def, symmetric]
    by (simp add: mbind_def ret_def plainPacket_def setCompressed_def setHasRecipient_def setHasSignature_def setFlag_def newPacket_def defaultPacket_def
        split: option.split)
qed

lemma plainPacket_sel [simp]:
  "pPayload (plainPacket env sid m) = plainPayload env m" "pType (plainPacket env sid m) = PKT_TYPE_MESSAGE"
  "pSenderID (plainPacket env sid m) = sid" "pTimestamp (plainPacket env sid m) = envTime env 1"
  "pVersion (plainPacket env sid m) = PKT_VERSION"
  "isCompressed (plainPacket env sid m) = shouldCompress (plainPayload env m)"
  by (simp_all add: plainPacket_def newPacket_def defaultPacket_def isCompressed_def bit_or_iff)

lemma short_packet_received:
  assumes "lz4_ok lz" "length (plainPayload env m) \<le> 100" "length sid = 8"
  shows "\<exists>q. deserializePacket lz (serializePacket lz rng (plainPacket env sid m)) = Some q
    \<and> pPayload q = plainPayload env m \<and> pSenderID q = sid \<and> pType q = PKT_TYPE_MESSAGE
    \<and> pTimestamp q = envTime env 1 \<and> pVersion q = PKT_VERSION \<and> \<not> isCompressed q
    \<and> unat (pPayloadLength q) = length (pPayload q)"
proof -
  let ?p = "plainPacket env sid m"
  have ns: "\<not> shouldCompress (plainPayload env m)" using assms(2) by (simp add: shouldCompress_def COMPRESSION_THRESHOLD_def)
  then have c: "compressPayload lz (pPayload ?p) = (plainPayload env m, 0, False)" by (simp add: compressPayload_def)
  have "deserializePacket lz (serializePacket lz rng ?p) = Some (wire_view lz ?p)"
    using assms(2) ns by (intro short_roundtrip [OF assms(1)]) simp_all
  then show ?thesis using assms(2,3) ns c
    by (auto simp: wire_view_def sent_compressed_def isCompressed_def plainPacket_def newPacket_def defaultPacket_def bit_or_iff)
qed

lemma processMessage_sent:
  assumes "parseMessagePayload (pPayload q) = Some m" "isValid q" "pType q = PKT_TYPE_MESSAGE"
    and "\<not> wasMessageProcessed (nData n) (packetKey q)" "sender q \<noteq> dPeerID (nData n)" "messageIsForUs m (nData n)"
  shows "processPacket env q periph n = (Inr (), n\<lparr>
     nData := addMessageToHistory m (historyChannel m) (markMessageProcessed (packetKey q) (nData n)),
     nEvents := nEvents n @ [MessageReceived m]\<rparr>)"
  using assms
  by (auto simp: processPacket_fresh routePacket_def processMessagePacket_def action_defs messageIsForUs_def
      split: if_splits)

text \<open>The same for a message of any content, parsed or not, for this node or not.\<close>

lemma processMessage_parsed:
  assumes "isValid q" "pType q = PKT_TYPE_MESSAGE" "\<not> wasMessageProcessed (nData n) (packetKey q)" "sender q \<noteq> dPeerID (nData n)"
  shows "processPacket env q periph n = (let n' = n\<lparr>nData := markMessageProcessed (packetKey q) (nData n)\<rparr> in
     case parseMessagePayload (pPayload q) of
       None \<Rightarrow> (Inl OutOfRange, n')
     | Some m \<Rightarrow> (Inr (), if messageIsForUs m (nData n)
         then n'\<lparr>nData := addMessageToHistory m (historyChannel m) (nData n'), nEvents := nEvents n @ [MessageReceived m]\<rparr> else n'))"
  using assms
  by (auto simp: processPacket_fresh routePacket_def processMessagePacket_def action_defs messageIsForUs_def of_opt_def Let_def
      split: option.split)

lemma one_block_codec_ok: "lz4_ok (one_block_codec block)"
  by (simp add: lz4_ok_def one_block_codec_def)

lemma sampleNode_inv: "node_inv (replicate 32 9) sampleNode"
  using data_inv_initial [of 1234] noise_inv_init [of "replicate 32 9"]
  by (simp add: node_inv_def sampleNode_def setPeerID_def data_inv_def)

lemma samplePacket_valid: "isValid (samplePacket t)"
  by (simp add: isValid_def samplePacket_def newPacket_def defaultPacket_def)

section \<open>Properties\<close>

text \<open>
  C9: what a received packet can do.  Whatever the packet, processing it leaves the local identifier and
  nickname as they are, only appends to what was sent and to what the user was shown, and keeps the
  invariants of the data store and of the session service, also when the handler throws.
\<close>

theorem packets_keep_identity:
  assumes "node_inv key n"
  shows "same_identity n (snd (processPacket env p periph n)) \<and> logs_extend n (snd (processPacket env p periph n))
    \<and> node_inv key (snd (processPacket env p periph n))"
proof (intro conjI)
  show "same_identity n (snd (processPacket env p periph n))"
    by (rule keepsD [OF ident.keeps_processPacket]) (simp add: same_identity_def)
  show "logs_extend n (snd (processPacket env p periph n))"
    by (rule keepsD [OF logs.keeps_processPacket]) (simp add: logs_extend_def)
qed (rule keepsD [OF inv.keeps_processPacket assms])

theorem packets_keep_identity_witness:
  "node_inv (replicate 32 9) sampleNode \<and>
   same_identity sampleNode (snd (processPacket sampleEnv (samplePacket PKT_TYPE_ANNOUNCE) [] sampleNode))"
  using sampleNode_inv packets_keep_identity [OF sampleNode_inv] by blast

text \<open>
  C7: duplicate suppression.  If the store keeps its invariant and fewer than 1000 identifiers are stored, after a valid packet is processed another
  packet, of any type and content, is ignored, that is changes nothing and throws nothing, exactly when it would have been ignored before or it
  has the sender and the timestamp of the packet processed: the key is exactly the pair of the two.
\<close>

theorem duplicate_ignored:
  assumes "data_inv (nData n)" "card (dProcessedMessages (nData n)) < 1000" "isValid p"
    and "n' = snd (processPacket env p periph n)"
  shows "processPacket env' q periph' n' = (Inr (), n') \<longleftrightarrow>
    processPacket env' q periph' n = (Inr (), n) \<or> pSenderID q = pSenderID p \<and> pTimestamp q = pTimestamp p"
  using seen_after_processing [OF assms(1-3), of env periph "packetKey q"] packetKey_eq_iff [of q p] assms(3,4)
  by (auto simp: ignored_iff)

theorem duplicate_ignored_witness:
  "let n = snd (processPacket sampleEnv (samplePacket PKT_TYPE_ANNOUNCE) [] sampleNode) in
   processPacket sampleEnv (samplePacket PKT_TYPE_LEAVE) [] n = (Inr (), n)
   \<and> processPacket sampleEnv ((samplePacket PKT_TYPE_LEAVE)\<lparr>pTimestamp := 6\<rparr>) [] n \<noteq> (Inr (), n)"
proof -
  let ?n = "snd (processPacket sampleEnv (samplePacket PKT_TYPE_ANNOUNCE) [] sampleNode)"
  have inv: "data_inv (nData sampleNode)" using sampleNode_inv by (simp add: node_inv_def)
  have c: "dProcessedMessages (nData sampleNode) = {}" by (simp add: sampleNode_def setPeerID_def initialData_def)
  then have "card (dProcessedMessages (nData sampleNode)) < 1000" by simp
  note r = duplicate_ignored [OF inv this samplePacket_valid refl, of sampleEnv _ "[]" sampleEnv PKT_TYPE_ANNOUNCE "[]"]
  have "processPacket sampleEnv ((samplePacket PKT_TYPE_LEAVE)\<lparr>pTimestamp := 6\<rparr>) [] sampleNode \<noteq> (Inr (), sampleNode)"
    using c by (simp add: ignored_iff isValid_def wasMessageProcessed_def samplePacket_def newPacket_def defaultPacket_def)
  moreover have "pSenderID (samplePacket t) = sampleSender" "pTimestamp (samplePacket t) = 5" for t
    by (simp_all add: samplePacket_def newPacket_def)
  ultimately show ?thesis unfolding Let_def r by simp
qed

text \<open>
  A Noise identity announce from a peer with a larger identifier never starts a handshake: in every
  state that satisfies the invariants the handler throws, after the packet was marked as processed.
\<close>

theorem identity_announce_throws:
  assumes "node_inv key n" "nNoise n = Some sv" "isValid p" "pType p = PKT_TYPE_NOISE_IDENTITY_ANNOUNCE"
    and "\<not> wasMessageProcessed (nData n) (packetKey p)" "dPeerID (nData n) < sender p"
  shows "processPacket env p periph n =
    (Inl (if getSession sv (sender p) = None then noSession (sender p) else RuntimeError ''Session already established''),
     n\<lparr>nData := markMessageProcessed (packetKey p) (nData n)\<rparr>)"
proof -
  have "noise_inv key sv" using assms(1,2) by (simp add: node_inv_def)
  from initiate_throws_inv [OF this, of "sender p"] assms show ?thesis
    by (auto simp: processPacket_fresh routePacket_def processNoiseIdentityAnnouncePacket_def noiseGuard_def
        action_defs markMessageProcessed_def Let_def)
qed

text \<open>
  Joining a channel.  The node ends up in the channel, its name prefixed with \<open>#\<close> if necessary, and sends
  a leave and a join announcement; because the current channel is overwritten first, the interface is
  told that the new channel, as typed, was left, and the previous channel is never reported.
\<close>

theorem join_announces_leaving_new_channel:
  assumes "c \<noteq> []" "envBluetooth env" 
  shows "let c' = (if hd c \<noteq> CHR ''#'' then CHR ''#'' # c else c) in
    joinChannel env c n = (Inr (), n\<lparr>nData := setCurrentChannel c' (nData n),
       nSent := nSent n @ [(Broadcast, createChannelAnnouncePacket (envTime env 0) [] False),
                           (Broadcast, createChannelAnnouncePacket (envTime env 1) c' True)],
       nEvents := nEvents n @ [ChannelLeft c, ChannelJoined c']\<rparr>)"
  using assms
  by (simp add: joinChannel_def leaveChannel_def action_defs setCurrentChannel_def Let_def hd_conv_nth)

text \<open>
  Channel announcements carry no sender.  As received, such a packet has eight zero bytes in its
  place, so it changes nothing at a node that knows no peer with the identifier of sixteen zeros.
\<close>

theorem channel_announce_lost:
  assumes "getPeerInfo (nData n) ''0000000000000000'' = None"
  shows "processChannelAnnouncePacket env (wire_view lz (createChannelAnnouncePacket now c j)) n = (Inr (), n)"
  using assms channel_announce_parsed [of c j "([], envUninitBool env)"]
  by (simp add: processChannelAnnouncePacket_def wire_view_def createChannelAnnouncePacket_def newPacket_def
      defaultPacket_def action_defs toHex_no_sender)

text \<open>
  A peer that introduces itself with a version hello before it announces, as every node does with a
  peripheral it discovers, is listed under the client version as its nickname, and no announcement
  changes that: the announced nickname is used for unknown peers only.
\<close>

theorem hello_fixes_nickname:
  assumes "dPeerID (nData n) = toHex me" "getPeerInfo (nData n) (toHex sid) = None"
    and "\<not> wasMessageProcessed (nData n) (packetKey (helloFrom sid t1))" "t1 \<noteq> 0"
    and "n1 = snd (processPacket env1 (helloFrom sid t1) periph1 n)"
    and "pType p = PKT_TYPE_ANNOUNCE" "pSenderID p = sid"
    and "n2 = snd (processPacket env2 p periph2 n1)"
  shows "\<exists>q. getPeerInfo (nData n2) (toHex sid) = Some q \<and> peerNickname q = ''1.0'' \<and> \<not> peerHasAnnounced q"
proof -
  have 1: "getPeerInfo (nData n1) (toHex sid) = Some (newPeer (envSeconds env1) (toHex sid) ''1.0'')"
    unfolding assms(5) process_hello [OF assms(1,2,4,3)] by (simp add: peers.lookup_put newPeer_def updateLastSeen_def)
  show ?thesis
  proof (cases "isValid p \<and> \<not> wasMessageProcessed (nData n1) (packetKey p)")
    case True
    with process_announce [of p n1 env2 periph2 "toHex sid"] 1 assms(6-8) show ?thesis
      by (auto simp: newPeer_def updateLastSeen_def)
  next
    case False
    then have "n2 = n1" using assms(8) by (auto simp: processPacket_seen) (simp add: processPacket_def ret_def)
    with 1 show ?thesis by (simp add: newPeer_def updateLastSeen_def)
  qed
qed

text \<open>
  Version negotiation.  A well-formed version hello is answered by one acknowledgement, addressed to
  the sender and not relayed, that accepts version 1 exactly if the hello lists it and otherwise rejects
  with a reason; an accepted peer that was not known is listed with the client version as nickname.
\<close>

theorem version_hello_answered:
  assumes "length vs \<le> 255" "length caps \<le> 255" "dPeerID (nData n) = toHex me" "envBluetooth env"
  shows "let ok = (1 \<in> set vs);
      reason = (if ok then [] else ''No compatible protocol version. Client supports: '' @ versionList vs @ '', server supports: 1'');
      ack = (newPacket (envTime env 0) PKT_TYPE_VERSION_ACK
          (makeVersionAckPayload (if ok then 1 else 0) CLIENT_VERSION PLATFORM (\<not> ok) reason))
          \<lparr>pSenderID := me, pRecipientID := sid, pTTL := 1\<rparr>
    in handleVersionHello env (toHex sid) (makeVersionHelloPayload vs pref cv pl caps) n = (Inr (),
      n\<lparr>nSent := nSent n @ [(Broadcast, ack)],
        nData := (if ok \<and> getPeerInfo (nData n) (toHex sid) = None
          then addPeer (newPeer (envSeconds env) (toHex sid) (take 255 cv)) (nData n) else nData n)\<rparr>)"
proof -
  have ne: "makeVersionHelloPayload vs pref cv pl caps \<noteq> []"
    by (simp add: makeVersionHelloPayload_def writeUint8_def writeShortString_def Let_def foldl_writeUint8 foldl_writeShortString)
  have a: "negotiateVersion vs getSupportedVersions = (if 1 \<in> set vs then 1 else 0)"
    by (auto simp: negotiateVersion_def getSupportedVersions_def find_None_iff split: option.splits dest: negotiate_Some)
  have l: "versionList getSupportedVersions = ''1''"
    by (simp add: versionList_def getSupportedVersions_def to_string.simps hex_digit_def)
  show ?thesis
    using assms(3,4) ne a l
    by (simp add: handleVersionHello_def version_hello_parsed [OF assms(1,2)] sendVersionAck_def ownPacket_def
        localSenderID_def action_defs Let_def)
qed

text \<open>
  C36: a message that compresses well arrives compressed.  Let LZ4 keep its contract and the clock not be zero, and let a node with a well-formed identifier send a message that is private, or send it
  while it has no established session, and let its payload be above the compression threshold of 100 bytes and its compressed form,
  not empty, at most 100 bytes.  The packet goes out without the compression flag, as the flag is computed
  from the payload after compression.  Another node that has not seen the packet runs the message parser on
  the compressed bytes: it throws when they make the parser read out of range, and otherwise shows and stores what
  they parse to, if that message is for it, in place of the message sent.
\<close>

theorem message_arrives_compressed:
  assumes "lz4_ok (envLz4 env)" "dPeerID (nData n) = toHex sid" "length sid = 8" "mIsPrivate m \<or> no_session env n"
    and "shouldCompress (makeMessagePayload (envUuid env 2) m)"
    and "lz4_compress (envLz4 env) (makeMessagePayload (envUuid env 2) m) = Some c" "c \<noteq> []" "length c \<le> 100"
    and "envTime env 1 \<noteq> 0" "dPeerID (nData b) \<noteq> toHex sid"
      "\<not> wasMessageProcessed (nData b) (toHex sid @ ''_'' @ to_string (unat (envTime env 1)))"
  shows "\<exists>p q b'. createMessagePacket env m n = (Inr p, n)
    \<and> deserializePacket (envLz4 env) (serializePacket (envLz4 env) rng p) = Some q
    \<and> pPayload q = c \<and> \<not> isCompressed q
    \<and> nData b' = markMessageProcessed (packetKey q) (nData b) \<and> nEvents b' = nEvents b
    \<and> processPacket env' q periph b = (case parseMessagePayload c of
         None \<Rightarrow> (Inl OutOfRange, b')
       | Some m' \<Rightarrow> (Inr (), if messageIsForUs m' (nData b)
           then b'\<lparr>nData := addMessageToHistory m' (historyChannel m') (nData b'), nEvents := nEvents b @ [MessageReceived m']\<rparr> else b'))"
proof -
  have c: "plainPayload env m = c" using assms(5-8) by (auto simp: plainPayload_def compressData_def Let_def)
  with assms(8) have "length (plainPayload env m) \<le> 100" by simp
  from short_packet_received [OF assms(1) this assms(3), where rng = rng, unfolded c] obtain q where q:
    "deserializePacket (envLz4 env) (serializePacket (envLz4 env) rng (plainPacket env sid m)) = Some q" "pPayload q = c"
    "pSenderID q = sid" "pType q = PKT_TYPE_MESSAGE" "pTimestamp q = envTime env 1" "pVersion q = PKT_VERSION" "\<not> isCompressed q"
    "unat (pPayloadLength q) = length (pPayload q)" by auto
  have "isValid q" using q(2,5,6,8) assms(9) by (simp add: isValid_def)
  moreover have "\<not> wasMessageProcessed (nData b) (packetKey q)" using q(3,5) assms(11) by (simp add: packetKey_def)
  ultimately show ?thesis
    using createMessagePacket_plain [OF assms(2,4)] q processMessage_parsed [of q b env' periph] assms(10)
    by (intro exI [of _ "plainPacket env sid m"] exI [of _ q]
        exI [of _ "b\<lparr>nData := markMessageProcessed (packetKey q) (nData b)\<rparr>"]) (simp add: Let_def)
qed

text \<open>A receiver that gets one byte in place of the message shows an empty message, if it is in no channel.\<close>

theorem message_arrives_compressed_witness:
  "let env = sampleEnv\<lparr>envLz4 := one_block_codec (makeMessagePayload ''uuid'' longMessage)\<rparr> in
   \<exists>p q b'. createMessagePacket env longMessage sampleNode = (Inr p, sampleNode)
    \<and> deserializePacket (envLz4 env) (serializePacket (envLz4 env) (\<lambda>_. 0) p) = Some q
    \<and> processPacket env q [] (sampleNode\<lparr>nData := initialData 7\<rparr>) = (Inr (), b') \<and> nEvents b' = [MessageReceived defaultMessage]"
proof -
  let ?env = "sampleEnv\<lparr>envLz4 := one_block_codec (makeMessagePayload ''uuid'' longMessage)\<rparr>" and ?sid = "[1, 2, 3, 4, 5, 6, 7, 8] :: bytes"
  let ?b = "sampleNode\<lparr>nData := initialData 7\<rparr>"
  have 1: "lz4_ok (envLz4 ?env)" by (simp add: one_block_codec_ok)
  have 2: "dPeerID (nData sampleNode) = toHex ?sid" by (simp only: sampleNode_def setPeerID_def) simp
  have 3: "mIsPrivate longMessage \<or> no_session ?env sampleNode"
    by (simp add: no_session_def sampleNode_def sampleEnv_def getEstablishedSessionIDs_def)
  have 4: "shouldCompress (makeMessagePayload (envUuid ?env 2) longMessage)"
    by (simp add: shouldCompress_def COMPRESSION_THRESHOLD_def makeMessagePayload_layout longMessage_def
        newMessage_def defaultMessage_def)
  have 5: "lz4_compress (envLz4 ?env) (makeMessagePayload (envUuid ?env 2) longMessage) = Some [1]" "envTime ?env 1 \<noteq> 0"
    by (simp_all add: one_block_codec_def sampleEnv_def)
  have 6: "dPeerID (nData ?b) \<noteq> toHex ?sid" "\<not> wasMessageProcessed (nData ?b) k" for k
    by (simp_all add: initialData_def wasMessageProcessed_def hex_digit_def)
  have e: "nEvents ?b = []" by (simp add: sampleNode_def)
  have p: "parseMessagePayload [1] = Some defaultMessage" "messageIsForUs defaultMessage (initialData 7)"
    by (simp_all add: parseMessagePayload_def messageIsForUs_def defaultMessage_def initialData_def)
  obtain p q b' where "createMessagePacket ?env longMessage sampleNode = (Inr p, sampleNode)"
    "deserializePacket (envLz4 ?env) (serializePacket (envLz4 ?env) (\<lambda>_. 0) p) = Some q"
    "processPacket ?env q [] ?b = (Inr (), b'\<lparr>nData := addMessageToHistory defaultMessage (historyChannel defaultMessage) (nData b'),
       nEvents := nEvents ?b @ [MessageReceived defaultMessage]\<rparr>)"
    using message_arrives_compressed [OF 1 2 _ 3 4 5(1) _ _ 5(2) 6, of "\<lambda>_. 0" ?env "[]"] by (auto simp: p)
  moreover have "nEvents (b'\<lparr>nData := x, nEvents := nEvents ?b @ [MessageReceived defaultMessage]\<rparr>) = [MessageReceived defaultMessage]" for x
    using e by simp
  ultimately show ?thesis unfolding Let_def by blast
qed

end
