(* ===== verification/Network_Service.thy ===== *)
theory Network_Service
  imports Message_Service
begin

text \<open>
  \<open>NetworkService\<close>, the two runners and \<open>BitchatManager\<close>: reception and relay of packets, the greeting of a
  discovered peripheral, the start-up of the program and the bodies of its background loops.  The
  detached thread of \<open>onPeripheralDiscovered\<close> runs after the call returned, so it is an action of its own,
  as is one round of each runner's loop.
\<close>

section \<open>Relay\<close>

text \<open>A call on the Bluetooth interface itself, which here is not checked for null.\<close>

definition btSend :: "env \<Rightarrow> dest \<Rightarrow> BitchatPacket \<Rightarrow> bool action" where
  "btSend env d pkt n =
     (if \<not> envBluetooth env then (Inl OutOfRange, n)
      else (Inr (envSend env d pkt), n\<lparr>nSent := nSent n @ [(d, pkt)]\<rparr>))"

primrec relayTo :: "env \<Rightarrow> BitchatPacket \<Rightarrow> string \<Rightarrow> BitchatPeer list \<Rightarrow> unit action" where
  "relayTo env relayPkt senderID [] = ret ()"
| "relayTo env relayPkt senderID (p # ps) =
     mseq (if peerID p \<noteq> senderID then mseq (btSend env (ToPeer (peerID p)) relayPkt) (ret ()) else ret ())
       (relayTo env relayPkt senderID ps)"

definition relayPacket :: "env \<Rightarrow> BitchatPacket \<Rightarrow> unit action" where
  "relayPacket env packet =
     (let relayPkt = packet\<lparr>pTTL := pTTL packet - 1\<rparr>
      in mbind (asks dPeers) (\<lambda>ps. relayTo env relayPkt (sender packet) ps))"

definition onPacketReceived :: "env \<Rightarrow> BitchatPacket \<Rightarrow> string \<Rightarrow> unit action" where
  "onPacketReceived env packet periph =
     mseq (processPacket env packet periph)
       (if pTTL packet > 0 then relayPacket env packet else ret ())"

definition onPeerConnected :: "string \<Rightarrow> unit action" where
  "onPeerConnected periph = peerConnected periph"

definition onPeerDisconnected :: "string \<Rightarrow> unit action" where
  "onPeerDisconnected periph = peerDisconnected periph"

definition onPeripheralDiscovered :: "env \<Rightarrow> bool \<Rightarrow> string \<Rightarrow> unit action" where
  "onPeripheralDiscovered env hasMessageService periph =
     (if \<not> hasMessageService then ret () else sendVersionHello env periph)"

definition delayedAnnounce :: "env \<Rightarrow> string \<Rightarrow> unit action" where
  "delayedAnnounce env periph =
     mbind (createAnnouncePacket (envTime env 0)) (\<lambda>announcePacket.
       mseq (btSend env (ToPeripheral periph) announcePacket) (ret ()))"

section \<open>Runners\<close>

record Runner =
  runDependency :: bool
  runShouldExit :: bool
  runRunning :: bool

definition newRunner :: Runner where
  "newRunner = \<lparr>runDependency = False, runShouldExit = False, runRunning = False\<rparr>"

definition setBluetoothNetworkInterface :: "bool \<Rightarrow> Runner \<Rightarrow> Runner" where
  "setBluetoothNetworkInterface present r = r\<lparr>runDependency := present\<rparr>"

definition announceRunnerStart :: "Runner \<Rightarrow> bool \<times> Runner" where
  "announceRunnerStart r =
     (if \<not> runDependency r then (False, r)
      else if runRunning r then (True, r)
      else (True, r\<lparr>runShouldExit := False, runRunning := True\<rparr>))"

definition announceRunnerStop :: "Runner \<Rightarrow> Runner" where
  "announceRunnerStop r = r\<lparr>runShouldExit := True, runRunning := False\<rparr>"

definition cleanupRunnerInitialize :: "bool \<Rightarrow> Runner \<Rightarrow> bool \<times> Runner" where
  "cleanupRunnerInitialize networkService r = (True, r\<lparr>runDependency := networkService\<rparr>)"

definition cleanupRunnerStart :: "Runner \<Rightarrow> bool \<times> Runner" where
  "cleanupRunnerStart r =
     (if \<not> runDependency r then (False, r)
      else if runRunning r then (True, r)
      else (True, r\<lparr>runShouldExit := False, runRunning := True\<rparr>))"

definition cleanupRunnerStop :: "Runner \<Rightarrow> Runner" where
  "cleanupRunnerStop r = r\<lparr>runShouldExit := True, runRunning := False\<rparr>"

text \<open>One round of the announce loop; an exception is caught and logged.\<close>

definition announceRound :: "env \<Rightarrow> bool \<Rightarrow> unit action" where
  "announceRound env ready n =
     (Inr (), snd (mbind (asks dNickname) (\<lambda>nick. mbind (asks dPeerID) (\<lambda>localPeerID.
        mbind (lift (hex_bytes localPeerID)) (\<lambda>sid.
          let packet = (newPacket (envTime env 0) PKT_TYPE_ANNOUNCE (makeAnnouncePayload nick))\<lparr>pSenderID := sid\<rparr>
          in if envBluetooth env \<and> ready then mseq (btSend env Broadcast packet) (ret ()) else ret ()))) n))"

definition cleanupRound :: "env \<Rightarrow> unit action" where
  "cleanupRound env = modify (cleanupStalePeers (envSeconds env))"

text \<open>
  The loop of a runner: what it reads from \<open>shouldExit\<close> before each round, and what the round reads.  It does not return
  while the flag is not set.
\<close>

fun runnerLoop :: "('a \<Rightarrow> unit action) \<Rightarrow> (bool \<times> 'a) list \<Rightarrow> node \<Rightarrow> node option" where
  "runnerLoop round [] n = None"
| "runnerLoop round ((shouldExit, x) # rounds) n = (if shouldExit then Some n else runnerLoop round rounds (snd (round x n)))"

definition announceRunnerLoop :: "(bool \<times> env \<times> bool) list \<Rightarrow> node \<Rightarrow> node option" where
  "announceRunnerLoop = runnerLoop (\<lambda>(env, ready). announceRound env ready)"

definition cleanupRunnerLoop :: "(bool \<times> env) list \<Rightarrow> node \<Rightarrow> node option" where
  "cleanupRunnerLoop = runnerLoop cleanupRound"

section \<open>NetworkService and BitchatManager\<close>

record NetworkService =
  netBluetooth :: bool
  netMessageService :: bool
  netAnnounceRunner :: "Runner option"
  netCleanupRunner :: "Runner option"

definition newNetworkService :: NetworkService where
  "newNetworkService = \<lparr>netBluetooth = False, netMessageService = False, netAnnounceRunner = None,
     netCleanupRunner = None\<rparr>"

definition netInitialize ::
    "bool \<Rightarrow> bool \<Rightarrow> Runner option \<Rightarrow> Runner option \<Rightarrow> NetworkService \<Rightarrow> bool \<times> NetworkService" where
  "netInitialize bluetooth messageService announceRunner cleanupRunner net =
     (let net = net\<lparr>netBluetooth := bluetooth\<rparr> in
      if \<not> bluetooth then (False, net)
      else (True, net\<lparr>netMessageService := messageService,
              netAnnounceRunner := map_option (setBluetoothNetworkInterface bluetooth) announceRunner,
              netCleanupRunner := cleanupRunner\<rparr>))"

definition netStart :: "bool \<Rightarrow> bool \<Rightarrow> NetworkService \<Rightarrow> bool \<times> NetworkService" where
  "netStart btInitialize btStart net =
     (if \<not> netBluetooth net then (False, net)
      else if \<not> btInitialize then (False, net)
      else if \<not> btStart then (False, net)
      else (True, net\<lparr>netAnnounceRunner := map_option (snd \<circ> announceRunnerStart) (netAnnounceRunner net),
              netCleanupRunner := map_option (snd \<circ> cleanupRunnerStart) (netCleanupRunner net)\<rparr>))"

definition netStop :: "NetworkService \<Rightarrow> NetworkService" where
  "netStop net = net\<lparr>netAnnounceRunner := map_option announceRunnerStop (netAnnounceRunner net),
     netCleanupRunner := map_option cleanupRunnerStop (netCleanupRunner net)\<rparr>"

definition managerInitialize ::
    "(nat \<Rightarrow> u8) \<Rightarrow> bool \<Rightarrow> bool \<Rightarrow> bool \<Rightarrow> Runner \<Rightarrow> Runner \<Rightarrow> NetworkService \<Rightarrow> node \<Rightarrow> bool \<times> NetworkService \<times> node" where
  "managerInitialize rng bluetooth cryptoOk uiOk announceRunner cleanupRunner net n =
     (let n = n\<lparr>nData := setPeerID (randomPeerID rng) (nData n)\<rparr>;
          (ok, net) = netInitialize bluetooth True (Some announceRunner) (Some cleanupRunner) net
      in if \<not> ok then (False, net, n)
         else if \<not> cryptoOk then (False, net, n)
         else if \<not> uiOk then (False, net, n)
         else (True, net, n))"

definition managerStart :: "env \<Rightarrow> bool \<Rightarrow> bool \<Rightarrow> NetworkService \<Rightarrow> node \<Rightarrow> (fault + bool) \<times> NetworkService \<times> node" where
  "managerStart env btInitialize btStart net n =
     (let (ok, net) = netStart btInitialize btStart net in
      if \<not> ok then (Inr False, net, n)
      else case startIdentityAnnounce env n of
             (Inl e, n') \<Rightarrow> (Inl e, net, n')
           | (Inr _, n') \<Rightarrow> (Inr True, net, n'))"

definition managerStop :: "NetworkService \<Rightarrow> NetworkService" where
  "managerStop net = netStop net"

definition managerSendMessage :: "env \<Rightarrow> string \<Rightarrow> bool action" where
  "managerSendMessage env content = sendMessage env content []"

definition managerSendPrivateMessage :: "env \<Rightarrow> string \<Rightarrow> string \<Rightarrow> bool action" where
  "managerSendPrivateMessage env content nick = sendPrivateMessage env content nick"

definition managerJoinChannel :: "env \<Rightarrow> string \<Rightarrow> unit action" where
  "managerJoinChannel env channel = joinChannel env channel"

definition managerLeaveChannel :: "env \<Rightarrow> unit action" where
  "managerLeaveChannel env = leaveChannel env"

definition changeNickname :: "string \<Rightarrow> unit action" where
  "changeNickname nick = modify (setNickname nick)"

text \<open>One hop of a packet through the relay of some node.\<close>

definition hop :: "BitchatPacket \<Rightarrow> BitchatPacket \<Rightarrow> bool" where
  "hop p q \<longleftrightarrow> pTTL p > 0 \<and> q = p\<lparr>pTTL := pTTL p - 1\<rparr>"

definition relayed :: "BitchatPacket \<Rightarrow> node \<Rightarrow> (dest \<times> BitchatPacket) list" where
  "relayed p n = map (\<lambda>q. (ToPeer (peerID q), p\<lparr>pTTL := pTTL p - 1\<rparr>))
     (filter (\<lambda>q. peerID q \<noteq> sender p) (dPeers (nData n)))"

section \<open>Lemmas\<close>

lemma relayTo_sends:
  "envBluetooth env \<Longrightarrow> relayTo env r s ps n =
     (Inr (), n\<lparr>nSent := nSent n @ map (\<lambda>q. (ToPeer (peerID q), r)) (filter (\<lambda>q. peerID q \<noteq> s) ps)\<rparr>)"
  by (induction ps arbitrary: n) (simp_all add: btSend_def action_defs)

lemma relayPacket_sends: "envBluetooth env \<Longrightarrow> relayPacket env p n = (Inr (), n\<lparr>nSent := nSent n @ relayed p n\<rparr>)"
  by (simp add: relayPacket_def relayTo_sends relayed_def asks_def mbind_def Let_def)

lemma unat_TTL_dec: "(t :: u8) > 0 \<Longrightarrow> unat (t - 1) = unat t - 1"
  by (metis unat_minus_one word_neq_0_conv)

context node_frame
begin

lemma keeps_btSend [keeps_intro]: "keeps P (btSend env d pkt)"
  by (simp add: keeps_def btSend_def P_sent)

lemma keeps_relayTo [keeps_intro]: "keeps P (relayTo env r s ps)"
  by (induction ps) (simp_all add: keeps_intro)

lemma keeps_relayPacket [keeps_intro]: "keeps P (relayPacket env p)"
  unfolding relayPacket_def by (intro keeps_intro)

lemma keeps_discovered [keeps_intro]:
  "keeps P (onPeripheralDiscovered env b periph)" "keeps P (delayedAnnounce env periph)"
  unfolding onPeripheralDiscovered_def delayedAnnounce_def by (intro keeps_intro)+

lemma keeps_announceRound [keeps_intro]: "keeps P (announceRound env ready)"
proof -
  have "keeps P (mbind (asks dNickname) (\<lambda>nick. mbind (asks dPeerID) (\<lambda>localPeerID.
      mbind (lift (hex_bytes localPeerID)) (\<lambda>sid.
        let packet = (newPacket (envTime env 0) PKT_TYPE_ANNOUNCE (makeAnnouncePayload nick))\<lparr>pSenderID := sid\<rparr>
        in if envBluetooth env \<and> ready then mseq (btSend env Broadcast packet) (ret ()) else ret ()))))"
    by (intro keeps_intro)
  then show ?thesis by (simp add: keeps_def announceRound_def)
qed

end

context node_predicate
begin

lemma keeps_onPacketReceived [keeps_intro]: "keeps P (onPacketReceived env p periph)"
  unfolding onPacketReceived_def by (intro keeps_intro)

end

lemma hops_ttl:
  "(hop ^^ k) p q \<Longrightarrow> k \<le> unat (pTTL p) \<and> q = p\<lparr>pTTL := pTTL q\<rparr> \<and> unat (pTTL q) = unat (pTTL p) - k"
proof (induction k arbitrary: q)
  case (Suc k)
  then obtain r where r: "(hop ^^ k) p r" "hop r q" by auto
  then have pos: "0 < unat (pTTL r)" by (auto simp: hop_def unat_gt_0)
  have r': "k \<le> unat (pTTL p)" "r = p\<lparr>pTTL := pTTL r\<rparr>" "unat (pTTL r) = unat (pTTL p) - k"
    using Suc.IH [OF r(1)] by blast+
  have "unat (pTTL q) = unat (pTTL r) - 1" "q = r\<lparr>pTTL := pTTL q\<rparr>"
    using r(2) by (auto simp: hop_def unat_TTL_dec)
  moreover have "r\<lparr>pTTL := pTTL q\<rparr> = p\<lparr>pTTL := pTTL q\<rparr>" by (subst r'(2)) simp
  ultimately show ?case using pos r' by auto
qed simp

lemma managerInitialize_net:
  "managerInitialize rng bt crypto ui a c newNetworkService n = (True, net, n1) \<Longrightarrow>
     netBluetooth net \<and> netAnnounceRunner net = Some (setBluetoothNetworkInterface True a) \<and> netCleanupRunner net = Some c"
  by (auto simp: managerInitialize_def netInitialize_def Let_def split: if_splits)

lemma managerStart_net:
  assumes "managerStart env btInit btStart net n = (Inr True, net', n')"
  shows "net' = snd (netStart btInit btStart net) \<and> fst (netStart btInit btStart net)"
proof -
  obtain ok m where m: "netStart btInit btStart net = (ok, m)" by (metis surj_pair)
  obtain r n1 where "startIdentityAnnounce env n = (r, n1)" by (metis surj_pair)
  with assms m show ?thesis by (cases r) (auto simp: managerStart_def split: if_splits)
qed

text \<open>A runner returns once it reads the flag set, and until then it announces the node once in each round.\<close>

lemma runnerLoop_returns: "runnerLoop round rounds n \<noteq> None \<longleftrightarrow> list_ex fst rounds"
  by (induction round rounds n rule: runnerLoop.induct) auto

lemma announce_loop_sends:
  assumes "dPeerID (nData n) = toHex sid" "list_all (\<lambda>(env, ready). envBluetooth env \<and> ready) rounds"
  shows "announceRunnerLoop (map (Pair False) rounds @ [(True, x)]) n = Some (n\<lparr>nSent := nSent n @ map (\<lambda>(env, ready).
    (Broadcast, (newPacket (envTime env 0) PKT_TYPE_ANNOUNCE (makeAnnouncePayload (dNickname (nData n))))\<lparr>pSenderID := sid\<rparr>)) rounds\<rparr>)"
  using assms
proof (induction rounds arbitrary: n)
  case (Cons r rounds)
  let ?p = "(newPacket (envTime (fst r) 0) PKT_TYPE_ANNOUNCE (makeAnnouncePayload (dNickname (nData n))))\<lparr>pSenderID := sid\<rparr>"
  have "announceRound (fst r) (snd r) n = (Inr (), n\<lparr>nSent := nSent n @ [(Broadcast, ?p)]\<rparr>)"
    using Cons.prems by (simp add: announceRound_def hex_bytes_toHex btSend_def action_defs Let_def case_prod_beta)
  then show ?case
    using Cons.IH [of "n\<lparr>nSent := nSent n @ [(Broadcast, ?p)]\<rparr>"] Cons.prems
    by (simp add: announceRunnerLoop_def case_prod_beta)
qed (simp add: announceRunnerLoop_def)

section \<open>Properties\<close>

text \<open>
  C26: reception and relay.  Unless the handler throws, a packet with a positive TTL is sent on with the TTL
  lowered by one to every listed peer but its sender, after it was processed; this includes
  packets that are invalid or were received before.
\<close>

theorem received_packet_relayed:
  assumes "envBluetooth env" "processPacket env p periph n = (Inr (), n')"
  shows "onPacketReceived env p periph n =
      (Inr (), if pTTL p > 0 then n'\<lparr>nSent := nSent n' @ relayed p n'\<rparr> else n')
    \<and> (\<not> isValid p \<or> wasMessageProcessed (nData n) (packetKey p) \<longrightarrow> n' = n)"
  using assms(2) processPacket_seen [of n p env periph]
  by (auto simp: onPacketReceived_def mseq_def mbind_def relayPacket_sends [OF assms(1)] ret_def)
    (simp_all add: processPacket_def ret_def)

theorem received_packet_relayed_witness:
  "onPacketReceived sampleEnv ((samplePacket 0)\<lparr>pVersion := 9\<rparr>) []
      (sampleNode\<lparr>nData := addPeer (newPeer 0 ''ab'' ''x'') (nData sampleNode)\<rparr>) =
   (Inr (), (sampleNode\<lparr>nData := addPeer (newPeer 0 ''ab'' ''x'') (nData sampleNode)\<rparr>)
      \<lparr>nSent := [(ToPeer ''ab'', (samplePacket 0)\<lparr>pVersion := 9, pTTL := 6\<rparr>)]\<rparr>)"
proof -
  let ?n = "sampleNode\<lparr>nData := addPeer (newPeer 0 ''ab'' ''x'') (nData sampleNode)\<rparr>"
  let ?p = "(samplePacket 0)\<lparr>pVersion := 9\<rparr>"
  have "processPacket sampleEnv ?p [] ?n = (Inr (), ?n)"
    by (simp add: processPacket_def isValid_def ret_def)
  moreover have "relayed ?p ?n = [(ToPeer ''ab'', (samplePacket 0)\<lparr>pVersion := 9, pTTL := 6\<rparr>)]"
    by (simp add: relayed_def addPeer_def sampleNode_def setPeerID_def initialData_def newPeer_def updateLastSeen_def
        samplePacket_def sampleSender_def newPacket_def defaultPacket_def)
  ultimately show ?thesis
    using received_packet_relayed [of sampleEnv ?p "[]" ?n ?n]
    by (simp add: sampleEnv_def samplePacket_def newPacket_def defaultPacket_def sampleNode_def)
qed

text \<open>
  Relaying ends.  A packet makes at most as many hops as its TTL says, at most 255, nothing but the TTL
  changes on the way, and after that many hops no node sends it on.
\<close>

theorem relay_chain_bounded:
  assumes "(hop ^^ k) p q"
  shows "k \<le> unat (pTTL p) \<and> k \<le> 255 \<and> q = p\<lparr>pTTL := pTTL q\<rparr> \<and> unat (pTTL q) = unat (pTTL p) - k
    \<and> (k = unat (pTTL p) \<longrightarrow> \<not> (\<exists>r. hop q r))"
proof -
  have "unat (pTTL p) \<le> 255" using unat_u8_less [of "pTTL p"] by linarith
  moreover have "\<not> hop q r" if "unat (pTTL q) = 0" for r using that by (simp add: hop_def unat_eq_0)
  ultimately show ?thesis using hops_ttl [OF assms] by auto
qed

text \<open>
  The cleanup of stale peers never runs.  When the program starts as \<open>main\<close> starts it, with fresh runners, and
  every step succeeds, the announce runner runs and the cleanup runner does not, because nobody gives
  it the network service it asks for; so stale peers stay listed.
\<close>

theorem cleanup_runner_never_starts:
  assumes "managerInitialize rng bt crypto ui newRunner newRunner newNetworkService n = (True, net, n1)"
    and "managerStart env btInit btStart net n1 = (Inr True, net', n2)"
  shows "map_option runRunning (netAnnounceRunner net') = Some True
    \<and> map_option runRunning (netCleanupRunner net') = Some False"
proof -
  show ?thesis
    using managerInitialize_net [OF assms(1)] managerStart_net [OF assms(2)]
    by (auto simp: netStart_def newRunner_def setBluetoothNetworkInterface_def announceRunnerStart_def
        cleanupRunnerStart_def split: if_splits)
qed

end
