(* ===== verification/Bluetooth_Interface.thy ===== *)
theory Bluetooth_Interface
  imports Network_Service
begin

text \<open>
  \<open>IBluetoothNetwork\<close> (\<open>include/bitchat/platform/bluetooth_interface.h\<close>), the interface both platforms implement, as a locale: what the
  sends write, and to which devices.  The relay of \<open>NetworkService\<close> is its client.  Peers are listed under the identifier
  their packets carry, an even number of hexadecimal digits, in every state a node reaches.
\<close>

section \<open>The interface\<close>

locale bluetooth_network =
  fixes devices :: "'t \<Rightarrow> string set" and named :: "'t \<Rightarrow> bool" and encode :: "BitchatPacket \<Rightarrow> bytes"
    and broadcast :: "'t \<Rightarrow> BitchatPacket \<Rightarrow> bool \<times> 'w list"
    and toPeer :: "'t \<Rightarrow> BitchatPacket \<Rightarrow> string \<Rightarrow> bool \<times> 'w list"
    and toPeripheral :: "'t \<Rightarrow> BitchatPacket \<Rightarrow> string \<Rightarrow> bool \<times> 'w list"
    and written :: "'w \<Rightarrow> bytes"
  assumes unknown_device: "dev \<notin> devices t \<Longrightarrow> toPeripheral t p dev = (False, [])"
    and peers_are_devices: "toPeer t p pid = toPeripheral t p pid"
    and device_names: "named t \<Longrightarrow> dev \<in> devices t \<Longrightarrow> \<not> list_all isxdigit dev"
    and writes_packet: "w \<in> set (snd (toPeripheral t p dev)) \<Longrightarrow> written w = encode p"
      "w \<in> set (snd (broadcast t p)) \<Longrightarrow> written w = encode p"
begin

lemma hex_peer_unreachable: "named t \<Longrightarrow> toPeer t p (toHex sid) = (False, [])"
  using device_names [of t "toHex sid"] by (auto simp: peers_are_devices list_all_iff isxdigit_toHex intro: unknown_device)

lemma relay_writes_nothing:
  assumes "named t" "list_all (\<lambda>p. \<exists>sid. peerID p = toHex sid) (dPeers (nData n))" "(d, q) \<in> set (relayed p n)"
  shows "\<exists>pid. d = ToPeer pid \<and> toPeer t q pid = (False, [])"
  using assms hex_peer_unreachable by (auto simp: relayed_def list_all_iff)

end

section \<open>The identifiers of peers\<close>

definition hex_peers :: "node \<Rightarrow> bool" where
  "hex_peers n \<longleftrightarrow> list_all (\<lambda>p. \<exists>sid. peerID p = toHex sid) (dPeers (nData n))"

text \<open>A value that was read from the store is the value of the store.\<close>

lemma keeps_asked: "(\<And>d. keeps P (f (g d))) \<Longrightarrow> keeps P (mbind (asks g) f)"
  by (simp add: keeps_def mbind_def asks_def)

lemmas hex_intro = keeps_ret keeps_lift keeps_asked keeps_mseq keeps_if keeps_option keeps_let keeps_prod keeps_mbind keeps_noiseService

lemma update_first_peers: "set (update_first p ps) \<subseteq> insert p (set ps)"
  by (induction ps) auto

lemma hex_store:
  "peerID p = toHex sid \<Longrightarrow> keeps hex_peers (modify (addPeer p))"
  "peerID p = toHex sid \<Longrightarrow> keeps hex_peers (modify (updatePeer p))"
  "keeps hex_peers (modify (removePeer k))" "keeps hex_peers (modify (addMessageToHistory m c))"
  "keeps hex_peers (modify (setCurrentChannel c))" "keeps hex_peers (modify (markMessageProcessed s))"
  "keeps hex_peers (emit ev)" "keeps hex_peers (withNoise f)" "keeps hex_peers (transmit env d q)" "keeps hex_peers (btSend env d q)"
  using update_first_peers [of p]
  by (auto simp: keeps_def hex_peers_def modify_def emit_def withNoise_def transmit_def btSend_def data_defs Let_def list_all_iff
      split: option.split sum.split)

lemmas hex_silent = hex_store(3-)

lemma hex_sends: "keeps hex_peers (sendVersionAck env ack pid)" "keeps hex_peers (sendNoise env type payload)"
  unfolding sendVersionAck_def sendNoise_def ownPacket_def localSenderID_def by (intro hex_intro hex_silent)+

lemma getPeerInfo_hex: "getPeerInfo d (toHex sid) = Some p \<Longrightarrow> peerID p = toHex sid"
  by (rule getPeerInfo_key)

lemma hex_version: "keeps hex_peers (handleVersionHello env (toHex sid) data)" "keeps hex_peers (handleVersionAck env pid data)"
  unfolding handleVersionHello_def handleVersionAck_def
  by (intro hex_intro hex_silent hex_sends hex_store(1) [of _ sid]; simp add: newPeer_def updateLastSeen_def)+

lemma hex_announce:
  "keeps hex_peers (processAnnouncePacket env packet periph)" "keeps hex_peers (processChannelAnnouncePacket env packet)"
  "keeps hex_peers (processLeavePacket packet)"
  unfolding processAnnouncePacket_def processChannelAnnouncePacket_def processLeavePacket_def
  by (intro hex_intro hex_silent hex_store(1,2) [of _ "pSenderID packet"]; simp add: newPeer_def updateLastSeen_def getPeerInfo_hex)+

lemma hex_message: "keeps hex_peers (processMessagePacket packet)"
  unfolding processMessagePacket_def by (intro hex_intro hex_silent)

lemma hex_noise:
  "keeps hex_peers (processNoiseHandshakeInitPacket env packet)" "keeps hex_peers (processNoiseHandshakeRespPacket env packet)"
  "keeps hex_peers (processNoiseEncryptedPacket env packet)" "keeps hex_peers (processNoiseIdentityAnnouncePacket env packet)"
  unfolding processNoiseHandshakeInitPacket_def processNoiseHandshakeRespPacket_def processNoiseEncryptedPacket_def
    processNoiseIdentityAnnouncePacket_def noiseGuard_def
  by (intro hex_intro hex_silent hex_sends hex_message)+

lemma hex_processPacket: "keeps hex_peers (processPacket env packet periph)"
  unfolding processPacket_def routePacket_def shouldProcessPacket_def markPacketProcessed_def processVersionHelloPacket_def
    processVersionAckPacket_def
  by (intro hex_intro hex_silent hex_version hex_announce hex_message hex_noise)

lemma hex_onPacketReceived: "keeps hex_peers (onPacketReceived env packet periph)"
proof -
  have "keeps hex_peers (relayTo env r s ps)" for r s ps by (induction ps) (auto intro!: hex_intro hex_silent)
  then show ?thesis
    unfolding onPacketReceived_def relayPacket_def by (intro hex_intro hex_processPacket)
qed

text \<open>A node that has received packets, one after the other.\<close>

definition receivedAll :: "(env \<times> BitchatPacket \<times> string) list \<Rightarrow> node \<Rightarrow> node" where
  "receivedAll = fold (\<lambda>(env, p, periph) n. snd (onPacketReceived env p periph n))"

lemma hex_receivedAll: "hex_peers n \<Longrightarrow> hex_peers (receivedAll evs n)"
  unfolding receivedAll_def by (induction evs arbitrary: n) (auto simp: keepsD [OF hex_onPacketReceived])

end
