(* ===== verification/Linux_Bluetooth.thy ===== *)
theory Linux_Bluetooth
  imports Bluetooth_Interface
begin

text \<open>
  \<open>LinuxBluetoothNetwork\<close> (\<open>src/platforms/linux/bluetooth.cpp\<close>): the sockets by device address, sending, the
  loop that cuts the received byte stream into packets, and what happens when a connection is made.
  Sockets are the operating system's: the result of \<open>write\<close> is a parameter, and what a call wrote is
  returned as a list.  The reader takes the chunks \<open>read\<close> returned one after the other, and its callback
  as an argument, an action over any state.  The scan and the accept thread take what the inquiries, \<open>socket\<close>,
  \<open>connect\<close>, \<open>bind\<close> and \<open>accept\<close> returned, in order, until \<open>stopThreads\<close> is set; construction and the end of the threads are in
  \<open>Linux_Lifecycle\<close>.
\<close>

type_synonym sockets = "string \<rightharpoonup> int"

section \<open>Sending\<close>

text \<open>The iteration of \<open>std::map\<close> is in the order of the keys, given as the list of the entries.\<close>

definition linuxSendPacket ::
    "lz4_api \<Rightarrow> (nat \<Rightarrow> u8) \<Rightarrow> (int \<Rightarrow> bytes \<Rightarrow> bool) \<Rightarrow> (string \<times> int) list \<Rightarrow> BitchatPacket \<Rightarrow> bool \<times> (int \<times> bytes) list" where
  "linuxSendPacket lz rng writes connected packet =
     (let data = serializePacket lz rng packet in
      if connected = [] then (False, [])
      else (list_ex (\<lambda>(key, fd). writes fd data) connected, map (\<lambda>(key, fd). (fd, data)) connected))"

definition linuxSendPacketToPeer ::
    "lz4_api \<Rightarrow> (nat \<Rightarrow> u8) \<Rightarrow> (int \<Rightarrow> bytes \<Rightarrow> bool) \<Rightarrow> sockets \<Rightarrow> BitchatPacket \<Rightarrow> string \<Rightarrow> bool \<times> (int \<times> bytes) list" where
  "linuxSendPacketToPeer lz rng writes connected packet pid =
     (let data = serializePacket lz rng packet in
      case connected pid of
        Some fd \<Rightarrow> (writes fd data, [(fd, data)])
      | None \<Rightarrow> (False, []))"

definition linuxSendPacketToPeripheral ::
    "lz4_api \<Rightarrow> (nat \<Rightarrow> u8) \<Rightarrow> (int \<Rightarrow> bytes \<Rightarrow> bool) \<Rightarrow> sockets \<Rightarrow> BitchatPacket \<Rightarrow> string \<Rightarrow> bool \<times> (int \<times> bytes) list" where
  "linuxSendPacketToPeripheral lz rng writes connected packet periph =
     linuxSendPacketToPeer lz rng writes connected packet periph"

definition isReady :: "int \<Rightarrow> int \<Rightarrow> bool" where
  "isReady deviceID hciSocket = (deviceID \<ge> 0 \<and> hciSocket \<ge> 0)"

section \<open>Receiving\<close>

type_synonym 's callback = "BitchatPacket \<Rightarrow> 's \<Rightarrow> (fault + unit) \<times> 's"

text \<open>
  The inner loop of \<open>readerThreadFunc\<close>: it returns the bytes left over, or \<open>OutOfRange\<close> when a read outside the
  buffer makes the rest of the execution undefined.  An exception of the callback is caught.
\<close>

function readerLoop :: "lz4_api \<Rightarrow> 's callback \<Rightarrow> bytes \<Rightarrow> 's \<Rightarrow> fault + (bytes \<times> 's)" where
  "readerLoop lz cb acc s =
     (if length acc < 21 then Inr (acc, s)
      else let expectedSize = headerExpectedSize acc in
        if expectedSize > 65536 \<or> unat (headerPayloadLength acc) > 65536 - 21 then Inr ([], s)
        else if length acc < expectedSize then Inr (acc, s)
        else case deserializePacket lz acc of
          None \<Rightarrow> Inl OutOfRange
        | Some packet \<Rightarrow>
            if pVersion packet = 0 \<or> pVersion packet > 1 then readerLoop lz cb (drop 1 acc) s
            else case cb packet s of
              (Inr _, s') \<Rightarrow> readerLoop lz cb (drop expectedSize acc) s'
            | (Inl e, s') \<Rightarrow> if e = OutOfRange then Inl OutOfRange else readerLoop lz cb (drop 1 acc) s')"
  by pat_completeness auto
termination
  by (relation "measure (\<lambda>(lz, cb, acc, s). length acc)") (auto simp: headerExpectedSize_def)

declare readerLoop.simps [simp del]

fun readerChunks :: "lz4_api \<Rightarrow> 's callback \<Rightarrow> bytes list \<Rightarrow> bytes \<Rightarrow> 's \<Rightarrow> fault + (bytes \<times> 's)" where
  "readerChunks lz cb [] acc s = Inr (acc, s)"
| "readerChunks lz cb (chunk # chunks) acc s =
     rbind (readerLoop lz cb (acc @ chunk) s) (\<lambda>(acc, s). readerChunks lz cb chunks acc s)"

text \<open>The callback the network service installs: packets arrive with an empty peripheral identifier.\<close>

definition nodeCallback :: "env \<Rightarrow> node callback" where
  "nodeCallback env packet = onPacketReceived env packet []"

definition readerThreadFunc :: "env \<Rightarrow> string \<Rightarrow> bytes list \<Rightarrow> sockets \<times> node \<Rightarrow> fault + (sockets \<times> node)" where
  "readerThreadFunc env dev chunks st = (case st of (connected, n) \<Rightarrow>
     rbind (readerChunks (envLz4 env) (nodeCallback env) chunks [] n) (\<lambda>(_, n).
       Inr (connected(dev := None), snd (onPeerDisconnected dev n))))"

section \<open>Connections\<close>

text \<open>
  What the scan and the accept thread do with a new connection.  Both hold \<open>socketsMutex\<close> while the callbacks
  run, and every send of this class locks it; a \<open>std::mutex\<close> that its own thread locks again blocks forever,
  which is the value \<^const>\<open>None\<close>.
\<close>

definition connectDevice :: "env \<Rightarrow> bool \<Rightarrow> string \<Rightarrow> int \<Rightarrow> sockets \<times> node \<Rightarrow> ((fault + unit) \<times> sockets \<times> node) option" where
  "connectDevice env hasMessageService dev fd st = (case st of (connected, n) \<Rightarrow>
     (let connected = connected(dev \<mapsto> fd);
          (r, n') = mseq (onPeerConnected dev) (onPeripheralDiscovered env hasMessageService dev) n
      in if nSent n' \<noteq> nSent n then None else Some (r, connected, n')))"

text \<open>
  One response of an inquiry: the address of the device, the socket made for it and whether \<open>connect\<close> succeeded.
  An exception ends the thread, and with it the program.
\<close>

type_synonym 'a thread = "sockets \<times> node \<Rightarrow> ((fault + 'a) \<times> sockets \<times> node) option"

definition scanDevice :: "env \<Rightarrow> bool \<Rightarrow> string \<times> int \<times> bool \<Rightarrow> unit thread" where
  "scanDevice env hasMessageService response st = (case response of (dev, s, connects) \<Rightarrow>
     if fst st dev \<noteq> None then Some (Inr (), st)
     else if s < 0 then Some (Inr (), st)
     else if connects then connectDevice env hasMessageService dev s st
     else Some (Inr (), st))"

fun scanDevices :: "env \<Rightarrow> bool \<Rightarrow> (string \<times> int \<times> bool) list \<Rightarrow> unit thread" where
  "scanDevices env ms [] st = Some (Inr (), st)"
| "scanDevices env ms (response # rs) st = (case scanDevice env ms response st of
     None \<Rightarrow> None
   | Some (Inl e, st') \<Rightarrow> Some (Inl e, st')
   | Some (Inr _, st') \<Rightarrow> scanDevices env ms rs st')"

fun scanThreadFunc :: "env \<Rightarrow> bool \<Rightarrow> (string \<times> int \<times> bool) list option list \<Rightarrow> unit thread" where
  "scanThreadFunc env ms [] st = Some (Inr (), st)"
| "scanThreadFunc env ms (inquiry # is) st = (case inquiry of
     None \<Rightarrow> Some (Inr (), st)
   | Some rs \<Rightarrow> (case scanDevices env ms rs st of
       None \<Rightarrow> None
     | Some (Inl e, st') \<Rightarrow> Some (Inl e, st')
     | Some (Inr _, st') \<Rightarrow> scanThreadFunc env ms is st'))"

fun acceptLoop :: "env \<Rightarrow> bool \<Rightarrow> (string \<times> int) list \<Rightarrow> unit thread" where
  "acceptLoop env ms [] st = Some (Inr (), st)"
| "acceptLoop env ms ((dev, client) # cs) st =
     (if client < 0 then acceptLoop env ms cs st
      else case connectDevice env ms dev client st of
        None \<Rightarrow> None
      | Some (Inl e, st') \<Rightarrow> Some (Inl e, st')
      | Some (Inr _, st') \<Rightarrow> acceptLoop env ms cs st')"

definition acceptThreadFunc :: "env \<Rightarrow> bool \<Rightarrow> int \<Rightarrow> bool \<Rightarrow> (string \<times> int) list \<Rightarrow> unit thread" where
  "acceptThreadFunc env ms rfcommSocket bound cs st =
     (if rfcommSocket < 0 then Some (Inr (), st)
      else if \<not> bound then Some (Inr (), st)
      else acceptLoop env ms cs st)"

definition getConnectedPeersCount :: "sockets \<Rightarrow> nat" where
  "getConnectedPeersCount connected = card (dom connected)"

text \<open>\<open>stop\<close> closes the sockets, in the order of the addresses, and forgets them.\<close>

definition linuxStop :: "(string \<times> int) list \<Rightarrow> sockets \<times> int list" where
  "linuxStop connected = (Map.empty, map snd connected)"

text \<open>A device address as \<open>ba2str\<close> formats it: its digits are separated by colons.\<close>

definition is_address :: "string \<Rightarrow> bool" where
  "is_address s \<longleftrightarrow> CHR '':'' \<in> set s"

section \<open>Lemmas\<close>

lemma header_of_sent:
  assumes c: "compressPayload lz (pPayload p) = (pl, orig, c)"
  shows "(packet_header lz p @ rest) ! 11 = (if c then pFlags p OR FLAG_IS_COMPRESSED else pFlags p)"
    "headerPayloadLength (packet_header lz p @ rest) = word_of_nat (length pl + (if c then 2 else 0))"
proof -
  let ?f = "if c then pFlags p OR FLAG_IS_COMPRESSED else pFlags p"
  let ?w = "writeUint16 [] (word_of_nat (length pl + (if c then 2 else 0)))"
  let ?u = "pVersion p # pType p # pTTL p # writeUint64 [] (pTimestamp p) @ ?f # ?w @ rest"
  have eq: "packet_header lz p @ rest = ?u" using c by (simp add: packet_header_def)
  have d: "drop 11 ?u = ?f # ?w @ rest" by simp
  show "(packet_header lz p @ rest) ! 11 = ?f"
    unfolding eq by (rule nth_via_drop [OF d])
  have "readUint16 ?u 12 = Some (word_of_nat (length pl + (if c then 2 else 0)), 14)"
    using readUint16_rest [of 12 ?u _ rest] by simp
  moreover have "readUint16 ?u 12 = Some (headerPayloadLength ?u, 14)"
    using readUint16_in_range [of 12 ?u] by (simp add: headerPayloadLength_def)
  ultimately show "headerPayloadLength (packet_header lz p @ rest) = word_of_nat (length pl + (if c then 2 else 0))"
    unfolding eq by simp
qed

lemma expected_size_of_sent:
  assumes "length (pPayload p) \<le> 65533"
  shows "headerExpectedSize (packetBytes lz p @ rest) + 1 = length (packetBytes lz p)"
proof -
  obtain pl orig c where c: "compressPayload lz (pPayload p) = (pl, orig, c)" by (metis prod_cases3)
  let ?r = "resize 8 0 (pSenderID p) @ (if hasRecipient p then resize 8 0 (pRecipientID p) else []) @ packet_tail lz p @ rest"
  have eq: "packetBytes lz p @ rest = packet_header lz p @ ?r" by (simp add: packetBytes_layout)
  have "bit (if c then pFlags p OR FLAG_IS_COMPRESSED else pFlags p) 0 = hasRecipient p"
    "bit (if c then pFlags p OR FLAG_IS_COMPRESSED else pFlags p) 1 = hasSignature p"
    by (simp_all add: hasRecipient_def hasSignature_def bit_or_iff)
  then show ?thesis
    unfolding headerExpectedSize_def eq header_of_sent [OF c] sent_length [OF c assms]
    by (simp add: packetBytes_layout packet_tail_def c)
qed

lemma drop_all_but_last: "xs \<noteq> [] \<Longrightarrow> length xs = Suc n \<Longrightarrow> drop n (xs @ ys) = last xs # ys"
proof -
  assume "xs \<noteq> []" "length xs = Suc n"
  then have "drop n xs = [last xs]"
    by (metis append_butlast_last_id append_eq_conv_conj length_butlast diff_Suc_1)
  with \<open>length xs = Suc n\<close> show ?thesis by simp
qed

lemma reader_shrinks:
  assumes "\<not> length acc < 21"
  shows "length (drop (Suc 0) acc) < length acc" "length (drop (headerExpectedSize acc) acc) < length acc"
  using assms by (auto simp: headerExpectedSize_def)

lemma readerLoop_keeps:
  assumes k: "\<And>p s. Q s \<Longrightarrow> Q (snd (cb p s))"
  shows "Q s \<Longrightarrow> readerLoop lz cb acc s = Inr (rest, s') \<Longrightarrow> Q s'"
proof (induction acc arbitrary: s rule: length_induct)
  case (1 acc)
  have IH: "Q t \<Longrightarrow> readerLoop lz cb ys t = Inr (rest, s') \<Longrightarrow> Q s'" if "length ys < length acc" for ys t
    using 1 that by blast
  have k': "Q t" if "cb p s = (r, t)" for p r t using k [OF "1.prems"(1), of p] that by simp
  have shrink: "Q t \<Longrightarrow> readerLoop lz cb (drop (Suc 0) acc) t = Inr (rest, s') \<Longrightarrow> Q s'"
    "Q t \<Longrightarrow> readerLoop lz cb (drop (headerExpectedSize acc) acc) t = Inr (rest, s') \<Longrightarrow> Q s'"
    if "\<not> length acc < 21" for t
    by (rule IH, rule reader_shrinks [OF that], assumption+)+
  from "1.prems" show ?case
    unfolding readerLoop.simps [of lz cb acc s]
    by (auto simp: Let_def split: if_splits option.splits prod.splits sum.splits
        dest: shrink k')
qed

lemma readerChunks_keeps:
  assumes "\<And>p s. Q s \<Longrightarrow> Q (snd (cb p s))"
  shows "Q s \<Longrightarrow> readerChunks lz cb chunks acc s = Inr (rest, s') \<Longrightarrow> Q s'"
proof (induction chunks arbitrary: acc s)
  case (Cons chunk chunks)
  then obtain a t where "readerLoop lz cb (acc @ chunk) s = Inr (a, t)" "readerChunks lz cb chunks a t = Inr (rest, s')"
    by (auto simp: result_iff)
  with Cons readerLoop_keeps [of Q cb, OF assms] show ?case by blast
qed simp

lemma sent_buffer:
  assumes "padded_size (length (packetBytes lz p))"
  shows "\<exists>pad. serializePacket lz rng p = packetBytes lz p @ pad \<and> 16 \<le> length pad"
proof -
  let ?n = "length (packetBytes lz p)"
  have "pads_to ?n (optimalBlockSize ?n)" using assms by (simp add: padded_size_def)
  moreover have "16 \<le> optimalBlockSize ?n - ?n"
    using assms by (auto simp: padded_size_iff optimalBlockSize_def blockSizes_def)
  ultimately show ?thesis by (simp add: serializePacket_def Let_def pad_applied)
qed

lemma connectDevice_blocks:
  assumes "dPeerID (nData n) = toHex me" "envBluetooth env"
  shows "connectDevice env True dev fd (connected, n) = None"
  using assms
  by (simp add: connectDevice_def onPeerConnected_def peerConnected_def onPeripheralDiscovered_def sendVersionHello_def
      createVersionHelloPacket_def ownPacket_def localSenderID_def action_defs Let_def)

lemma accept_blocks:
  assumes "dPeerID (nData n) = toHex me" "envBluetooth env" "0 \<le> fd" "\<forall>(_, client) \<in> set failed. client < 0"
  shows "acceptLoop env True (failed @ (dev, fd) # cs) (connected, n) = None"
  using assms(4) by (induction failed) (use assms(1-3) connectDevice_blocks in auto)

lemma scan_blocks:
  assumes "dPeerID (nData n) = toHex me" "envBluetooth env" "0 \<le> fd" "connected dev = None"
    and "\<forall>(known, s, connects) \<in> set skipped. connected known \<noteq> None \<or> s < 0 \<or> \<not> connects"
  shows "scanDevices env True (skipped @ (dev, fd, True) # rs) (connected, n) = None"
  using assms(5) by (induction skipped) (use assms(1-4) connectDevice_blocks in \<open>auto simp: scanDevice_def\<close>)

text \<open>The sockets as an implementation of the Bluetooth interface; a device has the address it was found under.\<close>

lemma address_no_hex: "is_address s \<Longrightarrow> \<not> list_all isxdigit s"
  unfolding is_address_def list_all_iff using isxdigit_def hex_value_def by (auto intro!: bexI [of _ "CHR '':''"])

interpretation linux_bt: bluetooth_network "\<lambda>t. fst ` set t" "\<lambda>t. \<forall>dev \<in> fst ` set t. is_address dev" "serializePacket lz rng"
    "linuxSendPacket lz rng writes" "\<lambda>t. linuxSendPacketToPeer lz rng writes (map_of t)"
    "\<lambda>t. linuxSendPacketToPeripheral lz rng writes (map_of t)" snd
  for lz rng writes
proof unfold_locales
  fix dev and t :: "(string \<times> int) list" and p
  assume "dev \<notin> fst ` set t"
  then have "map_of t dev = None" by (simp add: map_of_eq_None_iff)
  then show "linuxSendPacketToPeripheral lz rng writes (map_of t) p dev = (False, [])"
    by (simp add: linuxSendPacketToPeripheral_def linuxSendPacketToPeer_def)
qed (auto simp: linuxSendPacketToPeripheral_def linuxSendPacketToPeer_def linuxSendPacket_def address_no_hex Let_def
    split: option.splits if_splits)

section \<open>Properties\<close>

text \<open>
  C37: the stream loses its alignment at the first packet.  Let LZ4 keep its contract, and let a packet of version 1, not marked as compressed, with a payload of at most
  65533 bytes, have a serialized size that is padded: at most 240 bytes, or 257 to 496, 769 to 1008 or 1793 to 2032.  When it arrives alone and its handler does not throw, it is delivered as it was
  sent, but the reader then removes one byte less than the packet has and none of its padding: it goes
  on with the packet's last byte and at least sixteen padding bytes at the front of its buffer.
\<close>

theorem reader_loses_alignment:
  assumes "lz4_ok lz" "length (pPayload p) \<le> 65533" "\<not> isCompressed p" "pVersion p = 1"
    and "padded_size (length (packetBytes lz p))" "cb (wire_view lz p) s = (Inr (), s')"
  shows "\<exists>pad. serializePacket lz rng p = packetBytes lz p @ pad \<and> 16 \<le> length pad
    \<and> readerLoop lz cb (serializePacket lz rng p) s = readerLoop lz cb (last (packetBytes lz p) # pad) s'"
proof -
  let ?b = "packetBytes lz p"
  obtain pad where pad: "serializePacket lz rng p = ?b @ pad" "16 \<le> length pad"
    using sent_buffer [OF assms(5)] by blast
  have u: "unpad (serializePacket lz rng p) = ?b"
    using unpad_recovers [OF disjI1, OF assms(5)] by (simp add: serializePacket_def Let_def)
  have d: "deserializePacket lz (?b @ pad) = Some (wire_view lz p)"
    using deserialize_sent [OF assms(1-3) u] pad(1) by simp
  have e: "Suc (headerExpectedSize (?b @ pad)) = length ?b" using expected_size_of_sent [OF assms(2)] by simp
  have small: "length ?b \<le> 2032" using assms(5) by (auto simp: padded_size_iff)
  moreover have "unat (headerPayloadLength (?b @ pad)) \<le> headerExpectedSize (?b @ pad)"
    "21 \<le> headerExpectedSize (?b @ pad)" by (simp_all add: headerExpectedSize_def)
  moreover have "drop (headerExpectedSize (?b @ pad)) (?b @ pad) = last ?b # pad"
    using e by (intro drop_all_but_last) auto
  moreover have "pVersion (wire_view lz p) = 1" using assms(4) by (simp add: wire_view_def)
  ultimately have "readerLoop lz cb (?b @ pad) s = readerLoop lz cb (last ?b # pad) s'"
    using d e assms(6) by (subst readerLoop.simps) (simp add: Let_def)
  with pad show ?thesis by auto
qed

theorem reader_loses_alignment_witness:
  "\<exists>pad. serializePacket single_run_codec (\<lambda>_. 0) run_packet = packetBytes single_run_codec run_packet @ pad
    \<and> 16 \<le> length pad \<and> readerLoop single_run_codec (\<lambda>p s. (Inr (), s @ [p]))
        (serializePacket single_run_codec (\<lambda>_. 0) run_packet) []
      = readerLoop single_run_codec (\<lambda>p s. (Inr (), s @ [p]))
        (last (packetBytes single_run_codec run_packet) # pad) [wire_view single_run_codec run_packet]"
proof (rule reader_loses_alignment [OF single_run_codec_ok])
  show "padded_size (length (packetBytes single_run_codec run_packet))"
    by (simp add: padded_size_iff packetBytes_layout packet_tail_def compressPayload_def compressData_def shouldCompress_def
        COMPRESSION_THRESHOLD_def single_run_codec_def run_packet_def newPacket_def defaultPacket_def
        hasRecipient_def hasSignature_def)
qed (simp_all add: run_packet_def newPacket_def defaultPacket_def isCompressed_def)

text \<open>
  Relayed packets reach nobody.  \<open>NetworkService::relayPacket\<close> addresses peers by their identifier, sixteen
  hexadecimal digits, and the sockets are filed under device addresses, so the lookup always fails.
\<close>

theorem relay_finds_no_socket:
  assumes "\<And>k. k \<in> dom connected \<Longrightarrow> is_address k"
  shows "linuxSendPacketToPeer lz rng writes connected packet (toHex sid) = (False, [])"
proof -
  have "\<not> is_address (toHex sid)" using address_no_hex isxdigit_toHex by (auto simp: list_all_iff)
  with assms [of "toHex sid"] have "connected (toHex sid) = None" by (metis domIff)
  then show ?thesis by (simp add: linuxSendPacketToPeer_def)
qed

text \<open>
  A new connection blocks its thread.  When the message service is set and the local identifier is well
  formed, greeting the device sends a packet while \<open>socketsMutex\<close> is held, so the accept thread stops forever at
  the first connection it accepts and the scan thread at the first unknown device it connects to,
  whatever comes after, and the reader of the connection is never started.
\<close>

theorem connecting_deadlocks:
  assumes "dPeerID (nData n) = toHex me" "envBluetooth env" "0 \<le> fd" "0 \<le> listener"
    and "\<forall>(_, client) \<in> set failed. client < 0" "connected dev = None"
    and "\<forall>(known, s, connects) \<in> set skipped. connected known \<noteq> None \<or> s < 0 \<or> \<not> connects"
  shows "acceptThreadFunc env True listener True (failed @ (dev, fd) # cs) (connected, n) = None
    \<and> scanThreadFunc env True (Some (skipped @ (dev, fd, True) # rs) # is) (connected, n) = None"
  using accept_blocks [OF assms(1,2,3,5)] scan_blocks [OF assms(1-3,6,7)] assms(4)
  by (simp add: acceptThreadFunc_def)

text \<open>
  C8: whatever bytes arrive on a socket, in whatever chunks, as long as no read leaves the buffer the node keeps
  its identifier and nickname and the invariants of its store and sessions, and the device is forgotten
  when the connection ends.
\<close>

theorem received_bytes_keep_invariants:
  assumes "node_inv key n" "readerThreadFunc env dev chunks (connected, n) = Inr (connected', n')"
  shows "node_inv key n' \<and> same_identity n n' \<and> connected' dev = None"
proof -
  obtain rest m where m: "readerChunks (envLz4 env) (nodeCallback env) chunks [] n = Inr (rest, m)"
    and n': "n' = snd (onPeerDisconnected dev m)" "connected' = connected(dev := None)"
    using assms(2) by (auto simp: readerThreadFunc_def result_iff)
  have "node_inv key m"
    by (rule readerChunks_keeps [of "node_inv key", OF _ assms(1) m])
      (simp add: nodeCallback_def keepsD [OF inv.keeps_onPacketReceived])
  moreover have "same_identity n m"
    by (rule readerChunks_keeps [of "same_identity n", OF _ _ m])
      (simp_all add: nodeCallback_def keepsD [OF ident.keeps_onPacketReceived], simp add: same_identity_def)
  ultimately show ?thesis
    unfolding n' onPeerDisconnected_def
    using keepsD [OF inv.keeps_peer_events(2)] keepsD [OF ident.keeps_peer_events(2)] by simp
qed

theorem received_bytes_keep_invariants_witness:
  "\<exists>n' c. readerThreadFunc sampleEnv ''00:11:22:33:44:55'' [[1, 2, 3], [4]] (Map.empty, sampleNode) = Inr (c, n')
     \<and> node_inv (replicate 32 9) n' \<and> same_identity sampleNode n'"
proof -
  obtain c n' where r: "readerThreadFunc sampleEnv ''00:11:22:33:44:55'' [[1, 2, 3], [4]] (Map.empty, sampleNode) = Inr (c, n')"
    by (simp add: readerThreadFunc_def readerLoop.simps)
  from received_bytes_keep_invariants [OF sampleNode_inv r] r show ?thesis by blast
qed

end
