(* ===== verification/Console.thy ===== *)
theory Console
  imports Network_Service
begin

text \<open>
  The console user interface, \<open>bitchat/ui/console_ui.cpp\<close>: what it prints for the events of the message service, and
  the loop that reads lines and calls the manager.  The state is the node and the lines the chat logger
  has written, with their level; clearing the screen writes to the terminal directly and leaves them as
  they are.  The callbacks run inside the calls that cause them, so the events a
  call adds to the node's log are printed before anything the loop prints after the call.  The prefix with
  the local time, \<open>getChatPrefix\<close> (see \<open>Date_Time\<close>), is an argument, as are the lines; when the input is exhausted
  \<open>std::getline\<close> keeps failing and the loop does not end, which is \<^const>\<open>None\<close>.
\<close>

section \<open>Output\<close>

datatype level = InfoLevel | WarnLevel | ErrorLevel

type_synonym chat_output = "(level \<times> string) list"

record input =
  inEnv :: env
  inPrefix :: string
  inLine :: string

definition renderEvent :: "string \<Rightarrow> ui_event \<Rightarrow> level \<times> string" where
  "renderEvent prefix ev = (InfoLevel, case ev of
       MessageReceived m \<Rightarrow> prefix @ '' '' @ mSender m @ '': '' @ mContent m
     | PeerJoined _ nickname \<Rightarrow> prefix @ '' *** '' @ nickname @ '' joined ***''
     | PeerLeft _ nickname \<Rightarrow> prefix @ '' *** '' @ nickname @ '' left ***''
     | PeerConnected periph \<Rightarrow> prefix @ '' *** '' @ periph @ '' connected ***''
     | PeerDisconnected periph \<Rightarrow> prefix @ '' *** '' @ periph @ '' disconnected ***''
     | ChannelJoined channel \<Rightarrow> prefix @ '' *** Joined channel: '' @ channel @ '' ***''
     | ChannelLeft channel \<Rightarrow> prefix @ '' *** Left channel: '' @ channel @ '' ***'')"

definition int_string :: "int \<Rightarrow> string" where
  "int_string i = (if i < 0 then CHR ''-'' # to_string (nat (- i)) else to_string (nat i))"

definition peerLine :: "string \<Rightarrow> BitchatPeer \<Rightarrow> string" where
  "peerLine localPeerID peer = ''- '' @ peerNickname peer
     @ (if peerID peer = localPeerID then '' (you)'' else [])
     @ (if peerChannel peer \<noteq> [] then '' (channel: '' @ peerChannel peer @ '')'' else [])
     @ (if peerRSSI peer > - 100 then '' (RSSI: '' @ int_string (peerRSSI peer) @ '' dBm)'' else [])"

definition showPeers :: "int \<Rightarrow> BitchatData \<Rightarrow> chat_output" where
  "showPeers now d =
     (let recent = filter (\<lambda>p. now - peerLastSeen p < 180) (dPeers d) in
      (InfoLevel, ''People online:'') # map (\<lambda>p. (InfoLevel, peerLine (dPeerID d) p)) recent
      @ (if recent = [] then [(InfoLevel, ''No one online at the moment'')] else []))"

definition showStatus :: "BitchatData \<Rightarrow> chat_output" where
  "showStatus d = [(InfoLevel, if dCurrentChannel d = [] then ''Status: Not in any channel''
     else ''Status: In channel '' @ [char_of (39 :: nat)] @ dCurrentChannel d @ [char_of (39 :: nat)])]"

definition showHelp :: chat_output where
  "showHelp = map (Pair InfoLevel)
     [''Available commands:'', ''/j #channel    - Join channel'', ''/nick NICK     - Change nickname'',
      ''/w             - Show people online in current channel'', ''/status        - Show current channel status'',
      ''/clear         - Clear screen'', ''/help          - Show this help'', ''/exit          - Exit'',
      ''Message        - Send message to current channel'', [],
      ''Note: You can send messages without joining a channel (default chat)'', []]"

definition showWelcome :: "BitchatData \<Rightarrow> chat_output" where
  "showWelcome d = map (Pair InfoLevel)
     [''=== Bitchat Terminal Client ==='', ''Peer ID: '' @ dPeerID d, ''Nickname: '' @ dNickname d,
      ''Connected! Type /help for commands.'']"

section \<open>The chat loop\<close>

text \<open>A call of the manager, with the lines its callbacks print.\<close>

definition callManager :: "string \<Rightarrow> 'a action \<Rightarrow> node \<times> chat_output \<Rightarrow> (fault + 'a) \<times> (node \<times> chat_output)" where
  "callManager prefix act = (\<lambda>(n, out). case act n of
     (r, n') \<Rightarrow> (r, n', out @ map (renderEvent prefix) (drop (length (nEvents n)) (nEvents n'))))"

definition thenShow :: "(fault + 'a) \<times> (node \<times> chat_output) \<Rightarrow> ('a \<Rightarrow> level \<times> string) \<Rightarrow> (fault + unit) \<times> (node \<times> chat_output)" where
  "thenShow c f = (case c of (Inl e, s) \<Rightarrow> (Inl e, s) | (Inr x, n, out) \<Rightarrow> (Inr (), n, out @ [f x]))"

definition consoleLine :: "input \<Rightarrow> node \<times> chat_output \<Rightarrow> (fault + unit) \<times> (node \<times> chat_output)" where
  "consoleLine i = (\<lambda>(n, out).
     let line = inLine i; env = inEnv i; prefix = inPrefix i in
     if line = ''/help'' then (Inr (), n, out @ showHelp)
     else if take 3 line = ''/j '' then
       thenShow (callManager prefix (managerJoinChannel env (drop 3 line)) (n, out))
         (\<lambda>_. (InfoLevel, ''Joined channel: '' @ drop 3 line))
     else if line = ''/j'' then
       thenShow (callManager prefix (managerJoinChannel env []) (n, out)) (\<lambda>_. (InfoLevel, ''Joined main chat''))
     else if take 6 line = ''/nick '' then
       thenShow (callManager prefix (changeNickname (drop 6 line)) (n, out))
         (\<lambda>_. (InfoLevel, ''Nickname changed to: '' @ drop 6 line))
     else if line = ''/w'' then (Inr (), n, out @ showPeers (envSeconds env) (nData n))
     else if line = ''/status'' then (Inr (), n, out @ showStatus (nData n))
     else if line = ''/clear'' then (Inr (), n, out)
     else if line \<noteq> [] \<and> hd line = CHR ''/'' then
       (Inr (), n, out @ [(WarnLevel, ''Unknown command, type /help for available commands'')])
     else if line = [] then (Inr (), n, out)
     else thenShow (callManager prefix (managerSendMessage env line) (n, out))
         (\<lambda>ok. if ok then (InfoLevel, prefix @ '' You: '' @ line) else (ErrorLevel, ''Failed to send message'')))"

fun consoleLoop :: "input list \<Rightarrow> node \<times> chat_output \<Rightarrow> ((fault + unit) \<times> (node \<times> chat_output)) option" where
  "consoleLoop [] s = None"
| "consoleLoop (i # is) s =
     (if inLine i = ''/exit'' then Some (Inr (), s)
      else case consoleLine i s of (Inl e, s') \<Rightarrow> Some (Inl e, s') | (Inr _, s') \<Rightarrow> consoleLoop is s')"

definition consoleStart :: "bool \<Rightarrow> input list \<Rightarrow> node \<times> chat_output \<Rightarrow> ((fault + unit) \<times> (node \<times> chat_output)) option" where
  "consoleStart initialized is = (\<lambda>(n, out).
     if \<not> initialized then Some (Inr (), n, out) else consoleLoop is (n, out @ showWelcome (nData n)))"

definition consoleInitialize :: "bool \<Rightarrow> bool \<Rightarrow> bool \<Rightarrow> bool \<times> bool" where
  "consoleInitialize initialized manager messageService =
     (if initialized then (True, True)
      else if \<not> manager then (False, True) else if \<not> messageService then (False, True) else (True, True))"

definition consoleStop :: "bool \<Rightarrow> chat_output \<Rightarrow> chat_output" where
  "consoleStop initialized out = (if initialized then out @ [(InfoLevel, ''Shutdown'')] else out)"

text \<open>
  A line is a command when it is empty or begins with a slash.  What commands may do to a node: all they
  send are channel announcements, and of the store only the nickname and the current channel change.
\<close>

definition is_command :: "string \<Rightarrow> bool" where
  "is_command line \<longleftrightarrow> line = [] \<or> hd line = CHR ''/''"

definition only_announces :: "node \<Rightarrow> node \<Rightarrow> bool" where
  "only_announces n n' \<longleftrightarrow>
     (\<exists>ps. nSent n' = nSent n @ ps \<and> list_all (\<lambda>(_, p). pType p = PKT_TYPE_CHANNEL_ANNOUNCE) ps)
     \<and> dPeerID (nData n') = dPeerID (nData n) \<and> dPeers (nData n') = dPeers (nData n)
     \<and> dMessageHistory (nData n') = dMessageHistory (nData n)
     \<and> dProcessedMessages (nData n') = dProcessedMessages (nData n) \<and> nNoise n' = nNoise n"

definition quiet :: "node \<Rightarrow> (fault + unit) \<times> (node \<times> chat_output) \<Rightarrow> bool" where
  "quiet n r \<longleftrightarrow> (\<exists>n' out'. r = (Inr (), n', out') \<and> only_announces n n')"

section \<open>Lemmas\<close>

lemma only_announces_refl [simp]: "only_announces n n"
  by (simp add: only_announces_def)

lemma only_announces_trans: "only_announces a b \<Longrightarrow> only_announces b c \<Longrightarrow> only_announces a c"
  by (auto simp: only_announces_def)

lemma join_only_announces:
  "\<exists>n'. joinChannel env c n = (Inr (), n') \<and> only_announces n n'"
  by (auto simp: joinChannel_def leaveChannel_def action_defs only_announces_def setCurrentChannel_def Let_def
      createChannelAnnouncePacket_def newPacket_def)

lemma nickname_only_announces: "\<exists>n'. changeNickname nick n = (Inr (), n') \<and> only_announces n n'"
  by (simp add: changeNickname_def modify_def only_announces_def setNickname_def)

lemma quiet_call:
  assumes "\<exists>n'. act n = (Inr x, n') \<and> only_announces n n'"
  shows "quiet n (thenShow (callManager prefix act (n, out)) f)"
  using assms by (auto simp: quiet_def thenShow_def callManager_def)

lemma quiet_if: "(b \<Longrightarrow> quiet n r) \<Longrightarrow> (\<not> b \<Longrightarrow> quiet n r') \<Longrightarrow> quiet n (if b then r else r')"
  by simp

lemma quiet_print: "quiet n (Inr (), n, out')"
  by (simp add: quiet_def)

lemma quiet_join: "quiet n (thenShow (callManager prefix (managerJoinChannel env c) (n, out)) f)"
  by (rule quiet_call) (simp add: managerJoinChannel_def join_only_announces)

lemma quiet_nick: "quiet n (thenShow (callManager prefix (changeNickname nick) (n, out)) f)"
  by (rule quiet_call) (rule nickname_only_announces)

lemma command_line: "is_command (inLine i) \<Longrightarrow> quiet n (consoleLine i (n, out))"
  unfolding consoleLine_def prod.case Let_def
  by (intro quiet_print quiet_if quiet_join quiet_nick) (simp add: is_command_def)

section \<open>Properties\<close>

text \<open>
  A session of commands.  Lines that begin with a slash, whatever follows it, are never sent as chat: after any
  sequence of such lines and empty ones the node has sent channel announcements only, its identifier,
  peers, history and sessions are as before, and nothing was thrown.  The loop returns at the line \<open>/exit\<close>, and it
  does not return before there is one, not even when the input ends.
\<close>

theorem command_session:
  assumes "\<forall>i \<in> set is. is_command (inLine i)"
  shows "(inLine e = ''/exit'' \<longrightarrow>
      (\<exists>n' out'. consoleLoop (is @ e # js) (n, out) = Some (Inr (), n', out') \<and> only_announces n n'))
    \<and> (\<forall>i \<in> set is. inLine i \<noteq> ''/exit'') = (consoleLoop is (n, out) = None)"
  using assms
proof (induction "is" arbitrary: n out)
  case Nil
  then show ?case by simp
next
  case (Cons i "is")
  from Cons.prems command_line [of i n out] obtain n1 out1
    where 1: "consoleLine i (n, out) = (Inr (), n1, out1)" "only_announces n n1" by (auto simp: quiet_def)
  with Cons.IH [of n1 out1] Cons.prems show ?case by (auto intro: only_announces_trans)
qed

end
