(* ===== verification/Linux_Lifecycle.thy ===== *)
theory Linux_Lifecycle
  imports Linux_Bluetooth
begin

text \<open>
  The life of a \<open>LinuxBluetoothNetwork\<close> (\<open>src/platforms/linux/bluetooth.cpp\<close>): construction, \<open>start\<close>, the loops of the scan and the
  accept thread as far as \<open>stop\<close> has to wait for them, \<open>stop\<close> and destruction.  The three threads are program
  counters in one state, and a run is a sequence of steps of any of them.  A call that blocks in the kernel
  ends by an event of its own: an inquiry always returns, \<open>accept\<close> when a client connects or an error is
  reported.  What the threads do with a device is in \<open>Linux_Bluetooth\<close>; here it counts only whether it blocks, as it
  does when the greeting of a new connection sends a packet, which is a constant of the state.
\<close>

section \<open>State\<close>

datatype main_pc = Idle | Running | JoinScan | JoinAccept | Stopped

datatype scan_pc = ScanNone | ScanTest | Inquiring | ScanSleep | ScanBlocked | ScanDone

datatype accept_pc = AcceptNone | AcceptSetup | AcceptTest | InAccept | AcceptBlocked | AcceptDone

record LinuxBluetoothNetwork =
  lbDeviceID :: int
  lbHciSocket :: int
  lbRfcommSocket :: int
  lbStopThreads :: bool
  lbGreetingBlocks :: bool
  lbMain :: main_pc
  lbScan :: scan_pc
  lbAccept :: accept_pc

definition newLinuxBluetooth :: "bool \<Rightarrow> int \<Rightarrow> int \<Rightarrow> fault + LinuxBluetoothNetwork" where
  "newLinuxBluetooth blocks route socket =
     (if route < 0 then Inl (RuntimeError ''No Bluetooth adapter found'')
      else if socket < 0 then Inl (RuntimeError ''Failed to open HCI socket'')
      else Inr \<lparr>lbDeviceID = route, lbHciSocket = socket, lbRfcommSocket = - 1, lbStopThreads = False, lbGreetingBlocks = blocks,
        lbMain = Idle, lbScan = ScanNone, lbAccept = AcceptNone\<rparr>)"

definition linuxInitialize :: bool where
  "linuxInitialize = True"

definition linuxStart :: "LinuxBluetoothNetwork \<Rightarrow> bool \<times> LinuxBluetoothNetwork" where
  "linuxStart lb = (True, lb\<lparr>lbStopThreads := False, lbMain := Running, lbScan := ScanTest, lbAccept := AcceptSetup\<rparr>)"

text \<open>The sockets a destructor closes, once \<open>stop\<close> has returned.\<close>

definition linuxDestroy :: "LinuxBluetoothNetwork \<Rightarrow> int list" where
  "linuxDestroy lb = (if lbHciSocket lb \<ge> 0 then [lbHciSocket lb] else [])
     @ (if lbRfcommSocket lb \<ge> 0 then [lbRfcommSocket lb] else [])"

section \<open>Steps\<close>

datatype lb_event = Local | ClientAccepted int

inductive lb_step :: "lb_event \<Rightarrow> LinuxBluetoothNetwork \<Rightarrow> LinuxBluetoothNetwork \<Rightarrow> bool" where
  scan_leave: "lbScan lb = ScanTest \<Longrightarrow> lbStopThreads lb \<Longrightarrow> lb_step Local lb (lb\<lparr>lbScan := ScanDone\<rparr>)"
| scan_inquire: "lbScan lb = ScanTest \<Longrightarrow> \<not> lbStopThreads lb \<Longrightarrow> lb_step Local lb (lb\<lparr>lbScan := Inquiring\<rparr>)"
| scan_failed: "lbScan lb = Inquiring \<Longrightarrow> lb_step Local lb (lb\<lparr>lbScan := ScanDone\<rparr>)"
| scan_found: "lbScan lb = Inquiring \<Longrightarrow> lb_step Local lb (lb\<lparr>lbScan := ScanSleep\<rparr>)"
| scan_blocked: "lbScan lb = Inquiring \<Longrightarrow> lbGreetingBlocks lb \<Longrightarrow> lb_step Local lb (lb\<lparr>lbScan := ScanBlocked\<rparr>)"
| scan_wake: "lbScan lb = ScanSleep \<Longrightarrow> lb_step Local lb (lb\<lparr>lbScan := ScanTest\<rparr>)"
| accept_no_socket: "lbAccept lb = AcceptSetup \<Longrightarrow> s < 0 \<Longrightarrow>
    lb_step Local lb (lb\<lparr>lbRfcommSocket := s, lbAccept := AcceptDone\<rparr>)"
| accept_no_bind: "lbAccept lb = AcceptSetup \<Longrightarrow>
    lb_step Local lb (lb\<lparr>lbRfcommSocket := - 1, lbAccept := AcceptDone\<rparr>)"
| accept_listen: "lbAccept lb = AcceptSetup \<Longrightarrow> s \<ge> 0 \<Longrightarrow>
    lb_step Local lb (lb\<lparr>lbRfcommSocket := s, lbAccept := AcceptTest\<rparr>)"
| accept_leave: "lbAccept lb = AcceptTest \<Longrightarrow> lbStopThreads lb \<Longrightarrow> lb_step Local lb (lb\<lparr>lbAccept := AcceptDone\<rparr>)"
| accept_wait: "lbAccept lb = AcceptTest \<Longrightarrow> \<not> lbStopThreads lb \<Longrightarrow> lb_step Local lb (lb\<lparr>lbAccept := InAccept\<rparr>)"
| accept_blocked: "lbAccept lb = InAccept \<Longrightarrow> client \<ge> 0 \<Longrightarrow> lbGreetingBlocks lb \<Longrightarrow>
    lb_step (ClientAccepted client) lb (lb\<lparr>lbAccept := AcceptBlocked\<rparr>)"
| accept_return: "lbAccept lb = InAccept \<Longrightarrow> client < 0 \<or> \<not> lbGreetingBlocks lb \<Longrightarrow>
    lb_step (ClientAccepted client) lb (lb\<lparr>lbAccept := AcceptTest\<rparr>)"
| stop_call: "lbMain lb = Running \<Longrightarrow> lb_step Local lb (lb\<lparr>lbStopThreads := True, lbMain := JoinScan\<rparr>)"
| stop_scan: "lbMain lb = JoinScan \<Longrightarrow> lbScan lb = ScanDone \<Longrightarrow> lb_step Local lb (lb\<lparr>lbMain := JoinAccept\<rparr>)"
| stop_accept: "lbMain lb = JoinAccept \<Longrightarrow> lbAccept lb = AcceptDone \<Longrightarrow> lb_step Local lb (lb\<lparr>lbMain := Stopped\<rparr>)"

inductive_cases lb_stepE: "lb_step ev lb lb'"

inductive lb_run :: "lb_event list \<Rightarrow> LinuxBluetoothNetwork \<Rightarrow> LinuxBluetoothNetwork \<Rightarrow> bool" where
  lb_run_nil: "lb_run [] lb lb"
| lb_run_step: "lb_step ev lb lb' \<Longrightarrow> lb_run evs lb' lb'' \<Longrightarrow> lb_run (ev # evs) lb lb''"

text \<open>A network that was started, waits for a client and is told to stop.\<close>

definition stoppingBluetooth :: LinuxBluetoothNetwork where
  "stoppingBluetooth = \<lparr>lbDeviceID = 0, lbHciSocket = 3, lbRfcommSocket = 4, lbStopThreads = True, lbGreetingBlocks = True,
     lbMain = JoinScan, lbScan = ScanSleep, lbAccept = InAccept\<rparr>"

definition releases :: "bool \<Rightarrow> lb_event \<Rightarrow> bool" where
  "releases blocks ev = (case ev of Local \<Rightarrow> False | ClientAccepted client \<Rightarrow> client < 0 \<or> \<not> blocks)"

definition waiting :: "LinuxBluetoothNetwork \<Rightarrow> bool" where
  "waiting lb \<longleftrightarrow> lbAccept lb \<in> {InAccept, AcceptBlocked} \<and> lbMain lb \<noteq> Stopped"

section \<open>Lemmas\<close>

lemma lb_run_append: "lb_run evs lb lb' \<Longrightarrow> lb_run evs' lb' lb'' \<Longrightarrow> lb_run (evs @ evs') lb lb''"
  by (induction rule: lb_run.induct) (auto intro: lb_run_step)

text \<open>
  While the accept thread waits or is blocked, no step that is not an error of \<open>accept\<close>, or a connection that does not
  block, makes it go on, and the main thread, if it has not returned from \<open>stop\<close>, does not return.
\<close>

lemma waiting_step:
  assumes "lb_step ev lb lb'" "waiting lb" "\<not> releases (lbGreetingBlocks lb) ev"
  shows "waiting lb' \<and> lbGreetingBlocks lb' = lbGreetingBlocks lb"
  using assms by (auto simp: waiting_def releases_def elim!: lb_stepE)

lemma waiting_run:
  assumes "lb_run evs lb lb'" "waiting lb" "\<not> list_ex (releases (lbGreetingBlocks lb)) evs"
  shows "waiting lb'"
  using assms by (induction rule: lb_run.induct) (auto dest: waiting_step)

text \<open>Once the flag is set, every thread can be brought to its end, if a client comes when the accept thread waits for one.\<close>

lemma scan_can_end:
  assumes "lbStopThreads lb" "lbMain lb = JoinScan" "lbScan lb \<notin> {ScanNone, ScanBlocked}"
  shows "\<exists>evs. set evs \<subseteq> {Local} \<and> lb_run evs lb (lb\<lparr>lbScan := ScanDone, lbMain := JoinAccept\<rparr>)"
proof -
  have join: "lb_run [Local] (lb\<lparr>lbScan := ScanDone\<rparr>) (lb\<lparr>lbScan := ScanDone, lbMain := JoinAccept\<rparr>)"
    using assms(2) lb_run_step [OF stop_scan lb_run_nil, of "lb\<lparr>lbScan := ScanDone\<rparr>"] by simp
  show ?thesis
  proof (cases "lbScan lb")
    case ScanTest
    from lb_run_step [OF scan_leave [OF this assms(1)] join] show ?thesis by (intro exI [of _ "[Local, Local]"]) simp
  next
    case Inquiring
    from lb_run_step [OF scan_failed [OF this] join] show ?thesis by (intro exI [of _ "[Local, Local]"]) simp
  next
    case ScanSleep
    have "lb_step Local (lb\<lparr>lbScan := ScanTest\<rparr>) (lb\<lparr>lbScan := ScanDone\<rparr>)"
      using scan_leave [of "lb\<lparr>lbScan := ScanTest\<rparr>"] assms(1) by simp
    from lb_run_step [OF scan_wake [OF ScanSleep] lb_run_step [OF this join]] show ?thesis
      by (intro exI [of _ "[Local, Local, Local]"]) simp
  next
    case ScanDone
    then have "lb\<lparr>lbScan := ScanDone\<rparr> = lb" by simp
    with join show ?thesis by (intro exI [of _ "[Local]"]) simp
  qed (use assms(3) in simp_all)
qed

text \<open>When \<open>stop\<close> joins a thread that can go on: the scan thread, if there is one and it is not blocked, or the accept thread.\<close>

definition joins_live :: "LinuxBluetoothNetwork \<Rightarrow> bool" where
  "joins_live lb \<longleftrightarrow> lbMain lb = JoinScan \<and> lbScan lb \<notin> {ScanNone, ScanBlocked} \<or> lbMain lb = JoinAccept"

lemma stop_can_return:
  assumes "lbAccept lb = InAccept" "lbStopThreads lb" "joins_live lb" "releases (lbGreetingBlocks lb) (ClientAccepted client)"
  shows "\<exists>evs lb'. lb_run (ClientAccepted client # evs) lb lb' \<and> set evs \<subseteq> {Local} \<and> lbMain lb' = Stopped"
proof -
  let ?test = "lb\<lparr>lbAccept := AcceptTest\<rparr>" and ?done = "lb\<lparr>lbAccept := AcceptDone\<rparr>"
  have a: "lb_step (ClientAccepted client) lb ?test" using assms(1,4) by (intro accept_return) (simp_all add: releases_def)
  have b: "lb_step Local ?test ?done" using accept_leave [of ?test] assms(2) by simp
  obtain evs joined where c: "set evs \<subseteq> {Local}" "lb_run evs ?done joined" "lbMain joined = JoinAccept" "lbAccept joined = AcceptDone"
  proof (cases "lbMain lb = JoinAccept")
    case True
    then show thesis by (intro that [of "[]" ?done]) (simp_all add: lb_run_nil)
  next
    case False
    then have "lbMain lb = JoinScan" "lbScan lb \<notin> {ScanNone, ScanBlocked}" using assms(3) by (auto simp: joins_live_def)
    with scan_can_end [of ?done] assms(2) obtain evs
      where "set evs \<subseteq> {Local}" "lb_run evs ?done (?done\<lparr>lbScan := ScanDone, lbMain := JoinAccept\<rparr>)" by auto
    then show thesis by (intro that [of evs "?done\<lparr>lbScan := ScanDone, lbMain := JoinAccept\<rparr>"]) simp_all
  qed
  have "lb_run [Local] joined (joined\<lparr>lbMain := Stopped\<rparr>)"
    by (rule lb_run_step [OF stop_accept lb_run_nil]) (use c in simp_all)
  with c(2) have "lb_run (evs @ [Local]) ?done (joined\<lparr>lbMain := Stopped\<rparr>)" by (rule lb_run_append)
  from lb_run_step [OF a lb_run_step [OF b this]] c(1) show ?thesis
    by (intro exI [of _ "Local # evs @ [Local]"] exI [of _ "joined\<lparr>lbMain := Stopped\<rparr>"]) simp
qed

text \<open>A scan thread that is blocked stays so, and \<open>stop\<close> waits for it first.\<close>

lemma blocked_scan_run:
  assumes "lb_run evs lb lb'" "lbScan lb = ScanBlocked" "lbMain lb \<in> {Running, JoinScan}"
  shows "lbScan lb' = ScanBlocked \<and> lbMain lb' \<in> {Running, JoinScan}"
  using assms by (induction rule: lb_run.induct) (auto elim!: lb_stepE)

section \<open>Properties\<close>

text \<open>
  C38: stopping waits for a client.  While the accept thread is in \<open>accept\<close>, no run makes \<open>stop\<close> return unless \<open>accept\<close> fails or
  a client connects whose greeting does not block, however long the run is: \<open>stop\<close> sets the flag and joins the scan
  thread and then the accept thread, and the socket that \<open>accept\<close> waits on is closed by the destructor only.  After \<open>stop\<close> was called, one
  such event makes its return possible, if it already joins the accept thread, or joins a scan thread that was started and is not
  blocked.  While the scan thread is blocked \<open>stop\<close> does not return, whatever happens.
\<close>

theorem stop_waits_for_client:
  assumes "lbAccept lb = InAccept" "lbMain lb \<noteq> Stopped"
  shows "(lb_run evs lb lb' \<and> lbMain lb' = Stopped \<longrightarrow>
        (\<exists>client. ClientAccepted client \<in> set evs \<and> (client < 0 \<or> \<not> lbGreetingBlocks lb)))
    \<and> (joins_live lb \<and> lbStopThreads lb \<and> (fd < 0 \<or> \<not> lbGreetingBlocks lb)
        \<longrightarrow> (\<exists>evs lb'. lb_run (ClientAccepted fd # evs) lb lb' \<and> set evs \<subseteq> {Local} \<and> lbMain lb' = Stopped))
    \<and> (lbScan lb = ScanBlocked \<and> lbMain lb \<in> {Running, JoinScan} \<and> lb_run evs lb lb' \<longrightarrow> lbMain lb' \<noteq> Stopped)"
proof (intro conjI impI)
  assume run: "lb_run evs lb lb' \<and> lbMain lb' = Stopped"
  have "waiting lb" "\<not> waiting lb'" using assms run by (simp_all add: waiting_def)
  with run waiting_run have "list_ex (releases (lbGreetingBlocks lb)) evs" by blast
  then obtain ev where ev: "ev \<in> set evs" "releases (lbGreetingBlocks lb) ev" by (auto simp: list_ex_iff)
  show "\<exists>client. ClientAccepted client \<in> set evs \<and> (client < 0 \<or> \<not> lbGreetingBlocks lb)"
    by (cases ev) (use ev in \<open>auto simp: releases_def\<close>)
next
  assume "joins_live lb \<and> lbStopThreads lb \<and> (fd < 0 \<or> \<not> lbGreetingBlocks lb)"
  then show "\<exists>evs lb'. lb_run (ClientAccepted fd # evs) lb lb' \<and> set evs \<subseteq> {Local} \<and> lbMain lb' = Stopped"
    using stop_can_return [OF assms(1), of fd] by (simp add: releases_def)
next
  assume "lbScan lb = ScanBlocked \<and> lbMain lb \<in> {Running, JoinScan} \<and> lb_run evs lb lb'"
  then show "lbMain lb' \<noteq> Stopped" using blocked_scan_run [of evs lb lb'] by auto
qed

theorem stop_waits_for_client_witness:
  "\<exists>evs lb'. lb_run (ClientAccepted (- 1) # evs) stoppingBluetooth lb' \<and> lbMain lb' = Stopped"
proof -
  have "lbAccept stoppingBluetooth = InAccept" "lbMain stoppingBluetooth \<noteq> Stopped" by (simp_all add: stoppingBluetooth_def)
  from stop_waits_for_client [OF this, of "[]" stoppingBluetooth "- 1"] show ?thesis
    by (auto simp: stoppingBluetooth_def joins_live_def)
qed

end
