(* ===== verification/Program.thy ===== *)
theory Program
  imports Linux_Lifecycle Console Crypto
begin

text \<open>
  The whole program, \<open>src/main.cpp\<close>: the objects are made, the manager is initialized and started, the user interface
  runs until it returns, and the manager stops.  While the interface waits for a line, the other threads call the network
  service: the reader threads with received packets, the connecting threads when a device appears, the threads of the delayed
  announcements and the announce runner.  A session is the sequence of typed lines and of these calls, and handling
  one of them is a step.  On Linux the reader catches the exceptions of the handler of a packet (\<open>caught\<close> below).  An exception anywhere else, or
  a read out of range, ends the program with the fault as the result.  Whether the Bluetooth interface comes back from
  \<open>stop\<close> is an argument (see \<open>Linux_Lifecycle\<close>); where it does not, and where the user interface does not return, the
  result is \<^const>\<open>None\<close>.  What the Linux threads do around their calls, the lock they hold included, is in \<open>Linux_Bluetooth\<close>.
\<close>

section \<open>Sessions\<close>

text \<open>The calls of the other threads, and the action each of them runs.\<close>

datatype service_call = PacketArrives env BitchatPacket string | DeviceConnects string | DeviceDiscovered env string
  | AnnounceDue env string | DeviceGone string | AnnounceTick env bool

fun serviceCall :: "service_call \<Rightarrow> unit action" where
  "serviceCall (PacketArrives env packet periph) = onPacketReceived env packet periph"
| "serviceCall (DeviceConnects periph) = onPeerConnected periph"
| "serviceCall (DeviceDiscovered env periph) = onPeripheralDiscovered env True periph"
| "serviceCall (AnnounceDue env periph) = delayedAnnounce env periph"
| "serviceCall (DeviceGone periph) = onPeerDisconnected periph"
| "serviceCall (AnnounceTick env ready) = announceRound env ready"

fun isCaught :: "fault \<Rightarrow> service_call \<Rightarrow> bool" where
  "isCaught e (PacketArrives env packet periph) = (e \<noteq> OutOfRange)"
| "isCaught e call = False"

datatype session_event = Typed input | Called string service_call

fun sessionLoop :: "(fault \<Rightarrow> service_call \<Rightarrow> bool) \<Rightarrow> session_event list \<Rightarrow> node \<times> chat_output \<Rightarrow> ((fault + unit) \<times> (node \<times> chat_output)) option" where
  "sessionLoop caught [] s = None"
| "sessionLoop caught (Typed i # evs) s =
     (if inLine i = ''/exit'' then Some (Inr (), s)
      else case consoleLine i s of (Inl e, s') \<Rightarrow> Some (Inl e, s') | (Inr _, s') \<Rightarrow> sessionLoop caught evs s')"
| "sessionLoop caught (Called prefix call # evs) s =
     (case callManager prefix (serviceCall call) s of
        (Inl e, s') \<Rightarrow> if caught e call then sessionLoop caught evs s' else Some (Inl e, s')
      | (Inr _, s') \<Rightarrow> sessionLoop caught evs s')"

section \<open>The main function\<close>

abbreviation EXIT_SUCCESS :: int where "EXIT_SUCCESS \<equiv> 0"
abbreviation EXIT_FAILURE :: int where "EXIT_FAILURE \<equiv> 1"

definition createBluetoothNetworkInterface :: "int \<Rightarrow> int \<Rightarrow> fault + LinuxBluetoothNetwork" where
  "createBluetoothNetworkInterface = newLinuxBluetooth True"

definition startNode :: "nat \<Rightarrow> bytes \<Rightarrow> node" where
  "startNode nick key = \<lparr>nData = initialData nick, nNoise = Some (newNoiseService key), nSent = [], nEvents = []\<rparr>"

type_synonym outcome = "(fault + int) \<times> NetworkService \<times> node \<times> chat_output"

definition runInterface :: "(fault \<Rightarrow> service_call \<Rightarrow> bool) \<Rightarrow> bool \<Rightarrow> session_event list \<Rightarrow> NetworkService \<Rightarrow> node \<Rightarrow> outcome option" where
  "runInterface caught stopReturns evs net n =
     (case sessionLoop caught evs (n, showWelcome (nData n)) of
        None \<Rightarrow> None
      | Some (Inl e, n', out) \<Rightarrow> Some (Inl e, net, n', out)
      | Some (Inr _, n', out) \<Rightarrow>
          if \<not> stopReturns then None
          else Some (Inr EXIT_SUCCESS, managerStop net, n', consoleStop True out))"

text \<open>
  Everything before the user interface starts.  Of the Bluetooth interface the program sees whether it could be made, what
  \<open>initialize\<close> returns, if it does, and what \<open>start\<close> returns; \<open>uiReady\<close> is what the user interface returns from \<open>initialize\<close>.
\<close>

type_synonym made_interface = "fault + bool option \<times> bool"

definition startProgram ::
    "made_interface \<Rightarrow> bytes option \<Rightarrow> (nat \<Rightarrow> u8) \<Rightarrow> nat \<Rightarrow> 'k crypto_api \<Rightarrow> 'k CryptoService \<Rightarrow> env \<Rightarrow> bool
      \<Rightarrow> (NetworkService \<Rightarrow> node \<Rightarrow> outcome option) \<Rightarrow> outcome option" where
  "startProgram made staticKey rng nick api crypto env uiReady run =
     (let n = startNode nick []; net = newNetworkService in
      case made of
        Inl e \<Rightarrow> Some (Inl e, net, n, [])
      | Inr (initializes, starts) \<Rightarrow> (case staticKey of
          None \<Rightarrow> Some (Inl (RuntimeError ''Failed to generate local static key''), net, n, [])
        | Some key \<Rightarrow>
            let (ok, net, n) = managerInitialize rng True (fst (cryptoInitialize api crypto)) uiReady newRunner newRunner net
                  (startNode nick key)
            in if \<not> ok then Some (Inr EXIT_FAILURE, net, n, [])
               else case initializes of None \<Rightarrow> None
                 | Some btReady \<Rightarrow> (case managerStart env btReady starts net n of
                     (Inl e, net, n) \<Rightarrow> Some (Inl e, net, n, [])
                   | (Inr started, net, n) \<Rightarrow>
                       if \<not> started then Some (Inr EXIT_FAILURE, net, n, []) else run net n)))"

definition linuxInterface :: "int \<Rightarrow> int \<Rightarrow> made_interface" where
  "linuxInterface route hci = (case createBluetoothNetworkInterface route hci of
     Inl e \<Rightarrow> Inl e | Inr bluetooth \<Rightarrow> Inr (Some linuxInitialize, fst (linuxStart bluetooth)))"

definition main_program ::
    "int \<Rightarrow> int \<Rightarrow> bytes option \<Rightarrow> (nat \<Rightarrow> u8) \<Rightarrow> nat \<Rightarrow> 'k crypto_api \<Rightarrow> 'k CryptoService \<Rightarrow> env \<Rightarrow> bool
      \<Rightarrow> session_event list \<Rightarrow> outcome option" where
  "main_program route hci staticKey rng nick api crypto env stopReturns evs =
     startProgram (linuxInterface route hci) staticKey rng nick api crypto env (fst (consoleInitialize False True True))
       (runInterface isCaught stopReturns evs)"

text \<open>Sessions of commands, and sessions in which \<open>/exit\<close> is typed.\<close>

definition only_commands :: "session_event list \<Rightarrow> bool" where
  "only_commands = list_all (\<lambda>ev. case ev of Typed i \<Rightarrow> is_command (inLine i) | Called _ _ \<Rightarrow> True)"

definition exit_typed :: "session_event list \<Rightarrow> bool" where
  "exit_typed = list_ex (\<lambda>ev. case ev of Typed i \<Rightarrow> inLine i = ''/exit'' | Called _ _ \<Rightarrow> False)"

text \<open>The calls that may read out of range: a handler of a packet, and a send through the interface pointer.\<close>

fun may_fault :: "session_event \<Rightarrow> bool" where
  "may_fault (Called _ (PacketArrives _ _ _)) = True"
| "may_fault (Called _ (AnnounceDue _ _)) = True"
| "may_fault _ = False"

text \<open>The faults that end a session, if the callers catch the faults \<open>caught\<close>.\<close>

definition uncaught :: "(fault \<Rightarrow> service_call \<Rightarrow> bool) \<Rightarrow> session_event list \<Rightarrow> fault \<Rightarrow> bool" where
  "uncaught caught evs e = list_ex (\<lambda>ev. case ev of Typed i \<Rightarrow> False
     | Called prefix call \<Rightarrow> may_fault ev \<and> \<not> caught e call \<and> (isCaught e call \<or> e = OutOfRange)) evs"

text \<open>A call whose node satisfies a predicate, whatever it returned.\<close>

definition kept :: "(node \<Rightarrow> bool) \<Rightarrow> (fault + 'a) \<times> (node \<times> chat_output) \<Rightarrow> bool" where
  "kept P r = P (fst (snd r))"

section \<open>Lemmas\<close>

lemma session_of_lines: "sessionLoop caught (map Typed is) s = consoleLoop is s"
  by (induction "is" arbitrary: s) (auto split: prod.split sum.split)

interpretation local_id: node_predicate "\<lambda>n. dPeerID (nData n) = k"
  by unfold_locales (simp_all add: data_defs Let_def)

text \<open>What a session keeps of the node: the invariants and the identifier.\<close>

lemma keeps_changeNickname:
  "keeps (node_inv key) (changeNickname nick)" "keeps (\<lambda>n. dPeerID (nData n) = k) (changeNickname nick)"
  by (auto simp: keeps_def changeNickname_def modify_def setNickname_def node_inv_def data_inv_def)

lemma kept_intros:
  "P n \<Longrightarrow> kept P (x, n, out)"
  "keeps P act \<Longrightarrow> P n \<Longrightarrow> kept P (callManager prefix act (n, out))"
  "kept P c \<Longrightarrow> kept P (thenShow c f)"
  "kept P r \<Longrightarrow> kept P r' \<Longrightarrow> kept P (if b then r else r')"
  by (auto simp: kept_def callManager_def thenShow_def keeps_def split: prod.split sum.split dest!: sndI)

lemma consoleLine_keeps:
  assumes "\<And>env c. keeps P (managerJoinChannel env c)" "\<And>nick. keeps P (changeNickname nick)"
    "\<And>env c. keeps P (managerSendMessage env c)" "P n"
  shows "kept P (consoleLine i (n, out))"
  unfolding consoleLine_def prod.case Let_def by (intro kept_intros assms)

lemma session_keeps:
  assumes "\<And>i n out. P n \<Longrightarrow> kept P (consoleLine i (n, out))"
    "\<And>prefix call. Called prefix call \<in> set evs \<Longrightarrow> keeps P (serviceCall call)"
    and "sessionLoop caught evs s = Some (r, s')" "P (fst s)"
  shows "P (fst s')"
  using assms(2-4)
proof (induction caught evs s rule: sessionLoop.induct)
  case (2 caught i evs s)
  have "kept P (consoleLine i s)" using assms(1) [of "fst s" i "snd s"] 2(4) by simp
  with 2 show ?case by (auto simp: kept_def split: if_splits prod.splits sum.splits)
next
  case (3 caught prefix call evs s)
  have "kept P (callManager prefix (serviceCall call) s)"
    using kept_intros(2) [OF 3(3) [of prefix call], of "fst s" prefix "snd s"] 3(5) by simp
  with 3 show ?case by (auto simp: kept_def split: if_splits prod.splits sum.splits)
qed simp

context node_predicate
begin

lemma keeps_serviceCall: "keeps P (serviceCall call)"
  by (cases call) (simp_all add: onPeerConnected_def onPeerDisconnected_def keeps_onPacketReceived keeps_peer_events
      keeps_discovered keeps_announceRound)

end

lemma session_inv:
  assumes "sessionLoop caught evs (n, out) = Some (r, n', out')" "node_inv key n"
  shows "node_inv key n' \<and> dPeerID (nData n') = dPeerID (nData n)"
proof -
  have "keeps (node_inv key) (managerJoinChannel env c)" "keeps (node_inv key) (managerSendMessage env c)"
    "keeps (\<lambda>n. dPeerID (nData n) = k) (managerJoinChannel env c)" "keeps (\<lambda>n. dPeerID (nData n) = k) (managerSendMessage env c)"
    for env c k
    by (simp_all add: managerJoinChannel_def managerSendMessage_def inv.keeps_sends local_id.keeps_sends)
  then show ?thesis
    using session_keeps [where P = "node_inv key", OF consoleLine_keeps inv.keeps_serviceCall assms(1)]
      session_keeps [where P = "\<lambda>m. dPeerID (nData m) = dPeerID (nData n)",
        OF consoleLine_keeps local_id.keeps_serviceCall assms(1)] keeps_changeNickname assms(2)
    by simp
qed

lemma serviceCall_fault:
  assumes "dPeerID (nData n) = toHex sid" "serviceCall call n = (Inl e, n')"
  shows "may_fault (Called prefix call) \<and> (\<not> isCaught e call \<longrightarrow> e = OutOfRange)"
  using assms
  by (cases call) (auto simp: onPeerConnected_def onPeerDisconnected_def peerConnected_def peerDisconnected_def peerLeft_def
      onPeripheralDiscovered_def sendVersionHello_def createVersionHelloPacket_def ownPacket_def localSenderID_def
      delayedAnnounce_def createAnnouncePacket_def btSend_def announceRound_def action_defs
      split: option.splits if_splits)

lemma serviceCall_id: "dPeerID (nData n) = k \<Longrightarrow> serviceCall call n = (r, n') \<Longrightarrow> dPeerID (nData n') = k"
  using keepsD [OF local_id.keeps_serviceCall [of k call], of n] by simp

lemma command_events:
  assumes "only_commands evs" "dPeerID (nData n) = toHex sid"
  shows "case sessionLoop caught evs (n, out) of None \<Rightarrow> \<not> exit_typed evs
    | Some (r, s') \<Rightarrow> r = Inr () \<and> exit_typed evs \<or> (\<exists>e. r = Inl e \<and> uncaught caught evs e)"
  using assms
proof (induction evs arbitrary: n out)
  case Nil
  then show ?case by (simp add: exit_typed_def)
next
  case (Cons ev evs)
  then have "only_commands evs" by (simp add: only_commands_def)
  note IH = Cons.IH [OF this]
  show ?case
  proof (cases ev)
    case (Typed i)
    with Cons.prems(1) command_line [of i n out] obtain n1 out1
      where "consoleLine i (n, out) = (Inr (), n1, out1)" "dPeerID (nData n1) = toHex sid"
      using Cons.prems(2) by (auto simp: quiet_def only_commands_def only_announces_def)
    with Typed IH [of n1 out1] show ?thesis by (auto simp: exit_typed_def uncaught_def split: option.splits)
  next
    case (Called prefix call)
    obtain r n1 where c: "serviceCall call n = (r, n1)" by fastforce
    have "dPeerID (nData n1) = toHex sid" using serviceCall_id [OF Cons.prems(2) c] .
    note tail = IH [OF this, of "out @ map (renderEvent prefix) (drop (length (nEvents n)) (nEvents n1))"]
    show ?thesis
    proof (cases r)
      case (Inl e)
      with Called c tail serviceCall_fault [OF Cons.prems(2), of call e n1 prefix] show ?thesis
        by (auto simp: callManager_def exit_typed_def uncaught_def split: option.splits)
    next
      case (Inr u)
      with Called c tail show ?thesis by (auto simp: callManager_def exit_typed_def uncaught_def split: option.splits)
    qed
  qed
qed

lemma startIdentityAnnounce_total:
  "dPeerID (nData n) = toHex sid \<Longrightarrow> \<exists>n'. startIdentityAnnounce env n = (Inr (), n')"
  by (simp add: startIdentityAnnounce_def ownPacket_def localSenderID_def action_defs)

text \<open>The start of the program, when the interface and the key file are there.\<close>

lemma program_starts:
  assumes "fst (cryptoInitialize api crypto)"
  obtains net n where
    "startProgram (Inr (Some True, True)) (Some key) rng nick api crypto env True run = run net n"
    "node_inv key n" "dPeerID (nData n) = randomPeerID rng"
    "netAnnounceRunner net \<noteq> None" "netCleanupRunner net = Some newRunner"
proof -
  let ?n = "(startNode nick key)\<lparr>nData := setPeerID (randomPeerID rng) (initialData nick)\<rparr>"
  obtain net where init: "managerInitialize rng True True True newRunner newRunner newNetworkService (startNode nick key) = (True, net, ?n)"
    and net: "netBluetooth net" "netAnnounceRunner net \<noteq> None" "netCleanupRunner net = Some newRunner"
    by (simp add: managerInitialize_def netInitialize_def startNode_def Let_def)
  have pid: "dPeerID (nData ?n) = randomPeerID rng" by (simp add: setPeerID_def)
  have "node_inv key ?n"
    using noise_inv_init by (simp add: node_inv_def startNode_def data_inv_def setPeerID_def initialData_def getMessageHistory_def)
  moreover obtain n where n: "startIdentityAnnounce env ?n = (Inr (), n)"
    using pid startIdentityAnnounce_total [of ?n "map rng [0..<8]" env] unfolding randomPeerID_def by blast
  ultimately have "node_inv key n" "dPeerID (nData n) = randomPeerID rng"
    using keepsD [OF inv.keeps_sends(4) [of key env], of ?n]
      keepsD [OF local_id.keeps_sends(4) [of "randomPeerID rng" env], of ?n] pid by simp_all
  moreover obtain net' where "managerStart env True True net ?n = (Inr True, net', n)"
    "netAnnounceRunner net' \<noteq> None" "netCleanupRunner net' = Some newRunner"
    using net n by (simp add: managerStart_def netStart_def cleanupRunnerStart_def newRunner_def)
  ultimately show thesis
    using that init assms by (simp add: startProgram_def)
qed

text \<open>What the Linux reader does not catch.\<close>

lemma uncaught_isCaught: "uncaught isCaught evs e \<Longrightarrow> e = OutOfRange \<and> list_ex may_fault evs"
proof (induction evs)
  case (Cons ev evs)
  then show ?case by (cases ev) (auto simp: uncaught_def)
qed (simp add: uncaught_def)

lemma linux_interface_ready: "0 \<le> route \<Longrightarrow> 0 \<le> hci \<Longrightarrow> linuxInterface route hci = Inr (Some True, True)"
  by (simp add: linuxInterface_def createBluetoothNetworkInterface_def newLinuxBluetooth_def linuxInitialize_def linuxStart_def)

text \<open>The rest of the run, on any platform.\<close>

lemma interface_run:
  assumes "only_commands evs" "node_inv key n" "dPeerID (nData n) = randomPeerID rng"
    and "netAnnounceRunner net \<noteq> None" "netCleanupRunner net = Some newRunner"
  shows "case runInterface caught stopReturns evs net n of
      None \<Rightarrow> \<not> (stopReturns \<and> exit_typed evs)
    | Some (result, net', n', out) \<Rightarrow> node_inv key n' \<and> dPeerID (nData n') = randomPeerID rng
        \<and> ((\<exists>e. result = Inl e \<and> uncaught caught evs e)
          \<or> result = Inr 0 \<and> stopReturns \<and> exit_typed evs \<and> map_option runRunning (netAnnounceRunner net') = Some False
            \<and> map_option runRunning (netCleanupRunner net') = Some False \<and> last out = (InfoLevel, ''Shutdown''))"
proof -
  note run = command_events [OF assms(1) assms(3) [unfolded randomPeerID_def], of caught "showWelcome (nData n)"]
  show ?thesis
  proof (cases "sessionLoop caught evs (n, showWelcome (nData n))")
    case None
    with run show ?thesis by (simp add: runInterface_def)
  next
    case (Some res)
    then obtain r n' out' where s: "sessionLoop caught evs (n, showWelcome (nData n)) = Some (r, n', out')" by (metis prod_cases3)
    from session_inv [OF s assms(2)] assms(3-5) s run show ?thesis
      by (auto simp: runInterface_def managerStop_def netStop_def announceRunnerStop_def cleanupRunnerStop_def consoleStop_def
          split: sum.splits)
  qed
qed

section \<open>Properties\<close>

text \<open>
  C13: a run of the whole program.  With an adapter and a usable key file, and with any calls of the other threads
  between the typed lines, a session of commands in which \<open>/exit\<close> is typed ends if the Bluetooth interface stops.  However it
  ends, the node has kept its invariants and the identifier it drew at the start; unless a read out of range in
  a handler of a packet or a send ended it, \<open>/exit\<close> was typed, \<open>main\<close> returns 0, both runners are off and the last line
  printed is the farewell.
\<close>

theorem program_run:
  assumes "0 \<le> route" "0 \<le> hci" "fst (cryptoInitialize api crypto)"
    and "only_commands evs"
  shows "case main_program route hci (Some key) rng nick api crypto env stopReturns evs of
      None \<Rightarrow> \<not> (stopReturns \<and> exit_typed evs)
    | Some (result, net, n, out) \<Rightarrow> node_inv key n \<and> dPeerID (nData n) = randomPeerID rng
        \<and> (result = Inl OutOfRange \<and> list_ex may_fault evs
          \<or> result = Inr 0 \<and> stopReturns \<and> exit_typed evs \<and> map_option runRunning (netAnnounceRunner net) = Some False
            \<and> map_option runRunning (netCleanupRunner net) = Some False \<and> last out = (InfoLevel, ''Shutdown''))"
proof -
  have "main_program route hci (Some key) rng nick api crypto env stopReturns evs =
      startProgram (Inr (Some True, True)) (Some key) rng nick api crypto env True (runInterface isCaught stopReturns evs)"
    using assms(1,2) by (simp add: main_program_def linux_interface_ready consoleInitialize_def)
  then obtain net n
    where start: "main_program route hci (Some key) rng nick api crypto env stopReturns evs = runInterface isCaught stopReturns evs net n"
    and inv: "node_inv key n" "dPeerID (nData n) = randomPeerID rng"
    and runners: "netAnnounceRunner net \<noteq> None" "netCleanupRunner net = Some newRunner"
    using program_starts [OF assms(3)] by metis
  show ?thesis
    unfolding start using interface_run [OF assms(4) inv runners, where caught = isCaught and stopReturns = stopReturns] uncaught_isCaught
    by (auto split: option.splits)
qed

theorem program_run_witness:
  "main_program 0 3 (Some (replicate 32 9)) (\<lambda>_. 7) 1234 byte_keys \<lparr>csSigningKey = None, csKeyFile = None\<rparr> sampleEnv True
     [Called [] (PacketArrives sampleEnv (samplePacket 5) []), Typed \<lparr>inEnv = sampleEnv, inPrefix = [], inLine = ''/exit''\<rparr>] \<noteq> None"
proof -
  have "fst (cryptoInitialize byte_keys \<lparr>csSigningKey = None, csKeyFile = None\<rparr>)"
    by (simp add: cryptoInitialize_def generateOrLoadKeyPair_def loadPrivateKey_def byte_keys_def)
  from program_run [OF _ _ this, where route = 0 and hci = 3 and key = "replicate 32 9" and rng = "\<lambda>_. 7" and nick = 1234
      and env = sampleEnv and stopReturns = True and evs = "[Called [] (PacketArrives sampleEnv (samplePacket 5) []),
        Typed \<lparr>inEnv = sampleEnv, inPrefix = [], inLine = ''/exit''\<rparr>]"]
  show ?thesis by (auto simp: only_commands_def exit_typed_def is_command_def split: option.splits)
qed

end
