(* ===== verification/Sent_Packets.thy ===== *)
theory Sent_Packets
  imports Program
begin

text \<open>
  Every packet a run of the program hands to the Bluetooth interface, traced back to where it comes from.  \<open>own_packet\<close> is the
  type of the packets a node makes itself: which kinds there are, and which sender, time to live, flags and recipient
  each of them has.  The locale states what the services send in terms of any predicate that holds of
  these packets; its interpretation is the predicate of the theorem, which adds the relayed packets of a session.
\<close>

definition own_packet :: "bytes \<Rightarrow> BitchatPacket \<Rightarrow> bool" where
  "own_packet sid p \<longleftrightarrow>
     pType p \<in> {PKT_TYPE_MESSAGE, PKT_TYPE_NOISE_ENCRYPTED, PKT_TYPE_CHANNEL_ANNOUNCE, PKT_TYPE_ANNOUNCE,
       PKT_TYPE_VERSION_HELLO, PKT_TYPE_VERSION_ACK, PKT_TYPE_NOISE_HANDSHAKE_INIT, PKT_TYPE_NOISE_HANDSHAKE_RESP,
       PKT_TYPE_NOISE_IDENTITY_ANNOUNCE}
     \<and> pVersion p = PKT_VERSION \<and> pPayloadLength p = word_of_nat (length (pPayload p))
     \<and> pSenderID p = (if pType p = PKT_TYPE_CHANNEL_ANNOUNCE then [] else sid)
     \<and> pTTL p = (if pType p \<in> {PKT_TYPE_VERSION_HELLO, PKT_TYPE_VERSION_ACK} then 1 else PKT_TTL)
     \<and> (pType p \<notin> {PKT_TYPE_MESSAGE, PKT_TYPE_NOISE_ENCRYPTED} \<longrightarrow> pFlags p = 0)
     \<and> (hasRecipient p \<longrightarrow> pRecipientID p = replicate 8 0xFF)"

text \<open>The copy of a received packet that is sent on to a peer, never back to its author.\<close>

definition relays :: "session_event list \<Rightarrow> dest \<Rightarrow> BitchatPacket \<Rightarrow> bool" where
  "relays evs d p \<longleftrightarrow> (\<exists>prefix env q periph. Called prefix (PacketArrives env q periph) \<in> set evs
     \<and> pTTL q > 0 \<and> p = q\<lparr>pTTL := pTTL q - 1\<rparr> \<and> (\<exists>pid. d = ToPeer pid \<and> pid \<noteq> sender q))"

definition sends_only :: "bytes \<Rightarrow> (dest \<Rightarrow> BitchatPacket \<Rightarrow> bool) \<Rightarrow> node \<Rightarrow> bool" where
  "sends_only sid W n \<longleftrightarrow> dPeerID (nData n) = toHex sid \<and> (\<forall>(d, p) \<in> set (nSent n). W d p)"

section \<open>The packets the services make\<close>

lemma mbind_assoc: "mbind (mbind a g) f = mbind a (\<lambda>x. mbind (g x) f)"
  by (auto simp: fun_eq_iff mbind_def split: prod.split sum.split)

lemma mbind_ret [simp]: "mbind (ret x) f = f x"
  by (simp add: fun_eq_iff mbind_def ret_def)

lemma own_new:
  "type \<in> {PKT_TYPE_MESSAGE, PKT_TYPE_NOISE_ENCRYPTED, PKT_TYPE_ANNOUNCE, PKT_TYPE_NOISE_HANDSHAKE_INIT,
     PKT_TYPE_NOISE_HANDSHAKE_RESP, PKT_TYPE_NOISE_IDENTITY_ANNOUNCE} \<Longrightarrow>
   own_packet sid ((newPacket now type payload)\<lparr>pSenderID := sid\<rparr>)"
  by (auto simp: own_packet_def newPacket_def defaultPacket_def hasRecipient_def)

lemma own_version:
  "own_packet sid ((newPacket now PKT_TYPE_VERSION_HELLO payload)\<lparr>pSenderID := sid, pTTL := 1\<rparr>)"
  "own_packet sid ((newPacket now PKT_TYPE_VERSION_ACK payload)\<lparr>pSenderID := sid, pRecipientID := rid, pTTL := 1\<rparr>)"
  by (simp_all add: own_packet_def newPacket_def defaultPacket_def hasRecipient_def)

lemma own_channel_announce: "own_packet sid (createChannelAnnouncePacket now channel joining)"
  by (simp add: own_packet_def createChannelAnnouncePacket_def newPacket_def defaultPacket_def hasRecipient_def)

lemma own_flags:
  assumes "own_packet sid p" "pType p \<in> {PKT_TYPE_MESSAGE, PKT_TYPE_NOISE_ENCRYPTED}"
  shows "own_packet sid (setCompressed b p)" "own_packet sid (setHasSignature b (p\<lparr>pSignature := s\<rparr>))"
    "own_packet sid (setHasRecipient True (p\<lparr>pRecipientID := replicate 8 0xFF\<rparr>))"
  using assms by (auto simp: own_packet_def setCompressed_def setHasSignature_def setHasRecipient_def setFlag_def hasRecipient_def
      bit_simps)

lemma flags_type [simp]:
  "pType (setCompressed b p) = pType p" "pType (setHasSignature b p) = pType p" "pType (setHasRecipient b p) = pType p"
  by (simp_all add: setCompressed_def setHasSignature_def setHasRecipient_def setFlag_def)

lemma own_message_packet:
  assumes "dPeerID (nData n) = toHex sid" "createMessagePacket env m n = (Inr p, n')"
  shows "own_packet sid p"
proof -
  obtain ty pl n1 where e: "encryptForFirst env (mIsPrivate m) (let payload = makeMessagePayload (envUuid env 2) m in
      if shouldCompress payload then compressData (envLz4 env) payload else payload) n = (Inr (ty, pl), n1)"
    using assms(2) by (auto simp: createMessagePacket_def mbind_def Let_def split: prod.splits sum.splits)
  then have ty: "ty \<in> {PKT_TYPE_MESSAGE, PKT_TYPE_NOISE_ENCRYPTED}"
    by (auto simp: encryptForFirst_def action_defs Let_def split: if_splits option.splits prod.splits sum.splits)
  have "dPeerID (nData n1) = toHex sid"
    using e assms(1) by (auto simp: encryptForFirst_def action_defs Let_def split: if_splits option.splits prod.splits sum.splits)
  with assms(2) e have "p = (let q = setCompressed (shouldCompress pl) ((newPacket (envTime env 1) ty pl)\<lparr>pSenderID := sid\<rparr>);
      q = (if \<not> mIsPrivate m then setHasRecipient True (q\<lparr>pRecipientID := replicate 8 0xFF\<rparr>) else q)
    in case envSign env of None \<Rightarrow> q | Some sign \<Rightarrow> setHasSignature True (q\<lparr>pSignature := sign pl\<rparr>))"
    by (simp add: createMessagePacket_def ownPacket_def localSenderID_def action_defs Let_def)
  moreover have "own_packet sid ((newPacket (envTime env 1) ty pl)\<lparr>pSenderID := sid\<rparr>)" using ty by (auto intro: own_new)
  moreover have "pType ((newPacket (envTime env 1) ty pl)\<lparr>pSenderID := sid\<rparr>) = ty" by (simp add: newPacket_def)
  ultimately show ?thesis using ty by (auto simp: Let_def own_flags split: option.split)
qed

section \<open>What an action sends\<close>

locale sent_frame =
  fixes sid :: bytes and W :: "dest \<Rightarrow> BitchatPacket \<Rightarrow> bool"
  assumes W_own: "own_packet sid p \<Longrightarrow> W d p"
begin

lemma sends_store [keeps_intro]:
  "keeps (sends_only sid W) (modify (addPeer p))" "keeps (sends_only sid W) (modify (updatePeer p))"
  "keeps (sends_only sid W) (modify (removePeer k))" "keeps (sends_only sid W) (modify (addMessageToHistory m c))"
  "keeps (sends_only sid W) (modify (setCurrentChannel c))" "keeps (sends_only sid W) (modify (markMessageProcessed s))"
  "keeps (sends_only sid W) (emit ev)" "keeps (sends_only sid W) (withNoise f)"
  by (auto simp: keeps_def sends_only_def modify_def emit_def withNoise_def data_defs Let_def split: option.split sum.split)

lemma sends_transmit:
  "W d p \<Longrightarrow> keeps (sends_only sid W) (transmit env d p)" "W d p \<Longrightarrow> keeps (sends_only sid W) (btSend env d p)"
  by (auto simp: keeps_def sends_only_def transmit_def btSend_def)

lemmas sends_own [keeps_intro] = sends_transmit [OF W_own] sends_transmit [OF W_own, OF own_channel_announce]

lemma sends_ownPacket:
  assumes "keeps (sends_only sid W) (f ((newPacket now type payload)\<lparr>pSenderID := sid\<rparr>))"
  shows "keeps (sends_only sid W) (mbind (ownPacket now type payload) f)"
  using assms by (simp add: keeps_def sends_only_def ownPacket_def localSenderID_def action_defs)

lemma sends_message_packet:
  assumes "\<And>p. own_packet sid p \<Longrightarrow> keeps (sends_only sid W) (f p)"
  shows "keeps (sends_only sid W) (mbind (createMessagePacket env m) f)"
proof -
  have "keeps (sends_only sid W) (createMessagePacket env m)"
    unfolding createMessagePacket_def encryptForFirst_def ownPacket_def localSenderID_def by (intro keeps_intro)
  with assms own_message_packet show ?thesis
    by (fastforce simp: keeps_def mbind_def sends_only_def split: prod.splits sum.splits)
qed

lemma sends_leaveChannel [keeps_intro]: "keeps (sends_only sid W) (leaveChannel env)"
  unfolding leaveChannel_def by (intro keeps_intro)

lemma sends_version_hello [keeps_intro]: "keeps (sends_only sid W) (sendVersionHello env periph)"
  unfolding sendVersionHello_def createVersionHelloPacket_def mbind_assoc mbind_ret
  by (intro sends_ownPacket keeps_mseq keeps_ret sends_transmit W_own) (simp add: own_version)

lemma sends_version_ack [keeps_intro]: "keeps (sends_only sid W) (sendVersionAck env ack pid)"
  unfolding sendVersionAck_def Let_def
  by (intro sends_ownPacket keeps_mbind keeps_lift keeps_mseq keeps_ret sends_transmit W_own) (simp add: own_version)

lemma sends_noise [keeps_intro]:
  "keeps (sends_only sid W) (sendNoise env PKT_TYPE_NOISE_HANDSHAKE_INIT payload)"
  "keeps (sends_only sid W) (sendNoise env PKT_TYPE_NOISE_HANDSHAKE_RESP payload)"
  unfolding sendNoise_def by (intro sends_ownPacket keeps_mseq keeps_ret sends_transmit W_own own_new; simp)+

lemma sends_identity [keeps_intro]: "keeps (sends_only sid W) (startIdentityAnnounce env)"
  unfolding startIdentityAnnounce_def
  by (intro keeps_mbind keeps_noiseService keeps_if keeps_asks sends_ownPacket keeps_mseq keeps_ret sends_transmit W_own own_new) simp

lemma sends_user [keeps_intro]:
  "keeps (sends_only sid W) (managerJoinChannel env channel)" "keeps (sends_only sid W) (managerSendMessage env content)"
  "keeps (sends_only sid W) (changeNickname nick)"
proof -
  show "keeps (sends_only sid W) (managerJoinChannel env channel)"
    unfolding managerJoinChannel_def joinChannel_def by (intro keeps_intro)
  show "keeps (sends_only sid W) (managerSendMessage env content)"
    unfolding managerSendMessage_def sendMessage_def by (intro sends_message_packet keeps_intro) assumption
qed (simp add: keeps_def sends_only_def changeNickname_def modify_def setNickname_def)

lemma sends_noiseGuard:
  "(\<And>sv l. keeps (sends_only sid W) (body sv l)) \<Longrightarrow> keeps (sends_only sid W) (noiseGuard packet body)"
  unfolding noiseGuard_def by (intro keeps_intro)

lemma sends_version [keeps_intro]:
  "keeps (sends_only sid W) (handleVersionHello env pid data)" "keeps (sends_only sid W) (handleVersionAck env pid data)"
  unfolding handleVersionHello_def handleVersionAck_def by (intro keeps_intro)+

lemma sends_processMessage [keeps_intro]: "keeps (sends_only sid W) (processMessagePacket packet)"
  unfolding processMessagePacket_def by (intro keeps_intro)

lemma sends_handlers [keeps_intro]:
  "keeps (sends_only sid W) (processVersionHelloPacket env packet)" "keeps (sends_only sid W) (processVersionAckPacket env packet)"
  "keeps (sends_only sid W) (processChannelAnnouncePacket env packet)" "keeps (sends_only sid W) (processAnnouncePacket env packet periph)"
  "keeps (sends_only sid W) (processLeavePacket packet)"
  unfolding processVersionHelloPacket_def processVersionAckPacket_def processChannelAnnouncePacket_def
    processAnnouncePacket_def processLeavePacket_def
  by (intro keeps_intro)+

lemma sends_noise_handlers [keeps_intro]:
  "keeps (sends_only sid W) (processNoiseHandshakeInitPacket env packet)"
  "keeps (sends_only sid W) (processNoiseHandshakeRespPacket env packet)"
  "keeps (sends_only sid W) (processNoiseEncryptedPacket env packet)"
  "keeps (sends_only sid W) (processNoiseIdentityAnnouncePacket env packet)"
  unfolding processNoiseHandshakeInitPacket_def processNoiseHandshakeRespPacket_def
    processNoiseEncryptedPacket_def processNoiseIdentityAnnouncePacket_def
  by (intro sends_noiseGuard keeps_intro)+

lemma sends_processPacket [keeps_intro]: "keeps (sends_only sid W) (processPacket env packet periph)"
  unfolding processPacket_def routePacket_def shouldProcessPacket_def markPacketProcessed_def by (intro keeps_intro)

lemma sends_relayPacket:
  assumes "\<And>pid. pid \<noteq> sender packet \<Longrightarrow> W (ToPeer pid) (packet\<lparr>pTTL := pTTL packet - 1\<rparr>)"
  shows "keeps (sends_only sid W) (relayPacket env packet)"
proof -
  have "keeps (sends_only sid W) (relayTo env (packet\<lparr>pTTL := pTTL packet - 1\<rparr>) (sender packet) ps)" for ps
    using assms by (induction ps) (auto intro!: keeps_ret keeps_mseq sends_transmit)
  then show ?thesis unfolding relayPacket_def Let_def by (intro keeps_intro)
qed

lemma sends_onPacketReceived:
  assumes "\<And>pid. pTTL packet > 0 \<Longrightarrow> pid \<noteq> sender packet \<Longrightarrow> W (ToPeer pid) (packet\<lparr>pTTL := pTTL packet - 1\<rparr>)"
  shows "keeps (sends_only sid W) (onPacketReceived env packet periph)"
  unfolding onPacketReceived_def by (intro keeps_mseq sends_processPacket keeps_if keeps_ret sends_relayPacket assms)

lemma sends_background [keeps_intro]:
  "keeps (sends_only sid W) (onPeerConnected periph)" "keeps (sends_only sid W) (onPeerDisconnected periph)"
  "keeps (sends_only sid W) (onPeripheralDiscovered env b periph)"
  unfolding onPeerConnected_def onPeerDisconnected_def onPeripheralDiscovered_def peerConnected_def peerDisconnected_def peerLeft_def
  by (intro keeps_intro)+

lemma sends_announces [keeps_intro]:
  "keeps (sends_only sid W) (delayedAnnounce env periph)" "keeps (sends_only sid W) (announceRound env ready)"
proof -
  show "keeps (sends_only sid W) (delayedAnnounce env periph)"
    unfolding delayedAnnounce_def createAnnouncePacket_def mbind_assoc
    by (intro keeps_mbind keeps_asks sends_ownPacket keeps_mseq keeps_ret sends_transmit W_own own_new) simp
  have "W d ((newPacket now PKT_TYPE_ANNOUNCE payload)\<lparr>pSenderID := sid\<rparr>)" for d now payload
    by (intro W_own own_new) simp
  then show "keeps (sends_only sid W) (announceRound env ready)"
    by (auto simp: keeps_def sends_only_def announceRound_def btSend_def action_defs Let_def)
qed

end

interpretation traced: sent_frame sid "\<lambda>d p. own_packet sid p \<or> relays evs d p"
  by unfold_locales simp

lemma session_sends:
  assumes "sessionLoop caught evs (n, out) = Some (r, n', out')" "sends_only sid (\<lambda>d p. own_packet sid p \<or> relays evs d p) n"
  shows "sends_only sid (\<lambda>d p. own_packet sid p \<or> relays evs d p) n'"
proof -
  have "keeps (sends_only sid (\<lambda>d p. own_packet sid p \<or> relays evs d p)) (serviceCall call)"
    if "Called prefix call \<in> set evs" for prefix call
  proof (cases call)
    case (PacketArrives env q periph)
    with that have "relays evs (ToPeer pid) (q\<lparr>pTTL := pTTL q - 1\<rparr>)" if "pTTL q > 0" "pid \<noteq> sender q" for pid
      using that unfolding relays_def by blast
    with PacketArrives show ?thesis by (simp add: traced.sends_onPacketReceived)
  qed (simp_all add: traced.sends_background traced.sends_announces)
  then show ?thesis
    using session_keeps [OF consoleLine_keeps [OF traced.sends_user(1,3,2)] _ assms(1), of sid evs] assms(2) by simp
qed

text \<open>The three phases of the main function.\<close>

lemma initialized_sends:
  "managerInitialize rng bt crypto ui a c net (startNode nick key) = (ok, net', n) \<Longrightarrow>
   sends_only (map rng [0..<8]) W n"
  by (auto simp: managerInitialize_def startNode_def sends_only_def setPeerID_def randomPeerID_def Let_def
      split: prod.splits if_splits)

lemma manager_sends:
  assumes "managerStart env i s net n = (r, net', n')" "sends_only sid (\<lambda>d p. own_packet sid p \<or> relays evs d p) n"
  shows "sends_only sid (\<lambda>d p. own_packet sid p \<or> relays evs d p) n'"
  using assms keepsD [OF traced.sends_identity [of sid evs env] assms(2)]
  by (auto simp: managerStart_def Let_def split: prod.splits sum.splits if_splits)

lemma interface_sends:
  assumes "runInterface caught stopReturns evs net n = Some (r, net', n', out)"
    and "sends_only sid (\<lambda>d p. own_packet sid p \<or> relays evs d p) n"
  shows "sends_only sid (\<lambda>d p. own_packet sid p \<or> relays evs d p) n'"
  using assms by (auto simp: runInterface_def split: option.splits prod.splits sum.splits if_splits dest: session_sends)

section \<open>Properties\<close>

text \<open>
  C11: the type of what a run sends.  Whatever is typed and received, and however the program ends, each packet handed to the
  Bluetooth interface is one of two: a packet of the node, of one of nine types, with the protocol version, the length of
  its payload modulo two to the sixteenth, the sender the node drew at the start (none for a channel announcement), the time to live
  of its type, and no recipient but the broadcast address; or a received packet with one less time to live, going to
  a peer that is not its sender.
\<close>

theorem sent_packets_typed:
  assumes "main_program route hci staticKey rng nick api crypto env stopReturns evs = Some (result, net, n, out)"
    and "(d, p) \<in> set (nSent n)"
  shows "own_packet (map rng [0..<8]) p \<or> relays evs d p"
proof -
  have "sends_only (map rng [0..<8]) (\<lambda>d p. own_packet (map rng [0..<8]) p \<or> relays evs d p) n"
    using assms unfolding main_program_def startProgram_def Let_def
    by (auto simp: startNode_def [of nick "[]"] split: sum.splits option.splits prod.splits if_splits
        dest!: manager_sends interface_sends dest: initialized_sends)
  then show ?thesis using assms(2) by (auto simp: sends_only_def)
qed

theorem sent_packets_typed_witness:
  "\<exists>result net n out p. main_program 0 3 (Some (replicate 32 9)) (\<lambda>_. 7) 1234 byte_keys \<lparr>csSigningKey = None, csKeyFile = None\<rparr>
      (sampleEnv\<lparr>envSign := Some (\<lambda>_. [])\<rparr>) True [Typed \<lparr>inEnv = sampleEnv, inPrefix = [], inLine = ''/exit''\<rparr>]
      = Some (result, net, n, out) \<and> nSent n = [(Broadcast, p)] \<and> own_packet (replicate 8 7) p"
proof -
  let ?main = "main_program 0 3 (Some (replicate 32 9)) (\<lambda>_. 7) 1234 byte_keys \<lparr>csSigningKey = None, csKeyFile = None\<rparr>
      (sampleEnv\<lparr>envSign := Some (\<lambda>_. [])\<rparr>) True [Typed \<lparr>inEnv = sampleEnv, inPrefix = [], inLine = ''/exit''\<rparr>]"
  have "\<exists>result net n out p. ?main = Some (result, net, n, out) \<and> nSent n = [(Broadcast, p)]"
    by (simp add: main_program_def startProgram_def linux_interface_ready managerInitialize_def netInitialize_def
        cryptoInitialize_def generateOrLoadKeyPair_def loadPrivateKey_def byte_keys_def consoleInitialize_def managerStart_def
        netStart_def linuxInitialize_def linuxStart_def startIdentityAnnounce_def ownPacket_def localSenderID_def startNode_def
        sampleEnv_def setPeerID_def randomPeerID_def action_defs runInterface_def Let_def newNetworkService_def)
  then obtain result net n out p where m: "?main = Some (result, net, n, out)" "nSent n = [(Broadcast, p)]" by blast
  then have "own_packet (map (\<lambda>_. 7) [0..<8]) p"
    using sent_packets_typed [OF m(1), of Broadcast p] by (simp add: relays_def)
  with m show ?thesis by (auto simp: map_replicate_const)
qed

end
