(* ===== verification/Mesh.thy ===== *)
theory Mesh
  imports Network_Service
begin

text \<open>
  A chat packet in a mesh of nodes.  The nodes of a path receive it one after the other: \<open>forward\<close> runs the handler
  of \<open>NetworkService\<close> on each node, and the next node receives what this one sent to its peer identifier, nothing if it sent
  nothing there.  So this is the layer of \<open>NetworkService\<close>, over a transport that takes what is sent to a peer identifier to
  the node that has it.  Neither platform's interface is such a transport (\<open>Platforms\<close>): what is shown here is that
  the relaying itself would carry a message over the whole path.
\<close>

type_synonym station = "env \<times> string \<times> node"

text \<open>The first packet a handler sent to a peer, from the nodes before and after it.\<close>

definition addressed :: "string \<Rightarrow> node \<Rightarrow> node \<Rightarrow> BitchatPacket option" where
  "addressed pid n n' = map_option snd (find (\<lambda>(d, q). d = ToPeer pid) (drop (length (nSent n)) (nSent n')))"

fun forward :: "station list \<Rightarrow> BitchatPacket \<Rightarrow> ((fault + unit) \<times> node) list" where
  "forward [] p = []"
| "forward [(env, periph, n)] p = [onPacketReceived env p periph n]"
| "forward ((env, periph, n) # (env', periph', n') # hs) p =
     (let r = onPacketReceived env p periph n
      in r # (case addressed (dPeerID (nData n')) n (snd r) of
          Some q \<Rightarrow> forward ((env', periph', n') # hs) q
        | None \<Rightarrow> []))"

text \<open>Each node lists the next one as a peer, and the next one is not the author of the packet.\<close>

fun linked :: "string \<Rightarrow> station list \<Rightarrow> bool" where
  "linked author ((_, _, a) # (env, periph, b) # hs) \<longleftrightarrow>
     list_ex (isPeerID (dPeerID (nData b))) (dPeers (nData a)) \<and> dPeerID (nData b) \<noteq> author
     \<and> linked author ((env, periph, b) # hs)"
| "linked author hs \<longleftrightarrow> True"

definition listens :: "BitchatPacket \<Rightarrow> BitchatMessage \<Rightarrow> station \<Rightarrow> bool" where
  "listens p m = (\<lambda>(env, _, n). envBluetooth env \<and> dPeerID (nData n) \<noteq> sender p \<and> messageIsForUs m (nData n)
     \<and> \<not> wasMessageProcessed (nData n) (packetKey p))"

text \<open>A chat packet, and two stations of its channel, the first of which lists the second.\<close>

definition stationA :: station where
  "stationA = (sampleEnv, [], sampleNode\<lparr>nData := (setCurrentChannel ''#a'' (setPeerID ''aa'' (initialData 1)))
     \<lparr>dPeers := [newPeer 0 ''bb'' ''b'']\<rparr>\<rparr>)"

definition stationB :: station where
  "stationB = (sampleEnv, [], sampleNode\<lparr>nData := setCurrentChannel ''#a'' (setPeerID ''bb'' (initialData 2))\<rparr>)"

definition meshMessage :: BitchatMessage where
  "meshMessage = newMessage 1 ''id'' ''alice'' ''hi'' ''#a''"

definition meshPacket :: BitchatPacket where
  "meshPacket = (newPacket 5 PKT_TYPE_MESSAGE (makeMessagePayload ''u'' meshMessage))\<lparr>pSenderID := sampleSender\<rparr>"

section \<open>Lemmas\<close>

lemma ttl_frame [simp]:
  "isValid (p\<lparr>pTTL := t\<rparr>) = isValid p" "packetKey (p\<lparr>pTTL := t\<rparr>) = packetKey p"
  by (simp_all add: isValid_def packetKey_def)

lemma listens_ttl [simp]: "listens (p\<lparr>pTTL := t\<rparr>) m = listens p m"
  by (simp add: listens_def)

lemma addressed_relayed:
  assumes "q \<in> set (dPeers (nData n))" "peerID q \<noteq> sender p" "nSent n' = nSent n @ relayed p n"
  shows "addressed (peerID q) n n' = Some (p\<lparr>pTTL := pTTL p - 1\<rparr>)"
proof -
  let ?P = "\<lambda>(d, _). d = ToPeer (peerID q)"
  have "(ToPeer (peerID q), p\<lparr>pTTL := pTTL p - 1\<rparr>) \<in> set (relayed p n)" using assms(1,2) by (auto simp: relayed_def)
  then have "find ?P (relayed p n) \<noteq> None" by (auto simp: find_None_iff)
  then obtain x where x: "find ?P (relayed p n) = Some x" by blast
  then have "x \<in> set (relayed p n)" by (auto simp: find_Some_iff in_set_conv_nth)
  then have "snd x = p\<lparr>pTTL := pTTL p - 1\<rparr>" by (auto simp: relayed_def)
  with x assms(3) show ?thesis by (simp add: addressed_def)
qed

lemma station_receives:
  assumes "parseMessagePayload (pPayload p) = Some m" "isValid p" "pType p = PKT_TYPE_MESSAGE" "listens p m (env, periph, n)"
  shows "\<exists>n'. onPacketReceived env p periph n = (Inr (), n') \<and> nEvents n' = nEvents n @ [MessageReceived m]
    \<and> (pTTL p > 0 \<longrightarrow> nSent n' = nSent n @ relayed p n)"
proof -
  let ?n = "n\<lparr>nData := addMessageToHistory m (historyChannel m) (markMessageProcessed (packetKey p) (nData n)),
     nEvents := nEvents n @ [MessageReceived m]\<rparr>"
  have "processPacket env p periph n = (Inr (), ?n)"
    using assms(4) by (intro processMessage_sent [OF assms(1-3)]) (auto simp: listens_def)
  moreover have "dPeers (nData ?n) = dPeers (nData n)" by (simp add: data_defs Let_def)
  then have "relayed p ?n = relayed p n" by (simp only: relayed_def)
  ultimately show ?thesis
    using assms(4) by (auto simp: onPacketReceived_def mseq_def mbind_def ret_def relayPacket_sends listens_def)
qed

lemma linked_tl: "linked author (h # hs) \<Longrightarrow> linked author hs"
  by (cases hs; cases h) auto

lemma linked_next:
  assumes "linked author ((env, periph, n) # (env', periph', n') # hs)"
  obtains q where "q \<in> set (dPeers (nData n))" "peerID q = dPeerID (nData n')" "peerID q \<noteq> author"
  using assms by (auto simp: list_ex_iff isPeerID_def)

text \<open>The sample packet is valid, and both sample stations listen to it.\<close>

lemma meshPacket_fields [simp]:
  "pTTL meshPacket = 7" "pType meshPacket = PKT_TYPE_MESSAGE" "pSenderID meshPacket = sampleSender"
  by (simp_all add: meshPacket_def newPacket_def defaultPacket_def)

lemma meshPacket_parses: "parseMessagePayload (pPayload meshPacket) = Some meshMessage"
proof -
  have "message_view ''u'' meshMessage = meshMessage" "length (mMentions meshMessage) \<le> 255"
    by (simp_all add: message_view_def meshMessage_def newMessage_def defaultMessage_def)
  then show ?thesis using parse_sent_view [of meshMessage "''u''"] by (simp add: meshPacket_def newPacket_def)
qed

lemma meshPacket_valid: "isValid meshPacket"
proof -
  have "length (makeMessagePayload ''u'' meshMessage) = 25"
    by (simp add: makeMessagePayload_layout writeShortString_Nil optional_fields_def meshMessage_def newMessage_def
        defaultMessage_def)
  then show ?thesis by (simp add: isValid_def meshPacket_def newPacket_def defaultPacket_def)
qed

lemma stations_listen: "listens meshPacket meshMessage stationA" "listens meshPacket meshMessage stationB"
  by (simp_all add: listens_def stationA_def stationB_def sampleEnv_def setCurrentChannel_def setPeerID_def initialData_def
      sampleSender_def hex_digit_def messageIsForUs_def meshMessage_def newMessage_def wasMessageProcessed_def)

section \<open>Properties\<close>

text \<open>
  C12: multi-hop relaying in \<open>NetworkService\<close>.  A valid chat packet, whose payload parses, enters a path of nodes of its channel with their interfaces set, each of which lists the
  next one as a peer and none of which is its author or has seen it, with a time to live of at least the number of hops.
  Over a transport that hands what a node sends to a peer identifier to the node with that identifier, every
  node of the path receives it, shows its message to the user and, but for the last, sends it on to the next, with the
  time to live lowered once per hop.  The transport is an assumption, and neither platform's interface meets it, as it looks peer identifiers up
  among device addresses.
\<close>

theorem chat_reaches_whole_path:
  assumes "parseMessagePayload (pPayload p) = Some m" "isValid p" "pType p = PKT_TYPE_MESSAGE"
    and "linked (sender p) hs" "length hs \<le> unat (pTTL p) + 1" "list_all (listens p m) hs" "i < length hs"
  shows "length (forward hs p) = length hs
    \<and> (\<exists>n'. forward hs p ! i = (Inr (), n') \<and> nEvents n' = nEvents (snd (snd (hs ! i))) @ [MessageReceived m]
      \<and> (Suc i < length hs \<longrightarrow> addressed (dPeerID (nData (snd (snd (hs ! Suc i))))) (snd (snd (hs ! i))) n'
          = Some (p\<lparr>pTTL := pTTL p - word_of_nat (Suc i)\<rparr>)))"
  using assms
proof (induction hs p arbitrary: i rule: forward.induct)
  case (2 env periph n p)
  then show ?case using station_receives [of p m env periph n] by auto
next
  case (3 env periph n env' periph' n' hs p)
  let ?rest = "(env', periph', n') # hs" and ?q = "p\<lparr>pTTL := pTTL p - 1\<rparr>"
  have "listens p m (env, periph, n)" using 3(7) by simp
  from station_receives [OF 3(2,3,4) this] obtain n1 where r: "onPacketReceived env p periph n = (Inr (), n1)"
    "nEvents n1 = nEvents n @ [MessageReceived m]" and s: "pTTL p > 0 \<Longrightarrow> nSent n1 = nSent n @ relayed p n" by blast
  have pos: "pTTL p > 0" using 3(6) by (auto simp: word_less_nat_alt)
  obtain x where "x \<in> set (dPeers (nData n))" "peerID x = dPeerID (nData n')" "peerID x \<noteq> sender p"
    using linked_next [OF 3(5)] .
  with addressed_relayed [of x n p n1] s [OF pos] have a: "addressed (dPeerID (nData n')) n n1 = Some ?q" by simp
  then have f: "forward ((env, periph, n) # ?rest) p = (Inr (), n1) # forward ?rest ?q" by (simp add: r(1))
  have ttl: "unat (pTTL p - 1) = unat (pTTL p) - 1" "unat (pTTL p) > 0"
    using pos by (simp_all add: unat_TTL_dec word_less_nat_alt)
  have rest: "length (forward ?rest ?q) = length ?rest \<and> (\<exists>n2. forward ?rest ?q ! j = (Inr (), n2)
      \<and> nEvents n2 = nEvents (snd (snd (?rest ! j))) @ [MessageReceived m]
      \<and> (Suc j < length ?rest \<longrightarrow> addressed (dPeerID (nData (snd (snd (?rest ! Suc j))))) (snd (snd (?rest ! j))) n2
          = Some (?q\<lparr>pTTL := pTTL ?q - word_of_nat (Suc j)\<rparr>)))" if "j < length ?rest" for j
    by (rule 3(1) [of "(Inr (), n1)" ?q j]) (use 3(2-7) linked_tl [OF 3(5)] r(1) a ttl that in simp_all)
  show ?case
  proof (cases i)
    case 0
    then show ?thesis unfolding f using rest [of 0] r(2) a by simp
  next
    case (Suc j)
    with 3(8) rest [of j] show ?thesis unfolding f by (simp add: diff_diff_eq)
  qed
qed simp

theorem chat_reaches_whole_path_witness:
  "\<exists>n'. forward [stationA, stationB] meshPacket ! 0 = (Inr (), n') \<and> nEvents n' = [MessageReceived meshMessage]
    \<and> addressed ''bb'' (snd (snd stationA)) n' = Some (meshPacket\<lparr>pTTL := 6\<rparr>)
    \<and> (\<exists>n''. forward [stationA, stationB] meshPacket ! 1 = (Inr (), n'') \<and> nEvents n'' = [MessageReceived meshMessage])"
proof -
  have "linked (sender meshPacket) [stationA, stationB]"
    by (simp add: stationA_def stationB_def setCurrentChannel_def setPeerID_def initialData_def isPeerID_def newPeer_def
        updateLastSeen_def sampleSender_def hex_digit_def)
  note path = chat_reaches_whole_path [OF meshPacket_parses meshPacket_valid meshPacket_fields(2) this]
  have "nEvents (snd (snd stationA)) = []" "nEvents (snd (snd stationB)) = []" "dPeerID (nData (snd (snd stationB))) = ''bb''"
    by (simp_all add: stationA_def stationB_def sampleNode_def setCurrentChannel_def setPeerID_def)
  then show ?thesis using path [of 0] path [of 1] stations_listen by simp
qed

end
