(* ===== verification/Date_Time.thy ===== *)
theory Date_Time
  imports Helpers "HOL-Library.Signed_Division"
begin

text \<open>
  \<open>DateTimeHelper\<close> (\<open>src/bitchat/helpers/datetime_helper.cpp\<close>) and the time the console puts before a line
  (\<open>getChatPrefix\<close> of \<open>src/bitchat/ui/console_ui.cpp\<close>).  Of the C library, \<open>localtime\<close> is modelled for any time zone, given as
  the offset from universal time at each second, and \<open>strftime\<close> with the three conversions the program uses: it fills the buffer
  when the result fits with its terminator, and leaves it undefined otherwise (\<^const>\<open>None\<close>).
\<close>

section \<open>The C library\<close>

record tm =
  tm_hour :: nat
  tm_min :: nat
  tm_sec :: nat

definition localtime :: "(int \<Rightarrow> int) \<Rightarrow> int \<Rightarrow> tm" where
  "localtime zone t = (let s = nat ((t + zone t) mod 86400)
     in \<lparr>tm_hour = s div 3600, tm_min = s mod 3600 div 60, tm_sec = s mod 60\<rparr>)"

definition twoDigits :: "nat \<Rightarrow> string" where
  "twoDigits n = [hex_digit (n div 10), hex_digit (n mod 10)]"

fun expandFormat :: "string \<Rightarrow> tm \<Rightarrow> string" where
  "expandFormat (CHR ''%'' # c # cs) tm =
     (if c = CHR ''H'' then twoDigits (tm_hour tm)
      else if c = CHR ''M'' then twoDigits (tm_min tm)
      else if c = CHR ''S'' then twoDigits (tm_sec tm)
      else [CHR ''%'', c]) @ expandFormat cs tm"
| "expandFormat (c # cs) tm = c # expandFormat cs tm"
| "expandFormat [] tm = []"

definition strftime :: "nat \<Rightarrow> string \<Rightarrow> tm \<Rightarrow> string option" where
  "strftime maxsize format tm = (let s = expandFormat format tm in if length s < maxsize then Some s else None)"

section \<open>The helper\<close>

text \<open>The time since the epoch in nanoseconds is what the clock returned.\<close>

definition getCurrentTimestamp :: "int \<Rightarrow> u64" where
  "getCurrentTimestamp now = word_of_int (now sdiv 1000000)"

definition formatTimestamp :: "(int \<Rightarrow> int) \<Rightarrow> u64 \<Rightarrow> string option" where
  "formatTimestamp zone timestamp =
     (let time = uint (timestamp div 1000) in strftime 20 ''%H:%M:%S'' (localtime zone time))"

definition getChatPrefix :: "(int \<Rightarrow> int) \<Rightarrow> int \<Rightarrow> string option" where
  "getChatPrefix zone now =
     map_option (\<lambda>timebuf. ''['' @ timebuf @ '']'') (strftime 10 ''%H:%M'' (localtime zone now))"

text \<open>Reading a printed time back, as seconds since midnight.\<close>

definition digitValue :: "char \<Rightarrow> nat" where
  "digitValue c = (case hex_value c of Some d \<Rightarrow> d | None \<Rightarrow> 0)"

fun readClock :: "string \<Rightarrow> nat" where
  "readClock [a, b, _, c, d, _, e, f] =
     (digitValue a * 10 + digitValue b) * 3600 + (digitValue c * 10 + digitValue d) * 60 + digitValue e * 10 + digitValue f"
| "readClock _ = 0"

section \<open>Lemmas\<close>

lemma digitValue_digit [simp]: "n < 10 \<Longrightarrow> digitValue (hex_digit n) = n"
  by (simp add: digitValue_def)

lemma localtime_fields: "tm_hour (localtime zone t) < 24" "tm_min (localtime zone t) < 60" "tm_sec (localtime zone t) < 60"
  by (simp_all add: localtime_def Let_def less_mult_imp_div_less)

lemma localtime_seconds:
  "tm_hour (localtime zone t) * 3600 + tm_min (localtime zone t) * 60 + tm_sec (localtime zone t) = nat ((t + zone t) mod 86400)"
proof -
  let ?s = "nat ((t + zone t) mod 86400)"
  have "?s mod 60 = ?s mod 3600 mod 60" by (simp add: mod_mod_cancel)
  then have "?s mod 3600 div 60 * 60 + ?s mod 60 = ?s mod 3600" by (metis div_mult_mod_eq)
  moreover have "?s div 3600 * 3600 + ?s mod 3600 = ?s" by (rule div_mult_mod_eq)
  ultimately show ?thesis unfolding localtime_def Let_def tm.simps by linarith
qed

text \<open>
  The printed time fits its buffer, has the form of a clock, and reading it back gives the local time of the
  day to the second: the helper loses the day and the milliseconds, and nothing else.
\<close>

theorem format_timestamp_roundtrip:
  "\<exists>s. formatTimestamp zone timestamp = Some s \<and> length s = 8 \<and> s ! 2 = CHR '':'' \<and> s ! 5 = CHR '':''
     \<and> int (readClock s) = (uint (timestamp div 1000) + zone (uint (timestamp div 1000))) mod 86400"
proof -
  let ?t = "uint (timestamp div 1000)"
  let ?tm = "localtime zone ?t"
  let ?s = "twoDigits (tm_hour ?tm) @ '':'' @ twoDigits (tm_min ?tm) @ '':'' @ twoDigits (tm_sec ?tm)"
  have f: "formatTimestamp zone timestamp = Some ?s"
    by (simp add: formatTimestamp_def strftime_def twoDigits_def Let_def)
  have d: "n div 10 < 10" if "n < 60" for n :: nat using that by (simp add: less_mult_imp_div_less)
  have "readClock ?s = tm_hour ?tm * 3600 + tm_min ?tm * 60 + tm_sec ?tm"
    using localtime_fields [of zone ?t] by (simp add: twoDigits_def d)
  with f localtime_seconds [of zone ?t] show ?thesis by (simp add: twoDigits_def)
qed

text \<open>The prefix of a chat line has the hour and the minute of the local time, each with two digits.\<close>

theorem chat_prefix_printed:
  "\<exists>h m. h < 24 \<and> m < 60 \<and> getChatPrefix zone now = Some (''['' @ twoDigits h @ '':'' @ twoDigits m @ '']'')
     \<and> nat ((now + zone now) mod 86400) div 60 = h * 60 + m"
proof (intro exI conjI)
  let ?tm = "localtime zone now"
  show "getChatPrefix zone now = Some (''['' @ twoDigits (tm_hour ?tm) @ '':'' @ twoDigits (tm_min ?tm) @ '']'')"
    by (simp add: getChatPrefix_def strftime_def twoDigits_def)
  have "nat ((now + zone now) mod 86400) = (tm_hour ?tm * 60 + tm_min ?tm) * 60 + tm_sec ?tm"
    using localtime_seconds [of zone now] by (simp add: algebra_simps)
  then show "nat ((now + zone now) mod 86400) div 60 = tm_hour ?tm * 60 + tm_min ?tm"
    using localtime_fields(3) [of zone now] by simp
qed (rule localtime_fields)+

end
