(* ===== verification/Esp32_Relay.thy ===== *)
theory Esp32_Relay
  imports Bitchat_Data
begin

unbundle bit_operations_syntax

text \<open>
  The relay for ESP32 boards, \<open>extras/esp32/sketch/sketch.ino\<close>: a second program that speaks the protocol.  It
  queues what is written to its characteristic, drops what it has seen, and writes the rest to every peer it
  has discovered.  The state is the program's globals and a log of the values it wrote to peers.

  The BLE library is a parameter: for each address whether connecting works, whether the peer has
  the service, and whether the characteristic can be written; so are SHA-256, the clock and \<open>millis()\<close>.  \<open>unsigned long\<close>
  has 32 bits on this board.  Each of the three guarded structures locks its mutex in every method.  A callback of
  the BLE task and an iteration of \<open>loop\<close> are one event each; they touch the structures through single calls, and a
  callback works on a copy of the peers.  \<open>OutOfRange\<close> is a read behind a vector.
\<close>

section \<open>Constants\<close>

abbreviation MAX_QUEUE_SIZE :: nat where "MAX_QUEUE_SIZE \<equiv> 32"
abbreviation PROCESSED_ID_HISTORY :: nat where "PROCESSED_ID_HISTORY \<equiv> 128"
abbreviation LED_ON_DURATION :: "32 word" where "LED_ON_DURATION \<equiv> 300"
abbreviation ESP_PKT_VERSION :: u8 where "ESP_PKT_VERSION \<equiv> 1"
abbreviation ESP_TYPE_VERSION_HELLO :: u8 where "ESP_TYPE_VERSION_HELLO \<equiv> 0x11"
abbreviation ESP_TYPE_VERSION_ACK :: u8 where "ESP_TYPE_VERSION_ACK \<equiv> 0x12"
abbreviation ESP_PKT_TTL :: u8 where "ESP_PKT_TTL \<equiv> 1"

section \<open>Packets made by hand\<close>

definition espToHex :: "bytes \<Rightarrow> string" where
  "espToHex v = concat (map (\<lambda>b. [''0123456789abcdef'' ! unat (drop_bit 4 (b AND 0xF0)),
     ''0123456789abcdef'' ! unat (b AND 0x0F)]) v)"

definition espSenderID :: bytes where
  "espSenderID = map (\<lambda>i. let s = ''ESP32ABC1'' in if i < length s then byte_of_char (s ! i) else 0) [0..<8]"

definition espHelloPayload :: bytes where
  "espHelloPayload = [1, 1, 1] @ word_of_nat (length ''esp32'') # str_bytes ''esp32''
     @ word_of_nat (length ''esp32'') # str_bytes ''esp32'' @ [0]"

definition makeVersionHelloPacket :: "u64 \<Rightarrow> bytes" where
  "makeVersionHelloPacket now =
     (let payloadLen = word_of_nat (length espHelloPayload) :: u16 in
      [ESP_PKT_VERSION, ESP_TYPE_VERSION_HELLO, ESP_PKT_TTL]
      @ map (\<lambda>i. ucast (drop_bit (i * 8) now AND 0xFF)) (rev [0..<8])
      @ [0] @ [ucast (drop_bit 8 payloadLen AND 0xFF), ucast (payloadLen AND 0xFF)]
      @ espSenderID @ espHelloPayload)"

definition makeVersionAckPacket :: "bytes \<Rightarrow> bytes option" where
  "makeVersionAckPacket rx =
     (if length rx < 11 then None
      else Some ([ESP_PKT_VERSION, ESP_TYPE_VERSION_ACK, ESP_PKT_TTL] @ map (\<lambda>i. rx ! (3 + i)) [0..<8]
        @ [0] @ [0, 0] @ espSenderID))"

section \<open>Guarded structures\<close>

definition queuePush :: "string \<times> bytes \<Rightarrow> (string \<times> bytes) list \<Rightarrow> (string \<times> bytes) list" where
  "queuePush pkt q = (if length q \<ge> MAX_QUEUE_SIZE then tl q else q) @ [pkt]"

definition queuePop :: "(string \<times> bytes) list \<Rightarrow> ((string \<times> bytes) \<times> (string \<times> bytes) list) option" where
  "queuePop q = (if q = [] then None else Some (hd q, tl q))"

definition remember :: "string \<Rightarrow> string list \<Rightarrow> string list" where
  "remember pid h = (if length h \<ge> PROCESSED_ID_HISTORY then tl h else h) @ [pid]"

definition isDuplicate :: "string \<Rightarrow> string list \<Rightarrow> bool \<times> string list" where
  "isDuplicate pid h = (if pid \<in> set h then (True, h) else (False, remember pid h))"

record esp =
  eQueue :: "(string \<times> bytes) list"
  eHistory :: "string list"
  ePeers :: "string list"
  eLedActive :: bool
  eLedTurnOffTime :: "32 word"
  eWritten :: "(string \<times> bytes) list"

definition espInit :: esp where
  "espInit = \<lparr>eQueue = [], eHistory = [], ePeers = [], eLedActive = False, eLedTurnOffTime = 0, eWritten = []\<rparr>"

section \<open>Writing to a peer\<close>

record ble =
  bleConnect :: "string \<Rightarrow> bool"
  bleService :: "string \<Rightarrow> bool"
  bleCanWrite :: "string \<Rightarrow> bool"

text \<open>A value is written when all three steps succeed; an exception of the library counts as a step that failed.\<close>

definition reaches :: "ble \<Rightarrow> string \<Rightarrow> bool" where
  "reaches b addr \<longleftrightarrow> bleConnect b addr \<and> bleService b addr \<and> bleCanWrite b addr"

definition sendHelloToPeer :: "ble \<Rightarrow> u64 \<Rightarrow> string \<Rightarrow> esp \<Rightarrow> esp" where
  "sendHelloToPeer b now addr e =
     (if \<not> bleConnect b addr then e
      else if \<not> bleService b addr then e
      else if bleCanWrite b addr then e\<lparr>eWritten := eWritten e @ [(addr, makeVersionHelloPacket now)]\<rparr>
      else e)"

definition registryAdd :: "ble \<Rightarrow> u64 \<Rightarrow> string \<Rightarrow> esp \<Rightarrow> bool \<times> esp" where
  "registryAdd b now addr e =
     (if addr \<notin> set (ePeers e)
      then (True, sendHelloToPeer b now addr (e\<lparr>ePeers := ePeers e @ [addr]\<rparr>))
      else (False, e))"

definition registryRemove :: "string \<Rightarrow> esp \<Rightarrow> esp" where
  "registryRemove addr e = e\<lparr>ePeers := filter (\<lambda>a. a \<noteq> addr) (ePeers e)\<rparr>"

primrec sendVersionAckToSender :: "ble \<Rightarrow> bytes \<Rightarrow> string list \<Rightarrow> esp \<Rightarrow> fault + esp" where
  "sendVersionAckToSender b rx [] e = Inr e"
| "sendVersionAckToSender b rx (addr # peers) e =
     (if \<not> bleConnect b addr then sendVersionAckToSender b rx peers e
      else if \<not> bleService b addr then sendVersionAckToSender b rx peers e
      else if bleCanWrite b addr then
        (case makeVersionAckPacket rx of
           None \<Rightarrow> Inl OutOfRange
         | Some ack \<Rightarrow> sendVersionAckToSender b rx peers (e\<lparr>eWritten := eWritten e @ [(addr, ack)]\<rparr>))
      else sendVersionAckToSender b rx peers e)"

primrec relayEach :: "ble \<Rightarrow> bytes \<Rightarrow> string list \<Rightarrow> esp \<Rightarrow> esp" where
  "relayEach b payload [] e = e"
| "relayEach b payload (addr # peers) e =
     relayEach b payload peers
       (if \<not> bleConnect b addr then e
        else if \<not> bleService b addr then registryRemove addr e
        else if bleCanWrite b addr then e\<lparr>eWritten := eWritten e @ [(addr, payload)]\<rparr>
        else e)"

definition relayPacketToPeers :: "ble \<Rightarrow> 32 word \<Rightarrow> bytes \<Rightarrow> esp \<Rightarrow> esp" where
  "relayPacketToPeers b millis payload e =
     (if ePeers e = [] then e
      else (relayEach b payload (ePeers e) e)\<lparr>eLedActive := True, eLedTurnOffTime := millis + LED_ON_DURATION\<rparr>)"

section \<open>Callbacks and the main loop\<close>

text \<open>An iteration of the loop reads \<open>millis()\<close> up to twice, when it has relayed and when it looks at the light.\<close>

definition onWrite :: "(bytes \<Rightarrow> bytes) \<Rightarrow> ble \<Rightarrow> bytes \<Rightarrow> esp \<Rightarrow> fault + esp" where
  "onWrite sha b rx e =
     (if rx = [] then Inr e
      else let packetId = espToHex (sha rx);
               (duplicate, h) = isDuplicate packetId (eHistory e);
               e = e\<lparr>eHistory := h\<rparr>
        in if duplicate then Inr e
           else if length rx > 2 \<and> rx ! 1 = ESP_TYPE_VERSION_HELLO then sendVersionAckToSender b rx (ePeers e) e
           else if length rx > 2 \<and> rx ! 1 = ESP_TYPE_VERSION_ACK then Inr e
           else Inr (e\<lparr>eQueue := queuePush (packetId, rx) (eQueue e)\<rparr>))"

definition onResult :: "ble \<Rightarrow> u64 \<Rightarrow> bool \<Rightarrow> bool \<Rightarrow> string \<Rightarrow> esp \<Rightarrow> esp" where
  "onResult b now haveUUID advertised addr e =
     (if \<not> haveUUID then e else if \<not> advertised then e else snd (registryAdd b now addr e))"

definition espLoop :: "ble \<Rightarrow> 32 word \<Rightarrow> 32 word \<Rightarrow> esp \<Rightarrow> esp" where
  "espLoop b relayedAt millis e =
     (let e = (case queuePop (eQueue e) of
           Some ((_, payload), q) \<Rightarrow> relayPacketToPeers b relayedAt payload (e\<lparr>eQueue := q\<rparr>)
         | None \<Rightarrow> e)
      in if eLedActive e \<and> millis \<ge> eLedTurnOffTime e then e\<lparr>eLedActive := False\<rparr> else e)"

datatype esp_event =
    Written ble bytes
  | Advertised ble u64 bool bool string
  | Loop ble "32 word" "32 word"

fun espStep :: "(bytes \<Rightarrow> bytes) \<Rightarrow> esp_event \<Rightarrow> esp \<Rightarrow> fault + esp" where
  "espStep sha (Written b rx) e = onWrite sha b rx e"
| "espStep sha (Advertised b now haveUUID advertised addr) e = Inr (onResult b now haveUUID advertised addr e)"
| "espStep sha (Loop b relayedAt millis) e = Inr (espLoop b relayedAt millis e)"

primrec espRun :: "(bytes \<Rightarrow> bytes) \<Rightarrow> esp_event list \<Rightarrow> esp \<Rightarrow> fault + esp" where
  "espRun sha [] e = Inr e"
| "espRun sha (ev # evs) e = rbind (espStep sha ev e) (espRun sha evs)"

text \<open>
  The invariant of the relay: bounded queue and history, nothing remembered or registered twice, and
  every queued packet under its own hash and not a version packet, as this program numbers them.
\<close>

definition is_version :: "bytes \<Rightarrow> bool" where
  "is_version rx \<longleftrightarrow> 2 < length rx \<and> (rx ! 1 = ESP_TYPE_VERSION_HELLO \<or> rx ! 1 = ESP_TYPE_VERSION_ACK)"

definition esp_inv :: "(bytes \<Rightarrow> bytes) \<Rightarrow> esp \<Rightarrow> bool" where
  "esp_inv sha e \<longleftrightarrow> length (eQueue e) \<le> MAX_QUEUE_SIZE \<and> length (eHistory e) \<le> PROCESSED_ID_HISTORY
     \<and> distinct (eHistory e) \<and> distinct (ePeers e)
     \<and> list_all (\<lambda>(pid, rx). pid = espToHex (sha rx) \<and> rx \<noteq> [] \<and> \<not> is_version rx) (eQueue e)"

text \<open>An identifier that at most \<open>k\<close> others have followed.\<close>

definition remembered :: "string \<Rightarrow> nat \<Rightarrow> string list \<Rightarrow> bool" where
  "remembered pid k h \<longleftrightarrow> pid \<in> set (drop (length h - Suc k) h)"

text \<open>Classes of events: writes that are long enough to be answered, and iterations in which a peer can be reached.\<close>

definition long_enough :: "esp_event \<Rightarrow> bool" where
  "long_enough ev \<longleftrightarrow> (case ev of Written _ rx \<Rightarrow> 11 \<le> length rx | _ \<Rightarrow> True)"

definition is_write :: "esp_event \<Rightarrow> bool" where
  "is_write ev \<longleftrightarrow> (case ev of Written _ _ \<Rightarrow> True | _ \<Rightarrow> False)"

definition is_loop :: "esp_event \<Rightarrow> bool" where
  "is_loop ev \<longleftrightarrow> (case ev of Loop _ _ _ \<Rightarrow> True | _ \<Rightarrow> False)"

definition looks_up :: "string \<Rightarrow> esp_event \<Rightarrow> bool" where
  "looks_up a ev \<longleftrightarrow> (case ev of Loop b _ _ \<Rightarrow> reaches b a | _ \<Rightarrow> True)"

text \<open>A library for the witnesses, in which everything works, and a relay with one peer and one packet.\<close>

definition bleUp :: ble where
  "bleUp = \<lparr>bleConnect = \<lambda>_. True, bleService = \<lambda>_. True, bleCanWrite = \<lambda>_. True\<rparr>"

definition espOne :: esp where
  "espOne = espInit\<lparr>ePeers := [''aa:bb''], eQueue := [(''01'', [1]), (''010407'', [1, 4, 7])]\<rparr>"

section \<open>The bounded structures\<close>

interpretation packet_queue: bounded_log "\<lambda>q. q" queuePush MAX_QUEUE_SIZE
  by unfold_locales (auto simp: queuePush_def tl_append split: list.split)

interpretation id_history: bounded_log "\<lambda>h. h" remember PROCESSED_ID_HISTORY
  by unfold_locales (auto simp: remember_def tl_append split: list.split)

lemma distinct_remember: "distinct h \<Longrightarrow> pid \<notin> set h \<Longrightarrow> distinct (remember pid h)"
  by (cases h) (auto simp: remember_def)

lemma remembered_new: "remembered pid 0 (remember pid h)"
  by (simp add: remembered_def remember_def)

lemma remembered_next:
  assumes "remembered pid k h" "Suc k < PROCESSED_ID_HISTORY" "length h \<le> PROCESSED_ID_HISTORY"
  shows "remembered pid (Suc k) (remember x h)"
proof (cases "length h \<ge> PROCESSED_ID_HISTORY")
  case True
  with assms(3) have "length h = 128" by simp
  moreover from this assms(2) have "drop (126 - k) (tl h) = drop (length h - Suc k) h"
    by (simp add: drop_Suc [symmetric] Suc_diff_le [symmetric])
  ultimately show ?thesis using assms(1,2) by (auto simp: remembered_def remember_def)
next
  case False
  then show ?thesis using assms(1) by (auto simp: remembered_def remember_def)
qed

lemma remembered_mono: "remembered pid k h \<Longrightarrow> k \<le> j \<Longrightarrow> remembered pid j h"
  unfolding remembered_def by (meson diff_le_mono2 set_drop_subset_set_drop Suc_le_mono subsetD)

lemma remembered_in: "remembered pid k h \<Longrightarrow> pid \<in> set h"
  unfolding remembered_def by (rule in_set_dropD)

lemma set_queuePush: "set (queuePush pkt q) \<subseteq> insert pkt (set q)"
  by (cases q) (auto simp: queuePush_def)

section \<open>The relay\<close>

lemma low_nibble: "unat (b AND 0x0F) = unat b mod 16" for b :: u8
proof -
  have "take_bit 4 b = b AND 0x0F" by (simp add: take_bit_eq_mask mask_eq_exp_minus_1)
  moreover have "take_bit 4 b = b mod 16" by (simp add: take_bit_eq_mod)
  ultimately have "b AND 0x0F = b mod 16" by metis
  then show ?thesis by (simp add: unat_mod)
qed

lemma high_nibble: "unat (drop_bit 4 (b AND 0xF0)) = unat b div 16" for b :: u8
proof -
  have "drop_bit 4 (b AND 0xF0) = drop_bit 4 b"
  proof (rule bit_word_eqI)
    fix n :: nat
    have "n \<in> {0, 1, 2, 3} \<or> 4 \<le> n" by auto
    moreover have "\<not> bit b (4 + n)" if "4 \<le> n" using that bit_imp_le_length [of b "4 + n"] by auto
    ultimately show "bit (drop_bit 4 (b AND 0xF0)) n = bit (drop_bit 4 b) n" by (auto simp: bit_simps)
  qed
  then show ?thesis by (simp add: drop_bit_eq_div unat_div)
qed

lemma espToHex_eq: "espToHex v = toHex v"
proof -
  have "''0123456789abcdef'' ! n = hex_digit n" if "n < 16" for n
  proof -
    have "\<forall>k \<in> set [0..<16]. ''0123456789abcdef'' ! k = hex_digit k" by (simp add: upt_rec hex_digit_def)
    with that show ?thesis by simp
  qed
  moreover have "unat b div 16 < 16" for b :: u8 using unsigned_less [of b] by (simp add: less_mult_imp_div_less)
  ultimately show ?thesis unfolding espToHex_def toHex_def low_nibble high_nibble by simp
qed

lemma ack_cases:
  "sendVersionAckToSender b rx peers e =
     (if (\<exists>a \<in> set peers. reaches b a) \<and> length rx < 11 then Inl OutOfRange
      else Inr (e\<lparr>eWritten := eWritten e @ map (\<lambda>a. (a, the (makeVersionAckPacket rx))) (filter (reaches b) peers)\<rparr>))"
  by (induction peers arbitrary: e) (auto simp: reaches_def makeVersionAckPacket_def)

lemma relayEach_rest [simp]:
  "eQueue (relayEach b payload peers e) = eQueue e" "eHistory (relayEach b payload peers e) = eHistory e"
  by (induction peers arbitrary: e) (auto simp: registryRemove_def)

lemma relayEach_written:
  "eWritten (relayEach b payload peers e) = eWritten e @ map (\<lambda>a. (a, payload)) (filter (reaches b) peers)"
  by (induction peers arbitrary: e) (auto simp: registryRemove_def reaches_def)

lemma relayEach_peers:
  "ePeers (relayEach b payload peers e) =
     filter (\<lambda>a. a \<in> set peers \<longrightarrow> bleConnect b a \<longrightarrow> bleService b a) (ePeers e)"
proof (induction peers arbitrary: e)
  case (Cons a peers)
  then show ?case by (auto simp: registryRemove_def intro!: filter_cong)
qed simp

text \<open>What a write does, by cases; the third case is the only one that can fail.\<close>

lemma onWrite_cases:
  "onWrite sha b rx e =
     (let pid = espToHex (sha rx); e' = e\<lparr>eHistory := remember pid (eHistory e)\<rparr> in
      if rx = [] \<or> pid \<in> set (eHistory e) then Inr e
      else if 2 < length rx \<and> rx ! 1 = ESP_TYPE_VERSION_HELLO then sendVersionAckToSender b rx (ePeers e) e'
      else if is_version rx then Inr e'
      else Inr (e'\<lparr>eQueue := queuePush (pid, rx) (eQueue e)\<rparr>))"
  by (auto simp: onWrite_def isDuplicate_def is_version_def Let_def)

lemma espLoop_history: "eHistory (espLoop b relayedAt millis e) = eHistory e"
  by (auto simp: case_prod_beta espLoop_def queuePop_def relayPacketToPeers_def Let_def)

lemma espLoop_distinct: "distinct (ePeers e) \<Longrightarrow> distinct (ePeers (espLoop b relayedAt millis e))"
  by (auto simp: case_prod_beta espLoop_def queuePop_def relayPacketToPeers_def relayEach_peers Let_def)

lemma espLoop_queue: "eQueue (espLoop b relayedAt millis e) = tl (eQueue e)"
  by (auto simp: case_prod_beta espLoop_def queuePop_def relayPacketToPeers_def Let_def)

lemma espLoop_peers: "a \<in> set (ePeers e) \<Longrightarrow> reaches b a \<Longrightarrow> a \<in> set (ePeers (espLoop b relayedAt millis e))"
  by (auto simp: case_prod_beta espLoop_def queuePop_def relayPacketToPeers_def relayEach_peers reaches_def Let_def)

lemma espLoop_written: "set (eWritten e) \<subseteq> set (eWritten (espLoop b relayedAt millis e))"
  by (auto simp: case_prod_beta espLoop_def queuePop_def relayPacketToPeers_def relayEach_written Let_def)

lemma espLoop_relays:
  "eQueue e = (pid, rx) # q \<Longrightarrow> a \<in> set (ePeers e) \<Longrightarrow> reaches b a \<Longrightarrow> (a, rx) \<in> set (eWritten (espLoop b relayedAt millis e))"
  by (auto simp: case_prod_beta espLoop_def queuePop_def relayPacketToPeers_def relayEach_written Let_def)

section \<open>Invariant\<close>

lemma esp_inv_step:
  assumes "esp_inv sha e" "espStep sha ev e = Inr e'"
  shows "esp_inv sha e'"
proof (cases ev)
  case (Written b rx)
  let ?pid = "espToHex (sha rx)"
  have h: "length (remember ?pid (eHistory e)) \<le> PROCESSED_ID_HISTORY"
    using assms(1) id_history.push_bounded by (simp add: esp_inv_def)
  have q: "length (queuePush (?pid, rx) (eQueue e)) \<le> MAX_QUEUE_SIZE"
    using assms(1) packet_queue.push_bounded by (simp add: esp_inv_def)
  have s: "list_all P (queuePush (?pid, rx) (eQueue e))" if "list_all P (eQueue e)" "P (?pid, rx)" for P
    using that set_queuePush [of "(?pid, rx)" "eQueue e"] unfolding list_all_iff by blast
  have "esp_inv sha (e\<lparr>eHistory := remember ?pid (eHistory e), eWritten := w\<rparr>)" if "?pid \<notin> set (eHistory e)" for w
    using assms(1) h that by (simp add: esp_inv_def distinct_remember)
  moreover have "esp_inv sha (e\<lparr>eHistory := remember ?pid (eHistory e)\<rparr>)" if "?pid \<notin> set (eHistory e)"
    using assms(1) h that by (simp add: esp_inv_def distinct_remember)
  moreover have "esp_inv sha (e\<lparr>eHistory := remember ?pid (eHistory e), eQueue := queuePush (?pid, rx) (eQueue e)\<rparr>)"
    if "?pid \<notin> set (eHistory e)" "rx \<noteq> []" "\<not> is_version rx"
    using assms(1) h q s that by (simp add: esp_inv_def distinct_remember)
  ultimately show ?thesis
    using assms Written by (auto simp: onWrite_cases ack_cases Let_def split: if_splits)
next
  case (Advertised b now hu adv addr)
  then show ?thesis using assms
    by (auto simp: onResult_def registryAdd_def sendHelloToPeer_def esp_inv_def)
next
  case (Loop b relayedAt millis)
  have "list_all Q (eQueue e) \<Longrightarrow> list_all Q (tl (eQueue e))" for Q by (cases "eQueue e") simp_all
  with Loop assms show ?thesis by (auto simp: esp_inv_def espLoop_queue espLoop_history espLoop_distinct)
qed

lemma esp_inv_run: "esp_inv sha e \<Longrightarrow> espRun sha evs e = Inr e' \<Longrightarrow> esp_inv sha e'"
  by (induction evs arbitrary: e) (auto simp: rbind_def split: sum.splits intro: esp_inv_step)

lemma esp_inv_init: "esp_inv sha espInit"
  by (simp add: esp_inv_def espInit_def)

section \<open>Progress\<close>

lemma event_simps [simp]:
  "is_write (Written b rx)" "\<not> is_write (Advertised b now hu adv addr)" "\<not> is_write (Loop b relayedAt millis)"
  "is_loop (Loop b relayedAt millis)" "\<not> is_loop (Written b rx)" "\<not> is_loop (Advertised b now hu adv addr)"
  by (simp_all add: is_write_def is_loop_def)

lemma onWrite_long:
  assumes "11 \<le> length rx"
  obtains e' where "onWrite sha b rx e = Inr e'" "ePeers e' = ePeers e" "set (eWritten e) \<subseteq> set (eWritten e')"
    "eQueue e' = eQueue e \<or> eQueue e' = queuePush (espToHex (sha rx), rx) (eQueue e)"
proof -
  have "\<exists>e'. onWrite sha b rx e = Inr e' \<and> ePeers e' = ePeers e \<and> set (eWritten e) \<subseteq> set (eWritten e')
    \<and> (eQueue e' = eQueue e \<or> eQueue e' = queuePush (espToHex (sha rx), rx) (eQueue e))"
    using assms by (auto simp: onWrite_cases ack_cases Let_def)
  with that show ?thesis by blast
qed

lemma onResult_keeps:
  "eQueue (onResult b now hu adv addr e) = eQueue e" "set (ePeers e) \<subseteq> set (ePeers (onResult b now hu adv addr e))"
  "set (eWritten e) \<subseteq> set (eWritten (onResult b now hu adv addr e))"
  by (auto simp: onResult_def registryAdd_def sendHelloToPeer_def)

lemma espRun_written:
  assumes "list_all long_enough evs"
  shows "\<exists>e'. espRun sha evs e = Inr e' \<and> set (eWritten e) \<subseteq> set (eWritten e')"
  using assms
proof (induction evs arbitrary: e)
  case (Cons ev evs)
  have "\<exists>e1. espStep sha ev e = Inr e1 \<and> set (eWritten e) \<subseteq> set (eWritten e1)"
  proof (cases ev)
    case (Written b rx)
    then show ?thesis using Cons.prems onWrite_long [of rx sha b e] by (auto simp: long_enough_def)
  next
    case Advertised
    then show ?thesis using onResult_keeps by fastforce
  next
    case Loop
    then show ?thesis using espLoop_written by fastforce
  qed
  with Cons show ?case by (fastforce simp: rbind_def)
qed simp

lemma queued_is_relayed:
  assumes "eQueue e = pre @ (pid, rx) # post" "a \<in> set (ePeers e)" "list_all long_enough evs" "list_all (looks_up a) evs"
    and "length pre < length (filter is_loop evs)" "length (eQueue e) + length (filter is_write evs) \<le> MAX_QUEUE_SIZE"
  shows "\<exists>e'. espRun sha evs e = Inr e' \<and> (a, rx) \<in> set (eWritten e')"
  using assms
proof (induction evs arbitrary: e pre post)
  case (Cons ev evs)
  show ?case
  proof (cases ev)
    case (Written b w)
    with Cons.prems(3) have "11 \<le> length w" by (simp add: long_enough_def)
    then obtain e1 where 1: "onWrite sha b w e = Inr e1" "ePeers e1 = ePeers e"
      "eQueue e1 = eQueue e \<or> eQueue e1 = queuePush (espToHex (sha w), w) (eQueue e)"
      by (rule onWrite_long)
    moreover from 1(3) Cons.prems(1,6) Written
    obtain post' where "eQueue e1 = pre @ (pid, rx) # post'" "length post' \<le> length post + 1"
      by (auto simp: queuePush_def)
    ultimately show ?thesis using Cons.prems Written Cons.IH [of e1 pre post'] by (simp add: rbind_def)
  next
    case (Advertised b now hu adv addr)
    have "a \<in> set (ePeers (onResult b now hu adv addr e))" using Cons.prems(2) onResult_keeps(2) by blast
    with Advertised Cons.prems Cons.IH [of "onResult b now hu adv addr e" pre post] show ?thesis
      by (simp add: rbind_def onResult_keeps(1))
  next
    case (Loop b relayedAt millis)
    with Cons.prems have r: "reaches b a" by (simp add: looks_up_def)
    show ?thesis
    proof (cases pre)
      case Nil
      with Cons.prems Loop r have "(a, rx) \<in> set (eWritten (espLoop b relayedAt millis e))" by (simp add: espLoop_relays)
      with espRun_written [of evs sha "espLoop b relayedAt millis e"] Cons.prems(3) Loop show ?thesis
        by (auto simp: rbind_def)
    next
      case (Cons p ps)
      with Cons.prems Loop r Cons.IH [of "espLoop b relayedAt millis e" ps post] show ?thesis
        by (auto simp: rbind_def espLoop_queue espLoop_peers)
    qed
  qed
qed simp

section \<open>Duplicates\<close>

lemma step_remembers:
  assumes "espStep sha ev e = Inr e'" "length (eHistory e) \<le> PROCESSED_ID_HISTORY" "remembered pid k (eHistory e)"
    and "is_write ev \<Longrightarrow> Suc k < PROCESSED_ID_HISTORY"
  shows "length (eHistory e') \<le> PROCESSED_ID_HISTORY \<and> remembered pid (if is_write ev then Suc k else k) (eHistory e')"
proof (cases ev)
  case (Written b rx)
  then have "eHistory e' = eHistory e \<or> eHistory e' = remember (espToHex (sha rx)) (eHistory e)"
    using assms(1) by (auto simp: onWrite_cases ack_cases Let_def split: if_splits)
  then show ?thesis using Written assms id_history.push_bounded [OF assms(2)] remembered_next remembered_mono [OF assms(3)]
    by auto
next
  case (Advertised b now hu adv addr)
  then have "eHistory e' = eHistory e"
    using assms(1) by (auto simp: onResult_def registryAdd_def sendHelloToPeer_def)
  then show ?thesis using Advertised assms by simp
next
  case (Loop b relayedAt millis)
  then show ?thesis using assms by (auto simp: espLoop_history)
qed

lemma run_remembers:
  assumes "espRun sha evs e = Inr e'" "length (eHistory e) \<le> PROCESSED_ID_HISTORY" "remembered pid k (eHistory e)"
    and "k + length (filter is_write evs) < PROCESSED_ID_HISTORY"
  shows "pid \<in> set (eHistory e')"
  using assms
proof (induction evs arbitrary: e k)
  case Nil
  then show ?case by (auto dest: remembered_in)
next
  case (Cons ev evs)
  then obtain e1 where 1: "espStep sha ev e = Inr e1" "espRun sha evs e1 = Inr e'"
    by (auto simp: rbind_def split: sum.splits)
  with Cons.prems step_remembers [OF 1(1) Cons.prems(2,3)]
  show ?case using Cons.IH [of e1 "if is_write ev then Suc k else k"] by (auto split: if_splits)
qed

section \<open>Properties\<close>

text \<open>
  C32: memory safety of the ESP32 relay, exactly.  A write makes the relay read behind the received vector if and
  only if it is taken for a new version hello, has 3 to 10 bytes, and some known peer can be written to: the
  acknowledgement copies bytes 3 to 10 and only more than two are checked.
\<close>

theorem esp_write_out_of_range_iff:
  "onWrite sha b rx e = Inl f \<longleftrightarrow> f = OutOfRange \<and> 3 \<le> length rx \<and> length rx < 11 \<and> rx ! 1 = 0x11
     \<and> toHex (sha rx) \<notin> set (eHistory e) \<and> (\<exists>a \<in> set (ePeers e). reaches b a)"
  by (auto simp: onWrite_cases ack_cases Let_def espToHex_eq)

text \<open>
  C29: the relay's invariant.  In every run from the start the queue holds at most 32 packets and the history at
  most 128 identifiers, without repetition, no peer is registered twice, and every queued packet carries the
  hash of its own bytes.
\<close>

theorem esp_run_invariant:
  assumes "espRun sha evs espInit = Inr e"
  shows "length (eQueue e) \<le> 32 \<and> length (eHistory e) \<le> 128 \<and> distinct (eHistory e) \<and> distinct (ePeers e)
    \<and> ((pid, rx) \<in> set (eQueue e) \<longrightarrow> pid = toHex (sha rx) \<and> \<not> is_version rx)"
  using esp_inv_run [OF esp_inv_init assms] by (auto simp: esp_inv_def espToHex_eq list_all_iff)

theorem esp_run_invariant_witness:
  "\<exists>e. espRun (\<lambda>rx. rx) [Advertised bleUp 7 True True ''aa:bb'', Written bleUp [1, 4, 7]] espInit = Inr e
     \<and> length (eQueue e) \<le> 32 \<and> eQueue e \<noteq> []"
proof -
  have "\<exists>e. espRun (\<lambda>rx. rx) [Advertised bleUp 7 True True ''aa:bb'', Written bleUp [1, 4, 7]] espInit = Inr e \<and> eQueue e \<noteq> []"
    by (simp add: rbind_def onResult_def registryAdd_def sendHelloToPeer_def bleUp_def espInit_def onWrite_def
        isDuplicate_def queuePush_def Let_def)
  then show ?thesis using esp_run_invariant by blast
qed

text \<open>
  C30: the relay makes progress.  A queued packet is written to a registered peer after as many iterations of the
  loop as packets stand before it and one more, whatever else happens in between, provided the peer can be
  reached in those iterations, the queue does not overflow and no write is too short to be answered; and the run
  does not fail.
\<close>

theorem esp_queued_packet_relayed:
  assumes "eQueue e = pre @ (pid, rx) # post" "a \<in> set (ePeers e)"
    and "list_all long_enough evs" "list_all (looks_up a) evs"
    and "length pre < length (filter is_loop evs)" "length (eQueue e) + length (filter is_write evs) \<le> 32"
  shows "\<exists>e'. espRun sha evs e = Inr e' \<and> (a, rx) \<in> set (eWritten e')"
  using queued_is_relayed [OF assms] .

theorem esp_queued_packet_relayed_witness:
  "\<exists>e'. espRun (\<lambda>rx. rx) [Loop bleUp 5 5, Written bleUp [1, 4, 8, 0, 0, 0, 0, 0, 0, 0, 0], Loop bleUp 55 56] espOne = Inr e'
     \<and> (''aa:bb'', [1, 4, 7]) \<in> set (eWritten e')"
  by (rule esp_queued_packet_relayed [of _ "[(''01'', [1])]" "''010407''" _ "[]"])
    (simp_all add: espOne_def long_enough_def looks_up_def reaches_def bleUp_def)

text \<open>
  C31: duplicate suppression of the relay.  A packet that was new is ignored when it is written again, with any
  events in between as long as fewer than 128 of them are writes.
\<close>

theorem esp_duplicate_ignored:
  assumes "length (eHistory e) \<le> 128" "rx \<noteq> []" "toHex (sha rx) \<notin> set (eHistory e)"
    and "onWrite sha b rx e = Inr e1" "espRun sha evs e1 = Inr e2" "length (filter is_write evs) < 128"
  shows "onWrite sha b' rx e2 = Inr e2"
proof -
  have h: "eHistory e1 = remember (toHex (sha rx)) (eHistory e)"
    using assms(2-4) by (auto simp: onWrite_cases ack_cases Let_def espToHex_eq split: if_splits)
  then have "length (eHistory e1) \<le> PROCESSED_ID_HISTORY" using id_history.push_bounded [OF assms(1)] by simp
  with run_remembers [OF assms(5), of "toHex (sha rx)" 0] h remembered_new assms(6)
  have "toHex (sha rx) \<in> set (eHistory e2)" by simp
  then show ?thesis by (simp add: onWrite_cases espToHex_eq)
qed

theorem esp_duplicate_ignored_witness:
  "\<exists>e1 e2. onWrite (\<lambda>rx. rx) bleUp [1, 4, 7] espInit = Inr e1 \<and> espRun (\<lambda>rx. rx) [Loop bleUp 5 5] e1 = Inr e2
     \<and> onWrite (\<lambda>rx. rx) bleUp [1, 4, 7] e2 = Inr e2"
proof -
  obtain e1 where 1: "onWrite (\<lambda>rx. rx) bleUp [1, 4, 7] espInit = Inr e1"
    by (simp add: onWrite_def isDuplicate_def espInit_def Let_def)
  obtain e2 where 2: "espRun (\<lambda>rx. rx) [Loop bleUp 5 5] e1 = Inr e2" by (simp add: rbind_def)
  from esp_duplicate_ignored [OF _ _ _ 1 2, of bleUp] 1 2 show ?thesis by (simp add: espInit_def)
qed

end
