(* ===== verification/Esp32_Interop.thy ===== *)
theory Esp32_Interop
  imports Esp32_Relay Message_Service
begin

text \<open>
  The ESP32 relay and a node of the C++ program, together.  Both number the packet types, and the numbers
  differ: what the relay calls a version hello and a version acknowledgement are the Noise handshake response and the
  encrypted packet of a node.  The lemmas compare what one program writes with what the other reads.
\<close>

text \<open>The packet a node reads from the relay's hello.\<close>

definition espHello :: "u64 \<Rightarrow> BitchatPacket" where
  "espHello now = (newPacket now PKT_TYPE_NOISE_HANDSHAKE_RESP espHelloPayload)\<lparr>pTTL := 1, pSenderID := espSenderID\<rparr>"

definition espAck :: "u64 \<Rightarrow> BitchatPacket" where
  "espAck t = (newPacket t PKT_TYPE_NOISE_ENCRYPTED [])\<lparr>pTTL := 1, pSenderID := espSenderID\<rparr>"

definition espPeerID :: string where
  "espPeerID = ''4553503332414243''"

section \<open>Lemmas\<close>

lemma espSenderID_bytes: "espSenderID = str_bytes ''ESP32ABC''"
  by (simp add: espSenderID_def upt_rec)

lemma toHex_espSenderID [simp]: "toHex espSenderID = espPeerID"
  by (simp add: espPeerID_def espSenderID_bytes toHex_def byte_of_char_def hex_digit_def)

lemma length_espHelloPayload: "length espHelloPayload = 16" "length espSenderID = 8"
  by (simp_all add: espHelloPayload_def espSenderID_def)

lemma hello_bytes: "makeVersionHelloPacket now = packetBytes lz (espHello now)"
  by (simp add: makeVersionHelloPacket_def packetBytes_layout packet_header_def packet_tail_def compressPayload_def
      shouldCompress_def COMPRESSION_THRESHOLD_def espHello_def newPacket_def defaultPacket_def length_espHelloPayload
      writeUint64_def writeUint16_def hasRecipient_def hasSignature_def upt_rec)

lemma hello_read:
  assumes "lz4_ok lz"
  shows "deserializePacket lz (makeVersionHelloPacket now) = Some (wire_view lz (espHello now))"
proof (rule deserialize_sent [OF assms])
  have "last (makeVersionHelloPacket now) = 0" by (simp add: makeVersionHelloPacket_def espHelloPayload_def Let_def)
  then show "unpad (makeVersionHelloPacket now) = packetBytes lz (espHello now)"
    using unpad_id_iff hello_bytes by (simp add: last_not_padding_def)
qed (simp_all add: espHello_def newPacket_def defaultPacket_def length_espHelloPayload isCompressed_def)

lemma espHelloPayload_text: "espHelloPayload = [1, 1, 1, 5] @ str_bytes ''esp32'' @ [5] @ str_bytes ''esp32'' @ [0]"
  by (simp add: espHelloPayload_def)

lemma hello_payload: "pPayload (wire_view lz (espHello now)) = espHelloPayload"
  by (simp add: wire_view_def espHello_def newPacket_def defaultPacket_def)

lemma hello_view [simp]:
  "pType (wire_view lz (espHello now)) = PKT_TYPE_NOISE_HANDSHAKE_RESP"
  "pTimestamp (wire_view lz (espHello now)) = now" "pSenderID (wire_view lz (espHello now)) = espSenderID"
  "now \<noteq> 0 \<Longrightarrow> isValid (wire_view lz (espHello now))"
  by (simp_all add: wire_view_def espHello_def newPacket_def defaultPacket_def isValid_def length_espHelloPayload)

lemma ack_bytes:
  "makeVersionAckPacket (serializePacket lz rng p) = Some (packetBytes lz (espAck (pTimestamp p)))"
  using serialized_type(1) [of lz rng p]
  by (simp add: makeVersionAckPacket_def serialized_timestamp packetBytes_layout packet_header_def packet_tail_def compressPayload_def
      shouldCompress_def espAck_def newPacket_def defaultPacket_def length_espHelloPayload
      writeUint16_def hasRecipient_def hasSignature_def)

lemma ack_read:
  assumes "lz4_ok lz"
  shows "deserializePacket lz (packetBytes lz (espAck t)) = Some (wire_view lz (espAck t))"
proof (rule deserialize_sent [OF assms])
  have "packetBytes lz (espAck t) = packet_header lz (espAck t) @ espSenderID"
    by (simp add: packetBytes_layout packet_tail_def compressPayload_def shouldCompress_def
      espAck_def newPacket_def defaultPacket_def length_espHelloPayload hasRecipient_def hasSignature_def)
  then have "last_not_padding (packetBytes lz (espAck t))"
    by (simp add: last_not_padding_def espSenderID_bytes byte_of_char_def)
  then show "unpad (packetBytes lz (espAck t)) = packetBytes lz (espAck t)" by (simp add: unpad_id_iff)
qed (simp_all add: espAck_def newPacket_def defaultPacket_def isCompressed_def)

lemma ack_view [simp]:
  "pType (wire_view lz (espAck t)) = PKT_TYPE_NOISE_ENCRYPTED" "pPayload (wire_view lz (espAck t)) = []"
  "pTimestamp (wire_view lz (espAck t)) = t" "pSenderID (wire_view lz (espAck t)) = espSenderID"
  "t \<noteq> 0 \<Longrightarrow> isValid (wire_view lz (espAck t))"
  by (simp_all add: wire_view_def espAck_def newPacket_def defaultPacket_def isValid_def length_espHelloPayload)

lemma peers_mark [simp]: "dPeers (markMessageProcessed s d) = dPeers d"
  by (simp add: markMessageProcessed_def Let_def)

section \<open>Properties\<close>

text \<open>
  Which packets of a node the relay carries.  A new packet is queued unchanged unless its type is the Noise
  handshake response or the encrypted packet: the relay takes these two for version packets, answers or
  drops them, and they go no further; and no packet of a node makes it read out of range.
\<close>

theorem esp_carries_node_packet:
  assumes "data = serializePacket lz rng p" "toHex (sha data) \<notin> set (eHistory e)"
  shows "\<exists>e'. onWrite sha b data e = Inr e' \<and> eQueue e' =
    (if pType p \<in> {PKT_TYPE_NOISE_HANDSHAKE_RESP, PKT_TYPE_NOISE_ENCRYPTED} then eQueue e
     else queuePush (toHex (sha data), data) (eQueue e))"
proof -
  have "22 \<le> length data" "data ! 1 = pType p" using serialized_type [of lz rng p] assms(1) by simp_all
  moreover from this have "data \<noteq> []" by auto
  ultimately show ?thesis using assms(2)
    by (simp add: onWrite_cases ack_cases is_version_def espToHex_eq Let_def)
qed

text \<open>
  C33: the relay's hello opens a session.  A node with the Noise service reads the hello, of a time that is not zero, as a Noise handshake
  response with the relay's text, its versions and twice its name, as the handshake message.  If the node keeps its invariants, has not seen the
  packet, has another identifier than the relay and no session with it, then processing the packet hands this text to the session
  service, which creates a session, established at once; the node answers nothing and does not list the relay as a peer.
\<close>

theorem esp_hello_opens_session:
  assumes "lz4_ok lz" "now \<noteq> 0" "node_inv key n" "nNoise n = Some sv" "getSession sv espPeerID = None"
    and "dPeerID (nData n) \<noteq> espPeerID" "\<not> wasMessageProcessed (nData n) (espPeerID @ ''_'' @ to_string (unat now))"
  shows "\<exists>q n' sv' r. deserializePacket lz (makeVersionHelloPacket now) = Some q
    \<and> pType q = PKT_TYPE_NOISE_HANDSHAKE_RESP \<and> toHex (pSenderID q) = espPeerID
    \<and> pPayload q = [1, 1, 1, 5] @ str_bytes ''esp32'' @ [5] @ str_bytes ''esp32'' @ [0]
    \<and> handleIncomingHandshake (envNanos env) espPeerID (pPayload q) (dPeerID (nData n)) sv = Inr (r, sv')
    \<and> processPacket env q periph n = (Inr (), n')
    \<and> nNoise n' = Some sv' \<and> isSessionEstablished sv' espPeerID \<and> nSent n' = nSent n \<and> dPeers (nData n') = dPeers (nData n)"
proof -
  let ?q = "wire_view lz (espHello now)" and ?d = "markMessageProcessed (espPeerID @ ''_'' @ to_string (unat now)) (nData n)"
  have key: "packetKey ?q = espPeerID @ ''_'' @ to_string (unat now)" by (simp add: packetKey_def)
  have "\<not> hasEstablishedSession sv espPeerID"
    using assms(5) by (simp add: hasEstablishedSession_def isSessionEstablished_def)
  moreover obtain r sv' where h: "handleIncomingHandshake (envNanos env) espPeerID (pPayload ?q) (dPeerID (nData n)) sv = Inr (r, sv')"
    using assms(5) by (simp add: handleIncomingHandshake_def createSession_def processHandshakeMessage_def newSession_def rbind_def Let_def)
  moreover have "noise_inv key sv" using assms(3,4) by (simp add: node_inv_def)
  from incoming_Inr [OF this h] have r: "r = Some ([0x04, 0x05, 0x06] @ take 3 (drop 3 key))"
    and est: "isSessionEstablished sv' espPeerID" by (auto simp: isSessionEstablished_def)
  ultimately have "processPacket env ?q periph n = (Inr (), n\<lparr>nData := ?d, nNoise := Some sv'\<rparr>)"
    using assms(2,4,6,7) by (simp add: processPacket_fresh key routePacket_def processNoiseHandshakeRespPacket_def noiseGuard_def
        action_defs min_def)
  then show ?thesis unfolding espHelloPayload_text [symmetric] using hello_read [OF assms(1)] est h by (simp add: hello_payload)
qed

theorem esp_hello_opens_session_witness:
  "\<exists>q n' sv'. deserializePacket single_run_codec (makeVersionHelloPacket 7) = Some q
    \<and> processPacket sampleEnv q [] sampleNode = (Inr (), n') \<and> nNoise n' = Some sv' \<and> isSessionEstablished sv' espPeerID"
  using esp_hello_opens_session [OF single_run_codec_ok _ sampleNode_inv, of 7 "newNoiseService (replicate 32 9)" sampleEnv "[]"]
  by (auto simp: sampleNode_def setPeerID_def getSession_def newNoiseService_def wasMessageProcessed_def initialData_def
      espPeerID_def hex_digit_def)

text \<open>
  The relay's acknowledgement is taken for an encrypted packet.  What the relay writes in answer to a Noise handshake
  response of a node has the time of that packet and no payload; a node without a session with the relay throws when
  it processes it.
\<close>

theorem esp_ack_throws:
  assumes "lz4_ok lz" "pTimestamp p \<noteq> 0" "nNoise n = Some sv" "getSession sv espPeerID = None"
    and "dPeerID (nData n) \<noteq> espPeerID"
    and "\<not> wasMessageProcessed (nData n) (espPeerID @ ''_'' @ to_string (unat (pTimestamp p)))"
  shows "\<exists>ack q n'. makeVersionAckPacket (serializePacket lz rng p) = Some ack \<and> deserializePacket lz ack = Some q
    \<and> pType q = PKT_TYPE_NOISE_ENCRYPTED \<and> processPacket env q periph n = (Inl (noSession espPeerID), n')"
proof -
  let ?q = "wire_view lz (espAck (pTimestamp p))"
  have "packetKey ?q = espPeerID @ ''_'' @ to_string (unat (pTimestamp p))" by (simp add: packetKey_def)
  then have "\<exists>n'. processPacket env ?q periph n = (Inl (noSession espPeerID), n')"
    using assms(2-6) by (simp add: processPacket_fresh routePacket_def processNoiseEncryptedPacket_def noiseGuard_def noiseDecrypt_def
        action_defs)
  then show ?thesis using ack_bytes ack_read [OF assms(1)] by fastforce
qed

end
