(* ===== verification/Delivery.thy ===== *)
theory Delivery
  imports Message_Service
begin

text \<open>
  A short chat message from \<open>sendMessage\<close> of one node to the handler of another: what the sender hands to the network
  and what the receiver makes of it.  The properties of delivery, directly and over the platforms' interfaces, rest on these lemmas.
\<close>

lemma last_history: "last (getMessageHistory (addMessageToHistory m c d) c) = m"
  using hist.contents_push [of m c d] by (cases "getMessageHistory d c") simp_all

lemma short_message_view:
  assumes "length (makeMessagePayload uuid m) \<le> 100" "m = (newMessage t u nick content ch)\<lparr>mId := i\<rparr>" "i \<noteq> []"
  shows "message_view uuid m = m"
proof -
  have "length i \<le> 100 \<and> length nick \<le> 100 \<and> length content \<le> 100 \<and> (ch = [] \<or> length ch \<le> 100)"
    using assms by (auto simp: makeMessagePayload_layout writeShortString_Nil optional_fields_def newMessage_def defaultMessage_def
        min_def split: if_splits)
  then show ?thesis using assms(2,3) by (auto simp: message_view_def newMessage_def defaultMessage_def)
qed

text \<open>The message \<open>sendMessage\<close> makes of a text.\<close>

definition typedMessage :: "env \<Rightarrow> string \<Rightarrow> string \<Rightarrow> node \<Rightarrow> BitchatMessage" where
  "typedMessage env content channel n =
     (newMessage (envTime env 0) (envUuid env 0) (dNickname (nData n)) content
        (if channel = [] then dCurrentChannel (nData n) else channel))\<lparr>mId := envUuid env 1\<rparr>"

lemma typedMessage_sel [simp]:
  "\<not> mIsPrivate (typedMessage env content channel n)" "mMentions (typedMessage env content channel n) = []"
  "mChannel (typedMessage env content channel n) = (if channel = [] then dCurrentChannel (nData n) else channel)"
  by (simp_all add: typedMessage_def newMessage_def defaultMessage_def)

lemma send_plain:
  assumes "dPeerID (nData a) = toHex sid" "no_session env a" "envBluetooth env" "m = typedMessage env content channel a"
    and "envSend env Broadcast (plainPacket env sid m)"
  shows "sendMessage env content channel a = (Inr True, a\<lparr>nSent := nSent a @ [(Broadcast, plainPacket env sid m)],
    nData := addMessageToHistory m (mChannel m) (nData a)\<rparr>)"
proof -
  have "sendMessage env content channel a = mbind (createMessagePacket env m) (\<lambda>packet.
      mbind (transmit env Broadcast packet) (\<lambda>success.
        if success then mseq (modify (addMessageToHistory m (historyChannel m))) (ret success) else ret success)) a"
    unfolding sendMessage_def mbind_def [of "asks _"] asks_def prod.case sum.case Let_def
      assms(4) typedMessage_def ..
  then show ?thesis
    using createMessagePacket_plain [OF assms(1) disjI2, OF assms(2), of m] assms(3-5)
    by (simp add: action_defs historyChannel_def)
qed

lemma plain_packet_read:
  assumes "lz4_ok lz" "length sid = 8" "m = typedMessage env content channel a" "envUuid env 1 \<noteq> []" "envTime env 1 \<noteq> 0"
    and "length (makeMessagePayload (envUuid env 2) m) \<le> 100"
  obtains q where "deserializePacket lz (serializePacket lz rng (plainPacket env sid m)) = Some q" "isValid q"
    "parseMessagePayload (pPayload q) = Some m" "pSenderID q = sid" "pType q = PKT_TYPE_MESSAGE" "pTimestamp q = envTime env 1"
proof -
  have pay: "plainPayload env m = makeMessagePayload (envUuid env 2) m"
    using assms(6) by (simp add: plainPayload_def shouldCompress_def COMPRESSION_THRESHOLD_def)
  have "message_view (envUuid env 2) m = m"
    using short_message_view [OF assms(6) assms(3) [unfolded typedMessage_def] assms(4)] .
  moreover have "length (mMentions m) \<le> 255" by (simp add: assms(3))
  ultimately have parsed: "parseMessagePayload (plainPayload env m) = Some m"
    using parse_sent_view [of m "envUuid env 2"] unfolding pay by metis
  obtain q where "deserializePacket lz (serializePacket lz rng (plainPacket env sid m)) = Some q"
    "pPayload q = plainPayload env m" "pSenderID q = sid" "pType q = PKT_TYPE_MESSAGE"
    "pTimestamp q = envTime env 1" "pVersion q = PKT_VERSION" "unat (pPayloadLength q) = length (pPayload q)"
    using short_packet_received [OF assms(1) _ assms(2), of env m rng] assms(6) pay by auto
  with parsed assms(5) show thesis by (intro that [of q]) (simp_all add: isValid_def)
qed

end
