(* ===== verification/Mesh_Flood.thy ===== *)
theory Mesh_Flood
  imports Mesh "HOL-Library.Multiset"
begin

text \<open>
  A mesh of any number of nodes with packets in flight between them.  In a step one packet reaches a node, which
  handles it as \<open>NetworkService\<close> does, and what the node sends goes in flight, to any nodes and any number of times, or not at
  all; or a packet is lost.  Nothing else is assumed of the radio: it may drop, repeat and reorder.  Users and timers do
  nothing, so the steps are what the packets in flight cause.
\<close>

section \<open>What an action adds to the logs of a node\<close>

definition reacts :: "bytes \<Rightarrow> (BitchatPacket \<Rightarrow> bool) \<Rightarrow> (ui_event \<Rightarrow> bool) \<Rightarrow> 'a action \<Rightarrow> bool" where
  "reacts key Q E m \<longleftrightarrow> (\<forall>n. node_inv key n \<longrightarrow> node_inv key (snd (m n)) \<and>
     (\<exists>ss es. nSent (snd (m n)) = nSent n @ ss \<and> nEvents (snd (m n)) = nEvents n @ es
       \<and> list_all (\<lambda>(d, q). Q q) ss \<and> list_all E es))"

named_theorems reacts_intro \<open>what actions add to the logs\<close>

lemma reactsD:
  assumes "reacts key Q E m" "node_inv key n"
  obtains ss es where "nSent (snd (m n)) = nSent n @ ss" "nEvents (snd (m n)) = nEvents n @ es"
    "list_all (\<lambda>(d, q). Q q) ss" "list_all E es" "node_inv key (snd (m n))"
  using assms unfolding reacts_def by blast

text \<open>An action that keeps the invariant and leaves both logs as they are.\<close>

lemma reacts_silent:
  assumes "keeps (node_inv key) m" "\<And>n. nSent (snd (m n)) = nSent n \<and> nEvents (snd (m n)) = nEvents n"
  shows "reacts key Q E m"
  using assms by (simp add: reacts_def keeps_def)

lemma reacts_pure [reacts_intro]:
  "reacts key Q E (ret x)" "reacts key Q E (lift r)" "reacts key Q E (asks f)" "reacts key Q E noiseService"
  by (simp_all add: reacts_def ret_def lift_def asks_def noiseService_def)

lemma reacts_store [reacts_intro]:
  "reacts key Q E (modify (addPeer p))" "reacts key Q E (modify (updatePeer p))" "reacts key Q E (modify (removePeer k))"
  "reacts key Q E (modify (addMessageToHistory m c))" "reacts key Q E (modify (markMessageProcessed s))"
  by (intro reacts_silent inv.keeps_store inv.keeps_mark; simp add: modify_def)+

lemma reacts_emit [reacts_intro]: "E ev \<Longrightarrow> reacts key Q E (emit ev)"
  by (auto simp: reacts_def emit_def node_inv_def)

lemma reacts_transmit [reacts_intro]:
  "Q p \<Longrightarrow> reacts key Q E (transmit env d p)" "Q p \<Longrightarrow> reacts key Q E (btSend env d p)"
  by (auto simp: reacts_def transmit_def btSend_def node_inv_def)

lemma reacts_mbind:
  assumes "reacts key Q E m" "\<And>n x. node_inv key n \<Longrightarrow> fst (m n) = Inr x \<Longrightarrow> reacts key Q E (f x)"
  shows "reacts key Q E (mbind m f)"
  unfolding reacts_def
proof (intro allI impI)
  fix n assume n: "node_inv key n"
  obtain ss es where s: "nSent (snd (m n)) = nSent n @ ss" "nEvents (snd (m n)) = nEvents n @ es"
    "list_all (\<lambda>(d, q). Q q) ss" "list_all E es" "node_inv key (snd (m n))"
    using reactsD [OF assms(1) n] .
  show "node_inv key (snd (mbind m f n)) \<and>
     (\<exists>ss es. nSent (snd (mbind m f n)) = nSent n @ ss \<and> nEvents (snd (mbind m f n)) = nEvents n @ es
       \<and> list_all (\<lambda>(d, q). Q q) ss \<and> list_all E es)"
  proof (cases "m n")
    case (Pair r n')
    show ?thesis
    proof (cases r)
      case (Inl e)
      with Pair s show ?thesis by (auto simp: mbind_def)
    next
      case (Inr x)
      have "reacts key Q E (f x)" using assms(2) [OF n] Pair Inr by simp
      then obtain ss' es' where "nSent (snd (f x n')) = nSent n' @ ss'" "nEvents (snd (f x n')) = nEvents n' @ es'"
        "list_all (\<lambda>(d, q). Q q) ss'" "list_all E es'" "node_inv key (snd (f x n'))"
        using s(5) Pair by (auto elim: reactsD)
      with Pair Inr s show ?thesis by (simp add: mbind_def)
    qed
  qed
qed

lemma reacts_bind [reacts_intro]:
  "reacts key Q E m \<Longrightarrow> (\<And>x. reacts key Q E (f x)) \<Longrightarrow> reacts key Q E (mbind m f)"
  "reacts key Q E m \<Longrightarrow> reacts key Q E m' \<Longrightarrow> reacts key Q E (mseq m m')"
  by (simp_all add: reacts_mbind mseq_def)

lemma reacts_split [reacts_intro]:
  "(b \<Longrightarrow> reacts key Q E m) \<Longrightarrow> (\<not> b \<Longrightarrow> reacts key Q E m') \<Longrightarrow> reacts key Q E (if b then m else m')"
  "(z = None \<Longrightarrow> reacts key Q E m) \<Longrightarrow> (\<And>x. z = Some x \<Longrightarrow> reacts key Q E (g x)) \<Longrightarrow>
     reacts key Q E (case z of None \<Rightarrow> m | Some x \<Rightarrow> g x)"
  "reacts key Q E (h x) \<Longrightarrow> reacts key Q E (Let x h)"
  "(\<And>x y. w = (x, y) \<Longrightarrow> reacts key Q E (k x y)) \<Longrightarrow> reacts key Q E (case w of (x, y) \<Rightarrow> k x y)"
  by (simp_all split: option.split prod.split)

text \<open>A call of the session service, with what the invariant says of its result.\<close>

lemma reacts_noise:
  assumes "\<And>sv x sv'. f sv = Inr (x, sv') \<Longrightarrow> noise_step sv sv'"
    and "\<And>sv x sv'. noise_inv key sv \<Longrightarrow> f sv = Inr (x, sv') \<Longrightarrow> reacts key Q E (g x)"
  shows "reacts key Q E (mbind (withNoise f) g)"
proof (rule reacts_mbind)
  show "reacts key Q E (withNoise f)"
    by (rule reacts_silent [OF inv.keeps_withNoise [OF assms(1)]]) (auto simp: withNoise_def split: option.split sum.split)
next
  fix n x assume "node_inv key n" "fst (withNoise f n) = Inr x"
  then show "reacts key Q E (g x)"
    by (auto simp: withNoise_def node_inv_def split: option.splits sum.splits intro: assms(2))
qed

lemma reacts_ownPacket:
  assumes "\<And>p. pType p = type \<Longrightarrow> reacts key Q E (f p)"
  shows "reacts key Q E (mbind (ownPacket now type payload) f)"
proof (rule reacts_mbind)
  show "reacts key Q E (ownPacket now type payload)"
    unfolding ownPacket_def localSenderID_def by (intro reacts_intro)
next
  fix n x assume "fst (ownPacket now type payload n) = Inr x"
  then have "pType x = type"
    by (auto simp: ownPacket_def localSenderID_def mbind_def asks_def lift_def ret_def newPacket_def split: sum.splits)
  then show "reacts key Q E (f x)" by (rule assms)
qed

section \<open>What a handler adds\<close>

text \<open>
  A version hello is answered by an acknowledgement and a handshake by a response; nothing else makes a handler send, since
  no handshake is ever started.  A message is shown for a chat packet only, and it is what its payload parses to.
\<close>

definition caused :: "BitchatPacket \<Rightarrow> BitchatPacket \<Rightarrow> bool" where
  "caused p q \<longleftrightarrow> pType p = PKT_TYPE_VERSION_HELLO \<and> pType q = PKT_TYPE_VERSION_ACK
     \<or> pType p = PKT_TYPE_NOISE_HANDSHAKE_INIT \<and> pType q = PKT_TYPE_NOISE_HANDSHAKE_RESP"

fun shown :: "BitchatPacket \<Rightarrow> ui_event \<Rightarrow> bool" where
  "shown p (MessageReceived m) \<longleftrightarrow>
     pType p \<in> {PKT_TYPE_MESSAGE, PKT_TYPE_NOISE_ENCRYPTED} \<and> parseMessagePayload (pPayload p) = Some m"
| "shown p _ \<longleftrightarrow> True"

lemma reacts_version_hello:
  assumes "pType p = PKT_TYPE_VERSION_HELLO"
  shows "reacts key (caused p) (shown p) (processVersionHelloPacket env p)"
proof -
  have "reacts key (caused p) (shown p) (sendVersionAck env ack pid)" for ack pid
    unfolding sendVersionAck_def by (intro reacts_intro reacts_ownPacket) (simp add: caused_def assms)
  then show ?thesis
    unfolding processVersionHelloPacket_def handleVersionHello_def by (intro reacts_intro)
qed

lemma reacts_control:
  "reacts key Q (shown p) (processVersionAckPacket env p)" "reacts key Q (shown p) (processChannelAnnouncePacket env p)"
  "reacts key Q (shown p) (processAnnouncePacket env p periph)" "reacts key Q (shown p) (processLeavePacket p)"
  unfolding processVersionAckPacket_def handleVersionAck_def processChannelAnnouncePacket_def processAnnouncePacket_def
    processLeavePacket_def
  by (intro reacts_intro; simp)+

lemma reacts_message:
  assumes "\<And>m. parseMessagePayload (pPayload p) = Some m \<Longrightarrow> E (MessageReceived m)"
  shows "reacts key Q E (processMessagePacket p)"
  unfolding processMessagePacket_def
proof (rule reacts_mbind)
  fix n m assume "fst (lift (of_opt (parseMessagePayload (pPayload p))) n) = Inr m"
  then have "E (MessageReceived m)" by (auto simp: lift_def of_opt_def intro: assms split: option.splits)
  then show "reacts key Q E (mbind (asks dPeerID) (\<lambda>localPeerID. if sender p = localPeerID then ret ()
      else mbind (asks (messageIsForUs m)) (\<lambda>shouldAddToHistory. if shouldAddToHistory
         then mseq (modify (addMessageToHistory m (historyChannel m))) (emit (MessageReceived m)) else ret ())))"
    by (intro reacts_intro)
qed (rule reacts_pure)

lemma reacts_noiseGuard:
  "(\<And>sv l. reacts key Q E (body sv l)) \<Longrightarrow> reacts key Q E (noiseGuard p body)"
  unfolding noiseGuard_def by (intro reacts_intro)

lemma reacts_sendNoise:
  "(\<And>q. pType q = type \<Longrightarrow> Q q) \<Longrightarrow> reacts key Q E (sendNoise env type payload)"
  unfolding sendNoise_def by (intro reacts_intro reacts_ownPacket)

lemma reacts_handshake_init:
  assumes "pType p = PKT_TYPE_NOISE_HANDSHAKE_INIT"
  shows "reacts key (caused p) E (processNoiseHandshakeInitPacket env p)"
  unfolding processNoiseHandshakeInitPacket_def
  by (intro reacts_noiseGuard reacts_split reacts_pure reacts_noise reacts_sendNoise, erule noise_step.intros)
    (simp add: caused_def assms)

lemma reacts_handshake_resp: "reacts key Q E (processNoiseHandshakeRespPacket env p)"
  unfolding processNoiseHandshakeRespPacket_def
proof (rule reacts_noiseGuard, rule reacts_split(1), rule reacts_pure(1), rule reacts_noise, erule noise_step.intros)
  fix sv l sv' sv'' x
  assume "noise_inv key sv'" "handleIncomingHandshake (envNanos env) (sender p) (pPayload p) l sv' = Inr (x, sv'')"
  then obtain r where "x = Some r" "length r \<le> 6" using incoming_Inr by fastforce
  then show "reacts key Q E (case x of None \<Rightarrow> ret ()
      | Some r \<Rightarrow> if r \<noteq> [] then if length r = 96 then sendNoise env PKT_TYPE_NOISE_HANDSHAKE_RESP r
          else if length r = 48 then sendNoise env PKT_TYPE_NOISE_HANDSHAKE_RESP r else ret () else ret ())"
    by (auto intro: reacts_intro)
qed

lemma reacts_encrypted:
  assumes "pType p = PKT_TYPE_NOISE_ENCRYPTED"
  shows "reacts key Q (shown p) (processNoiseEncryptedPacket env p)"
  unfolding processNoiseEncryptedPacket_def
proof (intro reacts_noiseGuard reacts_split reacts_pure reacts_noise, erule noise_step.intros)
  fix sv l sv' sv'' x
  assume "noise_inv key sv'" "noiseDecrypt (envNanos env) (pPayload p) (sender p) sv' = Inr (x, sv'')"
  then have "x = pPayload p" by (auto simp: noiseDecrypt_def sessionDecrypt_def split: option.splits if_splits)
  then show "reacts key Q (shown p) (processMessagePacket ((newPacket (pTimestamp p) PKT_TYPE_MESSAGE x)
      \<lparr>pSenderID := pSenderID p, pFlags := pFlags p\<rparr>))"
    by (intro reacts_message) (simp add: newPacket_def assms)
qed

lemma reacts_identity: "reacts key Q E (processNoiseIdentityAnnouncePacket env p)"
  unfolding processNoiseIdentityAnnouncePacket_def
  by (intro reacts_noiseGuard reacts_split reacts_pure reacts_noise, erule noise_step.intros)
    (simp add: initiate_throws_inv)

lemma reacts_processPacket: "reacts key (caused p) (shown p) (processPacket env p periph)"
proof -
  have "reacts key (caused p) (shown p) (routePacket env p periph)"
    unfolding routePacket_def Let_def
    by (intro reacts_split reacts_version_hello reacts_control reacts_message reacts_handshake_init reacts_handshake_resp
        reacts_encrypted reacts_identity reacts_pure) simp_all
  then show ?thesis
    unfolding processPacket_def shouldProcessPacket_def markPacketProcessed_def by (intro reacts_intro)
qed

lemma reacts_onPacketReceived:
  "reacts key (\<lambda>q. caused p q \<or> hop p q) (shown p) (onPacketReceived env p periph)"
proof -
  have weaken: "reacts key (\<lambda>q. caused p q \<or> hop p q) (shown p) (processPacket env p periph)"
    using reacts_processPacket [of key p env periph] unfolding reacts_def list_all_iff by fastforce
  have "reacts key Q E (relayTo env r s ps)" if "Q r" for Q E r s ps
    using that by (induction ps) (auto intro: reacts_intro)
  then have "reacts key (\<lambda>q. caused p q \<or> hop p q) (shown p) (relayPacket env p)" if "pTTL p > 0"
    unfolding relayPacket_def Let_def using that by (intro reacts_intro) (simp add: hop_def)
  with weaken show ?thesis unfolding onPacketReceived_def by (intro reacts_intro)
qed

section \<open>The mesh\<close>

record mesh =
  mNodes :: "nat \<Rightarrow> node"
  mFlight :: "(nat \<times> BitchatPacket) multiset"

inductive mesh_step :: "mesh \<Rightarrow> mesh \<Rightarrow> bool" where
  deliver: "(i, p) \<in># mFlight s \<Longrightarrow> onPacketReceived env p periph (mNodes s i) = (r, n) \<Longrightarrow>
    nSent n = nSent (mNodes s i) @ ss \<Longrightarrow> (\<And>j q. (j, q) \<in># fl \<Longrightarrow> q \<in> snd ` set ss) \<Longrightarrow>
    mesh_step s \<lparr>mNodes = (mNodes s)(i := n), mFlight = mFlight s - {#(i, p)#} + fl\<rparr>"
| lose: "(i, p) \<in># mFlight s \<Longrightarrow> mesh_step s (s\<lparr>mFlight := mFlight s - {#(i, p)#}\<rparr>)"

definition mesh_inv :: "(nat \<Rightarrow> bytes) \<Rightarrow> mesh \<Rightarrow> bool" where
  "mesh_inv keys s \<longleftrightarrow> (\<forall>i. node_inv (keys i) (mNodes s i))"

text \<open>
  The order in which packets get smaller: a packet that can be answered is above its answer, and a relayed
  packet below the one it copies.
\<close>

definition answerable :: "u8 \<Rightarrow> nat" where
  "answerable t = (if t \<in> {PKT_TYPE_VERSION_HELLO, PKT_TYPE_NOISE_HANDSHAKE_INIT} then 1 else 0)"

definition weight :: "nat \<times> BitchatPacket \<Rightarrow> nat \<times> nat" where
  "weight = (\<lambda>(i, p). (answerable (pType p), unat (pTTL p)))"

definition lighter :: "((nat \<times> nat) \<times> (nat \<times> nat)) set" where
  "lighter = less_than <*lex*> less_than"

text \<open>A mesh whose nodes all are like one station, with one chat packet under way.\<close>

definition smallMesh :: mesh where
  "smallMesh = \<lparr>mNodes = (\<lambda>_. snd (snd stationA)), mFlight = {#(0, meshPacket)#}\<rparr>"

lemma caused_lighter: "caused p q \<or> hop p q \<Longrightarrow> (weight (j, q), weight (i, p)) \<in> lighter"
  by (auto simp: caused_def hop_def weight_def answerable_def lighter_def unat_TTL_dec unat_gt_0)

lemma deliver_node:
  assumes "onPacketReceived env p periph n = (r, n')" "node_inv key n"
  obtains ss es where "nSent n' = nSent n @ ss" "nEvents n' = nEvents n @ es" "node_inv key n'"
    "\<And>d q. (d, q) \<in> set ss \<Longrightarrow> caused p q \<or> hop p q" "\<And>ev. ev \<in> set es \<Longrightarrow> shown p ev"
proof -
  obtain ss es where "nSent n' = nSent n @ ss" "nEvents n' = nEvents n @ es"
    "list_all (\<lambda>(d, q). caused p q \<or> hop p q) ss" "list_all (shown p) es" "node_inv key n'"
    using reactsD [OF reacts_onPacketReceived [of key p env periph] assms(2)] unfolding assms(1) snd_conv .
  then show thesis by (intro that [of ss es]) (auto simp: list_all_iff)
qed

lemma sent_caused:
  assumes "onPacketReceived env p periph n = (r, n')" "node_inv key n" "nSent n' = nSent n @ ss" "q \<in> snd ` set ss"
  shows "caused p q \<or> hop p q"
proof -
  obtain ss' where "nSent n' = nSent n @ ss'" and s: "\<And>d q. (d, q) \<in> set ss' \<Longrightarrow> caused p q \<or> hop p q"
    using deliver_node [OF assms(1,2)] by metis
  with assms(3,4) obtain d where "(d, q) \<in> set ss'" by auto
  then show ?thesis by (rule s)
qed

lemma mesh_step_inv: "mesh_step s s' \<Longrightarrow> mesh_inv keys s \<Longrightarrow> mesh_inv keys s'"
  by (induction rule: mesh_step.induct) (auto simp: mesh_inv_def elim: deliver_node)

lemma mesh_step_lighter:
  assumes "mesh_step s s'" "mesh_inv keys s"
  shows "(image_mset weight (mFlight s'), image_mset weight (mFlight s)) \<in> mult lighter"
  using assms
proof (induction rule: mesh_step.induct)
  case (deliver i p s env periph r n ss fl)
  obtain F where F: "mFlight s = add_mset (i, p) F" using deliver(1) by (metis insert_DiffM)
  have "caused p q \<or> hop p q" if "(j, q) \<in># fl" for j q
    using sent_caused [OF deliver(2) _ deliver(3) deliver(4) [OF that]] deliver(5) unfolding mesh_inv_def by blast
  then have "\<forall>x \<in># image_mset weight fl. \<exists>y \<in># {#weight (i, p)#}. (x, y) \<in> lighter"
    by (auto intro: caused_lighter)
  from one_step_implies_mult [OF _ this, of "image_mset weight F"] F show ?case by simp
next
  case (lose i p s)
  obtain F where F: "mFlight s = add_mset (i, p) F" using lose(1) by (metis insert_DiffM)
  from one_step_implies_mult [of "{#weight (i, p)#}" "{#}" lighter "image_mset weight F"] F show ?case by simp
qed

lemma wf_lighter: "wf (mult lighter)"
  unfolding lighter_def by (intro wf_mult wf_lex_prod wf_less_than)

text \<open>Where the packets in flight and the messages shown come from, in a run that began in \<open>s0\<close>.\<close>

definition copies :: "mesh \<Rightarrow> BitchatPacket \<Rightarrow> bool" where
  "copies s0 q \<longleftrightarrow> (\<exists>j p. (j, p) \<in># mFlight s0 \<and> q = p\<lparr>pTTL := pTTL q\<rparr>)"

definition shown_from :: "mesh \<Rightarrow> ui_event \<Rightarrow> bool" where
  "shown_from s0 ev \<longleftrightarrow> (\<exists>j p. (j, p) \<in># mFlight s0 \<and> shown p ev)"

definition traced_to :: "mesh \<Rightarrow> mesh \<Rightarrow> bool" where
  "traced_to s0 s \<longleftrightarrow>
     (\<forall>(j, q) \<in># mFlight s. copies s0 q \<or> pType q \<in> {PKT_TYPE_VERSION_ACK, PKT_TYPE_NOISE_HANDSHAKE_RESP})
     \<and> (\<forall>i. \<exists>es. nEvents (mNodes s i) = nEvents (mNodes s0 i) @ es
          \<and> (\<forall>m. MessageReceived m \<in> set es \<longrightarrow> shown_from s0 (MessageReceived m)))"

lemma shown_copy:
  assumes "copies s0 p \<or> pType p \<in> {PKT_TYPE_VERSION_ACK, PKT_TYPE_NOISE_HANDSHAKE_RESP}" "shown p (MessageReceived m)"
  shows "shown_from s0 (MessageReceived m)"
proof -
  have "copies s0 p" using assms by auto
  then obtain j q where q: "(j, q) \<in># mFlight s0" "p = q\<lparr>pTTL := pTTL p\<rparr>" by (auto simp: copies_def)
  then have "pType p = pType q" "pPayload p = pPayload q" by (metis BitchatPacket.select_convs BitchatPacket.surjective BitchatPacket.update_convs(3))+
  with q(1) assms(2) show ?thesis by (auto simp: shown_from_def)
qed

lemma copy_caused:
  assumes "caused p q \<or> hop p q" "copies s0 p \<or> pType p \<in> {PKT_TYPE_VERSION_ACK, PKT_TYPE_NOISE_HANDSHAKE_RESP}"
  shows "copies s0 q \<or> pType q \<in> {PKT_TYPE_VERSION_ACK, PKT_TYPE_NOISE_HANDSHAKE_RESP}"
  using assms(1)
proof
  assume "hop p q"
  then have q: "q = p\<lparr>pTTL := pTTL q\<rparr>" "pType q = pType p" by (auto simp: hop_def)
  have "copies s0 q" if "copies s0 p"
    using that q(1) unfolding copies_def by (metis BitchatPacket.surjective BitchatPacket.update_convs(3))
  with q assms(2) show ?thesis by auto
qed (simp add: caused_def, blast)

lemma traced_step:
  assumes "mesh_step s s'" "mesh_inv keys s" "traced_to s0 s"
  shows "traced_to s0 s'"
  using assms
proof (induction rule: mesh_step.induct)
  case (deliver i p s env periph r n ss fl)
  have p: "copies s0 p \<or> pType p \<in> {PKT_TYPE_VERSION_ACK, PKT_TYPE_NOISE_HANDSHAKE_RESP}"
    using deliver(1,6) by (auto simp: traced_to_def)
  have i: "node_inv (keys i) (mNodes s i)" using deliver(5) by (simp add: mesh_inv_def)
  obtain es where es: "nEvents n = nEvents (mNodes s i) @ es" "\<And>ev. ev \<in> set es \<Longrightarrow> shown p ev"
    using deliver_node [OF deliver(2) i] by metis
  have "copies s0 q \<or> pType q \<in> {PKT_TYPE_VERSION_ACK, PKT_TYPE_NOISE_HANDSHAKE_RESP}" if "(j, q) \<in># fl" for j q
    using copy_caused [OF sent_caused [OF deliver(2) i deliver(3) deliver(4) [OF that]] p] .
  moreover have sh: "\<And>m. MessageReceived m \<in> set es \<Longrightarrow> shown_from s0 (MessageReceived m)"
    using shown_copy [OF p] es(2) by blast
  ultimately show ?case
    using deliver(6) es(1) unfolding traced_to_def mesh.simps
  proof (intro conjI allI)
    fix k
    obtain es0 where "nEvents (mNodes s k) = nEvents (mNodes s0 k) @ es0"
      "\<And>m. MessageReceived m \<in> set es0 \<Longrightarrow> shown_from s0 (MessageReceived m)"
      using deliver(6) unfolding traced_to_def by metis
    with es(1) sh show "\<exists>es. nEvents (((mNodes s)(i := n)) k) = nEvents (mNodes s0 k) @ es
        \<and> (\<forall>m. MessageReceived m \<in> set es \<longrightarrow> shown_from s0 (MessageReceived m))"
      by (intro exI [of _ "es0 @ (if k = i then es else [])"]) auto
  qed (auto dest: in_diffD)
next
  case (lose i p s)
  then show ?case by (auto simp: traced_to_def dest: in_diffD)
qed

lemma mesh_run_traced:
  assumes "mesh_step\<^sup>*\<^sup>* s0 s" "mesh_inv keys s0"
  shows "traced_to s0 s \<and> mesh_inv keys s"
  using assms
proof (induction rule: rtranclp_induct)
  case base
  have "copies s0 p" if "(j, p) \<in># mFlight s0" for j p using that unfolding copies_def by force
  with base show ?case by (auto simp: traced_to_def)
next
  case (step s s')
  then show ?case using traced_step mesh_step_inv by blast
qed

text \<open>In the small mesh the packet can be delivered, and is shown.\<close>

lemma smallMesh_inv: "mesh_inv (\<lambda>_. replicate 32 9) smallMesh"
proof -
  have "data_inv (nData (snd (snd stationA)))"
    by (simp add: data_inv_def stationA_def setCurrentChannel_def setPeerID_def initialData_def getMessageHistory_def)
  with sampleNode_inv show ?thesis
    by (simp add: mesh_inv_def smallMesh_def node_inv_def stationA_def)
qed

lemma smallMesh_delivers: "\<exists>s. mesh_step smallMesh s \<and> nEvents (mNodes s 0) = [MessageReceived meshMessage]"
proof -
  let ?n = "snd (snd stationA)"
  have "listens meshPacket meshMessage (sampleEnv, [], ?n)" using stations_listen(1) by (simp add: stationA_def)
  from station_receives [OF meshPacket_parses meshPacket_valid meshPacket_fields(2) this]
  obtain n where n: "onPacketReceived sampleEnv meshPacket [] ?n = (Inr (), n)" "nEvents n = nEvents ?n @ [MessageReceived meshMessage]"
    by blast
  have "node_inv (replicate 32 9) ?n" using smallMesh_inv by (simp add: mesh_inv_def smallMesh_def)
  from deliver_node [OF n(1) this] obtain ss where "nSent n = nSent ?n @ ss" by metis
  then have "mesh_step smallMesh \<lparr>mNodes = (mNodes smallMesh)(0 := n), mFlight = mFlight smallMesh - {#(0, meshPacket)#} + {#}\<rparr>"
    using n(1) by (intro deliver [where env = sampleEnv and periph = "[]" and r = "Inr ()" and ss = ss]) (simp_all add: smallMesh_def)
  moreover have "nEvents ?n = []" by (simp add: stationA_def sampleNode_def)
  ultimately show ?thesis using n(2) by (intro exI conjI) auto
qed

section \<open>Properties\<close>

text \<open>
  C19: floods end.  In a mesh of any number of nodes, whatever their peers, sessions and histories, and however the radio drops,
  repeats and reorders packets, only finitely many deliveries follow from the packets in flight, if nobody sends anything
  new: every packet a node sends because of another one is either its answer, and answers are not answered,
  or a copy with a smaller time to live.
\<close>

theorem mesh_quiesces:
  assumes "mesh_inv keys (f 0)"
  shows "\<exists>k. \<not> mesh_step (f k) (f (Suc k))"
proof (rule ccontr)
  assume "\<not> ?thesis"
  then have step: "mesh_step (f k) (f (Suc k))" for k by blast
  have "mesh_inv keys (f k)" for k using assms by (induction k) (auto intro: mesh_step_inv step)
  then have "(image_mset weight (mFlight (f (Suc k))), image_mset weight (mFlight (f k))) \<in> mult lighter" for k
    by (rule mesh_step_lighter [OF step])
  then have "\<exists>g. \<forall>k. (g (Suc k), g k) \<in> mult lighter" by (intro exI [of _ "\<lambda>k. image_mset weight (mFlight (f k))"]) blast
  with wf_lighter show False unfolding wf_iff_no_infinite_down_chain by blast
qed

theorem mesh_quiesces_witness:
  "\<exists>s. mesh_step smallMesh s \<and> (\<exists>k. \<not> mesh_step (((\<lambda>_. s)(0 := smallMesh)) k) (((\<lambda>_. s)(0 := smallMesh)) (Suc k)))"
  using smallMesh_delivers mesh_quiesces [of "\<lambda>_. replicate 32 9" "(\<lambda>_. s)(0 := smallMesh)" for s] smallMesh_inv by auto

text \<open>
  C20: no message is invented.  However long a mesh runs, a message shown to a user of any node is what the payload of a chat packet or an
  encrypted packet parses to that was in flight at the beginning: relaying, answering and the sessions add none
  and change none, and all the nodes keep their invariants.
\<close>

theorem no_message_invented:
  assumes "mesh_step\<^sup>*\<^sup>* s0 s" "mesh_inv keys s0"
  shows "mesh_inv keys s \<and> (\<exists>es. nEvents (mNodes s i) = nEvents (mNodes s0 i) @ es \<and>
    (\<forall>m. MessageReceived m \<in> set es \<longrightarrow> (\<exists>j p. (j, p) \<in># mFlight s0
       \<and> pType p \<in> {PKT_TYPE_MESSAGE, PKT_TYPE_NOISE_ENCRYPTED} \<and> parseMessagePayload (pPayload p) = Some m)))"
  using mesh_run_traced [OF assms] by (simp add: traced_to_def shown_from_def)

theorem no_message_invented_witness:
  "\<exists>s j p. mesh_step smallMesh s \<and> MessageReceived meshMessage \<in> set (nEvents (mNodes s 0))
    \<and> (j, p) \<in># mFlight smallMesh \<and> parseMessagePayload (pPayload p) = Some meshMessage"
proof -
  obtain s where s: "mesh_step smallMesh s" "nEvents (mNodes s 0) = [MessageReceived meshMessage]"
    using smallMesh_delivers by blast
  have "nEvents (mNodes smallMesh 0) = []" by (simp add: smallMesh_def stationA_def sampleNode_def)
  with no_message_invented [OF r_into_rtranclp [of mesh_step, OF s(1)] smallMesh_inv, of 0] s show ?thesis by fastforce
qed

end
