(* ===== verification/Apple_Bluetooth.thy ===== *)
theory Apple_Bluetooth
  imports Bluetooth_Interface Mesh Delivery
begin

text \<open>
  The Bluetooth interface on Apple platforms: the Objective-C class \<open>AppleBluetooth\<close> (\<open>src/platforms/apple/bluetooth.mm\<close>), whose
  delegate methods CoreBluetooth calls, and the bridge to the C++ interface, \<open>AppleBluetoothNetworkBridge\<close>
  (\<open>bluetooth_bridge.mm\<close>).  CoreBluetooth is not in the repository: its calls to the delegate are events, the program's calls to it
  are logged, and whether a peripheral is connected is a parameter.  A peripheral is named by its
  \<open>UUIDString\<close>, and \<open>abConnected\<close> holds the keys of \<open>connectedPeripherals\<close>, each the identifier of its value, in the order \<open>NSDictionary\<close>
  enumerates them.  All delegate methods run on one serial queue, so an event is a step.  The callbacks go through the
  bridge to \<open>NetworkService\<close>, and nothing on the way catches an exception: a fault ends the program.
\<close>

section \<open>State\<close>

definition SERVICE_UUID :: string where
  "SERVICE_UUID = ''F47B5E2D-4A9E-4C5A-9B3F-8E1D2C3A4B5C''"

definition CHARACTERISTIC_UUID :: string where
  "CHARACTERISTIC_UUID = ''A1B2C3D4-E5F6-4A5B-8C9D-0E1F2A3B4C5D''"

abbreviation BLE_MIN_PACKET_SIZE_BYTES :: nat where "BLE_MIN_PACKET_SIZE_BYTES \<equiv> 21"

datatype cb_call =
    ConnectPeripheral string | DiscoverServices string | DiscoverCharacteristics string | SetNotify string
  | WriteValue string bytes | UpdateValue bytes "string list" | RespondToRequest
  | ScanForPeripherals | StopScan | StartAdvertising | StopAdvertising | AddService

record AppleBluetooth =
  abReady :: bool
  abManagers :: bool
  abMutableCharacteristic :: bool
  abDiscovered :: "string list"
  abConnected :: "string list"
  abCharacteristics :: "string set"
  abSubscribed :: "string list"
  abCalls :: "cb_call list"

definition newAppleBluetooth :: AppleBluetooth where
  "newAppleBluetooth = \<lparr>abReady = False, abManagers = False, abMutableCharacteristic = False, abDiscovered = [],
     abConnected = [], abCharacteristics = {}, abSubscribed = [], abCalls = []\<rparr>"

definition call :: "cb_call \<Rightarrow> AppleBluetooth \<Rightarrow> AppleBluetooth" where
  "call c ab = ab\<lparr>abCalls := abCalls ab @ [c]\<rparr>"

section \<open>Life cycle\<close>

text \<open>
  The loop of \<open>initialize\<close>, over the states of the two managers it sees; a manager that is not created yet is not powered
  on.  While they are never both powered on it does not return.
\<close>

fun appleInitialize :: "(bool \<times> bool) list \<Rightarrow> AppleBluetooth \<Rightarrow> (bool \<times> AppleBluetooth) option" where
  "appleInitialize [] ab = None"
| "appleInitialize ((centralOn, peripheralOn) # polls) ab =
     (if \<not> centralOn \<or> \<not> peripheralOn then appleInitialize polls ab else Some (True, ab\<lparr>abReady := True\<rparr>))"

definition appleStart :: "AppleBluetooth \<Rightarrow> bool" where
  "appleStart ab = (if \<not> abReady ab then False else True)"

definition appleStop :: "AppleBluetooth \<Rightarrow> AppleBluetooth" where
  "appleStop ab = (if abManagers ab then call StopAdvertising (call StopScan ab) else ab)"

definition appleIsReady :: "AppleBluetooth \<Rightarrow> bool" where
  "appleIsReady ab = abReady ab"

definition appleConnectedPeersCount :: "AppleBluetooth \<Rightarrow> nat" where
  "appleConnectedPeersCount ab = length (abConnected ab)"

section \<open>Sending\<close>

text \<open>The parameter \<open>cb\<close> tells which peripherals CoreBluetooth has in the connected state.\<close>

type_synonym corebt = "string \<Rightarrow> bool"

definition appleSendPacket :: "corebt \<Rightarrow> bytes \<Rightarrow> AppleBluetooth \<Rightarrow> bool \<times> cb_call list" where
  "appleSendPacket cb packetData ab =
     (if \<not> abReady ab then (False, [])
      else (True,
        concat (map (\<lambda>peripheral. if peripheral \<in> abCharacteristics ab \<and> cb peripheral
           then [WriteValue peripheral packetData] else []) (abConnected ab))
        @ (if abMutableCharacteristic ab \<and> length (abSubscribed ab) > 0
           then [UpdateValue packetData (abSubscribed ab)] else [])))"

definition appleSendToPeripheral :: "corebt \<Rightarrow> bytes \<Rightarrow> string \<Rightarrow> AppleBluetooth \<Rightarrow> bool \<times> cb_call list" where
  "appleSendToPeripheral cb packetData peripheral ab =
     (if \<not> abReady ab then (False, [])
      else if peripheral \<in> abCharacteristics ab \<and> cb peripheral then (True, [WriteValue peripheral packetData])
      else (False, []))"

definition appleSendToPeer :: "corebt \<Rightarrow> bytes \<Rightarrow> string \<Rightarrow> AppleBluetooth \<Rightarrow> bool \<times> cb_call list" where
  "appleSendToPeer cb packetData pid ab =
     (case find (\<lambda>key. key = pid) (abConnected ab) of
        Some peripheral \<Rightarrow> appleSendToPeripheral cb packetData peripheral ab
      | None \<Rightarrow> (False, []))"

definition appleSendToPeripheralID :: "corebt \<Rightarrow> bytes \<Rightarrow> string \<Rightarrow> AppleBluetooth \<Rightarrow> bool \<times> cb_call list" where
  "appleSendToPeripheralID cb packetData periph ab =
     (case find (\<lambda>peripheral. peripheral = periph) (abConnected ab) of
        Some peripheral \<Rightarrow> appleSendToPeripheral cb packetData peripheral ab
      | None \<Rightarrow> (False, []))"

section \<open>The bridge\<close>

text \<open>The bridge holds the implementation, or nothing when it could not be made.\<close>

definition newBridge :: "bool \<Rightarrow> AppleBluetooth option" where
  "newBridge allocated = (if allocated then Some newAppleBluetooth else None)"

definition createAppleInterface :: "bool \<Rightarrow> AppleBluetooth option" where
  "createAppleInterface allocated = newBridge allocated"

definition bridgeSendPacket ::
    "lz4_api \<Rightarrow> (nat \<Rightarrow> u8) \<Rightarrow> corebt \<Rightarrow> AppleBluetooth option \<Rightarrow> BitchatPacket \<Rightarrow> bool \<times> cb_call list" where
  "bridgeSendPacket lz rng cb impl packet =
     (case impl of None \<Rightarrow> (False, []) | Some ab \<Rightarrow> appleSendPacket cb (serializePacket lz rng packet) ab)"

definition bridgeSendPacketToPeer ::
    "lz4_api \<Rightarrow> (nat \<Rightarrow> u8) \<Rightarrow> corebt \<Rightarrow> AppleBluetooth option \<Rightarrow> BitchatPacket \<Rightarrow> string \<Rightarrow> bool \<times> cb_call list" where
  "bridgeSendPacketToPeer lz rng cb impl packet pid =
     (case impl of None \<Rightarrow> (False, []) | Some ab \<Rightarrow> appleSendToPeer cb (serializePacket lz rng packet) pid ab)"

definition bridgeSendPacketToPeripheral ::
    "lz4_api \<Rightarrow> (nat \<Rightarrow> u8) \<Rightarrow> corebt \<Rightarrow> AppleBluetooth option \<Rightarrow> BitchatPacket \<Rightarrow> string \<Rightarrow> bool \<times> cb_call list" where
  "bridgeSendPacketToPeripheral lz rng cb impl packet periph =
     (case impl of None \<Rightarrow> (False, []) | Some ab \<Rightarrow> appleSendToPeripheralID cb (serializePacket lz rng packet) periph ab)"

definition bridgeInitialize :: "(bool \<times> bool) list \<Rightarrow> AppleBluetooth option \<Rightarrow> (bool \<times> AppleBluetooth option) option" where
  "bridgeInitialize polls impl =
     (case impl of None \<Rightarrow> Some (False, None) | Some ab \<Rightarrow> map_option (map_prod id Some) (appleInitialize polls ab))"

definition bridgeStart :: "AppleBluetooth option \<Rightarrow> bool" where
  "bridgeStart impl = (case impl of None \<Rightarrow> False | Some ab \<Rightarrow> appleStart ab)"

definition bridgeStop :: "AppleBluetooth option \<Rightarrow> AppleBluetooth option" where
  "bridgeStop impl = (case impl of None \<Rightarrow> None | Some ab \<Rightarrow> Some (appleStop ab))"

definition bridgeIsReady :: "AppleBluetooth option \<Rightarrow> bool" where
  "bridgeIsReady impl = (case impl of None \<Rightarrow> False | Some ab \<Rightarrow> appleIsReady ab)"

definition bridgeConnectedPeersCount :: "AppleBluetooth option \<Rightarrow> nat" where
  "bridgeConnectedPeersCount impl = (case impl of None \<Rightarrow> 0 | Some ab \<Rightarrow> appleConnectedPeersCount ab)"

text \<open>The callback for received data: deserialize, without looking at the result, and hand over.\<close>

definition bridgeReceived :: "bytes \<Rightarrow> string \<Rightarrow> env \<Rightarrow> unit action" where
  "bridgeReceived data periph env =
     (case deserializePacket (envLz4 env) data of
        None \<Rightarrow> lift (Inl OutOfRange)
      | Some packet \<Rightarrow> onPacketReceived env packet periph)"

section \<open>The node behind the bridge\<close>

definition bridgeSend ::
    "lz4_api \<Rightarrow> (nat \<Rightarrow> u8) \<Rightarrow> corebt \<Rightarrow> AppleBluetooth option \<Rightarrow> dest \<Rightarrow> BitchatPacket \<Rightarrow> bool \<times> cb_call list" where
  "bridgeSend lz rng cb impl d packet = (case d of
     Broadcast \<Rightarrow> bridgeSendPacket lz rng cb impl packet
   | ToPeer pid \<Rightarrow> bridgeSendPacketToPeer lz rng cb impl packet pid
   | ToPeripheral periph \<Rightarrow> bridgeSendPacketToPeripheral lz rng cb impl packet periph)"

text \<open>
  A service runs with the sends of the bridge, and what it sent becomes calls of CoreBluetooth.  Sending changes nothing
  else, so all its packets see the same state.
\<close>

definition bridged :: "(nat \<Rightarrow> u8) \<Rightarrow> corebt \<Rightarrow> AppleBluetooth \<Rightarrow> env \<Rightarrow> env" where
  "bridged rng cb ab env = env\<lparr>envSend := (\<lambda>d p. fst (bridgeSend (envLz4 env) rng cb (Some ab) d p))\<rparr>"

type_synonym apple = "AppleBluetooth \<times> node"

definition runService :: "(nat \<Rightarrow> u8) \<Rightarrow> corebt \<Rightarrow> env \<Rightarrow> (env \<Rightarrow> 'a action) \<Rightarrow> apple \<Rightarrow> (fault + 'a) \<times> apple" where
  "runService rng cb env act = (\<lambda>(ab, n). case act (bridged rng cb ab env) n of (r, n') \<Rightarrow>
     (r, ab\<lparr>abCalls := abCalls ab @ concat (map (\<lambda>(d, p). snd (bridgeSend (envLz4 env) rng cb (Some ab) d p))
        (drop (length (nSent n)) (nSent n')))\<rparr>, n'))"

section \<open>The delegate\<close>

definition centralManagerOn :: "AppleBluetooth \<Rightarrow> AppleBluetooth" where
  "centralManagerOn ab = call ScanForPeripherals ab"

definition peripheralManagerOn :: "AppleBluetooth \<Rightarrow> AppleBluetooth" where
  "peripheralManagerOn ab = call StartAdvertising (call AddService (ab\<lparr>abMutableCharacteristic := True\<rparr>))"

definition didDiscoverPeripheral :: "string \<Rightarrow> AppleBluetooth \<Rightarrow> AppleBluetooth" where
  "didDiscoverPeripheral peripheral ab =
     (if peripheral \<notin> set (abDiscovered ab)
      then call (ConnectPeripheral peripheral) (ab\<lparr>abDiscovered := abDiscovered ab @ [peripheral]\<rparr>)
      else ab)"

definition didConnectPeripheral :: "(nat \<Rightarrow> u8) \<Rightarrow> corebt \<Rightarrow> env \<Rightarrow> string \<Rightarrow> apple \<Rightarrow> (fault + unit) \<times> apple" where
  "didConnectPeripheral rng cb env peripheral = (\<lambda>(ab, n).
     let ab = ab\<lparr>abConnected := (if peripheral \<in> set (abConnected ab) then abConnected ab else abConnected ab @ [peripheral])\<rparr>;
         ab = call (DiscoverServices peripheral) ab
     in runService rng cb env (\<lambda>_. onPeerConnected peripheral) (ab, n))"

definition didDisconnectPeripheral :: "(nat \<Rightarrow> u8) \<Rightarrow> corebt \<Rightarrow> env \<Rightarrow> string \<Rightarrow> apple \<Rightarrow> (fault + unit) \<times> apple" where
  "didDisconnectPeripheral rng cb env peripheral = (\<lambda>(ab, n).
     let ab = ab\<lparr>abConnected := filter (\<lambda>p. p \<noteq> peripheral) (abConnected ab)\<rparr>;
         ab = ab\<lparr>abCharacteristics := abCharacteristics ab - {peripheral}\<rparr>
     in runService rng cb env (\<lambda>_. onPeerDisconnected peripheral) (ab, n))"

definition didFailToConnectPeripheral :: "string \<Rightarrow> AppleBluetooth \<Rightarrow> AppleBluetooth" where
  "didFailToConnectPeripheral peripheral ab = ab\<lparr>abDiscovered := filter (\<lambda>p. p \<noteq> peripheral) (abDiscovered ab)\<rparr>"

fun didReceiveWriteRequests ::
    "(nat \<Rightarrow> u8) \<Rightarrow> corebt \<Rightarrow> env \<Rightarrow> bytes option list \<Rightarrow> apple \<Rightarrow> (fault + unit) \<times> apple" where
  "didReceiveWriteRequests rng cb env [] s = (Inr (), s)"
| "didReceiveWriteRequests rng cb env (request # requests) s =
     (case (case request of
          Some v \<Rightarrow> if length v \<ge> BLE_MIN_PACKET_SIZE_BYTES then runService rng cb env (bridgeReceived v []) s else (Inr (), s)
        | None \<Rightarrow> (Inr (), s)) of
        (Inl e, s) \<Rightarrow> (Inl e, s)
      | (Inr _, ab, n) \<Rightarrow> didReceiveWriteRequests rng cb env requests (call RespondToRequest ab, n))"

definition didSubscribe :: "string \<Rightarrow> AppleBluetooth \<Rightarrow> AppleBluetooth" where
  "didSubscribe central ab =
     (if central \<notin> set (abSubscribed ab) then ab\<lparr>abSubscribed := abSubscribed ab @ [central]\<rparr> else ab)"

definition didUnsubscribe :: "string \<Rightarrow> AppleBluetooth \<Rightarrow> AppleBluetooth" where
  "didUnsubscribe central ab = ab\<lparr>abSubscribed := filter (\<lambda>c. c \<noteq> central) (abSubscribed ab)\<rparr>"

text \<open>The services and characteristics that were found, by their identifiers.\<close>

primrec didDiscoverServices :: "string \<Rightarrow> string list \<Rightarrow> AppleBluetooth \<Rightarrow> AppleBluetooth" where
  "didDiscoverServices peripheral [] ab = ab"
| "didDiscoverServices peripheral (service # services) ab =
     didDiscoverServices peripheral services
       (if service = SERVICE_UUID then call (DiscoverCharacteristics peripheral) ab else ab)"

fun didDiscoverCharacteristics ::
    "(nat \<Rightarrow> u8) \<Rightarrow> corebt \<Rightarrow> env \<Rightarrow> string \<Rightarrow> string list \<Rightarrow> apple \<Rightarrow> (fault + unit) \<times> apple" where
  "didDiscoverCharacteristics rng cb env peripheral [] s = (Inr (), s)"
| "didDiscoverCharacteristics rng cb env peripheral (characteristic # characteristics) s =
     (if characteristic \<noteq> CHARACTERISTIC_UUID then didDiscoverCharacteristics rng cb env peripheral characteristics s
      else let (ab, n) = s;
               ab = ab\<lparr>abCharacteristics := insert peripheral (abCharacteristics ab)\<rparr>;
               ab = call (SetNotify peripheral) ab
        in case runService rng cb env (\<lambda>env. onPeripheralDiscovered env True peripheral) (ab, n) of
             (Inl e, s) \<Rightarrow> (Inl e, s)
           | (Inr _, s) \<Rightarrow> didDiscoverCharacteristics rng cb env peripheral characteristics s)"

definition didUpdateValue ::
    "(nat \<Rightarrow> u8) \<Rightarrow> corebt \<Rightarrow> env \<Rightarrow> string \<Rightarrow> bytes option \<Rightarrow> apple \<Rightarrow> (fault + unit) \<times> apple" where
  "didUpdateValue rng cb env peripheral v s =
     (case v of
        None \<Rightarrow> (Inr (), s)
      | Some data \<Rightarrow> if length data < BLE_MIN_PACKET_SIZE_BYTES then (Inr (), s)
          else runService rng cb env (bridgeReceived data peripheral) s)"

section \<open>Runs\<close>

datatype apple_event = ManagersCreated | CentralOn | PeripheralOn | Discovered string | Connected string | Disconnected string
  | ConnectFailed string | WriteRequests "bytes option list" | Subscribed string | Unsubscribed string
  | ServicesFound string "string list" | CharacteristicsFound string "string list" | ValueUpdated string "bytes option"
  | DelayedAnnounce string

text \<open>\<open>DelayedAnnounce\<close> is the detached thread that greeting a peripheral starts.\<close>

fun appleStep :: "(nat \<Rightarrow> u8) \<Rightarrow> corebt \<Rightarrow> env \<Rightarrow> apple_event \<Rightarrow> apple \<Rightarrow> (fault + unit) \<times> apple" where
  "appleStep rng cb env ManagersCreated (ab, n) = (Inr (), ab\<lparr>abManagers := True\<rparr>, n)"
| "appleStep rng cb env CentralOn (ab, n) = (Inr (), centralManagerOn ab, n)"
| "appleStep rng cb env PeripheralOn (ab, n) = (Inr (), peripheralManagerOn ab, n)"
| "appleStep rng cb env (Discovered p) (ab, n) = (Inr (), didDiscoverPeripheral p ab, n)"
| "appleStep rng cb env (Connected p) s = didConnectPeripheral rng cb env p s"
| "appleStep rng cb env (Disconnected p) s = didDisconnectPeripheral rng cb env p s"
| "appleStep rng cb env (ConnectFailed p) (ab, n) = (Inr (), didFailToConnectPeripheral p ab, n)"
| "appleStep rng cb env (WriteRequests rs) s = didReceiveWriteRequests rng cb env rs s"
| "appleStep rng cb env (Subscribed c) (ab, n) = (Inr (), didSubscribe c ab, n)"
| "appleStep rng cb env (Unsubscribed c) (ab, n) = (Inr (), didUnsubscribe c ab, n)"
| "appleStep rng cb env (ServicesFound p us) (ab, n) = (Inr (), didDiscoverServices p us ab, n)"
| "appleStep rng cb env (CharacteristicsFound p us) s = didDiscoverCharacteristics rng cb env p us s"
| "appleStep rng cb env (ValueUpdated p v) s = didUpdateValue rng cb env p v s"
| "appleStep rng cb env (DelayedAnnounce p) s = runService rng cb env (\<lambda>env. delayedAnnounce env p) s"

fun appleRun :: "(nat \<Rightarrow> u8) \<Rightarrow> (corebt \<times> env \<times> apple_event) list \<Rightarrow> apple \<Rightarrow> (fault + unit) \<times> apple" where
  "appleRun rng [] s = (Inr (), s)"
| "appleRun rng ((cb, env, ev) # evs) s =
     (case appleStep rng cb env ev s of (Inl e, s) \<Rightarrow> (Inl e, s) | (Inr _, s) \<Rightarrow> appleRun rng evs s)"

section \<open>The interface\<close>

text \<open>The identifier of a peripheral has the form of a UUID, groups of digits between dashes.\<close>

definition is_uuid :: "string \<Rightarrow> bool" where
  "is_uuid s \<longleftrightarrow> CHR ''-'' \<in> set s"

definition writtenValue :: "cb_call \<Rightarrow> bytes" where
  "writtenValue c = (case c of WriteValue _ data \<Rightarrow> data | UpdateValue data _ \<Rightarrow> data | _ \<Rightarrow> [])"

lemma written_value [simp]: "writtenValue (WriteValue x data) = data" "writtenValue (UpdateValue data cs) = data"
  by (simp_all add: writtenValue_def)

lemma uuid_no_hex: "is_uuid s \<Longrightarrow> \<not> list_all isxdigit s"
  unfolding is_uuid_def list_all_iff using isxdigit_def hex_value_def by (auto intro!: bexI [of _ "CHR ''-''"])

lemma find_self: "find (\<lambda>y. y = x) xs = (if x \<in> set xs then Some x else None)"
  by (induction xs) auto

lemma apple_sends:
  "appleSendToPeer cb data pid ab = appleSendToPeripheralID cb data pid ab"
  "x \<notin> set (abConnected ab) \<Longrightarrow> appleSendToPeripheralID cb data x ab = (False, [])"
  "c \<in> set (snd (appleSendToPeripheralID cb data x ab)) \<Longrightarrow> c = WriteValue x data"
  "c \<in> set (snd (appleSendPacket cb data ab)) \<Longrightarrow> writtenValue c = data"
  by (auto simp: appleSendToPeer_def appleSendToPeripheralID_def appleSendToPeripheral_def appleSendPacket_def find_self
      writtenValue_def split: if_splits)

interpretation apple_bt: bluetooth_network "\<lambda>ab. set (abConnected ab)" "\<lambda>ab. \<forall>dev \<in> set (abConnected ab). is_uuid dev"
    "serializePacket lz rng" "\<lambda>ab. bridgeSendPacket lz rng cb (Some ab)" "\<lambda>ab. bridgeSendPacketToPeer lz rng cb (Some ab)"
    "\<lambda>ab. bridgeSendPacketToPeripheral lz rng cb (Some ab)" writtenValue
  for lz rng cb
  by unfold_locales (auto simp: bridgeSendPacket_def bridgeSendPacketToPeer_def bridgeSendPacketToPeripheral_def apple_sends
      uuid_no_hex dest!: apple_sends(3))

section \<open>Lemmas\<close>

lemma bridged_env [simp]:
  "envTime (bridged rng cb ab env) = envTime env" "envUuid (bridged rng cb ab env) = envUuid env"
  "envLz4 (bridged rng cb ab env) = envLz4 env" "envSign (bridged rng cb ab env) = envSign env"
  "envBluetooth (bridged rng cb ab env) = envBluetooth env" "envOrder (bridged rng cb ab env) = envOrder env"
  by (simp_all add: bridged_def)

lemma bridged_message [simp]:
  "plainPacket (bridged rng cb ab env) sid m = plainPacket env sid m"
  "typedMessage (bridged rng cb ab env) content channel a = typedMessage env content channel a"
  "no_session (bridged rng cb ab env) a = no_session env a"
proof -
  have "plainPayload (bridged rng cb ab env) m = plainPayload env m" by (simp add: plainPayload_def Let_def)
  then show "plainPacket (bridged rng cb ab env) sid m = plainPacket env sid m" unfolding plainPacket_def bridged_env by metis
qed (simp_all add: typedMessage_def no_session_def split: option.split)

text \<open>Services change the log of calls only, and write values only.\<close>

lemma runService_frame:
  assumes "runService rng cb env act (ab, n) = (r, ab', n')"
  obtains cs where "ab' = ab\<lparr>abCalls := abCalls ab @ cs\<rparr>" "\<And>x. ConnectPeripheral x \<notin> set cs"
proof -
  have b: "ConnectPeripheral x \<notin> set (snd (bridgeSend lz rng cb (Some ab) d p))" for lz x d p
    by (auto simp: bridgeSend_def bridgeSendPacket_def bridgeSendPacketToPeer_def bridgeSendPacketToPeripheral_def apple_sends(1)
        appleSendPacket_def dest!: apple_sends(3) split: dest.splits if_splits)
  with assms show thesis by (intro that) (auto simp: runService_def split: prod.splits)
qed

text \<open>How often a connection to a peripheral was asked for, and whether the peripheral counts as discovered.\<close>

definition connects :: "string \<Rightarrow> AppleBluetooth \<Rightarrow> nat" where
  "connects x ab = count_list (abCalls ab) (ConnectPeripheral x)"

definition same_connects :: "apple \<Rightarrow> apple \<Rightarrow> bool" where
  "same_connects s s' \<longleftrightarrow> (\<forall>x. connects x (fst s') = connects x (fst s)) \<and> abDiscovered (fst s') = abDiscovered (fst s)"

lemma same_connects_refl: "same_connects s s"
  by (simp add: same_connects_def)

lemma same_connects_trans: "same_connects a b \<Longrightarrow> same_connects b c \<Longrightarrow> same_connects a c"
  by (simp add: same_connects_def)

lemma connects_pure: "same_connects s (snd (r, s))"
  by (simp add: same_connects_refl)

lemma connects_split:
  "same_connects s (snd a) \<Longrightarrow> same_connects s (snd b) \<Longrightarrow> same_connects s (snd (if c then a else b))"
  "same_connects s (snd a) \<Longrightarrow> (\<And>v. same_connects s (snd (f v))) \<Longrightarrow> same_connects s (snd (case z of None \<Rightarrow> a | Some v \<Rightarrow> f v))"
  by (simp_all split: option.split)

lemma connects_call: "(\<And>y. c \<noteq> ConnectPeripheral y) \<Longrightarrow> same_connects (ab, n) (call c ab, n')"
  by (simp add: same_connects_def connects_def call_def)

lemma connects_service: "same_connects s (snd (runService rng cb env act s))"
proof -
  obtain ab n r ab' n' where s: "s = (ab, n)" "runService rng cb env act (ab, n) = (r, ab', n')" by (metis prod_cases3 surj_pair)
  from runService_frame [OF s(2)] obtain cs where "ab' = ab\<lparr>abCalls := abCalls ab @ cs\<rparr>" "\<And>x. ConnectPeripheral x \<notin> set cs" by metis
  with s show ?thesis by (simp add: same_connects_def connects_def count_list_0_iff)
qed

lemma connects_writes: "same_connects s (snd (didReceiveWriteRequests rng cb env rs s))"
proof (induction rs arbitrary: s)
  case Nil
  then show ?case by (simp add: same_connects_refl)
next
  case (Cons request rs)
  let ?r = "case request of Some v \<Rightarrow> if length v \<ge> BLE_MIN_PACKET_SIZE_BYTES then runService rng cb env (bridgeReceived v []) s
      else (Inr (), s) | None \<Rightarrow> (Inr (), s)"
  have s: "same_connects s (snd ?r)" by (intro connects_split connects_service connects_pure)
  obtain r ab n where r: "?r = (r, ab, n)" by (rule prod_cases3 [of ?r])
  show ?case
  proof (cases r)
    case (Inr u)
    have "same_connects (ab, n) (snd (didReceiveWriteRequests rng cb env rs (call RespondToRequest ab, n)))"
      using same_connects_trans [OF connects_call Cons.IH] by simp
    with s r Inr show ?thesis by (auto intro: same_connects_trans)
  qed (use s r in simp)
qed

lemma connects_characteristics: "same_connects s (snd (didDiscoverCharacteristics rng cb env x us s))"
proof (induction us arbitrary: s)
  case Nil
  then show ?case by (simp add: same_connects_refl)
next
  case (Cons u us)
  obtain ab n where s: "s = (ab, n)" by fastforce
  let ?ab = "call (SetNotify x) (ab\<lparr>abCharacteristics := insert x (abCharacteristics ab)\<rparr>)"
  let ?r = "runService rng cb env (\<lambda>env. onPeripheralDiscovered env True x) (?ab, n)"
  have "same_connects (ab, n) (?ab, n)" by (simp add: same_connects_def connects_def call_def)
  then have c: "same_connects (ab, n) (snd ?r)" using connects_service same_connects_trans by blast
  show ?case
  proof (cases "u = CHARACTERISTIC_UUID")
    case True
    with c s same_connects_trans [OF c Cons.IH] show ?thesis by (auto simp: Let_def split: prod.split sum.split)
  qed (use Cons.IH in simp)
qed

lemma connects_services: "same_connects (ab, n) (didDiscoverServices x us ab, n)"
proof (induction us arbitrary: ab)
  case (Cons u us)
  have "same_connects (ab, n) (if u = SERVICE_UUID then call (DiscoverCharacteristics x) ab else ab, n)"
    by (simp add: same_connects_def connects_def call_def)
  from same_connects_trans [OF this Cons] show ?case by simp
qed (simp add: same_connects_refl)

text \<open>Every connection asked for is paid for by the peripheral being filed as discovered or by a failed one.\<close>

lemma step_connects:
  assumes "appleStep rng cb env ev s = (r, s')" "connects x (fst s) \<le> k + of_bool (x \<in> set (abDiscovered (fst s)))"
  shows "connects x (fst s') \<le> k + of_bool (ev = ConnectFailed x) + of_bool (x \<in> set (abDiscovered (fst s')))"
proof -
  have same: "same_connects s s' \<Longrightarrow> ?thesis" using assms(2) by (simp add: same_connects_def)
  obtain ab n where s: "s = (ab, n)" by fastforce
  show ?thesis
  proof (cases ev)
    case (Discovered p)
    show ?thesis
    proof (cases "p \<in> set (abDiscovered ab)")
      case False
      with Discovered assms s show ?thesis by (cases "x = p") (auto simp: didDiscoverPeripheral_def connects_def call_def)
    qed (use Discovered assms s in \<open>auto simp: didDiscoverPeripheral_def\<close>)
  next
    case (ConnectFailed p)
    with assms s show ?thesis
      by (cases "x = p") (auto simp: didFailToConnectPeripheral_def connects_def of_bool_def split: if_splits)
  next
  case (Connected p)
    let ?ab = "call (DiscoverServices p) (ab\<lparr>abConnected := (if p \<in> set (abConnected ab) then abConnected ab else abConnected ab @ [p])\<rparr>)"
    have a: "same_connects s (?ab, n)" using s by (simp add: same_connects_def connects_def call_def)
    have b: "s' = snd (runService rng cb env (\<lambda>_. onPeerConnected p) (?ab, n))"
      using Connected assms(1) s by (simp add: didConnectPeripheral_def Let_def)
    show ?thesis by (rule same) (unfold b, rule same_connects_trans [OF a connects_service])
  next
    case (Disconnected p)
    let ?ab = "ab\<lparr>abConnected := filter (\<lambda>q. q \<noteq> p) (abConnected ab), abCharacteristics := abCharacteristics ab - {p}\<rparr>"
    have a: "same_connects s (?ab, n)" using s by (simp add: same_connects_def connects_def)
    have b: "s' = snd (runService rng cb env (\<lambda>_. onPeerDisconnected p) (?ab, n))"
      using Disconnected assms(1) s by (simp add: didDisconnectPeripheral_def Let_def)
    show ?thesis by (rule same) (unfold b, rule same_connects_trans [OF a connects_service])
  next
    case (WriteRequests rs)
    with connects_writes [of s rng cb env rs] assms(1) show ?thesis by (intro same) simp
  next
    case (ServicesFound p us)
    with connects_services [of ab n p us] assms(1) s show ?thesis by (intro same) auto
  next
    case (CharacteristicsFound p us)
    with connects_characteristics [of s rng cb env p us] assms(1) show ?thesis by (intro same) simp
  next
    case (ValueUpdated p v)
    have "same_connects s (snd (didUpdateValue rng cb env p v s))"
      unfolding didUpdateValue_def by (intro connects_split connects_service connects_pure)
    with ValueUpdated assms(1) show ?thesis by (intro same) simp
  next
    case (DelayedAnnounce p)
    with connects_service [of s rng cb env "\<lambda>env. delayedAnnounce env p"] assms(1) show ?thesis by (intro same) simp
  qed (use assms s in \<open>auto simp: centralManagerOn_def peripheralManagerOn_def didSubscribe_def didUnsubscribe_def connects_def call_def\<close>)
qed

lemma run_connects:
  assumes "connects x (fst s) \<le> k + of_bool (x \<in> set (abDiscovered (fst s)))"
  shows "connects x (fst (snd (appleRun rng evs s)))
    \<le> k + length (filter (\<lambda>(cb, env, ev). ev = ConnectFailed x) evs)
       + of_bool (x \<in> set (abDiscovered (fst (snd (appleRun rng evs s)))))"
  using assms
proof (induction evs arbitrary: s k)
  case (Cons e evs)
  obtain cb env ev where e: "e = (cb, env, ev)" by (metis prod_cases3)
  obtain r s1 where r: "appleStep rng cb env ev s = (r, s1)" by (rule prod.exhaust [of "appleStep rng cb env ev s"])
  note one = step_connects [OF r Cons.prems]
  show ?case
  proof (cases r)
    case (Inr u)
    with Cons.IH [OF one] e r show ?thesis by (cases "ev = ConnectFailed x") simp_all
  qed (use one e r in auto)
qed simp

text \<open>The two ends of a chat message: what the sender writes, and what the receiver makes of it.\<close>

lemma apple_message_written:
  assumes "envBluetooth env" "dPeerID (nData a) = toHex sid" "no_session env a" "m = typedMessage env content channel a"
    and "abReady ab" "x \<in> set (abConnected ab)" "x \<in> abCharacteristics ab" "cb x"
  shows "\<exists>ab1 a1. runService rng cb env (\<lambda>env. sendMessage env content channel) (ab, a) = (Inr True, ab1, a1)
    \<and> WriteValue x (serializePacket (envLz4 env) rng (plainPacket env sid m)) \<in> set (abCalls ab1)"
proof -
  let ?p = "plainPacket env sid m" and ?env = "bridged rng cb ab env"
  have "envSend ?env Broadcast ?p" using assms(5) by (simp add: bridged_def bridgeSend_def bridgeSendPacket_def appleSendPacket_def)
  with send_plain [OF assms(2), of ?env m content channel] assms(1,3,4)
  have "sendMessage ?env content channel a = (Inr True, a\<lparr>nSent := nSent a @ [(Broadcast, ?p)],
      nData := addMessageToHistory m (mChannel m) (nData a)\<rparr>)" by simp
  moreover have "WriteValue x (serializePacket (envLz4 env) rng ?p) \<in> set (snd (bridgeSend (envLz4 env) rng cb (Some ab) Broadcast ?p))"
    using assms(5-8) by (simp add: bridgeSend_def bridgeSendPacket_def appleSendPacket_def)
  ultimately show ?thesis by (auto simp: runService_def)
qed

lemma apple_message_shown:
  assumes "lz4_ok (envLz4 env)" "envLz4 env' = envLz4 env" "envBluetooth env'" "length sid = 8"
    and m: "m = typedMessage env content channel a" "envUuid env 1 \<noteq> []" "envTime env 1 \<noteq> 0"
      "length (makeMessagePayload (envUuid env 2) m) \<le> 100"
    and b: "messageIsForUs m (nData b)" "dPeerID (nData b) \<noteq> toHex sid"
      "\<not> wasMessageProcessed (nData b) (toHex sid @ ''_'' @ to_string (unat (envTime env 1)))"
    and data: "data = serializePacket (envLz4 env) rng (plainPacket env sid m)"
  shows "\<exists>ab2 b2. appleStep rng' cb' env' (WriteRequests [Some data]) (ab', b) = (Inr (), ab2, b2)
    \<and> nEvents b2 = nEvents b @ [MessageReceived m]"
proof -
  let ?env' = "bridged rng' cb' ab' env'"
  obtain q where q: "deserializePacket (envLz4 env) data = Some q" "isValid q" "parseMessagePayload (pPayload q) = Some m"
    "pSenderID q = sid" "pType q = PKT_TYPE_MESSAGE" "pTimestamp q = envTime env 1"
    unfolding data using plain_packet_read [OF assms(1,4) m] .
  have "listens q m (?env', [], b)" using b q assms(3) by (simp add: listens_def packetKey_def)
  from station_receives [OF q(3,2,5) this] obtain b2
    where b2: "onPacketReceived ?env' q [] b = (Inr (), b2)" "nEvents b2 = nEvents b @ [MessageReceived m]" by blast
  then have "bridgeReceived data [] ?env' b = (Inr (), b2)"
    using q(1) assms(2) by (simp add: bridgeReceived_def)
  moreover have "BLE_MIN_PACKET_SIZE_BYTES \<le> length data"
    using serialized_type(1) [of "envLz4 env" rng "plainPacket env sid m"] data by simp
  ultimately show ?thesis using b2(2) by (auto simp: runService_def)
qed

text \<open>An interface with one connected peripheral, and the message of the sample node.\<close>

definition connectedApple :: AppleBluetooth where
  "connectedApple = newAppleBluetooth\<lparr>abReady := True, abConnected := [''0A-1B''], abCharacteristics := {''0A-1B''}\<rparr>"

lemma sample_message_short:
  "length (makeMessagePayload (envUuid sampleEnv 2) (typedMessage sampleEnv ''hi'' ''#a'' sampleNode)) \<le> 100"
proof -
  have "length (dNickname (nData sampleNode)) = 8"
    by (simp add: sampleNode_def setPeerID_def initialData_def randomNickname_def to_string.simps)
  then show ?thesis
    by (simp add: makeMessagePayload_layout writeShortString_Nil optional_fields_def typedMessage_def newMessage_def
        defaultMessage_def sampleEnv_def)
qed

lemma sample_chat:
  "lz4_ok (envLz4 sampleEnv)" "envBluetooth sampleEnv" "envUuid sampleEnv 1 \<noteq> []" "envTime sampleEnv 1 \<noteq> 0"
  "dPeerID (nData sampleNode) = toHex [1, 2, 3, 4, 5, 6, 7, 8]" "no_session sampleEnv sampleNode"
  "messageIsForUs (typedMessage sampleEnv ''hi'' ''#a'' sampleNode) (nData (snd (snd stationB)))"
  "dPeerID (nData (snd (snd stationB))) \<noteq> toHex [1, 2, 3, 4, 5, 6, 7, 8]"
  "\<not> wasMessageProcessed (nData (snd (snd stationB))) (toHex [1, 2, 3, 4, 5, 6, 7, 8] @ ''_'' @ to_string (unat (envTime sampleEnv 1)))"
proof -
  show "dPeerID (nData sampleNode) = toHex [1, 2, 3, 4, 5, 6, 7, 8]" by (simp only: sampleNode_def setPeerID_def) simp
  show "no_session sampleEnv sampleNode"
    by (simp add: no_session_def sampleNode_def sampleEnv_def getEstablishedSessionIDs_def)
qed (simp_all add: sampleEnv_def single_run_codec_ok messageIsForUs_def stationB_def setCurrentChannel_def setPeerID_def hex_digit_def
    initialData_def wasMessageProcessed_def)

section \<open>Properties\<close>

text \<open>
  C24: no reconnection.  In every run of the Apple interface a peripheral is asked to connect at most once, and once more for each time connecting
  failed: a peripheral that disconnects stays filed as discovered, so when it comes back it is not connected again.
\<close>

theorem apple_connects_once:
  "count_list (abCalls (fst (snd (appleRun rng evs (newAppleBluetooth, n))))) (ConnectPeripheral x)
     \<le> Suc (length (filter (\<lambda>(cb, env, ev). ev = ConnectFailed x) evs))"
proof -
  have "connects x (fst (newAppleBluetooth, n)) \<le> 0 + of_bool (x \<in> set (abDiscovered (fst (newAppleBluetooth, n))))"
    by (simp add: connects_def newAppleBluetooth_def)
  from run_connects [OF this, of rng evs] show ?thesis by (simp add: connects_def of_bool_def split: if_splits)
qed

text \<open>
  C22: a remote crash.  Any device that writes one encrypted packet, with a time that is not zero, under the identifier of a sender with which the
  node has no session and which is not its own, and not seen before, ends the program on an Apple platform: the session service throws, and no frame between the packet handler and
  CoreBluetooth catches it.  The payload is arbitrary, as long as it is short.
\<close>

theorem apple_remote_crash:
  assumes "lz4_ok (envLz4 env)" "nNoise n = Some sv" "getSession sv (toHex sid) = None" "length sid = 8"
    and "dPeerID (nData n) \<noteq> toHex sid" "\<not> wasMessageProcessed (nData n) (toHex sid @ ''_'' @ to_string (unat t))"
    and "t \<noteq> 0" "length payload \<le> 100"
    and "data = serializePacket (envLz4 env) fill ((newPacket t PKT_TYPE_NOISE_ENCRYPTED payload)\<lparr>pSenderID := sid\<rparr>)"
  shows "\<exists>s'. appleRun rng ((cb, env, WriteRequests [Some data]) # evs) (ab, n) = (Inl (noSession (toHex sid)), s')"
proof -
  let ?p = "(newPacket t PKT_TYPE_NOISE_ENCRYPTED payload)\<lparr>pSenderID := sid\<rparr>" and ?env = "bridged rng cb ab env"
  let ?q = "wire_view (envLz4 env) ?p"
  have read: "deserializePacket (envLz4 ?env) data = Some ?q"
    using short_roundtrip [OF assms(1), of ?p fill] assms(8,9) by (simp add: newPacket_def defaultPacket_def isCompressed_def bridged_def)
  have q: "pType ?q = PKT_TYPE_NOISE_ENCRYPTED" "pSenderID ?q = sid" "pTimestamp ?q = t" "isValid ?q"
    using assms(4,7,8) by (simp_all add: wire_view_def newPacket_def defaultPacket_def isValid_def)
  then have "\<exists>n'. processPacket ?env ?q [] n = (Inl (noSession (toHex sid)), n')"
    using assms(2,3,5,6) by (simp add: processPacket_fresh packetKey_def routePacket_def processNoiseEncryptedPacket_def
        noiseGuard_def noiseDecrypt_def action_defs)
  then have "\<exists>n'. bridgeReceived data [] ?env n = (Inl (noSession (toHex sid)), n')"
    using read by (auto simp: bridgeReceived_def onPacketReceived_def mseq_def mbind_def)
  moreover have "BLE_MIN_PACKET_SIZE_BYTES \<le> length data"
    using serialized_type(1) [of "envLz4 env" fill ?p] assms(9) by simp
  ultimately show ?thesis by (auto simp: runService_def)
qed

theorem apple_remote_crash_witness:
  "\<exists>data s'. appleRun (\<lambda>_. 0) [(\<lambda>_. True, sampleEnv, WriteRequests [Some data])] (newAppleBluetooth, sampleNode)
     = (Inl (noSession (toHex sampleSender)), s')"
proof -
  have "lz4_ok (envLz4 sampleEnv)" by (simp add: sampleEnv_def single_run_codec_ok)
  moreover have "nNoise sampleNode = Some (newNoiseService (replicate 32 9))" by (simp add: sampleNode_def)
  moreover have "getSession (newNoiseService (replicate 32 9)) k = None" for k by (simp add: getSession_def newNoiseService_def)
  moreover have "dPeerID (nData sampleNode) \<noteq> toHex sampleSender" "length sampleSender = 8"
    by (simp_all add: sampleNode_def setPeerID_def sampleSender_def hex_digit_def)
  moreover have "\<not> wasMessageProcessed (nData sampleNode) k" for k
    by (simp add: sampleNode_def setPeerID_def initialData_def wasMessageProcessed_def)
  ultimately have "\<exists>s'. appleRun (\<lambda>_. 0) ((\<lambda>_. True, sampleEnv, WriteRequests [Some (serializePacket (envLz4 sampleEnv) (\<lambda>_. 0)
      ((newPacket 7 PKT_TYPE_NOISE_ENCRYPTED [])\<lparr>pSenderID := sampleSender\<rparr>))]) # []) (newAppleBluetooth, sampleNode)
    = (Inl (noSession (toHex sampleSender)), s')"
    by (intro apple_remote_crash [where t = 7 and payload = "[]", OF _ _ _ _ _ _ _ _ refl]) simp_all
  then show ?thesis by blast
qed

text \<open>
  C21: delivery between Apple devices.  A node without an established session whose Bluetooth is ready sends a short chat
  message; what it writes to the characteristic of a connected peripheral makes the other node, when CoreBluetooth hands
  it over as a write request, show that message to its user, provided it is in the channel and has not
  seen the packet.  No byte is lost on the way, unlike on Linux: each write carries one packet.
\<close>

theorem apple_chat_delivered:
  assumes lz: "lz4_ok (envLz4 env)" and "envLz4 env' = envLz4 env" "envBluetooth env" "envBluetooth env'"
    and a: "dPeerID (nData a) = toHex sid" "length sid = 8" "no_session env a"
    and m: "m = typedMessage env content channel a" "envUuid env 1 \<noteq> []" "envTime env 1 \<noteq> 0"
      "length (makeMessagePayload (envUuid env 2) m) \<le> 100"
    and link: "abReady ab" "x \<in> set (abConnected ab)" "x \<in> abCharacteristics ab" "cb x"
    and b: "messageIsForUs m (nData b)" "dPeerID (nData b) \<noteq> toHex sid"
      "\<not> wasMessageProcessed (nData b) (toHex sid @ ''_'' @ to_string (unat (envTime env 1)))"
  shows "\<exists>data ab1 a1 ab2 b2. runService rng cb env (\<lambda>env. sendMessage env content channel) (ab, a) = (Inr True, ab1, a1)
    \<and> WriteValue x data \<in> set (abCalls ab1)
    \<and> appleStep rng' cb' env' (WriteRequests [Some data]) (ab', b) = (Inr (), ab2, b2)
    \<and> nEvents b2 = nEvents b @ [MessageReceived m]"
proof -
  from apple_message_shown [OF lz assms(2,4) a(2) m b refl] obtain ab2 b2 where
    "appleStep rng' cb' env' (WriteRequests [Some (serializePacket (envLz4 env) rng (plainPacket env sid m))]) (ab', b) = (Inr (), ab2, b2)"
    "nEvents b2 = nEvents b @ [MessageReceived m]" by blast
  with apple_message_written [where cb = cb and x = x, OF assms(3) a(1,3) m(1) link] show ?thesis by blast
qed

theorem apple_chat_delivered_witness:
  "\<exists>data ab1 a1 ab2 b2. runService (\<lambda>_. 0) (\<lambda>_. True) sampleEnv (\<lambda>env. sendMessage env ''hi'' ''#a'') (connectedApple, sampleNode)
      = (Inr True, ab1, a1) \<and> WriteValue ''0A-1B'' data \<in> set (abCalls ab1)
    \<and> appleStep (\<lambda>_. 0) (\<lambda>_. True) sampleEnv (WriteRequests [Some data]) (connectedApple, snd (snd stationB)) = (Inr (), ab2, b2)
    \<and> nEvents b2 = nEvents (snd (snd stationB)) @ [MessageReceived (typedMessage sampleEnv ''hi'' ''#a'' sampleNode)]"
  by (rule apple_chat_delivered [OF sample_chat(1) refl sample_chat(2,2,5) _ sample_chat(6) refl sample_chat(3,4)
      sample_message_short _ _ _ _ sample_chat(7-9)]) (simp_all add: connectedApple_def)

end
