(* ===== verification/Platforms.thy ===== *)
theory Platforms
  imports Program Apple_Bluetooth
begin

text \<open>
  Both platforms under one node.  The relay of \<open>NetworkService\<close> addresses a peer by its identifier, and each platform looks that
  name up among its devices: the locale of the interface is interpreted by both, so its lemma on the relay holds of both.
\<close>

section \<open>The program on Apple platforms\<close>

text \<open>
  \<open>main\<close> with the Apple interface.  \<open>initialize\<close> returns once it has seen both managers powered on, \<open>stop\<close> always does,
  and no exception of a call from CoreBluetooth or from a thread is caught.
\<close>

definition appleInterface :: "(bool \<times> bool) list \<Rightarrow> AppleBluetooth option \<Rightarrow> made_interface" where
  "appleInterface polls impl = Inr (case bridgeInitialize polls impl of
     None \<Rightarrow> (None, False) | Some (ready, impl') \<Rightarrow> (Some ready, bridgeStart impl'))"

definition apple_program ::
    "(bool \<times> bool) list \<Rightarrow> bool \<Rightarrow> bytes option \<Rightarrow> (nat \<Rightarrow> u8) \<Rightarrow> nat \<Rightarrow> 'k crypto_api \<Rightarrow> 'k CryptoService \<Rightarrow> env
      \<Rightarrow> session_event list \<Rightarrow> outcome option" where
  "apple_program polls allocated staticKey rng nick api crypto env evs =
     startProgram (appleInterface polls (createAppleInterface allocated)) staticKey rng nick api crypto env
       (fst (consoleInitialize False True True)) (runInterface (\<lambda>e call. False) True evs)"

section \<open>Lemmas\<close>

lemma appleInitialize_result:
  "appleInitialize polls ab = (if (True, True) \<in> set polls then Some (True, ab\<lparr>abReady := True\<rparr>) else None)"
  by (induction polls ab rule: appleInitialize.induct) auto

lemma apple_interface_ready:
  "appleInterface polls (createAppleInterface True) = Inr (if (True, True) \<in> set polls then (Some True, True) else (None, False))"
  by (simp add: appleInterface_def createAppleInterface_def newBridge_def bridgeInitialize_def appleInitialize_result
      bridgeStart_def appleStart_def)

lemma program_waits:
  "fst (cryptoInitialize api crypto) \<Longrightarrow> startProgram (Inr (None, False)) (Some key) rng nick api crypto env True run = None"
  by (simp add: startProgram_def managerInitialize_def netInitialize_def startNode_def Let_def)

lemma uncaught_faults: "uncaught caught evs e \<Longrightarrow> list_ex may_fault evs"
proof (induction evs)
  case (Cons ev evs)
  then show ?case by (cases ev) (auto simp: uncaught_def)
qed (simp add: uncaught_def)

lemma startNode_hex: "hex_peers (startNode nick key)"
  by (simp add: hex_peers_def startNode_def initialData_def)

lemma received_data:
  "envBluetooth env \<Longrightarrow> nData (snd (onPacketReceived env p periph n)) = nData (snd (processPacket env p periph n))"
  by (cases "processPacket env p periph n")
    (auto simp: onPacketReceived_def mseq_def mbind_def relayPacket_sends ret_def split: sum.split)

section \<open>Properties\<close>

text \<open>
  C23: relaying reaches nobody.  Let a node receive any packets since its start.  Whatever packet it then relays, and to
  whichever peer, the send finds no device, on Linux whatever sockets are open and on Apple platforms whatever
  peripherals are connected, and nothing is written: the peers are listed under hexadecimal identifiers, the
  devices under addresses and UUIDs.
\<close>

theorem relay_never_transmitted:
  assumes "(d, q) \<in> set (relayed p (receivedAll evs (startNode nick key)))"
    and "\<forall>dev \<in> fst ` set sockets. is_address dev" "\<forall>dev \<in> set (abConnected ab). is_uuid dev"
  shows "\<exists>pid. d = ToPeer pid \<and> linuxSendPacketToPeer lz rng writes (map_of sockets) q pid = (False, [])
    \<and> bridgeSendPacketToPeer lz rng cb (Some ab) q pid = (False, [])"
proof -
  have "list_all (\<lambda>p. \<exists>sid. peerID p = toHex sid) (dPeers (nData (receivedAll evs (startNode nick key))))"
    using hex_receivedAll [OF startNode_hex] by (simp add: hex_peers_def)
  note hex = this
  obtain pid where pid: "d = ToPeer pid" "linuxSendPacketToPeer lz rng writes (map_of sockets) q pid = (False, [])"
    using linux_bt.relay_writes_nothing [OF assms(2) hex assms(1), of lz rng writes] by blast
  moreover obtain pid' where "d = ToPeer pid'" "bridgeSendPacketToPeer lz rng cb (Some ab) q pid' = (False, [])"
    using apple_bt.relay_writes_nothing [OF assms(3) hex assms(1), of lz rng cb] by blast
  ultimately show ?thesis by simp
qed

theorem relay_never_transmitted_witness:
  "let n = receivedAll [(sampleEnv, samplePacket PKT_TYPE_ANNOUNCE, [])] (startNode 1 []); q = meshPacket\<lparr>pSenderID := [], pTTL := 6\<rparr>
   in (ToPeer (toHex sampleSender), q) \<in> set (relayed (meshPacket\<lparr>pSenderID := []\<rparr>) n)
    \<and> linuxSendPacketToPeer single_run_codec (\<lambda>_. 0) (\<lambda>_ _. True) (map_of [(''00:11:22:33:44:55'', 7)]) q (toHex sampleSender) = (False, [])
    \<and> bridgeSendPacketToPeer single_run_codec (\<lambda>_. 0) (\<lambda>_. True) (Some connectedApple) q (toHex sampleSender) = (False, [])"
proof -
  let ?n = "receivedAll [(sampleEnv, samplePacket PKT_TYPE_ANNOUNCE, [])] (startNode 1 [])"
  let ?p = "samplePacket PKT_TYPE_ANNOUNCE" and ?q = "meshPacket\<lparr>pSenderID := [], pTTL := 6\<rparr>"
  have bt: "envBluetooth sampleEnv" by (simp add: sampleEnv_def)
  have start: "getPeerInfo (nData (startNode 1 [])) k = None" "\<not> wasMessageProcessed (nData (startNode 1 [])) k" for k
    by (simp_all add: startNode_def initialData_def getPeerInfo_def wasMessageProcessed_def)
  have "\<not> wasMessageProcessed (nData (startNode 1 [])) (packetKey ?p)" "pType ?p = PKT_TYPE_ANNOUNCE" "sender ?p = toHex sampleSender"
    by (rule start) (simp_all add: samplePacket_def newPacket_def defaultPacket_def)
  then have "getPeerInfo (nData (snd (processPacket sampleEnv ?p [] (startNode 1 [])))) (toHex sampleSender) \<noteq> None"
    by (simp add: process_announce [OF samplePacket_valid] start)
  then have "getPeerInfo (nData ?n) (toHex sampleSender) \<noteq> None"
    by (simp add: receivedAll_def received_data [OF bt])
  then obtain r where "getPeerInfo (nData ?n) (toHex sampleSender) = Some r" by blast
  then have r: "r \<in> set (dPeers (nData ?n))" "peerID r = toHex sampleSender"
    by (auto simp: getPeerInfo_def find_Some_iff isPeerID_def)
  have sent: "(ToPeer (toHex sampleSender), ?q) \<in> set (relayed (meshPacket\<lparr>pSenderID := []\<rparr>) ?n)"
    using r by (force simp: relayed_def sampleSender_def)
  show ?thesis
    using sent relay_never_transmitted [OF sent, of "[(''00:11:22:33:44:55'', 7)]" connectedApple single_run_codec "\<lambda>_. 0" "\<lambda>_ _. True" "\<lambda>_. True"]
    by (simp add: Let_def is_address_def is_uuid_def connectedApple_def)
qed

text \<open>
  C14: a run of the whole program on Apple platforms.  Let the key file be usable.  If the two managers are never seen powered on together, the
  program waits forever.  Otherwise a session of commands in which \<open>/exit\<close> is typed always ends, the node having kept its invariants and the identifier
  it drew: either a handler of a packet or a send faulted, by any exception, or \<open>main\<close> returns 0 after the farewell
  with both runners off.
\<close>

theorem apple_program_run:
  assumes "fst (cryptoInitialize api crypto)" "only_commands evs"
  shows "case apple_program polls True (Some key) rng nick api crypto env evs of
      None \<Rightarrow> \<not> (exit_typed evs \<and> (True, True) \<in> set polls)
    | Some (result, net, n, out) \<Rightarrow> (True, True) \<in> set polls \<and> node_inv key n \<and> dPeerID (nData n) = randomPeerID rng
        \<and> ((\<exists>e. result = Inl e) \<and> list_ex may_fault evs
          \<or> result = Inr 0 \<and> exit_typed evs \<and> map_option runRunning (netAnnounceRunner net) = Some False
            \<and> map_option runRunning (netCleanupRunner net) = Some False \<and> last out = (InfoLevel, ''Shutdown''))"
proof (cases "(True, True) \<in> set polls")
  case True
  then have "apple_program polls True (Some key) rng nick api crypto env evs =
      startProgram (Inr (Some True, True)) (Some key) rng nick api crypto env True (runInterface (\<lambda>e call. False) True evs)"
    by (simp add: apple_program_def apple_interface_ready consoleInitialize_def)
  then obtain net n
    where start: "apple_program polls True (Some key) rng nick api crypto env evs = runInterface (\<lambda>e call. False) True evs net n"
    and inv: "node_inv key n" "dPeerID (nData n) = randomPeerID rng"
    and runners: "netAnnounceRunner net \<noteq> None" "netCleanupRunner net = Some newRunner"
    using program_starts [OF assms(1)] by metis
  show ?thesis
    unfolding start
    using True interface_run [OF assms(2) inv runners, where caught = "\<lambda>e call. False" and stopReturns = True] uncaught_faults
    by (auto split: option.splits)
next
  case False
  then show ?thesis
    using program_waits [OF assms(1)] by (simp add: apple_program_def apple_interface_ready consoleInitialize_def)
qed

theorem apple_program_run_witness:
  "apple_program [(False, True), (True, True)] True (Some (replicate 32 9)) (\<lambda>_. 7) 1234 byte_keys \<lparr>csSigningKey = None, csKeyFile = None\<rparr>
     sampleEnv [Called [] (PacketArrives sampleEnv (samplePacket 5) []), Typed \<lparr>inEnv = sampleEnv, inPrefix = [], inLine = ''/exit''\<rparr>] \<noteq> None"
proof -
  have "fst (cryptoInitialize byte_keys \<lparr>csSigningKey = None, csKeyFile = None\<rparr>)"
    by (simp add: cryptoInitialize_def generateOrLoadKeyPair_def loadPrivateKey_def byte_keys_def)
  from apple_program_run [OF this, where key = "replicate 32 9" and rng = "\<lambda>_. 7" and nick = 1234 and polls = "[(False, True), (True, True)]"
      and env = sampleEnv and evs = "[Called [] (PacketArrives sampleEnv (samplePacket 5) []),
        Typed \<lparr>inEnv = sampleEnv, inPrefix = [], inLine = ''/exit''\<rparr>]"]
  show ?thesis by (auto simp: only_commands_def exit_typed_def is_command_def split: option.splits)
qed

end
