(* ===== verification/Dummy_UI.thy ===== *)
theory Dummy_UI
  imports Program
begin

text \<open>
  The dummy user interface (\<open>src/ui/dummy_ui.cpp\<close>) and the program that is built with it.  Its \<open>initialize\<close> sets no
  callbacks, so no event and no line reaches a user, and its \<open>start\<close> returns at once: the manager stops
  right after it has started.
\<close>

definition dummyInitialize :: bool where
  "dummyInitialize = True"

definition dummyShows :: "ui_event \<Rightarrow> chat_output" where
  "dummyShows ev = []"

definition dummyStart :: "chat_output \<Rightarrow> chat_output" where
  "dummyStart out = out"

definition runDummy :: "bool \<Rightarrow> NetworkService \<Rightarrow> node \<Rightarrow> outcome option" where
  "runDummy stopReturns net n =
     (let out = dummyStart (concat (map dummyShows (nEvents n))) in
      if \<not> stopReturns then None else Some (Inr EXIT_SUCCESS, managerStop net, n, out))"

definition dummy_program ::
    "int \<Rightarrow> int \<Rightarrow> bytes option \<Rightarrow> (nat \<Rightarrow> u8) \<Rightarrow> nat \<Rightarrow> 'k crypto_api \<Rightarrow> 'k CryptoService \<Rightarrow> env \<Rightarrow> bool \<Rightarrow> outcome option" where
  "dummy_program route hci staticKey rng nick api crypto env stopReturns =
     startProgram (linuxInterface route hci) staticKey rng nick api crypto env dummyInitialize (runDummy stopReturns)"

text \<open>Without a session the program ends exactly when the Bluetooth interface stops, successful and silent.\<close>

lemma dummy_program_ends:
  assumes "0 \<le> route" "0 \<le> hci" "fst (cryptoInitialize api crypto)"
  shows "case dummy_program route hci (Some key) rng nick api crypto env stopReturns of
      None \<Rightarrow> \<not> stopReturns
    | Some (result, net, n, out) \<Rightarrow> stopReturns \<and> result = Inr 0 \<and> out = [] \<and> node_inv key n
        \<and> map_option runRunning (netAnnounceRunner net) = Some False \<and> map_option runRunning (netCleanupRunner net) = Some False"
proof -
  obtain net n where run: "dummy_program route hci (Some key) rng nick api crypto env stopReturns = runDummy stopReturns net n"
    and inv: "node_inv key n" and runners: "netAnnounceRunner net \<noteq> None" "netCleanupRunner net = Some newRunner"
    by (rule program_starts [OF assms(3), of key rng nick env "runDummy stopReturns"])
      (rule that [unfolded dummy_program_def dummyInitialize_def linux_interface_ready [OF assms(1,2)]])
  have silent: "concat (map dummyShows evs) = []" for evs by (simp add: dummyShows_def)
  obtain r where r: "netAnnounceRunner net = Some r" using runners(1) by blast
  show ?thesis
    unfolding run runDummy_def dummyStart_def silent Let_def using inv r runners(2)
    by (cases stopReturns) (simp_all add: managerStop_def netStop_def announceRunnerStop_def cleanupRunnerStop_def)
qed

end
