(* ===== verification/Linux_Threads.thy ===== *)
theory Linux_Threads
  imports Program
begin

text \<open>
  The threads of the program around \<open>socketsMutex\<close> (\<open>src/platforms/linux/bluetooth.cpp\<close>).  A thread is the list of what it still has
  to do with the mutex, the sockets and the services, and a step is one entry of any thread, so all interleavings are
  runs.  A \<open>std::mutex\<close> that is held, by another thread or by the same one, makes \<^term>\<open>Lock\<close> wait.  A handler of the services
  is one step on the node; the packets it hands to the interface follow as sends of the same thread.  What the kernel
  returns is in the events: the devices an inquiry finds, accepted clients, received packets.  The steps allow more than the
  program does (a thread may begin again after \<open>stop\<close>), so that what holds of all of them holds of the program.
\<close>

section \<open>Threads\<close>

datatype thread_id = MainThread | ScanThread | AcceptThread | ReaderThread string int | AnnounceThread | DelayedThread nat

datatype sock_op = Lock | Unlock | FindSocket string "sock_op list" | AddSocket string int | EraseSocket string int | ClearSockets
  | SendAll BitchatPacket | SendTo string BitchatPacket | RunService "unit action" | StartReader string int

record linux_run =
  lrOwner :: "thread_id option"
  lrSockets :: sockets
  lrReaders :: "(string \<times> int) set"
  lrNode :: node
  lrCode :: "thread_id \<Rightarrow> sock_op list"
  lrWritten :: "(int \<times> bytes) list"
  lrEnded :: bool

definition startRun :: "node \<Rightarrow> linux_run" where
  "startRun n = \<lparr>lrOwner = None, lrSockets = Map.empty, lrReaders = {}, lrNode = n, lrCode = (\<lambda>_. []), lrWritten = [], lrEnded = False\<rparr>"

section \<open>What the threads do\<close>

text \<open>\<open>sendPacket\<close>, \<open>sendPacketToPeer\<close> and \<open>sendPacketToPeripheral\<close>.\<close>

definition sendCode :: "dest \<times> BitchatPacket \<Rightarrow> sock_op list" where
  "sendCode = (\<lambda>(d, p). case d of
     Broadcast \<Rightarrow> [Lock, SendAll p, Unlock]
   | ToPeer pid \<Rightarrow> [Lock, SendTo pid p, Unlock]
   | ToPeripheral periph \<Rightarrow> [Lock, SendTo periph p, Unlock])"

text \<open>A new connection, in \<open>scanThreadFunc\<close> and in \<open>acceptThreadFunc\<close>: the guard is alive to the end of the block.\<close>

definition connectCode :: "env \<Rightarrow> string \<Rightarrow> int \<Rightarrow> sock_op list" where
  "connectCode env dev fd = [Lock, AddSocket dev fd, RunService (onPeerConnected dev),
     RunService (onPeripheralDiscovered env True dev), StartReader dev fd, Unlock]"

text \<open>A response of an inquiry: the device, the socket made for it and whether \<open>connect\<close> succeeds.\<close>

definition scanCode :: "env \<Rightarrow> string \<Rightarrow> int \<Rightarrow> bool \<Rightarrow> sock_op list" where
  "scanCode env dev s connects =
     [Lock, FindSocket dev (if s < 0 then [] else if connects then connectCode env dev s else []), Unlock]"

definition acceptCode :: "env \<Rightarrow> string \<Rightarrow> int \<Rightarrow> sock_op list" where
  "acceptCode env dev client = (if client < 0 then [] else connectCode env dev client)"

definition readerEndCode :: "string \<Rightarrow> int \<Rightarrow> sock_op list" where
  "readerEndCode dev fd = [RunService (onPeerDisconnected dev), Lock, EraseSocket dev fd, Unlock]"

definition stopCode :: "sock_op list" where
  "stopCode = [Lock, ClearSockets, Unlock]"

definition countCode :: "sock_op list" where
  "countCode = [Lock, Unlock]"

text \<open>What the user has the main thread do.\<close>

inductive user_action :: "unit action \<Rightarrow> bool" where
  "user_action (mseq (managerSendMessage env content) (ret ()))"
| "user_action (mseq (managerSendPrivateMessage env content nick) (ret ()))"
| "user_action (managerJoinChannel env channel)"
| "user_action (managerLeaveChannel env)"
| "user_action (changeNickname nick)"
| "user_action (startIdentityAnnounce env)"

text \<open>What an idle thread may begin.\<close>

inductive begins :: "linux_run \<Rightarrow> thread_id \<Rightarrow> sock_op list \<Rightarrow> bool" where
  begin_scan: "envBluetooth env \<Longrightarrow> begins s ScanThread (scanCode env dev fd connects)"
| begin_accept: "envBluetooth env \<Longrightarrow> begins s AcceptThread (acceptCode env dev client)"
| begin_packet: "(dev, fd) \<in> lrReaders s \<Longrightarrow> begins s (ReaderThread dev fd) [RunService (serviceCall (PacketArrives env p []))]"
| begin_close: "(dev, fd) \<in> lrReaders s \<Longrightarrow> begins s (ReaderThread dev fd) (readerEndCode dev fd)"
| begin_announce: "begins s AnnounceThread [RunService (serviceCall (AnnounceTick env ready))]"
| begin_delayed: "begins s (DelayedThread k) [RunService (serviceCall (AnnounceDue env periph))]"
| begin_user: "user_action act \<Longrightarrow> begins s MainThread [RunService act]"
| begin_count: "begins s MainThread countCode"
| begin_stop: "lrCode s ScanThread = [] \<Longrightarrow> lrCode s AcceptThread = [] \<Longrightarrow> begins s MainThread stopCode"

section \<open>Steps\<close>

abbreviation proceed :: "thread_id \<Rightarrow> sock_op list \<Rightarrow> linux_run \<Rightarrow> linux_run" where
  "proceed t code s \<equiv> s\<lparr>lrCode := (lrCode s)(t := code)\<rparr>"

definition newSends :: "node \<Rightarrow> node \<Rightarrow> sock_op list" where
  "newSends n n' = concat (map sendCode (drop (length (nSent n)) (nSent n')))"

text \<open>The handler of exceptions in \<open>readerThreadFunc\<close>; a read out of range is not an exception.\<close>

definition catches :: "thread_id \<Rightarrow> fault \<Rightarrow> bool" where
  "catches t e = (case t of ReaderThread _ _ \<Rightarrow> e \<noteq> OutOfRange | _ \<Rightarrow> False)"

inductive linux_step :: "lz4_api \<Rightarrow> linux_run \<Rightarrow> linux_run \<Rightarrow> bool" for lz where
  step_begin: "\<not> lrEnded s \<Longrightarrow> lrCode s t = [] \<Longrightarrow> begins s t code \<Longrightarrow> linux_step lz s (proceed t code s)"
| step_lock: "\<not> lrEnded s \<Longrightarrow> lrCode s t = Lock # ops \<Longrightarrow> lrOwner s = None \<Longrightarrow>
    linux_step lz s (proceed t ops (s\<lparr>lrOwner := Some t\<rparr>))"
| step_unlock: "\<not> lrEnded s \<Longrightarrow> lrCode s t = Unlock # ops \<Longrightarrow> linux_step lz s (proceed t ops (s\<lparr>lrOwner := None\<rparr>))"
| step_find: "\<not> lrEnded s \<Longrightarrow> lrCode s t = FindSocket dev code # ops \<Longrightarrow>
    linux_step lz s (proceed t (ops @ (if lrSockets s dev \<noteq> None then [] else code)) s)"
| step_add: "\<not> lrEnded s \<Longrightarrow> lrCode s t = AddSocket dev fd # ops \<Longrightarrow>
    linux_step lz s (proceed t ops (s\<lparr>lrSockets := (lrSockets s)(dev \<mapsto> fd)\<rparr>))"
| step_erase: "\<not> lrEnded s \<Longrightarrow> lrCode s t = EraseSocket dev fd # ops \<Longrightarrow>
    linux_step lz s (proceed t ops (s\<lparr>lrSockets := (lrSockets s)(dev := None), lrReaders := lrReaders s - {(dev, fd)}\<rparr>))"
| step_clear: "\<not> lrEnded s \<Longrightarrow> lrCode s t = ClearSockets # ops \<Longrightarrow>
    linux_step lz s (proceed t ops (s\<lparr>lrSockets := Map.empty\<rparr>))"
| step_send_all: "\<not> lrEnded s \<Longrightarrow> lrCode s t = SendAll p # ops \<Longrightarrow> map_of entries = lrSockets s \<Longrightarrow> distinct (map fst entries) \<Longrightarrow>
    linux_step lz s (proceed t ops (s\<lparr>lrWritten := lrWritten s @ snd (linuxSendPacket lz rng writes entries p)\<rparr>))"
| step_send_to: "\<not> lrEnded s \<Longrightarrow> lrCode s t = SendTo dev p # ops \<Longrightarrow>
    linux_step lz s (proceed t ops (s\<lparr>lrWritten := lrWritten s @ snd (linuxSendPacketToPeer lz rng writes (lrSockets s) p dev)\<rparr>))"
| step_service: "\<not> lrEnded s \<Longrightarrow> lrCode s t = RunService act # ops \<Longrightarrow> act (lrNode s) = (Inr (), n) \<Longrightarrow>
    linux_step lz s (proceed t (newSends (lrNode s) n @ ops) (s\<lparr>lrNode := n\<rparr>))"
| step_throw: "\<not> lrEnded s \<Longrightarrow> lrCode s t = RunService act # ops \<Longrightarrow> act (lrNode s) = (Inl e, n) \<Longrightarrow>
    linux_step lz s (proceed t (newSends (lrNode s) n @ ops) (s\<lparr>lrNode := n, lrEnded := \<not> catches t e\<rparr>))"
| step_reader: "\<not> lrEnded s \<Longrightarrow> lrCode s t = StartReader dev fd # ops \<Longrightarrow>
    linux_step lz s (proceed t ops (s\<lparr>lrReaders := insert (dev, fd) (lrReaders s)\<rparr>))"

inductive_cases linux_stepE: "linux_step lz s s'"

section \<open>Lemmas\<close>

text \<open>
  Code of a thread that does not hold the mutex: it touches the sockets only inside a section it locks, and the sections
  are short but for a new connection.  Services keep the identifier of the node.
\<close>

fun short_op :: "sock_op \<Rightarrow> bool" where
  "short_op (SendAll p) = True"
| "short_op (SendTo dev p) = True"
| "short_op (EraseSocket dev fd) = True"
| "short_op ClearSockets = True"
| "short_op op = False"

abbreviation keeps_id :: "string \<Rightarrow> unit action \<Rightarrow> bool" where
  "keeps_id me act \<equiv> keeps (\<lambda>n. dPeerID (nData n) = me) act"

inductive calm :: "string \<Rightarrow> sock_op list \<Rightarrow> bool" for me where
  calm_nil: "calm me []"
| calm_run: "keeps_id me act \<Longrightarrow> calm me ops \<Longrightarrow> calm me (RunService act # ops)"
| calm_section: "short_op op \<Longrightarrow> calm me ops \<Longrightarrow> calm me (Lock # op # Unlock # ops)"
| calm_count: "calm me ops \<Longrightarrow> calm me (Lock # Unlock # ops)"
| calm_find: "calm me ops \<Longrightarrow> calm me (ops @ code) \<Longrightarrow> calm me (Lock # FindSocket dev code # Unlock # ops)"
| calm_connect: "envBluetooth env \<Longrightarrow> calm me (connectCode env dev fd)"

inductive_simps calm_simps: "calm me (op # ops)"

text \<open>Code of the thread that holds the mutex, and whether a socket may be listed.\<close>

inductive holding :: "string \<Rightarrow> sock_op list \<Rightarrow> bool \<Rightarrow> bool" for me where
  hold_unlock: "calm me ops \<Longrightarrow> holding me (Unlock # ops) False"
| hold_short: "short_op op \<Longrightarrow> calm me ops \<Longrightarrow> holding me (op # Unlock # ops) False"
| hold_find: "calm me ops \<Longrightarrow> calm me (ops @ code) \<Longrightarrow> holding me (FindSocket dev code # Unlock # ops) False"
| hold_add: "envBluetooth env \<Longrightarrow> holding me (drop 1 (connectCode env dev fd)) False"
| hold_connected: "envBluetooth env \<Longrightarrow> holding me (drop 2 (connectCode env dev fd)) True"
| hold_discovered: "envBluetooth env \<Longrightarrow> holding me (drop 3 (connectCode env dev fd)) True"
| hold_blocked: "holding me (Lock # ops) True"

inductive_cases holdingE: "holding me (op # ops) listed"

definition muted :: "string \<Rightarrow> linux_run \<Rightarrow> bool" where
  "muted me s \<longleftrightarrow> dPeerID (nData (lrNode s)) = me \<and> lrWritten s = [] \<and> lrReaders s = {}
     \<and> (lrSockets s \<noteq> Map.empty \<longrightarrow> lrOwner s \<noteq> None)
     \<and> (\<not> lrEnded s \<longrightarrow> (\<forall>t. lrOwner s \<noteq> Some t \<longrightarrow> calm me (lrCode s t))
         \<and> (\<forall>t. lrOwner s = Some t \<longrightarrow> (\<exists>listed. holding me (lrCode s t) listed \<and> (listed \<or> lrSockets s = Map.empty))))"

lemma calm_sendCode: "calm me ops \<Longrightarrow> calm me (sendCode dp @ ops)"
  by (cases dp; cases "fst dp") (simp_all add: sendCode_def calm_section)

lemma calm_sends: "calm me ops \<Longrightarrow> calm me (newSends n n' @ ops)"
proof -
  have "calm me ops \<Longrightarrow> calm me (concat (map sendCode ss) @ ops)" for ss
    by (induction ss) (simp_all add: calm_sendCode)
  then show "calm me ops \<Longrightarrow> calm me (newSends n n' @ ops)" by (simp add: newSends_def)
qed

lemma keeps_seq_ret: "keeps P act \<Longrightarrow> keeps P (mseq act (ret ()))"
  by (intro keeps_mseq keeps_ret)

lemma user_keeps_id: "user_action act \<Longrightarrow> keeps_id me act"
  by (induction rule: user_action.induct)
    (simp_all add: keeps_seq_ret managerSendMessage_def managerSendPrivateMessage_def managerJoinChannel_def managerLeaveChannel_def
      local_id.keeps_sends local_id.keeps_leaveChannel keeps_changeNickname)

lemma calm_one: "keeps_id me act \<Longrightarrow> calm me [RunService act]"
  by (intro calm_run calm_nil)

lemma begins_calm:
  assumes "begins s t code" "lrReaders s = {}"
  shows "calm me code"
  using assms
proof cases
  case (begin_scan env dev fd connects)
  then show ?thesis
    unfolding scanCode_def by (auto intro!: calm_find calm_nil calm_connect)
qed (use assms(2) in \<open>auto simp: acceptCode_def countCode_def stopCode_def intro!: calm_one calm_connect calm_nil calm_section calm_count
    local_id.keeps_serviceCall user_keeps_id simp del: serviceCall.simps\<close>)

lemma connected_silent: "onPeerConnected dev n = (Inr (), n') \<Longrightarrow> newSends n n' = [] \<and> nData n' = nData n"
  by (auto simp: onPeerConnected_def peerConnected_def emit_def newSends_def)

lemma one_send_locks: "nSent n' = nSent n @ [dp] \<Longrightarrow> \<exists>ops. newSends n n' = Lock # ops"
  by (cases dp; cases "fst dp") (simp_all add: newSends_def sendCode_def)

lemma discovered_locks:
  assumes "dPeerID (nData n) = toHex sid" "envBluetooth env"
  shows "\<exists>n' ops. onPeripheralDiscovered env True dev n = (Inr (), n') \<and> newSends n n' = Lock # ops \<and> nData n' = nData n"
proof -
  obtain dp where "onPeripheralDiscovered env True dev n = (Inr (), n\<lparr>nSent := nSent n @ [dp]\<rparr>)"
    using assms by (simp add: onPeripheralDiscovered_def sendVersionHello_def createVersionHelloPacket_def ownPacket_def
        localSenderID_def action_defs)
  with one_send_locks [of "n\<lparr>nSent := nSent n @ [dp]\<rparr>" n dp] show ?thesis by simp
qed

text \<open>One step of a thread that does not hold the mutex, and of the one that does.\<close>

lemma calm_step:
  assumes "calm me (op # ops)"
  shows "op = Lock \<or> (\<exists>act. op = RunService act \<and> keeps_id me act \<and> calm me ops)"
  using assms by (cases rule: calm.cases) (auto simp: connectCode_def)

lemma calm_locks:
  assumes "calm me (Lock # ops)"
  shows "holding me ops False"
  using assms
proof cases
  case (calm_connect env dev fd)
  then show ?thesis using hold_add [OF calm_connect(2), of me dev fd] by (simp add: connectCode_def)
qed (auto intro: holding.intros)

lemma muted_running:
  assumes "muted me s" "\<not> lrEnded s" "lrCode s t = op # ops"
  shows "lrOwner s \<noteq> Some t \<and> calm me (op # ops)
    \<or> lrOwner s = Some t \<and> (\<exists>listed. holding me (op # ops) listed \<and> (listed \<or> lrSockets s = Map.empty))"
  using assms unfolding muted_def by metis

text \<open>The state after a step, when the thread goes on with \<open>code\<close> and the others keep theirs.\<close>

lemma muted_calm:
  assumes "muted me s" "\<not> lrEnded s" "lrOwner s \<noteq> Some t" "calm me code" "dPeerID (nData n) = me"
  shows "muted me (proceed t code (s\<lparr>lrNode := n, lrEnded := e\<rparr>))"
  using assms by (auto simp: muted_def)

lemma muted_holding:
  assumes "muted me s" "\<not> lrEnded s" "lrOwner s = Some t" "holding me code listed" "listed \<or> sk = Map.empty" "dPeerID (nData n) = me"
  shows "muted me (proceed t code (s\<lparr>lrNode := n, lrSockets := sk\<rparr>))"
  using assms by (auto simp: muted_def)

lemma holding_cases:
  assumes "holding me (op # ops) listed"
  shows "op = Lock \<and> listed
    \<or> (\<exists>ops'. op = Unlock \<and> ops' = ops \<and> calm me ops' \<and> \<not> listed)
    \<or> (\<exists>ops'. short_op op \<and> ops = Unlock # ops' \<and> calm me ops' \<and> \<not> listed)
    \<or> (\<exists>dev code ops'. op = FindSocket dev code \<and> ops = Unlock # ops' \<and> calm me ops' \<and> calm me (ops' @ code) \<and> \<not> listed)
    \<or> (\<exists>env dev fd. envBluetooth env \<and> op = AddSocket dev fd \<and> ops = drop 2 (connectCode env dev fd) \<and> \<not> listed)
    \<or> (\<exists>env dev fd. envBluetooth env \<and> op = RunService (onPeerConnected dev) \<and> ops = drop 3 (connectCode env dev fd) \<and> listed)
    \<or> (\<exists>env dev. envBluetooth env \<and> op = RunService (onPeripheralDiscovered env True dev) \<and> listed)"
  using assms
proof cases
  case (hold_add env dev fd)
  then show ?thesis by (auto simp: connectCode_def)
next
  case (hold_connected env dev fd)
  then show ?thesis by (auto simp: connectCode_def)
next
  case (hold_discovered env dev fd)
  then show ?thesis by (auto simp: connectCode_def)
qed auto

lemma muted_service:
  assumes "muted (toHex sid) s" "\<not> lrEnded s" "lrCode s t = RunService act # ops" "act (lrNode s) = (r, n)"
  shows "muted (toHex sid) (proceed t (newSends (lrNode s) n @ ops) (s\<lparr>lrNode := n, lrEnded := r \<noteq> Inr () \<and> e\<rparr>))"
  using muted_running [OF assms(1-3)]
proof
  assume calm: "lrOwner s \<noteq> Some t \<and> calm (toHex sid) (RunService act # ops)"
  have id: "dPeerID (nData (lrNode s)) = toHex sid" using assms(1) by (simp add: muted_def)
  from calm have "keeps_id (toHex sid) act" "calm (toHex sid) ops" using calm_step by auto
  moreover from this have "dPeerID (nData n) = toHex sid" using keepsD [of _ act "lrNode s"] id assms(4) by simp
  ultimately show ?thesis using calm assms(1,2) by (intro muted_calm calm_sends) simp_all
next
  assume hold: "lrOwner s = Some t
    \<and> (\<exists>listed. holding (toHex sid) (RunService act # ops) listed \<and> (listed \<or> lrSockets s = Map.empty))"
  have id: "dPeerID (nData (lrNode s)) = toHex sid" using assms(1) by (simp add: muted_def)
  obtain listed where "holding (toHex sid) (RunService act # ops) listed" using hold by blast
  from holding_cases [OF this] consider
      (connected) env dev fd where "envBluetooth env" "act = onPeerConnected dev" "ops = drop 3 (connectCode env dev fd)"
    | (discovered) env dev where "envBluetooth env" "act = onPeripheralDiscovered env True dev"
    by auto
  then have "r = Inr () \<and> nData n = nData (lrNode s) \<and> holding (toHex sid) (newSends (lrNode s) n @ ops) True"
  proof cases
    case connected
    then have "r = Inr ()" using assms(4) by (simp add: onPeerConnected_def peerConnected_def emit_def)
    with connected connected_silent [of dev "lrNode s" n] assms(4) hold_discovered [OF connected(1)] show ?thesis by simp
  next
    case discovered
    with discovered_locks [OF id, of env dev] assms(4) show ?thesis by (auto intro: hold_blocked)
  qed
  moreover have "muted (toHex sid) (proceed t (newSends (lrNode s) n @ ops) (s\<lparr>lrNode := n, lrSockets := lrSockets s\<rparr>))"
    using calculation hold assms(1,2) id by (intro muted_holding) auto
  ultimately show ?thesis using assms(2) by (cases s) simp
qed

lemma muted_holder:
  assumes "muted me s" "\<not> lrEnded s" "lrCode s t = op # ops" "op \<noteq> Lock" "\<And>act. op \<noteq> RunService act"
  shows "lrOwner s = Some t" "\<exists>listed. holding me (op # ops) listed \<and> (listed \<or> lrSockets s = Map.empty)"
  using muted_running [OF assms(1-3)] calm_step [of me op ops] assms(4,5) by blast+

lemma muted_short:
  assumes "muted me s" "\<not> lrEnded s" "lrCode s t = op # ops" "short_op op"
  shows "lrOwner s = Some t \<and> holding me ops False \<and> lrSockets s = Map.empty"
proof -
  have ne: "op \<noteq> Lock" "op \<noteq> RunService act" for act using assms(4) by auto
  note h = muted_holder [OF assms(1-3) ne]
  obtain listed where l: "holding me (op # ops) listed" "listed \<or> lrSockets s = Map.empty" using h(2) by blast
  from holding_cases [OF l(1)] assms(4) l(2) h(1) show ?thesis by (auto intro: hold_unlock)
qed

lemma muted_find:
  assumes "muted me s" "\<not> lrEnded s" "lrCode s t = FindSocket dev code # ops"
  shows "lrOwner s = Some t \<and> holding me ops False \<and> holding me (ops @ code) False \<and> lrSockets s = Map.empty"
proof -
  note h = muted_holder [OF assms]
  obtain listed where l: "holding me (FindSocket dev code # ops) listed" "listed \<or> lrSockets s = Map.empty" using h(2) by auto
  from holding_cases [OF l(1)] l(2) h(1) show ?thesis by (auto intro: hold_unlock)
qed

lemma muted_add:
  assumes "muted me s" "\<not> lrEnded s" "lrCode s t = AddSocket dev fd # ops"
  shows "lrOwner s = Some t \<and> holding me ops True"
proof -
  note h = muted_holder [OF assms]
  obtain listed where l: "holding me (AddSocket dev fd # ops) listed" using h(2) by auto
  from holding_cases [OF l] h(1) show ?thesis by (auto intro: hold_connected)
qed

lemma muted_step:
  assumes "linux_step lz s s'" "muted (toHex sid) s"
  shows "muted (toHex sid) s'"
  using assms(1)
proof cases
  case (step_begin t code)
  have "\<not> holding (toHex sid) [] listed" for listed by (auto elim: holding.cases simp: connectCode_def)
  with assms(2) step_begin have "lrOwner s \<noteq> Some t" unfolding muted_def by metis
  moreover have "calm (toHex sid) code" using begins_calm [OF step_begin(4)] assms(2) by (simp add: muted_def)
  ultimately show ?thesis using assms(2) step_begin(1,2) by (auto simp: muted_def)
next
  case (step_lock t ops)
  then show ?thesis using assms(2) calm_locks [of "toHex sid" ops] muted_running [OF assms(2) step_lock(2,3)]
    by (auto simp: muted_def)
next
  case (step_service t act ops n)
  then show ?thesis using muted_service [OF assms(2) step_service(2-4), of False] by (cases s) simp
next
  case (step_throw t act ops e n)
  then show ?thesis using muted_service [OF assms(2) step_throw(2-4), of "\<not> catches t e"] by simp
next
  case (step_unlock t ops)
  note h = muted_running [OF assms(2) step_unlock(2,3)]
  then show ?thesis using step_unlock assms(2) calm_step holding_cases by (fastforce simp: muted_def)
next
  case (step_find t dev code ops)
  then show ?thesis using assms(2) muted_find [OF assms(2) step_find(2,3)] by (auto simp: muted_def)
next
  case (step_add t dev fd ops)
  then show ?thesis using assms(2) muted_add [OF assms(2) step_add(2,3)] by (auto simp: muted_def)
next
  case (step_erase t dev fd ops)
  then show ?thesis using assms(2) muted_short [OF assms(2) step_erase(2,3)] by (auto simp: muted_def)
next
  case (step_clear t ops)
  then show ?thesis using assms(2) muted_short [OF assms(2) step_clear(2,3)] by (auto simp: muted_def)
next
  case (step_send_all t p ops entries rng writes)
  then have "entries = []" using muted_short [OF assms(2) step_send_all(2,3)] by (cases entries) auto
  then show ?thesis using step_send_all assms(2) muted_short [OF assms(2) step_send_all(2,3)]
    by (auto simp: muted_def linuxSendPacket_def)
next
  case (step_send_to t dev p ops rng writes)
  then show ?thesis using assms(2) muted_short [OF assms(2) step_send_to(2,3)]
    by (auto simp: muted_def linuxSendPacketToPeer_def)
next
  case (step_reader t dev fd ops)
  obtain listed where "holding (toHex sid) (StartReader dev fd # ops) listed"
    using muted_holder(2) [OF assms(2) step_reader(2,3)] by auto
  from holding_cases [OF this] show ?thesis by simp
qed

lemma muted_start: "dPeerID (nData n) = me \<Longrightarrow> muted me (startRun n)"
  by (auto simp: muted_def startRun_def intro: calm_nil)

lemma muted_run: "(linux_step lz)\<^sup>*\<^sup>* s s' \<Longrightarrow> muted (toHex sid) s \<Longrightarrow> muted (toHex sid) s'"
  by (induction rule: rtranclp_induct) (auto dest: muted_step)

text \<open>Once a socket is listed, the mutex keeps its owner.\<close>

lemma listed_step:
  assumes "linux_step lz s s'" "muted (toHex sid) s" "lrSockets s \<noteq> Map.empty"
  shows "lrSockets s' \<noteq> Map.empty \<and> lrOwner s' = lrOwner s"
  using assms(1)
proof cases
  case (step_unlock t ops)
  note h = muted_holder [OF assms(2) step_unlock(2,3)]
  obtain listed where "holding (toHex sid) (Unlock # ops) listed" "listed" using h(2) assms(3) by auto
  from holding_cases [OF this(1)] this(2) show ?thesis by simp
next
  case (step_erase t dev fd ops)
  then show ?thesis using assms(3) muted_short [OF assms(2) step_erase(2,3)] by simp
next
  case (step_clear t ops)
  then show ?thesis using assms(3) muted_short [OF assms(2) step_clear(2,3)] by simp
qed (use assms(2,3) in \<open>auto simp: muted_def\<close>)

lemma listed_run:
  "(linux_step lz)\<^sup>*\<^sup>* s s' \<Longrightarrow> muted (toHex sid) s \<Longrightarrow> lrSockets s \<noteq> Map.empty \<Longrightarrow> lrSockets s' \<noteq> Map.empty \<and> lrOwner s' = lrOwner s"
proof (induction rule: rtranclp_induct)
  case (step s1 s2)
  with listed_step [OF step(2) muted_run [OF step(1) step(4)]] show ?case by simp
qed simp

text \<open>A client is accepted.\<close>

definition acceptedRun :: linux_run where
  "acceptedRun = (startRun sampleNode)\<lparr>lrOwner := Some AcceptThread, lrSockets := [''00:11:22:33:44:55'' \<mapsto> 7],
     lrCode := (\<lambda>_. [])(AcceptThread := drop 2 (connectCode sampleEnv ''00:11:22:33:44:55'' 7))\<rparr>"

lemma accepted_reachable: "(linux_step lz)\<^sup>*\<^sup>* (startRun sampleNode) acceptedRun"
proof -
  let ?c = "connectCode sampleEnv ''00:11:22:33:44:55'' 7" and ?s = "startRun sampleNode"
  let ?s1 = "proceed AcceptThread ?c ?s"
  let ?s2 = "proceed AcceptThread (drop 1 ?c) (?s1\<lparr>lrOwner := Some AcceptThread\<rparr>)"
  have "begins ?s AcceptThread ?c"
    using begin_accept [of sampleEnv ?s "''00:11:22:33:44:55''" 7] by (simp add: acceptCode_def sampleEnv_def)
  then have "linux_step lz ?s ?s1" by (intro step_begin) (simp_all add: startRun_def)
  moreover have "linux_step lz ?s1 ?s2" by (rule step_lock) (simp_all add: startRun_def connectCode_def)
  moreover have "linux_step lz ?s2 (proceed AcceptThread (drop 2 ?c) (?s2\<lparr>lrSockets := (lrSockets ?s2)(''00:11:22:33:44:55'' \<mapsto> 7)\<rparr>))"
    by (rule step_add) (simp_all add: startRun_def connectCode_def)
  moreover have "proceed AcceptThread (drop 2 ?c) (?s2\<lparr>lrSockets := (lrSockets ?s2)(''00:11:22:33:44:55'' \<mapsto> 7)\<rparr>) = acceptedRun"
    by (simp add: acceptedRun_def startRun_def)
  ultimately have "linux_step lz ?s ?s1" "linux_step lz ?s1 ?s2" "linux_step lz ?s2 acceptedRun" by simp_all
  then show ?thesis by (meson converse_rtranclp_into_rtranclp r_into_rtranclp)
qed

section \<open>Properties\<close>

text \<open>
  C15: the Linux interface exchanges nothing.  In every interleaving of the threads of a node with a well-formed identifier, whatever is
  typed, found, accepted and announced, no byte is ever written to a socket and no reader is ever started: while no device
  is connected there is nobody to write to, and the thread that connects the first one greets it while it holds
  \<open>socketsMutex\<close>, so that the mutex has the same owner ever after.
\<close>

theorem linux_never_transmits:
  assumes "dPeerID (nData n) = toHex sid" "(linux_step lz)\<^sup>*\<^sup>* (startRun n) s"
  shows "lrWritten s = [] \<and> lrReaders s = {}
    \<and> (lrSockets s \<noteq> Map.empty \<longrightarrow> (\<exists>t. \<forall>s'. (linux_step lz)\<^sup>*\<^sup>* s s' \<longrightarrow> lrOwner s' = Some t))"
proof -
  have m: "muted (toHex sid) s" by (rule muted_run [OF assms(2) muted_start [OF assms(1)]])
  then have "lrWritten s = [] \<and> lrReaders s = {}" by (simp add: muted_def)
  moreover have "\<exists>t. \<forall>s'. (linux_step lz)\<^sup>*\<^sup>* s s' \<longrightarrow> lrOwner s' = Some t" if listed: "lrSockets s \<noteq> Map.empty"
  proof -
    obtain t where "lrOwner s = Some t" using m listed unfolding muted_def by blast
    with listed_run [OF _ m listed] show ?thesis by (intro exI [of _ t]) simp
  qed
  ultimately show ?thesis by blast
qed

theorem linux_never_transmits_witness:
  "(linux_step single_run_codec)\<^sup>*\<^sup>* (startRun sampleNode) acceptedRun \<and> lrWritten acceptedRun = [] \<and> lrReaders acceptedRun = {}
   \<and> (\<exists>t. \<forall>s'. (linux_step single_run_codec)\<^sup>*\<^sup>* acceptedRun s' \<longrightarrow> lrOwner s' = Some t)"
proof -
  have id: "dPeerID (nData sampleNode) = toHex [1, 2, 3, 4, 5, 6, 7, 8]"
    by (simp only: sampleNode_def setPeerID_def) simp
  have listed: "lrSockets acceptedRun \<noteq> Map.empty" by (simp add: acceptedRun_def)
  note run = accepted_reachable [of single_run_codec]
  from linux_never_transmits [OF id run] listed run show ?thesis by blast
qed

end
