(* ===== verification/Peer_Directory.thy ===== *)
theory Peer_Directory
  imports Bluetooth_Interface "HOL-Library.Multiset"
begin

text \<open>
  What a node knows of its peers, as an abstract machine: a map from identifiers to peers and the set of the packets seen.  A received packet
  is one step of the machine, which reads and writes the entry of its sender only.  The handlers of
  \<open>MessageService\<close> refine it, so what a node knows does not depend on how the packets of different senders interleave on their way
  to it.
\<close>

section \<open>The machine\<close>

type_synonym directory = "(string \<Rightarrow> BitchatPeer option) \<times> string set"

type_synonym received = "env \<times> BitchatPacket \<times> string"

definition directory_of :: "node \<Rightarrow> directory" where
  "directory_of n = (getPeerInfo (nData n), dProcessedMessages (nData n))"

definition hello_of :: "env \<Rightarrow> BitchatPacket \<Rightarrow> VersionHello option" where
  "hello_of env p = (if pPayload p = [] then None
     else parseVersionHelloPayload (pPayload p) \<lparr>vhSupportedVersions = [],
       vhPreferredVersion = envUninitByte env, vhClientVersion = [], vhPlatform = [], vhCapabilities = []\<rparr>)"

definition ack_of :: "env \<Rightarrow> BitchatPacket \<Rightarrow> VersionAck option" where
  "ack_of env p = (if pPayload p = [] then None
     else parseVersionAckPayload (pPayload p) \<lparr>vaAgreedVersion = envUninitByte env, vaServerVersion = [], vaPlatform = [],
       vaRejected = envUninitBool env, vaReason = []\<rparr>)"

definition announced :: "env \<Rightarrow> BitchatPacket \<Rightarrow> string \<Rightarrow> BitchatPeer option \<Rightarrow> BitchatPeer" where
  "announced env p periph entry = (case entry of
     Some q \<Rightarrow> q\<lparr>peerLastSeen := envSeconds env, peripheralID := (if periph \<noteq> [] then periph else peripheralID q)\<rparr>
   | None \<Rightarrow> (newPeer (envSeconds env) (sender p) (parseAnnouncePayload (pPayload p)))\<lparr>peripheralID := periph, peerHasAnnounced := True\<rparr>)"

text \<open>The entry of the sender after a packet, given the entry before.\<close>

definition entry_after :: "received \<Rightarrow> BitchatPeer option \<Rightarrow> BitchatPeer option" where
  "entry_after = (\<lambda>(env, p, periph) entry.
     if pType p = PKT_TYPE_ANNOUNCE then Some (announced env p periph entry)
     else if pType p = PKT_TYPE_LEAVE then None
     else if pType p = PKT_TYPE_VERSION_HELLO then (case hello_of env p of
         Some h \<Rightarrow> if entry = None \<and> negotiateVersion (vhSupportedVersions h) getSupportedVersions > 0
           then Some (newPeer (envSeconds env) (sender p) (vhClientVersion h)) else entry
       | None \<Rightarrow> entry)
     else if pType p = PKT_TYPE_VERSION_ACK then (case ack_of env p of
         Some a \<Rightarrow> if vaRejected a then None else entry | None \<Rightarrow> entry)
     else if pType p = PKT_TYPE_CHANNEL_ANNOUNCE then (case parseChannelAnnouncePayload (pPayload p) ([], envUninitBool env) of
         Some (channel, joining) \<Rightarrow> map_option (\<lambda>q. q\<lparr>peerChannel := (if joining then channel else [])\<rparr>) entry
       | None \<Rightarrow> entry)
     else entry)"

definition receive :: "received \<Rightarrow> directory \<Rightarrow> directory" where
  "receive = (\<lambda>(env, p, periph) (peers, seen).
     if \<not> isValid p \<or> packetKey p \<in> seen then (peers, seen)
     else (peers(sender p := entry_after (env, p, periph) (peers (sender p))), insert (packetKey p) seen))"

abbreviation author :: "received \<Rightarrow> string" where
  "author e \<equiv> sender (fst (snd e))"

section \<open>Lemmas\<close>

text \<open>Handlers that leave the peers alone.\<close>

lemma peers_silent:
  "keeps (\<lambda>n. getPeerInfo (nData n) = f) (modify (addMessageToHistory m c))" "keeps (\<lambda>n. getPeerInfo (nData n) = f) (emit ev)"
  "keeps (\<lambda>n. getPeerInfo (nData n) = f) (withNoise g)" "keeps (\<lambda>n. getPeerInfo (nData n) = f) (transmit env d q)"
  "keeps (\<lambda>n. getPeerInfo (nData n) = f) (btSend env d q)"
  by (auto simp: keeps_def modify_def emit_def withNoise_def transmit_def btSend_def getPeerInfo_def addMessageToHistory_def Let_def fun_eq_iff
      split: option.split sum.split)

lemma peers_sends: "keeps (\<lambda>n. getPeerInfo (nData n) = f) (sendVersionAck env ack pid)"
  "keeps (\<lambda>n. getPeerInfo (nData n) = f) (sendNoise env type payload)"
  unfolding sendVersionAck_def sendNoise_def ownPacket_def localSenderID_def by (intro hex_intro peers_silent)+

lemma peers_message: "keeps (\<lambda>n. getPeerInfo (nData n) = f) (processMessagePacket packet)"
  unfolding processMessagePacket_def by (intro hex_intro peers_silent)

lemma peers_noise:
  "keeps (\<lambda>n. getPeerInfo (nData n) = f) (processNoiseHandshakeInitPacket env packet)"
  "keeps (\<lambda>n. getPeerInfo (nData n) = f) (processNoiseHandshakeRespPacket env packet)"
  "keeps (\<lambda>n. getPeerInfo (nData n) = f) (processNoiseEncryptedPacket env packet)"
  "keeps (\<lambda>n. getPeerInfo (nData n) = f) (processNoiseIdentityAnnouncePacket env packet)"
  unfolding processNoiseHandshakeInitPacket_def processNoiseHandshakeRespPacket_def processNoiseEncryptedPacket_def
    processNoiseIdentityAnnouncePacket_def noiseGuard_def
  by (intro hex_intro peers_silent peers_sends peers_message)+

lemma peers_relay: "keeps (\<lambda>n. nData n = d) (relayPacket env p)"
proof -
  have "keeps (\<lambda>n. nData n = d) (btSend env x q)" for x q by (simp add: keeps_def btSend_def)
  then have "keeps (\<lambda>n. nData n = d) (relayTo env r s ps)" for r s ps by (induction ps) (auto intro!: keeps_intro)
  then show ?thesis unfolding relayPacket_def by (intro keeps_intro keeps_let)
qed

text \<open>The handlers that change the entry of the sender.\<close>

lemma peers_announce:
  "getPeerInfo (nData (snd (processAnnouncePacket env p periph n))) =
    (getPeerInfo (nData n))(sender p := Some (announced env p periph (getPeerInfo (nData n) (sender p))))"
proof (cases "getPeerInfo (nData n) (sender p)")
  case None
  then show ?thesis
    by (simp add: fun_eq_iff processAnnouncePacket_def announced_def action_defs Let_def peers.lookup_put newPeer_def updateLastSeen_def)
next
  case (Some q)
  with getPeerInfo_key [OF Some] show ?thesis
    by (simp add: fun_eq_iff processAnnouncePacket_def announced_def action_defs Let_def peer_updates.lookup_put updateLastSeen_def)
qed

lemma peers_leave: "getPeerInfo (nData (snd (processLeavePacket p n))) = (getPeerInfo (nData n))(sender p := None)"
  by (auto simp: fun_eq_iff processLeavePacket_def action_defs peers.lookup_del split: option.split)

lemma peers_channel:
  "getPeerInfo (nData (snd (processChannelAnnouncePacket env p n))) = (getPeerInfo (nData n))(sender p :=
     (case parseChannelAnnouncePayload (pPayload p) ([], envUninitBool env) of
        Some (channel, joining) \<Rightarrow> map_option (\<lambda>q. q\<lparr>peerChannel := (if joining then channel else [])\<rparr>) (getPeerInfo (nData n) (sender p))
      | None \<Rightarrow> getPeerInfo (nData n) (sender p)))"
proof (cases "getPeerInfo (nData n) (sender p)")
  case None
  then show ?thesis
    by (auto simp: fun_eq_iff processChannelAnnouncePacket_def action_defs of_opt_def split: option.split prod.split)
next
  case (Some q)
  with getPeerInfo_key [OF Some] show ?thesis
    by (auto simp: fun_eq_iff processChannelAnnouncePacket_def action_defs of_opt_def peer_updates.lookup_put split: option.split prod.split)
qed

lemma peers_ack:
  "getPeerInfo (nData (snd (processVersionAckPacket env p n))) = (getPeerInfo (nData n))(sender p :=
     (case ack_of env p of Some a \<Rightarrow> if vaRejected a then None else getPeerInfo (nData n) (sender p)
      | None \<Rightarrow> getPeerInfo (nData n) (sender p)))"
  by (auto simp: fun_eq_iff processVersionAckPacket_def handleVersionAck_def ack_of_def action_defs of_opt_def Let_def peers.lookup_del
      split: option.split)

lemma sendVersionAck_returns:
  "dPeerID (nData n) = toHex me \<Longrightarrow> \<exists>n'. sendVersionAck env ack (toHex sid) n = (Inr (), n') \<and> nData n' = nData n"
  by (simp add: sendVersionAck_def ownPacket_def localSenderID_def action_defs Let_def)

lemma peers_hello:
  assumes "dPeerID (nData n) = toHex me"
  shows "getPeerInfo (nData (snd (processVersionHelloPacket env p n))) = (getPeerInfo (nData n))(sender p :=
     (case hello_of env p of
        Some h \<Rightarrow> if getPeerInfo (nData n) (sender p) = None \<and> negotiateVersion (vhSupportedVersions h) getSupportedVersions > 0
          then Some (newPeer (envSeconds env) (sender p) (vhClientVersion h)) else getPeerInfo (nData n) (sender p)
      | None \<Rightarrow> getPeerInfo (nData n) (sender p)))"
proof (cases "hello_of env p")
  case None
  then show ?thesis
    by (auto simp: processVersionHelloPacket_def handleVersionHello_def hello_of_def action_defs of_opt_def split: if_splits)
next
  case (Some h)
  have ne: "pPayload p \<noteq> []" using Some by (auto simp: hello_of_def)
  have h: "processVersionHelloPacket env p n = (if negotiateVersion (vhSupportedVersions h) getSupportedVersions > 0
      then mseq (sendVersionAck env \<lparr>vaAgreedVersion = negotiateVersion (vhSupportedVersions h) getSupportedVersions,
          vaServerVersion = CLIENT_VERSION, vaPlatform = PLATFORM, vaRejected = False, vaReason = []\<rparr> (sender p))
        (mbind (asks (\<lambda>d. getPeerInfo d (sender p))) (\<lambda>peerInfo.
           if peerInfo = None then modify (addPeer (newPeer (envSeconds env) (sender p) (vhClientVersion h))) else ret ())) n
      else sendVersionAck env \<lparr>vaAgreedVersion = 0, vaServerVersion = CLIENT_VERSION, vaPlatform = PLATFORM, vaRejected = True,
          vaReason = ''No compatible protocol version. Client supports: '' @ versionList (vhSupportedVersions h)
            @ '', server supports: '' @ versionList getSupportedVersions\<rparr> (sender p) n)"
    using Some ne by (simp add: processVersionHelloPacket_def handleVersionHello_def hello_of_def mbind_def lift_def of_opt_def Let_def)
  have "\<forall>ack. \<exists>n'. sendVersionAck env ack (sender p) n = (Inr (), n') \<and> nData n' = nData n"
    using sendVersionAck_returns [OF assms] by blast
  from choice [OF this] obtain n1 where s: "sendVersionAck env ack (sender p) n = (Inr (), n1 ack)" "nData (n1 ack) = nData n" for ack
    by blast
  show ?thesis
    unfolding h by (auto simp: Some s mseq_def mbind_def asks_def modify_def ret_def peers.lookup_put newPeer_def updateLastSeen_def fun_eq_iff)
qed

lemma routed_peers:
  assumes "dPeerID (nData n) = toHex me"
  shows "getPeerInfo (nData (snd (routePacket env p periph n))) =
    (getPeerInfo (nData n))(sender p := entry_after (env, p, periph) (getPeerInfo (nData n) (sender p)))"
proof -
  have silent: "keeps (\<lambda>m. getPeerInfo (nData m) = getPeerInfo (nData n)) act \<Longrightarrow> getPeerInfo (nData (snd (act n))) = getPeerInfo (nData n)"
    for act :: "unit action" by (rule keepsD) simp_all
  note quiet = silent [OF peers_message] silent [OF peers_noise(1)] silent [OF peers_noise(2)] silent [OF peers_noise(3)]
    silent [OF peers_noise(4)]
  show ?thesis
    by (simp add: routePacket_def entry_after_def peers_announce peers_leave peers_channel peers_ack peers_hello [OF assms] quiet
        ret_def Let_def)
qed

lemma processed_directory:
  assumes "data_inv (nData n)" "dPeerID (nData n) = toHex me" "card (dProcessedMessages (nData n)) < 1000"
  shows "directory_of (snd (processPacket env p periph n)) = receive (env, p, periph) (directory_of n)"
proof (cases "isValid p \<and> \<not> wasMessageProcessed (nData n) (packetKey p)")
  case True
  let ?n = "n\<lparr>nData := markMessageProcessed (packetKey p) (nData n)\<rparr>"
  have "finite (dProcessedMessages (nData n))" using assms(1) by (simp add: data_inv_def)
  then have seen: "dProcessedMessages (nData ?n) = insert (packetKey p) (dProcessedMessages (nData n))"
    using assms(3) by (simp add: markMessageProcessed_def Let_def card_insert_if)
  have run: "processPacket env p periph n = routePacket env p periph ?n" using True by (intro processPacket_fresh) simp_all
  have "dProcessedMessages (nData (snd (routePacket env p periph ?n))) = dProcessedMessages (nData ?n)"
    using keepsD [OF proc.keeps_routePacket refl] .
  moreover have "getPeerInfo (nData (snd (routePacket env p periph ?n))) =
      (getPeerInfo (nData n))(sender p := entry_after (env, p, periph) (getPeerInfo (nData n) (sender p)))"
    using routed_peers [of ?n me env p periph] assms(2) by simp
  ultimately show ?thesis
    using True seen by (simp add: run directory_of_def receive_def wasMessageProcessed_def)
next
  case False
  then have "processPacket env p periph n = (Inr (), n)"
    by (cases "isValid p") (simp_all add: processPacket_seen, simp add: processPacket_def ret_def)
  with False show ?thesis by (auto simp: directory_of_def receive_def wasMessageProcessed_def)
qed

lemma received_store: "nData (snd (onPacketReceived env p periph n)) = nData (snd (processPacket env p periph n))"
proof (cases "processPacket env p periph n")
  case (Pair r m)
  have "nData (snd (relayPacket env p m)) = nData m" using keepsD [OF peers_relay [of "nData m" env p], of m] by simp
  with Pair show ?thesis by (auto simp: onPacketReceived_def mseq_def mbind_def ret_def split: sum.split)
qed

text \<open>The invariant under which the machine is refined, for a number of packets to come.\<close>

definition listening :: "bytes \<Rightarrow> string \<Rightarrow> nat \<Rightarrow> node \<Rightarrow> bool" where
  "listening key me k n \<longleftrightarrow> node_inv key n \<and> dPeerID (nData n) = me \<and> card (dProcessedMessages (nData n)) + k \<le> 1000"

lemma received_directory:
  assumes "listening key (toHex me) (Suc k) n"
  shows "directory_of (snd (onPacketReceived env p periph n)) = receive (env, p, periph) (directory_of n)
    \<and> listening key (toHex me) k (snd (onPacketReceived env p periph n))"
proof -
  let ?m = "snd (processPacket env p periph n)"
  have m: "directory_of ?m = receive (env, p, periph) (directory_of n)"
    using processed_directory [of n me] assms by (simp add: listening_def node_inv_def)
  have "dProcessedMessages (nData ?m) \<subseteq> insert (packetKey p) (dProcessedMessages (nData n))"
    using arg_cong [OF m, of snd] by (auto simp: directory_of_def receive_def split: if_splits)
  moreover have fin: "finite (dProcessedMessages (nData n))" using assms by (simp add: listening_def node_inv_def data_inv_def)
  ultimately have "card (dProcessedMessages (nData ?m)) \<le> Suc (card (dProcessedMessages (nData n)))"
    by (metis card_insert_le_m1 card_mono card_insert_if finite_insert le_Suc_eq)
  moreover have "node_inv key ?m" using keepsD [OF inv.keeps_processPacket] assms by (simp add: listening_def)
  moreover have "dPeerID (nData ?m) = toHex me"
    using keepsD [OF ident.keeps_processPacket [of n env p periph], of n] assms by (simp add: same_identity_def listening_def)
  ultimately have "listening key (toHex me) k ?m" using assms by (simp add: listening_def)
  moreover have "node_inv key (snd (onPacketReceived env p periph n))"
    using keepsD [OF inv.keeps_onPacketReceived] assms by (simp add: listening_def)
  ultimately show ?thesis using m by (simp add: directory_of_def listening_def received_store)
qed

lemma directory_run:
  "listening key (toHex me) (length evs) n \<Longrightarrow> directory_of (receivedAll evs n) = fold receive evs (directory_of n)"
proof (induction evs arbitrary: n)
  case (Cons e evs)
  obtain env p periph where e: "e = (env, p, periph)" by (rule prod_cases3 [of e])
  note r = received_directory [of key me "length evs" n env p periph]
  with Cons.prems e Cons.IH [of "snd (onPacketReceived env p periph n)"] show ?case by (simp add: receivedAll_def)
qed (simp add: receivedAll_def)

text \<open>
  Two states of the machine agree on a sender if they have the same entry for it and have seen the same of its packets.
  Steps of other senders keep that, so a run is, as far as one sender goes, the run of its own packets.
\<close>

definition agree :: "string \<Rightarrow> directory \<Rightarrow> directory \<Rightarrow> bool" where
  "agree k s s' \<longleftrightarrow> fst s k = fst s' k \<and> (\<forall>p. sender p = k \<longrightarrow> (packetKey p \<in> snd s \<longleftrightarrow> packetKey p \<in> snd s'))"

lemma receive_other: "author e \<noteq> k \<Longrightarrow> agree k s s' \<Longrightarrow> agree k (receive e s) s'"
  by (cases s) (auto simp: agree_def receive_def packetKey_eq_iff split: prod.splits)

lemma receive_own: "author e = k \<Longrightarrow> agree k s s' \<Longrightarrow> agree k (receive e s) (receive e s')"
  by (cases s; cases s') (auto simp: agree_def receive_def split: prod.splits)

lemma run_of_sender: "agree k s s' \<Longrightarrow> agree k (fold receive evs s) (fold receive (filter (\<lambda>e. author e = k) evs) s')"
  by (induction evs arbitrary: s s') (simp_all add: receive_own receive_other)

lemma run_seen: "snd (fold receive evs s) = snd s \<union> {packetKey p | env p periph. (env, p, periph) \<in> set evs \<and> isValid p}"
proof (induction evs arbitrary: s)
  case (Cons e evs)
  obtain env p periph where e: "e = (env, p, periph)" by (rule prod_cases3 [of e])
  have "snd (receive e s) = snd s \<union> (if isValid p then {packetKey p} else {})"
    by (cases s) (auto simp: receive_def e)
  with Cons show ?case by (auto simp: e)
qed simp

lemma same_runs_same_packets:
  assumes "\<And>k. filter (\<lambda>e. author e = k) evs = filter (\<lambda>e. author e = k) evs'"
  shows "mset evs = mset evs'"
proof (rule multiset_eqI)
  fix e
  have "count (mset xs) e = count (mset (filter (\<lambda>x. author x = author e) xs)) e" for xs :: "received list"
    by simp
  then show "count (mset evs) e = count (mset evs') e" using assms [of "author e"] by metis
qed

section \<open>Properties\<close>

text \<open>
  C16: the handlers refine the directory.  For any packet, of any type and content, what a node that keeps its invariants, has a well-formed identifier
  and stores fewer than 1000 identifiers of packets knows afterwards
  is what one step of the abstract machine gives: nothing changes for an invalid or a repeated packet; otherwise the packet
  is remembered and the entry of its sender alone is replaced, as a function of that entry.
\<close>

theorem directory_refined:
  assumes "node_inv key n" "dPeerID (nData n) = toHex me" "card (dProcessedMessages (nData n)) < 1000"
  shows "directory_of (snd (onPacketReceived env p periph n)) = receive (env, p, periph) (directory_of n)"
  using received_directory [of key me 0 n env p periph] assms by (simp add: listening_def)

theorem directory_refined_witness:
  "directory_of (snd (onPacketReceived sampleEnv (samplePacket PKT_TYPE_LEAVE) [] sampleNode)) =
     receive (sampleEnv, samplePacket PKT_TYPE_LEAVE, []) (directory_of sampleNode)"
proof (rule directory_refined [OF sampleNode_inv])
  show "dPeerID (nData sampleNode) = toHex [1, 2, 3, 4, 5, 6, 7, 8]" by (simp only: sampleNode_def setPeerID_def) simp
  show "card (dProcessedMessages (nData sampleNode)) < 1000" by (simp add: sampleNode_def setPeerID_def initialData_def)
qed

text \<open>
  C17: the order between senders does not matter.  Two nodes in the same state receive the same packets, each sender's in the same
  order but otherwise interleaved in any way, with the same clock at each packet.  They keep their invariants, have a
  well-formed identifier, and the identifiers of packets they store together with the packets received are at most 1000, so
  that the set of identifiers is never cleared (beyond that the order decides what is remembered).  Then afterwards both know the same
  peers, with the same entries, and have seen the same packets.
\<close>

theorem interleaving_irrelevant:
  assumes "node_inv key n" "dPeerID (nData n) = toHex me" "card (dProcessedMessages (nData n)) + length evs \<le> 1000"
    and "\<And>k. filter (\<lambda>e. author e = k) evs = filter (\<lambda>e. author e = k) evs'"
  shows "getPeerInfo (nData (receivedAll evs n)) = getPeerInfo (nData (receivedAll evs' n))
    \<and> dProcessedMessages (nData (receivedAll evs n)) = dProcessedMessages (nData (receivedAll evs' n))"
proof -
  let ?d = "directory_of n"
  have m: "mset evs = mset evs'" by (rule same_runs_same_packets [OF assms(4)])
  then have l: "listening key (toHex me) (length evs) n" "listening key (toHex me) (length evs') n"
    using assms(1-3) mset_eq_length [OF m] by (simp_all add: listening_def)
  have "fst (fold receive evs ?d) k = fst (fold receive evs' ?d) k" for k
    using run_of_sender [of k ?d ?d evs] run_of_sender [of k ?d ?d evs'] assms(4) [of k] by (simp add: agree_def)
  moreover have "snd (fold receive evs ?d) = snd (fold receive evs' ?d)"
    unfolding run_seen using mset_eq_setD [OF m] by simp
  ultimately have "fold receive evs ?d = fold receive evs' ?d" by (auto intro!: prod_eqI)
  then have "directory_of (receivedAll evs n) = directory_of (receivedAll evs' n)"
    using directory_run [OF l(1)] directory_run [OF l(2)] by simp
  then show ?thesis by (simp add: directory_of_def)
qed

theorem interleaving_irrelevant_witness:
  "let a = (sampleEnv, samplePacket PKT_TYPE_ANNOUNCE, []); b = (sampleEnv, helloFrom [7] 3, [])
   in getPeerInfo (nData (receivedAll [a, b] sampleNode)) = getPeerInfo (nData (receivedAll [b, a] sampleNode))"
proof -
  let ?a = "(sampleEnv, samplePacket PKT_TYPE_ANNOUNCE, []) :: received" and ?b = "(sampleEnv, helloFrom [7] 3, []) :: received"
  have ne: "author ?a \<noteq> author ?b"
    by (simp add: samplePacket_def helloFrom_def newPacket_def defaultPacket_def sampleSender_def)
  have "filter (\<lambda>e. author e = k) [?a, ?b] = filter (\<lambda>e. author e = k) [?b, ?a]" for k using ne by auto
  moreover have "dPeerID (nData sampleNode) = toHex [1, 2, 3, 4, 5, 6, 7, 8]" by (simp only: sampleNode_def setPeerID_def) simp
  moreover have "card (dProcessedMessages (nData sampleNode)) + length [?a, ?b] \<le> 1000"
    by (simp add: sampleNode_def setPeerID_def initialData_def)
  ultimately show ?thesis
    using interleaving_irrelevant [OF sampleNode_inv, of "[1, 2, 3, 4, 5, 6, 7, 8]" "[?a, ?b]" "[?b, ?a]"] by (simp only: Let_def)
qed

end
