(* ===== verification/Esp32_Setup.thy ===== *)
theory Esp32_Setup
  imports Esp32_Relay
begin

text \<open>
  The set-up of the ESP32 relay and the end of a scan (\<open>extras/esp32/sketch/sketch.ino\<close>), as the calls of the BLE library and of
  the board they make, in order.
\<close>

abbreviation ESP_DEVICE_NAME :: string where "ESP_DEVICE_NAME \<equiv> ''bitchat-esp32''"
abbreviation ESP_SERVICE_UUID :: string where "ESP_SERVICE_UUID \<equiv> ''F47B5E2D-4A9E-4C5A-9B3F-8E1D2C3A4B5C''"
abbreviation ESP_CHAR_UUID :: string where "ESP_CHAR_UUID \<equiv> ''A1B2C3D4-E5F6-4A5B-8C9D-0E1F2A3B4C5D''"
abbreviation SCAN_INTERVAL_SEC :: nat where "SCAN_INTERVAL_SEC \<equiv> 10"
abbreviation LED_PIN :: nat where "LED_PIN \<equiv> 2"

datatype esp_property = PropertyWrite | PropertyWriteNR

datatype esp_call = BleInit string | CreateServer | SetServerCallbacks | CreateService string
  | CreateCharacteristic string "esp_property list" | SetCharacteristicCallbacks | AddDescriptor2902 | SetReadWriteAccess
  | StartService | AddServiceUUID string | SetScanResponse bool | EspStartAdvertising | SetScanCallbacks bool | SetActiveScan bool
  | StartScan nat | PinModeOutput nat | DigitalWrite nat bool

definition setupBLE :: "esp_call list" where
  "setupBLE = [BleInit ESP_DEVICE_NAME, CreateServer, SetServerCallbacks, CreateService ESP_SERVICE_UUID,
     CreateCharacteristic ESP_CHAR_UUID [PropertyWrite, PropertyWriteNR], SetCharacteristicCallbacks, AddDescriptor2902,
     SetReadWriteAccess, StartService, AddServiceUUID ESP_SERVICE_UUID, SetScanResponse True, EspStartAdvertising,
     SetScanCallbacks True, SetActiveScan True, StartScan SCAN_INTERVAL_SEC]"

definition espSetup :: "esp_call list" where
  "espSetup = [PinModeOutput LED_PIN, DigitalWrite LED_PIN False] @ setupBLE"

text \<open>At the end of a scan the peers are counted, for the log, and the next scan starts.\<close>

definition registryCount :: "esp \<Rightarrow> nat" where
  "registryCount e = length (ePeers e)"

definition onScanComplete :: "esp \<Rightarrow> nat \<times> esp_call list" where
  "onScanComplete e = (registryCount e, [StartScan SCAN_INTERVAL_SEC])"

text \<open>What a central that connects to the relay finds: its services, and the characteristics with their properties.\<close>

definition espServices :: "string list" where
  "espServices = concat (map (\<lambda>c. case c of CreateService u \<Rightarrow> [u] | _ \<Rightarrow> []) espSetup)"

definition espCharacteristics :: "string list" where
  "espCharacteristics = concat (map (\<lambda>c. case c of CreateCharacteristic u ps \<Rightarrow> [u] | _ \<Rightarrow> []) espSetup)"

lemma esp_offers: "espServices = [ESP_SERVICE_UUID]" "espCharacteristics = [ESP_CHAR_UUID]"
  by (simp_all add: espServices_def espCharacteristics_def espSetup_def setupBLE_def)

end
