(* ===== verification/Esp32_Apple.thy ===== *)
theory Esp32_Apple
  imports Esp32_Setup Esp32_Interop Apple_Bluetooth
begin

text \<open>
  Three programs together: a node on an Apple platform finds the ESP32 relay, writes a chat message to it, the relay writes it to
  another Apple device, and the node there shows it.
\<close>

section \<open>The relay is found\<close>

text \<open>
  The relay offers the service and the characteristic an Apple node looks for.  If the node is well formed and ready, connecting to
  the relay ends with the relay's characteristic at hand, so that what is broadcast next is written to it.
\<close>

lemma hello_sent:
  assumes "dPeerID (nData n) = toHex sid" "envBluetooth env"
  shows "\<exists>n'. onPeripheralDiscovered env True x n = (Inr (), n') \<and> nData n' = nData n \<and> nNoise n' = nNoise n"
  using assms by (simp add: onPeripheralDiscovered_def sendVersionHello_def createVersionHelloPacket_def ownPacket_def
      localSenderID_def action_defs)

lemma runService_state:
  assumes "act (bridged rng cb ab env) n = (r, n')"
  shows "\<exists>cs. runService rng cb env act (ab, n) = (r, ab\<lparr>abCalls := abCalls ab @ cs\<rparr>, n')"
  using assms by (auto simp: runService_def)

lemma relay_is_found:
  assumes "dPeerID (nData n) = toHex sid" "envBluetooth env" "abReady ab" "x \<notin> set (abDiscovered ab)"
  shows "\<exists>ab' n'. appleRun rng [(cb, env, Discovered x), (cb, env, Connected x), (cb, env, ServicesFound x espServices),
      (cb, env, CharacteristicsFound x espCharacteristics)] (ab, n) = (Inr (), ab', n')
    \<and> abReady ab' \<and> x \<in> set (abConnected ab') \<and> x \<in> abCharacteristics ab' \<and> nData n' = nData n \<and> nNoise n' = nNoise n"
proof -
  let ?ab1 = "call (DiscoverServices x) (call (ConnectPeripheral x) (ab\<lparr>abDiscovered := abDiscovered ab @ [x]\<rparr>)
    \<lparr>abConnected := (if x \<in> set (abConnected ab) then abConnected ab else abConnected ab @ [x])\<rparr>)"
  let ?ab2 = "call (SetNotify x) (call (DiscoverCharacteristics x) ?ab1
    \<lparr>abCharacteristics := insert x (abCharacteristics (call (DiscoverCharacteristics x) ?ab1))\<rparr>)"
  let ?n = "n\<lparr>nEvents := nEvents n @ [PeerConnected x]\<rparr>"
  obtain n' where n': "onPeripheralDiscovered (bridged rng cb ?ab2 env) True x ?n = (Inr (), n')"
    "nData n' = nData n" "nNoise n' = nNoise n"
    using hello_sent [of ?n sid "bridged rng cb ?ab2 env" x] assms(1,2) by auto
  have "didConnectPeripheral rng cb env x (call (ConnectPeripheral x) (ab\<lparr>abDiscovered := abDiscovered ab @ [x]\<rparr>), n) = (Inr (), ?ab1, ?n)"
    by (simp add: didConnectPeripheral_def runService_def onPeerConnected_def peerConnected_def emit_def call_def Let_def)
  moreover have "didDiscoverServices x espServices ?ab1 = call (DiscoverCharacteristics x) ?ab1"
    by (simp add: esp_offers SERVICE_UUID_def)
  moreover obtain cs where "runService rng cb env (\<lambda>env. onPeripheralDiscovered env True x) (?ab2, ?n) =
      (Inr (), ?ab2\<lparr>abCalls := abCalls ?ab2 @ cs\<rparr>, n')"
    using runService_state [of "\<lambda>env. onPeripheralDiscovered env True x", OF n'(1)] by blast
  then have "didDiscoverCharacteristics rng cb env x espCharacteristics (call (DiscoverCharacteristics x) ?ab1, ?n) =
      (Inr (), ?ab2\<lparr>abCalls := abCalls ?ab2 @ cs\<rparr>, n')"
    by (simp only: esp_offers CHARACTERISTIC_UUID_def didDiscoverCharacteristics.simps Let_def prod.case sum.case) simp
  ultimately show ?thesis using assms(3,4) n'(2,3) by (auto simp: didDiscoverPeripheral_def call_def)
qed

section \<open>The relay carries a packet\<close>

lemma relay_carries:
  assumes "data = serializePacket lz rng p" "pType p = PKT_TYPE_MESSAGE" "toHex (sha data) \<notin> set (eHistory e)"
    and "addr \<in> set (ePeers e)" "list_all long_enough evs" "list_all (looks_up addr) evs"
    and "length (eQueue e) < length (filter is_loop evs)" "length (eQueue e) + length (filter is_write evs) < 32"
  shows "\<exists>e'. espRun sha (Written b data # evs) e = Inr e' \<and> (addr, data) \<in> set (eWritten e')"
proof -
  let ?e = "e\<lparr>eHistory := remember (toHex (sha data)) (eHistory e), eQueue := eQueue e @ [(toHex (sha data), data)]\<rparr>"
  have d: "22 \<le> length data" "data ! 1 = PKT_TYPE_MESSAGE" using serialized_type [of lz rng p] assms(1,2) by simp_all
  then have "data \<noteq> []" by auto
  then have w: "onWrite sha b data e = Inr ?e"
    using assms(3,8) d by (simp add: onWrite_cases is_version_def espToHex_eq queuePush_def Let_def)
  have "\<exists>e'. espRun sha evs ?e = Inr e' \<and> (addr, data) \<in> set (eWritten e')"
    by (rule queued_is_relayed [of _ "eQueue e" "toHex (sha data)" data "[]"]) (use assms in simp_all)
  with w show ?thesis by (simp add: rbind_def)
qed

section \<open>Properties\<close>

text \<open>
  C18: delivery through the relay.  An Apple node that has a well-formed identifier and no established session, and whose interface is ready, sends a
  chat message with a payload of at most 100 bytes to a relay it is connected to.  Let the packet not be in the history of the relay, and let the relay
  meanwhile be written values of at least 11 bytes only, so few that with its queue they stay below 32, and be advertised
  anything.  If in each iteration of its loop it can look up and write a certain peer, it writes the packet to that peer, unchanged, once it has had more
  iterations than packets queued before.  When CoreBluetooth hands this value over, the Apple node at that peer, if the message is for it and it is not
  the sender and has not seen the packet, shows the message to its user.  Both nodes have their interface set and use the same LZ4, which keeps its contract,
  and the sender's clock and the uuid it draws are not zero and not empty.
\<close>

theorem relayed_chat_delivered:
  assumes lz: "lz4_ok (envLz4 env)" and "envLz4 env' = envLz4 env" "envBluetooth env" "envBluetooth env'"
    and a: "dPeerID (nData a) = toHex sid" "length sid = 8" "no_session env a"
    and m: "m = typedMessage env content channel a" "envUuid env 1 \<noteq> []" "envTime env 1 \<noteq> 0"
      "length (makeMessagePayload (envUuid env 2) m) \<le> 100"
    and link: "abReady ab" "relay \<in> set (abConnected ab)" "relay \<in> abCharacteristics ab" "cb relay"
    and data: "data = serializePacket (envLz4 env) rng (plainPacket env sid m)" "toHex (sha data) \<notin> set (eHistory e)"
    and run: "addr \<in> set (ePeers e)" "list_all long_enough evs" "list_all (looks_up addr) evs"
      "length (eQueue e) < length (filter is_loop evs)" "length (eQueue e) + length (filter is_write evs) < 32"
    and b: "messageIsForUs m (nData b)" "dPeerID (nData b) \<noteq> toHex sid"
      "\<not> wasMessageProcessed (nData b) (toHex sid @ ''_'' @ to_string (unat (envTime env 1)))"
  shows "\<exists>ab1 a1 e1 ab2 b2. runService rng cb env (\<lambda>env. sendMessage env content channel) (ab, a) = (Inr True, ab1, a1)
    \<and> WriteValue relay data \<in> set (abCalls ab1)
    \<and> espRun sha (Written bl data # evs) e = Inr e1 \<and> (addr, data) \<in> set (eWritten e1)
    \<and> appleStep rng' cb' env' (WriteRequests [Some data]) (ab', b) = (Inr (), ab2, b2)
    \<and> nEvents b2 = nEvents b @ [MessageReceived m]"
proof -
  have "pType (plainPacket env sid m) = PKT_TYPE_MESSAGE" by (simp add: plainPacket_def newPacket_def defaultPacket_def)
  from relay_carries [where sha = sha and evs = evs and e = e and addr = addr and b = bl, OF data(1) this data(2) run] obtain e1
    where "espRun sha (Written bl data # evs) e = Inr e1" "(addr, data) \<in> set (eWritten e1)" by blast
  with apple_message_written [where cb = cb and x = relay, OF assms(3) a(1,3) m(1) link, of rng, folded data(1)]
    apple_message_shown [OF lz assms(2,4) a(2) m b data(1), of rng' cb' ab']
  show ?thesis by blast
qed

theorem relayed_chat_delivered_witness:
  "\<exists>data ab1 a1 e1 ab2 b2. runService (\<lambda>_. 0) (\<lambda>_. True) sampleEnv (\<lambda>env. sendMessage env ''hi'' ''#a'') (connectedApple, sampleNode)
      = (Inr True, ab1, a1) \<and> WriteValue ''0A-1B'' data \<in> set (abCalls ab1)
    \<and> espRun (\<lambda>rx. rx) [Written bleUp data, Loop bleUp 5 5] (espInit\<lparr>ePeers := [''aa:bb'']\<rparr>) = Inr e1 \<and> (''aa:bb'', data) \<in> set (eWritten e1)
    \<and> appleStep (\<lambda>_. 0) (\<lambda>_. True) sampleEnv (WriteRequests [Some data]) (connectedApple, snd (snd stationB)) = (Inr (), ab2, b2)
    \<and> nEvents b2 = nEvents (snd (snd stationB)) @ [MessageReceived (typedMessage sampleEnv ''hi'' ''#a'' sampleNode)]"
  by (rule exI, rule relayed_chat_delivered [OF sample_chat(1) refl sample_chat(2,2,5) _ sample_chat(6) refl sample_chat(3,4)
      sample_message_short _ _ _ _ refl _ _ _ _ _ _ sample_chat(7-9)])
    (simp_all add: connectedApple_def espInit_def long_enough_def looks_up_def reaches_def bleUp_def is_loop_def is_write_def)

end
