(* ===== verification/Spec2Isabelle.thy ===== *)
theory Spec2Isabelle
  imports Prelude Helpers Packet Padding Wire Packet_Codec Message_Codec Control_Codec Bitchat_Data Noise
    Noise_Migration Key_Exchange Identity Crypto Node Message_Service Network_Service Linux_Bluetooth Console
    Linux_Lifecycle Program Sent_Packets Mesh Date_Time Esp32_Relay Esp32_Interop
    Delivery Mesh_Flood Bluetooth_Interface Apple_Bluetooth Platforms Dummy_UI Linux_Threads Peer_Directory
    Esp32_Setup Esp32_Apple
begin

text \<open>
  \<^bold>\<open>Bitchat in C++: a model of its protocol and services\<close>

  Bitchat is a chat over Bluetooth without servers.  A node cuts what its Bluetooth interface receives
  into packets (\<open>PacketSerializer\<close>, \<open>MessagePadding\<close>), hands them to \<open>NetworkService\<close>, which passes them to
  \<open>MessageService\<close> and relays them; the handlers of \<open>MessageService\<close> change the shared store \<open>BitchatData\<close>, use
  the sessions of \<open>NoiseService\<close>, call the user interface and send packets of their own.

  \<^bold>\<open>Theories and sources\<close> (paths under \<open>src/\<close>; headers under \<open>include/bitchat\<close>)

  \<^item> \<open>Prelude\<close>: machine integers, vectors, strings, results.  \<open>size_t\<close> values are natural numbers, since they
    count elements of vectors that exist; all other integers keep their width.  A read outside a vector
    is \<^const>\<open>None\<close> or the fault \<open>OutOfRange\<close>.
  \<^item> \<open>Helpers\<close>: \<open>bitchat/helpers\<close> (strings, protocol, compression).  LZ4 is a parameter with the contract
    \<^const>\<open>lz4_ok\<close>.
  \<^item> \<open>Packet\<close>: the classes of \<open>bitchat/protocol/packet.h\<close> and \<open>packet.cpp\<close>.
  \<^item> \<open>Padding\<close>, \<open>Wire\<close>, \<open>Packet_Codec\<close>, \<open>Message_Codec\<close>, \<open>Control_Codec\<close>: \<open>message_padding.cpp\<close> and
    \<open>packet_serializer.cpp\<close>, one definition per method, long methods cut at their sections.  The interface
    of a reader that undoes a writer is the locale \<^const>\<open>codec\<close>, interpreted for the integer and string
    fields.
  \<^item> \<open>Bitchat_Data\<close>: \<open>bitchat/core/bitchat_data.cpp\<close>.  A method call is an atomic step, because each locks
    its mutex for its whole body.  The locales \<^const>\<open>directory\<close> (last entry put wins) and \<^const>\<open>bounded_log\<close> (oldest
    entry goes first) are interpreted on the peer list and the history, the former also on the
    sessions and the social identities.
  \<^item> \<open>Noise\<close>: \<open>noise_session_default.cpp\<close>, \<open>noise_service.cpp\<close>, \<open>noise_helper.cpp\<close>, \<open>noise_security_error.cpp\<close>;
    \<open>Noise_Migration\<close>: \<open>noise_pq_handshake_pattern.cpp\<close>, \<open>noise_protocol_migration.cpp\<close>; \<open>Key_Exchange\<close>:
    \<open>noise_post_quantum_key_exchange.cpp\<close>, \<open>noise_hybrid_key_exchange.cpp\<close> over an abstract OpenSSL, the interface of the
    post-quantum part as the locale \<^const>\<open>post_quantum\<close>.
  \<^item> \<open>Identity\<close>: \<open>identity_service.cpp\<close>.  \<open>Crypto\<close>: \<open>crypto_service.cpp\<close> over an abstract
    OpenSSL.
  \<^item> \<open>Node\<close>: the state of a node and the actions the services are written in: a function from the node to a
    result or fault and the node after it, so that what happened before a throw stays.  The locales
    \<^const>\<open>node_frame\<close> and \<^const>\<open>node_predicate\<close> say what an action may do; a predicate that satisfies their
    laws is kept by every handler.
  \<^item> \<open>Message_Service\<close>, \<open>Network_Service\<close>, \<open>Linux_Bluetooth\<close>, \<open>Console\<close>: \<open>message_service.cpp\<close>; \<open>network_service.cpp\<close>, the
    runners and \<open>bitchat_manager.cpp\<close>; \<open>platforms/linux/bluetooth.cpp\<close>; \<open>ui/console_ui.cpp\<close>.
  \<^item> \<open>Bluetooth_Interface\<close>: \<open>platform/bluetooth_interface.h\<close>, what the network service may rely on, as the locale \<^const>\<open>bluetooth_network\<close>,
    interpreted by both platforms; its client is the relay.  \<open>Apple_Bluetooth\<close>: \<open>platforms/apple/bluetooth.mm\<close>,
    \<open>bluetooth_bridge.mm\<close> and \<open>bluetooth_factory.mm\<close>, the delegate methods as the steps of \<^const>\<open>appleRun\<close>; CoreBluetooth is a parameter.
    \<open>Platforms\<close>: the program on Apple platforms, and what holds of a node on either.
  \<^item> \<open>Linux_Lifecycle\<close>: construction, start, stop and destruction of the Linux interface, its three threads as program counters
    under one step relation, \<^const>\<open>lb_step\<close>.  \<open>Program\<close>: \<open>main.cpp\<close> over any Bluetooth interface (\<^const>\<open>startProgram\<close>) and with \<open>bluetooth_factory.cpp\<close>, the whole run as a
    function of the typed lines and the calls of the other threads.  \<open>Dummy_UI\<close>: \<open>ui/dummy_ui.cpp\<close> and the program built with it.
  \<^item> \<open>Linux_Threads\<close>: all threads of the program on Linux around \<open>socketsMutex\<close>, each the list of what it still has to lock, unlock,
    send or call, under one step relation, \<^const>\<open>linux_step\<close>.
  \<^item> \<open>Peer_Directory\<close>: an abstract machine that keeps, for each sender, a nickname and a version, and that the handlers of
    received packets refine.
  \<^item> \<open>Sent_Packets\<close>: the type and the origin of every packet a run sends; its locale \<^const>\<open>sent_frame\<close> carries the typing through
    all handlers.  \<open>Mesh\<close>: several nodes on a path, over an assumed transport.  \<open>Mesh_Flood\<close>: any nodes under one step relation, \<^const>\<open>mesh_step\<close>, with the
    packets in flight as a multiset.  \<open>Delivery\<close>: a chat message from the line typed to the packet another node reads.
  \<^item> \<open>Date_Time\<close>: \<open>bitchat/helpers/datetime_helper.cpp\<close> and the time prefix of the console.
  \<^item> \<open>Esp32_Relay\<close>: the second program, \<open>extras/esp32/sketch/sketch.ino\<close>, a relay; its queue and its history of identifiers
    are \<^const>\<open>bounded_log\<close>s as well.  \<open>Esp32_Interop\<close>: the relay and a node exchanging packets.
    \<open>Esp32_Setup\<close>: its \<open>setup\<close>, as the calls of the BLE library; \<open>Esp32_Apple\<close>: an Apple device that finds the relay, and one
    that is reached through it.

  \<^bold>\<open>What is shown\<close>

  Round trips of packets, messages, version packets and channel announcements, with the exact cuts the
  length fields impose; exactly which inputs make the two parsers read outside their buffer, and that the
  other parsers never do; which sizes the padding round trip holds for; that the peer list is a finite
  map, the history the last 1000 messages and all tables stay bounded in every reachable state; that no
  received packet or byte stream changes the identity of the node or breaks the invariants; exact
  duplicate suppression, relaying and version negotiation; delivery of a chat message from one node to
  another, through serialization and processing (below), over a path of nodes as long as the time to live allows
  (by \<open>NetworkService\<close>, if a transport carried what is sent to peer identifiers), between two Apple devices through their interfaces, and from one to another through the ESP32 relay; that the handlers treat the
  peers as an abstract directory in which a packet changes the entry of its sender only, so that the interleaving
  of different senders does not matter; that in a mesh every flood ends, by a measure on the multiset of packets in
  flight, and no message is shown that nobody sent; that
  commands typed at the console are never sent as chat; that a run of the whole program keeps the invariants, ends by
  \<open>/exit\<close>, on either platform, and sends only packets of its own, of known type and sender, and relayed ones.  For the ESP32 relay: its invariant,
  duplicate suppression, that a queued packet is written to the peers, which writes make it read out of range, and what it
  and a node make of each other's packets.  Some properties state what the code does where
  that is not what its comments intend: the header counted one byte short, the padding gaps, the
  handshake that is never started, the hybrid key exchange that never succeeds, the nickname that is
  never updated, the stream reader that loses its alignment, the connection that blocks on its own
  mutex, so that on Linux no thread ever writes a byte or starts a reader, in any interleaving, the relay that no device
  receives, the peripheral that is never connected again, the packet that ends the program on Apple platforms, the cleanup that never starts, \<open>stop\<close> waiting for \<open>accept\<close>, the type numbers on which relay and node disagree.

  \<^bold>\<open>Bounds\<close>

  There is no fuel: every loop is structural, over the events it is given, or terminates by the length of its buffer.  Witnesses use
  concrete codecs and nodes (\<^const>\<open>single_run_codec\<close>, \<^const>\<open>one_block_codec\<close>, \<^const>\<open>byte_keys\<close>, \<^const>\<open>plainOssl\<close>,
  \<^const>\<open>sampleNode\<close>).

  \<^bold>\<open>What is not modelled\<close>

  LZ4, OpenSSL, BlueZ, the BLE library and SHA-256 of the ESP32, the uuid generator, the clock and the time zone
  and CoreBluetooth (parameters); logging; headers that only declare (\<open>bitchat_protocol.h\<close>, \<open>binary_protocol.h\<close>, \<open>identity_models.h\<close>,
  \<open>secure_identity_state_manager.h\<close>: nothing implements or calls what they name); the vendored noise-c library; setters that store a callback.
  Threads appear as the order of atomic steps, on Linux with the mutex of the sockets as well; data races on the flags of the
  runners are not modelled, and what BLE does with the ESP32 calls is not known here.
\<close>

section \<open>Nodes for the witness\<close>

definition receiverNode :: node where
  "receiverNode = sampleNode\<lparr>nData := setCurrentChannel ''#a'' (setPeerID ''ff'' (initialData 1))\<rparr>"

section \<open>Properties\<close>

text \<open>
  C2: delivery of a chat message.  A node that has no established session sends a short message; if the
  network takes the packet, then what a receiver in the same channel gets from the wire deserializes, is
  processed without fault, appears as the newest entry of the receiver's history and is shown to its
  user, equal to the message in the sender's own history.  The receiver is another node that has not yet
  seen a packet of this sender with this timestamp.
\<close>

theorem chat_message_delivered:
  assumes lz: "lz4_ok (envLz4 env)"
    and a: "dPeerID (nData a) = toHex sid" "length sid = 8" "no_session env a"
    and ch: "ch = (if channel = [] then dCurrentChannel (nData a) else channel)"
    and m: "m = (newMessage (envTime env 0) (envUuid env 0) (dNickname (nData a)) content ch)\<lparr>mId := envUuid env 1\<rparr>"
      "envUuid env 1 \<noteq> []" "length (makeMessagePayload (envUuid env 2) m) \<le> 100"
    and net: "envBluetooth env" "\<And>d p. envSend env d p" "envTime env 1 \<noteq> 0"
    and b: "dCurrentChannel (nData b) = ch" "dPeerID (nData b) \<noteq> toHex sid"
      "\<not> wasMessageProcessed (nData b) (toHex sid @ ''_'' @ to_string (unat (envTime env 1)))"
  shows "\<exists>a' p q b'. sendMessage env content channel a = (Inr True, a') \<and> nSent a' = nSent a @ [(Broadcast, p)]
    \<and> last (getMessageHistory (nData a') ch) = m
    \<and> deserializePacket (envLz4 env) (serializePacket (envLz4 env) rng p) = Some q
    \<and> processPacket env' q periph b = (Inr (), b')
    \<and> nEvents b' = nEvents b @ [MessageReceived m] \<and> last (getMessageHistory (nData b') ch) = m"
proof -
  have m': "m = typedMessage env content channel a" by (simp add: typedMessage_def m(1) ch)
  have c: "mChannel m = ch" "\<not> mIsPrivate m" using m' ch by simp_all
  obtain q where q: "deserializePacket (envLz4 env) (serializePacket (envLz4 env) rng (plainPacket env sid m)) = Some q" "isValid q"
    "parseMessagePayload (pPayload q) = Some m" "pSenderID q = sid" "pType q = PKT_TYPE_MESSAGE" "pTimestamp q = envTime env 1"
    using plain_packet_read [OF lz a(2) m' m(2) net(3) m(3)] .
  have "processPacket env' q periph b = (Inr (), b\<lparr>
      nData := addMessageToHistory m (historyChannel m) (markMessageProcessed (packetKey q) (nData b)),
      nEvents := nEvents b @ [MessageReceived m]\<rparr>)"
    using b q c by (intro processMessage_sent [OF q(3,2,5)]) (simp_all add: messageIsForUs_def packetKey_def)
  then show ?thesis
    using send_plain [OF a(1,3) net(1) m' net(2)] q(1) last_history c by (simp add: historyChannel_def)
qed

theorem chat_message_delivered_witness:
  "\<exists>a' p q b' m. sendMessage sampleEnv ''hi'' ''#a'' sampleNode = (Inr True, a') \<and> nSent a' = [(Broadcast, p)]
    \<and> deserializePacket single_run_codec (serializePacket single_run_codec (\<lambda>_. 0) p) = Some q
    \<and> processPacket sampleEnv q [] receiverNode = (Inr (), b') \<and> nEvents b' = [MessageReceived m] \<and> mContent m = ''hi''"
proof -
  let ?m = "(newMessage (envTime sampleEnv 0) (envUuid sampleEnv 0) (dNickname (nData sampleNode)) ''hi'' ''#a'')
    \<lparr>mId := envUuid sampleEnv 1\<rparr>"
  have nick: "length (dNickname (nData sampleNode)) = 8"
    by (simp add: sampleNode_def setPeerID_def initialData_def randomNickname_def to_string.simps)
  have "length (makeMessagePayload (envUuid sampleEnv 2) ?m) \<le> 100"
    using nick by (simp add: makeMessagePayload_layout writeShortString_Nil optional_fields_def newMessage_def
        defaultMessage_def sampleEnv_def)
  moreover have "dPeerID (nData sampleNode) = toHex [1, 2, 3, 4, 5, 6, 7, 8]"
    by (simp only: sampleNode_def setPeerID_def) simp
  moreover have "no_session sampleEnv sampleNode"
    by (simp add: no_session_def sampleNode_def sampleEnv_def getEstablishedSessionIDs_def)
  moreover have "lz4_ok (envLz4 sampleEnv)" by (simp add: sampleEnv_def single_run_codec_ok)
  moreover have "dPeerID (nData receiverNode) \<noteq> toHex [1, 2, 3, 4, 5, 6, 7, 8]" "dCurrentChannel (nData receiverNode) = ''#a''"
    "\<not> wasMessageProcessed (nData receiverNode) k" for k
    by (simp_all add: receiverNode_def setCurrentChannel_def setPeerID_def initialData_def wasMessageProcessed_def hex_digit_def)
  ultimately have "\<exists>a' p q b'. sendMessage sampleEnv ''hi'' ''#a'' sampleNode = (Inr True, a')
    \<and> nSent a' = nSent sampleNode @ [(Broadcast, p)] \<and> last (getMessageHistory (nData a') ''#a'') = ?m
    \<and> deserializePacket (envLz4 sampleEnv) (serializePacket (envLz4 sampleEnv) (\<lambda>_. 0) p) = Some q
    \<and> processPacket sampleEnv q [] receiverNode = (Inr (), b')
    \<and> nEvents b' = nEvents receiverNode @ [MessageReceived ?m] \<and> last (getMessageHistory (nData b') ''#a'') = ?m"
    by (intro chat_message_delivered [where sid = "[1, 2, 3, 4, 5, 6, 7, 8]"]) (simp_all add: sampleEnv_def)
  moreover have "nSent sampleNode = []" "nEvents receiverNode = []" "envLz4 sampleEnv = single_run_codec" "mContent ?m = ''hi''"
    by (simp_all add: sampleNode_def receiverNode_def sampleEnv_def newMessage_def)
  ultimately show ?thesis by (metis append_Nil)
qed

end
